(* ===== verification/Struct_Layout.thy ===== *)
theory Struct_Layout
  imports Main
begin

text \<open>
  How the structures of the runtime lie in memory.  The headers rely on it: a port is cast to
  \<open>lf_port_base_t\<close>, a port or an action to \<open>token_template_t\<close> and \<open>token_type_t\<close>, an event to
  the element of its queue, a reactor's self struct to \<open>self_base_t\<close>, and several comments ask for
  fields that "must match the layout" of another structure.  The structures are the lists of
  their fields, with the fields a build option adds (\<open>FEDERATED\<close>, \<open>MODAL_REACTORS\<close>,
  \<open>LF_SINGLE_THREADED\<close>, \<open>LF_ENCLAVES\<close>, \<open>FEDERATED_DECENTRALIZED\<close>); offsets follow the rule of the C
  compilers for 64-bit machines: each field at the next multiple of its alignment, a structure
  as aligned as its most aligned field and padded to a multiple of that.

  Thread, mutex and condition variable types are platform code: their size and alignment are
  parameters.
\<close>

section \<open>C types\<close>

text \<open>A pointer carries the name of what it points to; functions are pointers to their type.\<close>

datatype scalar =
    C_Bool
  | C_Char
  | C_UInt8
  | C_Int
  | C_Enum string
  | C_UInt32
  | C_Int64
  | C_UInt64
  | C_Size
  | Pointer string
  | Foreign string nat nat

datatype ctype =
    Scalar scalar
  | Array nat ctype
  | Struct "(string \<times> ctype) list"

fun scalar_size :: "scalar \<Rightarrow> nat" where
  "scalar_size C_Bool = 1"
| "scalar_size C_Char = 1"
| "scalar_size C_UInt8 = 1"
| "scalar_size C_Int = 4"
| "scalar_size (C_Enum name) = 4"
| "scalar_size C_UInt32 = 4"
| "scalar_size C_Int64 = 8"
| "scalar_size C_UInt64 = 8"
| "scalar_size C_Size = 8"
| "scalar_size (Pointer target) = 8"
| "scalar_size (Foreign name sz al) = sz"

fun scalar_align :: "scalar \<Rightarrow> nat" where
  "scalar_align (Foreign name sz al) = al"
| "scalar_align s = scalar_size s"

definition round_up :: "nat \<Rightarrow> nat \<Rightarrow> nat" where
  "round_up n a = (n + a - 1) div a * a"

fun align_of :: "ctype \<Rightarrow> nat" and align_fields :: "(string \<times> ctype) list \<Rightarrow> nat" where
  "align_of (Scalar s) = scalar_align s"
| "align_of (Array n t) = align_of t"
| "align_of (Struct fs) = align_fields fs"
| "align_fields [] = 1"
| "align_fields ((name, t) # fs) = max (align_of t) (align_fields fs)"

fun size_of :: "ctype \<Rightarrow> nat" and end_of :: "nat \<Rightarrow> (string \<times> ctype) list \<Rightarrow> nat" where
  "size_of (Scalar s) = scalar_size s"
| "size_of (Array n t) = n * size_of t"
| "size_of (Struct fs) = round_up (end_of 0 fs) (align_fields fs)"
| "end_of off [] = off"
| "end_of off ((name, t) # fs) = end_of (round_up off (align_of t) + size_of t) fs"

text \<open>
  The scalars inside a type at an address, with the names on the way to them and their offset;
  the elements of an array have no name.
\<close>

type_synonym member = "string list \<times> nat \<times> scalar"

definition in_field :: "string \<Rightarrow> member \<Rightarrow> member" where
  "in_field name m = (name # fst m, snd m)"

definition move :: "nat \<Rightarrow> member \<Rightarrow> member" where
  "move d m = (fst m, d + fst (snd m), snd (snd m))"

fun members :: "ctype \<Rightarrow> member list" and members_from :: "nat \<Rightarrow> (string \<times> ctype) list \<Rightarrow> member list" where
  "members (Scalar s) = [([], 0, s)]"
| "members (Array n t) = concat (map (\<lambda>i. map (move (i * size_of t)) (members t)) [0..<n])"
| "members (Struct fs) = members_from 0 fs"
| "members_from off [] = []"
| "members_from off ((name, t) # fs) =
     map (\<lambda>m. move (round_up off (align_of t)) (in_field name m)) (members t) @
     members_from (round_up off (align_of t) + size_of t) fs"

text \<open>
  A pointer to \<open>a\<close> can be used as a pointer to \<open>b\<close>: every scalar of \<open>b\<close> is one of \<open>a\<close>, of the same
  type, under the same name and at the same offset.
\<close>

definition named :: "member \<Rightarrow> string \<times> nat \<times> scalar" where
  "named m = (if fst m = [] then [] else last (fst m), snd m)"

definition castable :: "ctype \<Rightarrow> ctype \<Rightarrow> bool" where
  "castable a b \<longleftrightarrow> list_all (\<lambda>m. named m \<in> set (map named (members a))) (members b)"

section \<open>Well-formed types\<close>

definition power_of_two :: "nat \<Rightarrow> bool" where
  "power_of_two n \<longleftrightarrow> (\<exists>k. n = 2 ^ k)"

fun scalar_ok :: "scalar \<Rightarrow> bool" where
  "scalar_ok (Foreign name sz al) = (power_of_two al \<and> al dvd sz)"
| "scalar_ok s = True"

fun ctype_ok :: "ctype \<Rightarrow> bool" and fields_ok :: "(string \<times> ctype) list \<Rightarrow> bool" where
  "ctype_ok (Scalar s) = scalar_ok s"
| "ctype_ok (Array n t) = ctype_ok t"
| "ctype_ok (Struct fs) = fields_ok fs"
| "fields_ok [] = True"
| "fields_ok ((name, t) # fs) = (ctype_ok t \<and> fields_ok fs)"

lemma power_of_two_numerals [simp]:
  "power_of_two (Suc 0)" "power_of_two 1" "power_of_two 4" "power_of_two 8"
proof -
  have "(1 :: nat) = 2 ^ 0" "(4 :: nat) = 2 ^ 2" "(8 :: nat) = 2 ^ 3" by simp_all
  then show "power_of_two (Suc 0)" "power_of_two 1" "power_of_two 4" "power_of_two 8"
    unfolding power_of_two_def One_nat_def by metis+
qed

lemma power_of_two_pos: "power_of_two n \<Longrightarrow> 0 < n"
  by (auto simp: power_of_two_def)

lemma dvd_max:
  assumes "power_of_two a" and "power_of_two b"
  shows "a dvd max a b" "b dvd max a b" "power_of_two (max a b)"
proof -
  from assms obtain i j where "a = 2 ^ i" "b = 2 ^ j" by (auto simp: power_of_two_def)
  then show "a dvd max a b" "b dvd max a b" "power_of_two (max a b)"
    using assms by (auto simp: max_def le_imp_power_dvd)
qed

lemma round_up_bounds:
  assumes "0 < a"
  shows "n \<le> round_up n a" "a dvd round_up n a"
proof -
  have "n + a - 1 = (n + a - 1) div a * a + (n + a - 1) mod a" by simp
  moreover have "(n + a - 1) mod a < a" using assms by simp
  ultimately show "n \<le> round_up n a" unfolding round_up_def by linarith
qed (simp add: round_up_def)

lemma round_up_exact: "0 < a \<Longrightarrow> a dvd n \<Longrightarrow> round_up n a = n"
  by (elim dvdE) (simp add: round_up_def div_nat_eqI)

lemma scalar_alignment: "scalar_ok s \<Longrightarrow> power_of_two (scalar_align s) \<and> scalar_align s dvd scalar_size s"
  by (cases s) auto

lemma alignment:
  "ctype_ok t \<Longrightarrow> power_of_two (align_of t)"
  "fields_ok fs \<Longrightarrow> power_of_two (align_fields fs)"
  by (induction t and fs rule: align_of_align_fields.induct) (auto simp: scalar_alignment dvd_max)

lemma alignment_pos: "ctype_ok t \<Longrightarrow> 0 < align_of t" "fields_ok fs \<Longrightarrow> 0 < align_fields fs"
  using alignment power_of_two_pos by blast+

lemma align_dvd_size: "ctype_ok t \<Longrightarrow> align_of t dvd size_of t"
  by (induction t) (auto simp: scalar_alignment round_up_bounds alignment_pos)

section \<open>Members do not overlap\<close>

definition start :: "member \<Rightarrow> nat" where
  "start m = fst (snd m)"

definition stop :: "member \<Rightarrow> nat" where
  "stop m = start m + scalar_size (snd (snd m))"

definition aligned :: "member \<Rightarrow> bool" where
  "aligned m \<longleftrightarrow> scalar_align (snd (snd m)) dvd start m"

lemma move_simps [simp]:
  "start (move d m) = d + start m" "stop (move d m) = d + stop m"
  "fst (move d m) = fst m" "snd (snd (move d m)) = snd (snd m)"
  "start (in_field name m) = start m" "stop (in_field name m) = stop m"
  "fst (in_field name m) = name # fst m" "snd (in_field name m) = snd m"
  by (simp_all add: start_def stop_def move_def in_field_def)

lemma aligned_move: "aligned m \<Longrightarrow> scalar_align (snd (snd m)) dvd d \<Longrightarrow> aligned (move d m)"
  by (simp add: aligned_def)

lemma aligned_in_field [simp]: "aligned (in_field name m) = aligned m"
  by (simp add: aligned_def start_def)

lemma end_of_grows: "fields_ok fs \<Longrightarrow> off \<le> end_of off fs"
proof (induction fs arbitrary: off)
  case (Cons f fs)
  obtain name t where f: "f = (name, t)" by fastforce
  let ?o = "round_up off (align_of t)"
  have "off \<le> ?o" using Cons.prems f by (intro round_up_bounds alignment_pos) simp
  also have "\<dots> \<le> end_of (?o + size_of t) fs" using Cons.IH [of "?o + size_of t"] Cons.prems f by simp
  finally show ?case using f by simp
qed simp

lemma members_in_bounds:
  "ctype_ok t \<Longrightarrow> m \<in> set (members t) \<Longrightarrow> stop m \<le> size_of t"
  "fields_ok fs \<Longrightarrow> m \<in> set (members_from off fs) \<Longrightarrow> off \<le> start m \<and> stop m \<le> end_of off fs"
proof (induction t and off fs arbitrary: m and m rule: members_members_from.induct)
  case (1 s)
  then show ?case by (simp add: stop_def start_def)
next
  case (2 n t)
  then obtain i m' where m: "i < n" "m' \<in> set (members t)" "m = move (i * size_of t) m'" by auto
  then have "stop m \<le> i * size_of t + size_of t" using "2.IH" [of i m'] "2.prems" by simp
  also have "\<dots> \<le> n * size_of t" using m(1) by (metis Suc_leI add.commute mult_Suc mult_le_mono1)
  finally show ?case by simp
next
  case (3 fs)
  then have "stop m \<le> end_of 0 fs" by simp
  also have "\<dots> \<le> round_up (end_of 0 fs) (align_fields fs)"
    using 3 by (intro round_up_bounds alignment_pos) simp
  finally show ?case by simp
next
  case (5 off name t fs)
  let ?o = "round_up off (align_of t)"
  have o: "off \<le> ?o" using 5 by (intro round_up_bounds alignment_pos) simp
  have rest: "?o + size_of t \<le> end_of (?o + size_of t) fs" using 5 by (intro end_of_grows) simp
  from 5 consider m' where "m' \<in> set (members t)" "m = move ?o (in_field name m')"
    | "m \<in> set (members_from (?o + size_of t) fs)" by auto
  then show ?case
  proof cases
    case 1
    with 5 have "stop m' \<le> size_of t" by simp
    with 1 o rest show ?thesis by simp
  next
    case 2
    with "5.prems" have "?o + size_of t \<le> start m \<and> stop m \<le> end_of (?o + size_of t) fs"
      using "5.IH"(2) by simp
    with o show ?thesis by simp
  qed
qed simp

lemma members_align:
  "ctype_ok t \<Longrightarrow> m \<in> set (members t) \<Longrightarrow> aligned m \<and> scalar_align (snd (snd m)) dvd align_of t"
  "fields_ok fs \<Longrightarrow> m \<in> set (members_from off fs) \<Longrightarrow>
     aligned m \<and> scalar_align (snd (snd m)) dvd align_fields fs"
proof (induction t and off fs arbitrary: m and m rule: members_members_from.induct)
  case (1 s)
  then show ?case by (simp add: aligned_def start_def)
next
  case (2 n t)
  then obtain i m' where m: "i < n" "m' \<in> set (members t)" "m = move (i * size_of t) m'" by auto
  then have "aligned m'" "scalar_align (snd (snd m')) dvd align_of t" using "2.IH" [of i m'] "2.prems" by auto
  moreover have "align_of t dvd size_of t" using 2 by (intro align_dvd_size) simp
  ultimately show ?case using m by (auto intro!: aligned_move intro: dvd_trans)
next
  case (5 off name t fs)
  let ?o = "round_up off (align_of t)"
  have ok: "ctype_ok t" "fields_ok fs" using 5 by auto
  note two = dvd_max [OF alignment(1) [OF ok(1)] alignment(2) [OF ok(2)]]
  have o: "align_of t dvd ?o" using ok by (intro round_up_bounds alignment_pos) simp
  from 5 consider m' where "m' \<in> set (members t)" "m = move ?o (in_field name m')"
    | "m \<in> set (members_from (?o + size_of t) fs)" by auto
  then show ?case
  proof cases
    case 1
    with 5 ok have "aligned m'" "scalar_align (snd (snd m')) dvd align_of t" by auto
    with 1 o two show ?thesis by (auto intro!: aligned_move intro: dvd_trans)
  next
    case 2
    then have "aligned m" "scalar_align (snd (snd m)) dvd align_fields fs" using "5.IH"(2) ok by auto
    with two show ?thesis by (auto intro: dvd_trans)
  qed
qed auto

lemma members_ordered:
  "ctype_ok t \<Longrightarrow> sorted_wrt (\<lambda>m m'. stop m \<le> start m') (members t)"
  "fields_ok fs \<Longrightarrow> sorted_wrt (\<lambda>m m'. stop m \<le> start m') (members_from off fs)"
proof (induction t and off fs rule: members_members_from.induct)
  case (2 n t)
  have bound: "stop m \<le> size_of t" if "m \<in> set (members t)" for m
    using 2 that by (intro members_in_bounds) simp
  have "sorted_wrt (\<lambda>m m'. stop m \<le> start m')
      (concat (map (\<lambda>i. map (move (i * size_of t)) (members t)) [0..<k]))" if "k \<le> n" for k
    using that
  proof (induction k)
    case (Suc k)
    have "stop (move (i * size_of t) m) \<le> start (move (k * size_of t) m')"
      if "i < k" "m \<in> set (members t)" for i m m'
    proof -
      have "i * size_of t + size_of t \<le> k * size_of t"
        using that(1) by (metis Suc_leI add.commute mult_Suc mult_le_mono1)
      then show ?thesis using bound [OF that(2)] by simp
    qed
    moreover have "sorted_wrt (\<lambda>m m'. stop m \<le> start m') (members t)"
      using 2(1) [of k] Suc.prems 2(2) by simp
    ultimately show ?case using Suc by (simp add: sorted_wrt_append sorted_wrt_map)
  qed simp
  then show ?case by simp
next
  case (5 off name t fs)
  then have ok: "ctype_ok t" "fields_ok fs" by auto
  have "stop m \<le> size_of t" if "m \<in> set (members t)" for m
    using that ok members_in_bounds by blast
  moreover have "round_up off (align_of t) + size_of t \<le> start m'"
    if "m' \<in> set (members_from (round_up off (align_of t) + size_of t) fs)" for m'
    using that ok members_in_bounds by blast
  ultimately show ?case
    using 5 ok by (force simp: sorted_wrt_append sorted_wrt_map)
qed auto

section \<open>Casts\<close>

lemma castable_refl: "castable a a"
  by (simp add: castable_def list_all_iff)

lemma castable_trans: "castable a b \<Longrightarrow> castable b c \<Longrightarrow> castable a c"
  by (fastforce simp: castable_def list_all_iff)

lemma members_from_append:
  "members_from off (fs @ gs) = members_from off fs @ members_from (end_of off fs) gs"
  by (induction fs arbitrary: off) (auto split: prod.splits)

lemma castable_prefix: "castable (Struct (fs @ gs)) (Struct fs)"
  by (simp add: castable_def list_all_iff members_from_append)

text \<open>A structure can be used as the structure it starts with.\<close>

lemma named_in_struct:
  assumes "m \<in> set (members (Struct gs))"
  shows "fst m \<noteq> []"
proof -
  have "m \<in> set (members_from off gs) \<Longrightarrow> fst m \<noteq> []" for off
    by (induction gs arbitrary: off) auto
  with assms show ?thesis by simp
qed

lemma castable_first:
  assumes "fields_ok gs"
  shows "castable (Struct ((name, Struct gs) # fs)) (Struct gs)"
proof -
  have zero: "round_up 0 (align_of (Struct gs)) = 0"
    using alignment_pos(2) [OF assms] by (intro round_up_exact) simp_all
  have "named m = named (move 0 (in_field name m))" if "m \<in> set (members (Struct gs))" for m
    using named_in_struct [OF that] by (simp add: named_def move_def in_field_def)
  then show ?thesis
    unfolding castable_def list_all_iff members.simps(3) members_from.simps zero
    by (auto simp: image_iff)
qed

end
