(* ===== verification/Runtime_Structs.thy ===== *)
theory Runtime_Structs
  imports Struct_Layout
begin

text \<open>
  The structures of the runtime headers, field by field, for every combination of build options,
  and the casts the headers rely on.  The time-stamped tag \<open>tag_t\<close> has the two parts
  \<open>net_common.h\<close> gives it; platform types (threads, mutexes, condition variables) and the shared
  pointer of the C++ library are parameters of the build.
\<close>

section \<open>Build options\<close>

record build =
  federated :: bool
  decentralized :: bool
  modal_reactors :: bool
  single_threaded :: bool
  enclaves :: bool
  number_of_federates :: nat
  exchanges_per_interval :: nat
  thread_type :: scalar
  mutex_type :: scalar
  cond_type :: scalar
  shared_ptr_type :: scalar

definition build_ok :: "build \<Rightarrow> bool" where
  "build_ok b \<longleftrightarrow> scalar_ok (thread_type b) \<and> scalar_ok (mutex_type b) \<and> scalar_ok (cond_type b) \<and>
     scalar_ok (shared_ptr_type b)"

section \<open>The structures\<close>

definition tag_layout :: "ctype" where
  "tag_layout = Struct
     [(''time'', Scalar C_Int64), (''microstep'', Scalar C_UInt32)]"

definition token_type_layout :: "ctype" where
  "token_type_layout = Struct
     [(''element_size'', Scalar C_Size), (''destructor'', Scalar (Pointer ''void(void*)'')),
       (''copy_constructor'', Scalar (Pointer ''void*(void*)''))]"

definition token_layout :: "ctype" where
  "token_layout = Struct
     [(''value'', Scalar (Pointer ''void'')), (''length'', Scalar C_Size),
       (''type'', Scalar (Pointer ''token_type_t'')), (''ref_count'', Scalar C_Size),
       (''next'', Scalar (Pointer ''lf_token_t''))]"

definition sparse_io_record_layout :: "ctype" where
  "sparse_io_record_layout = Struct
     [(''size'', Scalar C_Int), (''capacity'', Scalar C_Size),
       (''present_channels'', Scalar (Pointer ''size_t''))]"

definition token_template_layout :: "ctype" where
  "token_template_layout = Struct
     [(''type'', token_type_layout), (''token'', Scalar (Pointer ''lf_token_t'')),
       (''length'', Scalar C_Size)]"

definition port_base_layout :: "ctype" where
  "port_base_layout = Struct
     [(''tmplt'', token_template_layout), (''is_present'', Scalar C_Bool),
       (''sparse_record'', Scalar (Pointer ''lf_sparse_io_record_t'')),
       (''destination_channel'', Scalar C_Int), (''num_destinations'', Scalar C_Int),
       (''source_reactor'', Scalar (Pointer ''self_base_t''))]"

definition barrier_layout :: "ctype" where
  "barrier_layout = Struct
     [(''requestors'', Scalar C_Int), (''horizon'', tag_layout)]"

definition reaction_layout :: "ctype" where
  "reaction_layout = Struct
     [(''function'', Scalar (Pointer ''reaction_function_t'')),
       (''self'', Scalar (Pointer ''void'')), (''number'', Scalar C_Int),
       (''index'', Scalar C_UInt64), (''pos'', Scalar C_Size),
       (''last_enabling_reaction'', Scalar (Pointer ''reaction_t'')),
       (''num_outputs'', Scalar C_Size), (''output_produced'', Scalar (Pointer ''bool*'')),
       (''triggered_sizes'', Scalar (Pointer ''int'')),
       (''triggers'', Scalar (Pointer ''trigger_t**'')),
       (''status'', Scalar (C_Enum ''reaction_status_t'')), (''deadline'', Scalar C_Int64),
       (''is_STP_violated'', Scalar C_Bool),
       (''deadline_violation_handler'', Scalar (Pointer ''reaction_function_t'')),
       (''STP_handler'', Scalar (Pointer ''reaction_function_t'')),
       (''is_an_input_reaction'', Scalar C_Bool), (''worker_affinity'', Scalar C_Size),
       (''name'', Scalar (Pointer ''char'')), (''mode'', Scalar (Pointer ''reactor_mode_t''))]"

definition pqueue_tag_element_layout :: "ctype" where
  "pqueue_tag_element_layout = Struct
     [(''tag'', tag_layout), (''pos'', Scalar C_Size), (''is_dynamic'', Scalar C_Int)]"

definition event_layout :: "build \<Rightarrow> ctype" where
  "event_layout b = Struct
     ([(''base'', pqueue_tag_element_layout), (''trigger'', Scalar (Pointer ''trigger_t'')),
       (''token'', Scalar (Pointer ''lf_token_t''))] @
      (if federated b then
        [(''intended_tag'', tag_layout)]
       else []))"

definition trigger_layout :: "build \<Rightarrow> ctype" where
  "trigger_layout b = Struct
     ([(''tmplt'', token_template_layout), (''reactions'', Scalar (Pointer ''reaction_t*'')),
       (''number_of_reactions'', Scalar C_Int), (''is_timer'', Scalar C_Bool),
       (''offset'', Scalar C_Int64), (''period'', Scalar C_Int64),
       (''is_physical'', Scalar C_Bool), (''last_tag'', tag_layout),
       (''policy'', Scalar (C_Enum ''lf_spacing_policy_t'')),
       (''status'', Scalar (C_Enum ''port_status_t'')),
       (''mode'', Scalar (Pointer ''reactor_mode_t''))] @
      (if federated b then
        [(''last_known_status_tag'', tag_layout), (''intended_tag'', tag_layout),
         (''physical_time_of_arrival'', Scalar C_Int64)]
       else []))"

definition allocation_record_layout :: "ctype" where
  "allocation_record_layout = Struct
     [(''allocated'', Scalar (Pointer ''void'')),
       (''next'', Scalar (Pointer ''allocation_record_t''))]"

definition mode_layout :: "ctype" where
  "mode_layout = Struct
     [(''state'', Scalar (Pointer ''reactor_mode_state_t'')),
       (''name'', Scalar (Pointer ''char'')), (''deactivation_time'', Scalar C_Int64),
       (''flags'', Scalar C_UInt8)]"

definition mode_state_layout :: "ctype" where
  "mode_state_layout = Struct
     [(''parent_mode'', Scalar (Pointer ''reactor_mode_t'')),
       (''initial_mode'', Scalar (Pointer ''reactor_mode_t'')),
       (''current_mode'', Scalar (Pointer ''reactor_mode_t'')),
       (''next_mode'', Scalar (Pointer ''reactor_mode_t'')),
       (''mode_change'', Scalar (C_Enum ''lf_mode_change_type_t''))]"

definition mode_reset_layout :: "ctype" where
  "mode_reset_layout = Struct
     [(''mode'', Scalar (Pointer ''reactor_mode_t'')), (''target'', Scalar (Pointer ''void'')),
       (''source'', Scalar (Pointer ''void'')), (''size'', Scalar C_Size)]"

definition self_base_layout :: "build \<Rightarrow> ctype" where
  "self_base_layout b = Struct
     ([(''allocations'', Scalar (Pointer ''allocation_record_t'')),
       (''executing_reaction'', Scalar (Pointer ''reaction_t'')),
       (''environment'', Scalar (Pointer ''environment_t'')),
       (''name'', Scalar (Pointer ''char'')), (''full_name'', Scalar (Pointer ''char'')),
       (''parent'', Scalar (Pointer ''self_base_t''))] @
      (if \<not> single_threaded b then
        [(''reactor_mutex'', Scalar (Pointer ''void''))]
       else []) @
      (if modal_reactors b then
        [(''_lf__mode_state'', mode_state_layout)]
       else []))"

definition action_base_layout :: "ctype" where
  "action_base_layout = Struct
     [(''tmplt'', token_template_layout), (''is_present'', Scalar C_Bool),
       (''trigger'', Scalar (Pointer ''trigger_t'')),
       (''parent'', Scalar (Pointer ''self_base_t'')), (''has_value'', Scalar C_Bool),
       (''source_id'', Scalar C_Int)]"

definition action_internal_layout :: "ctype" where
  "action_internal_layout = Struct
     [(''trigger'', Scalar (Pointer ''trigger_t''))]"

definition port_internal_layout :: "ctype" where
  "port_internal_layout = Struct
     [(''sparse_record'', Scalar (Pointer ''lf_sparse_io_record_t'')),
       (''destination_channel'', Scalar C_Int), (''num_destinations'', Scalar C_Int),
       (''source_reactor'', Scalar (Pointer ''self_base_t''))]"

definition vector_layout :: "ctype" where
  "vector_layout = Struct
     [(''start'', Scalar (Pointer ''void*'')), (''next'', Scalar (Pointer ''void*'')),
       (''end'', Scalar (Pointer ''void*'')), (''votes_required'', Scalar C_Int),
       (''votes'', Scalar C_Int)]"

definition environment_state :: "(string \<times> ctype) list" where
  "environment_state =
     [(''initialized'', Scalar C_Bool), (''execution_started'', Scalar C_Bool),
      (''name'', Scalar (Pointer ''char'')), (''id'', Scalar C_Int),
      (''current_tag'', tag_layout), (''start_tag'', tag_layout), (''stop_tag'', tag_layout),
      (''duration'', Scalar C_Int64), (''event_q'', Scalar (Pointer ''pqueue_tag_t'')),
      (''recycle_q'', Scalar (Pointer ''pqueue_tag_t'')),
      (''is_present_fields'', Scalar (Pointer ''bool*'')),
      (''is_present_fields_size'', Scalar C_Int),
      (''is_present_fields_abbreviated'', Scalar (Pointer ''bool*'')),
      (''is_present_fields_abbreviated_size'', Scalar C_Int),
      (''sparse_io_record_sizes'', vector_layout), (''_lf_handle'', Scalar C_Int)]"

definition environment_tables :: "(string \<times> ctype) list" where
  "environment_tables =
     [(''timer_triggers'', Scalar (Pointer ''trigger_t*'')),
      (''timer_triggers_size'', Scalar C_Int),
      (''startup_reactions'', Scalar (Pointer ''reaction_t*'')),
      (''startup_reactions_size'', Scalar C_Int),
      (''shutdown_reactions'', Scalar (Pointer ''reaction_t*'')),
      (''shutdown_reactions_size'', Scalar C_Int),
      (''reset_reactions'', Scalar (Pointer ''reaction_t*'')),
      (''reset_reactions_size'', Scalar C_Int),
      (''modes'', Scalar (Pointer ''mode_environment_t'')), (''watchdogs_size'', Scalar C_Int),
      (''watchdogs'', Scalar (Pointer ''watchdog_t*'')), (''worker_thread_count'', Scalar C_Int)]"

text \<open>The fields every build has.\<close>

definition environment_common :: "(string \<times> ctype) list" where
  "environment_common = environment_state @ environment_tables"

definition environment_layout :: "build \<Rightarrow> ctype" where
  "environment_layout b = Struct
     (environment_common @
      (if single_threaded b then [(''reaction_q'', Scalar (Pointer ''pqueue_t''))]
       else [(''num_workers'', Scalar C_Int), (''thread_ids'', Scalar (Pointer ''lf_thread_t'')),
             (''mutex'', Scalar (mutex_type b)), (''event_q_changed'', Scalar (cond_type b)),
             (''scheduler'', Scalar (Pointer ''lf_scheduler_t'')), (''barrier'', barrier_layout),
             (''global_tag_barrier_requestors_reached_zero'', Scalar (cond_type b))]) @
      (if federated b then
        [(''_lf_intended_tag_fields'', Scalar (Pointer ''tag_t*'')),
         (''_lf_intended_tag_fields_size'', Scalar C_Int), (''need_to_send_LTC'', Scalar C_Bool)]
       else []) @
      (if enclaves b then [(''enclave_info'', Scalar (Pointer ''enclave_info_t''))] else []))"

definition mode_environment_layout :: "ctype" where
  "mode_environment_layout = Struct
     [(''triggered_reactions_request'', Scalar C_UInt8),
       (''modal_reactor_states'', Scalar (Pointer ''reactor_mode_state_t*'')),
       (''modal_reactor_states_size'', Scalar C_Int),
       (''state_resets'', Scalar (Pointer ''mode_state_variable_reset_data_t'')),
       (''state_resets_size'', Scalar C_Int)]"

definition watchdog_layout :: "build \<Rightarrow> ctype" where
  "watchdog_layout b = Struct
     [(''base'', Scalar (Pointer ''self_base_t'')),
       (''trigger'', Scalar (Pointer ''trigger_t'')), (''expiration'', Scalar C_Int64),
       (''min_expiration'', Scalar C_Int64), (''thread_id'', Scalar (thread_type b)),
       (''cond'', Scalar (cond_type b)), (''active'', Scalar C_Bool),
       (''terminate'', Scalar C_Bool),
       (''watchdog_function'', Scalar (Pointer ''watchdog_function_t''))]"

definition scheduler_layout :: "ctype" where
  "scheduler_layout = Struct
     [(''env'', Scalar (Pointer ''environment_t'')), (''max_reaction_level'', Scalar C_Size),
       (''should_stop'', Scalar C_Bool), (''indexes'', Scalar (Pointer ''int'')),
       (''transfer_reactions'', Scalar (Pointer ''void'')),
       (''number_of_workers'', Scalar C_Size), (''number_of_idle_workers'', Scalar C_Size),
       (''custom_data'', Scalar (Pointer ''custom_scheduler_data_t''))]"

definition sched_params_layout :: "ctype" where
  "sched_params_layout = Struct
     [(''num_reactions_per_level'', Scalar (Pointer ''size_t'')),
       (''num_reactions_per_level_size'', Scalar C_Size)]"

definition pqueue_layout :: "ctype" where
  "pqueue_layout = Struct
     [(''size'', Scalar C_Size), (''avail'', Scalar C_Size), (''step'', Scalar C_Size),
       (''cmppri'', Scalar (Pointer ''pqueue_cmp_pri_f'')),
       (''getpri'', Scalar (Pointer ''pqueue_get_pri_f'')),
       (''getpos'', Scalar (Pointer ''pqueue_get_pos_f'')),
       (''setpos'', Scalar (Pointer ''pqueue_set_pos_f'')),
       (''eqelem'', Scalar (Pointer ''pqueue_eq_elem_f'')),
       (''prt'', Scalar (Pointer ''pqueue_print_entry_f'')), (''d'', Scalar (Pointer ''void*''))]"

definition semaphore_layout :: "build \<Rightarrow> ctype" where
  "semaphore_layout b = Struct
     [(''count'', Scalar C_Size), (''mutex'', Scalar (mutex_type b)),
       (''cond'', Scalar (cond_type b))]"

definition multiport_iterator_layout :: "ctype" where
  "multiport_iterator_layout = Struct
     [(''next'', Scalar C_Int), (''idx'', Scalar C_Int),
       (''port'', Scalar (Pointer ''lf_port_base_t*'')), (''width'', Scalar C_Int)]"

definition mixed_radix_layout :: "ctype" where
  "mixed_radix_layout = Struct
     [(''size'', Scalar C_Int), (''digits'', Scalar (Pointer ''int'')),
       (''radixes'', Scalar (Pointer ''int'')), (''permutation'', Scalar (Pointer ''int''))]"

definition rti_addr_info_layout :: "ctype" where
  "rti_addr_info_layout = Struct
     [(''rti_host_str'', Array 256 (Scalar C_Char)), (''rti_port_str'', Array 6 (Scalar C_Char)),
       (''rti_user_str'', Array 256 (Scalar C_Char)), (''has_host'', Scalar C_Bool),
       (''has_port'', Scalar C_Bool), (''has_user'', Scalar C_Bool)]"

definition socket_stat_layout :: "build \<Rightarrow> ctype" where
  "socket_stat_layout b = Struct
     [(''remote_physical_clock_snapshot_T1'', Scalar C_Int64),
       (''local_physical_clock_snapshot_T2'', Scalar C_Int64), (''local_delay'', Scalar C_Int64),
       (''received_T4_messages_in_current_sync_window'', Scalar C_Int),
       (''history'', Scalar C_Int64), (''network_stat_round_trip_delay_max'', Scalar C_Int64),
       (''network_stat_sample_index'', Scalar C_Int),
       (''clock_synchronization_error_bound'', Scalar C_Int64),
       (''network_stat_samples'', Array (exchanges_per_interval b) (Scalar C_Int64))]"

definition stat_ll_layout :: "ctype" where
  "stat_ll_layout = Struct
     [(''average'', Scalar C_Int64), (''standard_deviation'', Scalar C_Int64),
       (''variance'', Scalar C_Int64), (''max'', Scalar C_Int64)]"

definition federate_instance_layout :: "build \<Rightarrow> ctype" where
  "federate_instance_layout b = Struct
     ([(''socket_TCP_RTI'', Scalar C_Int), (''RTI_socket_listener'', Scalar (thread_type b)),
       (''number_of_inbound_p2p_connections'', Scalar C_Size),
       (''inbound_socket_listeners'', Scalar (Pointer ''lf_thread_t'')),
       (''number_of_outbound_p2p_connections'', Scalar C_Size),
       (''sockets_for_inbound_p2p_connections'', Array (number_of_federates b) (Scalar C_Int)),
       (''sockets_for_outbound_p2p_connections'', Array (number_of_federates b) (Scalar C_Int)),
       (''inbound_p2p_handling_thread_id'', Scalar (thread_type b)),
       (''server_socket'', Scalar C_Int), (''server_port'', Scalar C_Int),
       (''last_TAG'', tag_layout), (''is_last_TAG_provisional'', Scalar C_Bool),
       (''has_upstream'', Scalar C_Bool), (''has_downstream'', Scalar C_Bool),
       (''received_stop_request_from_rti'', Scalar C_Bool), (''last_sent_LTC'', tag_layout),
       (''last_sent_NET'', tag_layout), (''last_skipped_NET'', tag_layout),
       (''received_any_DNET'', Scalar C_Bool), (''last_DNET'', tag_layout),
       (''min_delay_from_physical_action_to_federate_output'', Scalar C_Int64)] @
      (if decentralized b then
        [(''staaSetter'', Scalar (thread_type b))]
       else []))"

definition staa_layout :: "ctype" where
  "staa_layout = Struct
     [(''actions'', Scalar (Pointer ''lf_action_base_t*'')), (''STAA'', Scalar C_Size),
       (''num_actions'', Scalar C_Size)]"

definition federation_metadata_layout :: "ctype" where
  "federation_metadata_layout = Struct
     [(''federation_id'', Scalar (Pointer ''char'')), (''rti_host'', Scalar (Pointer ''char'')),
       (''rti_port'', Scalar C_Int), (''rti_user'', Scalar (Pointer ''char''))]"

definition trace_record_layout :: "ctype" where
  "trace_record_layout = Struct
     [(''event_type'', Scalar (C_Enum ''trace_event_t'')),
       (''pointer'', Scalar (Pointer ''void'')), (''src_id'', Scalar C_Int),
       (''dst_id'', Scalar C_Int), (''logical_time'', Scalar C_Int64),
       (''microstep'', Scalar C_UInt32), (''physical_time'', Scalar C_Int64),
       (''trigger'', Scalar (Pointer ''trigger_t'')), (''extra_delay'', Scalar C_Int64)]"

definition federate__pv_self_layout :: "build \<Rightarrow> ctype" where
  "federate__pv_self_layout b = Struct
     [(''base'', self_base_layout b), (''end'', Array 0 (Scalar C_Int))]"

definition planning_validator_self_layout :: "build \<Rightarrow> ctype" where
  "planning_validator_self_layout b = Struct
     [(''base'', self_base_layout b), (''node'', Scalar (shared_ptr_type b)),
       (''end'', Array 0 (Scalar C_Int))]"

definition runtime_structs :: "build \<Rightarrow> ctype list" where
  "runtime_structs b =
    [tag_layout, token_type_layout, token_layout, sparse_io_record_layout,
     token_template_layout, port_base_layout, barrier_layout, reaction_layout,
     pqueue_tag_element_layout, event_layout b, trigger_layout b, allocation_record_layout,
     mode_layout, mode_state_layout, mode_reset_layout, self_base_layout b, action_base_layout,
     action_internal_layout, port_internal_layout, vector_layout, environment_layout b,
     mode_environment_layout, watchdog_layout b, scheduler_layout, sched_params_layout,
     pqueue_layout, semaphore_layout b, multiport_iterator_layout, mixed_radix_layout,
     rti_addr_info_layout, socket_stat_layout b, stat_ll_layout, federate_instance_layout b,
     staa_layout, federation_metadata_layout, trace_record_layout, federate__pv_self_layout b,
     planning_validator_self_layout b]"

lemmas layout_defs =
  tag_layout_def token_type_layout_def token_layout_def sparse_io_record_layout_def
  token_template_layout_def port_base_layout_def barrier_layout_def reaction_layout_def
  pqueue_tag_element_layout_def event_layout_def trigger_layout_def allocation_record_layout_def
  mode_layout_def mode_state_layout_def mode_reset_layout_def self_base_layout_def
  action_base_layout_def action_internal_layout_def port_internal_layout_def vector_layout_def
  environment_state_def environment_tables_def environment_common_def environment_layout_def mode_environment_layout_def watchdog_layout_def
  scheduler_layout_def sched_params_layout_def pqueue_layout_def semaphore_layout_def
  multiport_iterator_layout_def mixed_radix_layout_def rti_addr_info_layout_def
  socket_stat_layout_def stat_ll_layout_def federate_instance_layout_def staa_layout_def
  federation_metadata_layout_def trace_record_layout_def federate__pv_self_layout_def
  planning_validator_self_layout_def

lemma runtime_structs_ok: "build_ok b \<Longrightarrow> list_all ctype_ok (runtime_structs b)"
  by (simp add: runtime_structs_def build_ok_def layout_defs)

section \<open>Enumerations\<close>

text \<open>The enumerators with the values some are given; the others are one more than the one before.\<close>

fun enum_values :: "nat \<Rightarrow> (string \<times> nat option) list \<Rightarrow> (string \<times> nat) list" where
  "enum_values n [] = []"
| "enum_values n ((name, None) # es) = (name, n) # enum_values (n + 1) es"
| "enum_values n ((name, Some v) # es) = (name, v) # enum_values (v + 1) es"

definition lf_spacing_policy :: "(string \<times> nat) list" where
  "lf_spacing_policy =
     enum_values 0 [(''defer'', None), (''drop'', None), (''replace'', None), (''update'', None)]"

definition port_status :: "(string \<times> nat) list" where
  "port_status = enum_values 0
     [(''absent'', Some (of_bool False)), (''present'', Some (of_bool True)), (''unknown'', None)]"

definition reaction_status :: "(string \<times> nat) list" where
  "reaction_status = enum_values 0 [(''inactive'', Some 0), (''queued'', None), (''running'', None)]"

definition mode_change_type :: "(string \<times> nat) list" where
  "mode_change_type =
     enum_values 0 [(''no_transition'', None), (''reset_transition'', None), (''history_transition'', None)]"

text \<open>
  Memory from \<open>calloc\<close> is an inactive reaction, an absent port, a trigger that defers and a reactor
  without a transition; every enumerator has a value of its own; and the status of a port that is
  not a network port can be read as its presence.
\<close>

lemma enumerations:
  "map_of reaction_status ''inactive'' = Some 0" "map_of port_status ''absent'' = Some 0"
  "map_of lf_spacing_policy ''defer'' = Some 0" "map_of mode_change_type ''no_transition'' = Some 0"
  "map_of port_status ''present'' = Some (of_bool True)" "map_of port_status ''unknown'' = Some 2"
  "distinct (map snd reaction_status)" "distinct (map snd port_status)"
  "distinct (map snd lf_spacing_policy)" "distinct (map snd mode_change_type)"
  by (simp_all add: reaction_status_def port_status_def lf_spacing_policy_def mode_change_type_def)

section \<open>Casts\<close>

lemmas cast_simps = castable_def named_def round_up_def move_def in_field_def

lemma template_to_type: "castable token_template_layout token_type_layout"
  unfolding token_template_layout_def token_type_layout_def by (rule castable_first) simp

lemma starts_with_template:
  "castable (Struct ((''tmplt'', token_template_layout) # fs)) token_template_layout"
  unfolding token_template_layout_def by (rule castable_first) (simp add: token_type_layout_def)

lemma self_base_fields: "castable (Struct ((''base'', self_base_layout b) # fs)) (self_base_layout b)"
  unfolding self_base_layout_def
  by (rule castable_first) (simp add: mode_state_layout_def)

lemma event_to_element: "castable (event_layout b) pqueue_tag_element_layout"
  unfolding event_layout_def append_Cons pqueue_tag_element_layout_def
  by (rule castable_first) (simp add: tag_layout_def)

text \<open>Fields that an option puts at the end leave the others where they are.\<close>

lemma castable_optional: "\<not> c \<Longrightarrow> castable (Struct (fs @ gs)) (Struct (fs @ (if c then hs else [])))"
  by (simp add: castable_prefix)

lemma federated_fields_last:
  "castable (event_layout b) (event_layout (b\<lparr>federated := False\<rparr>))"
  "castable (trigger_layout b) (trigger_layout (b\<lparr>federated := False\<rparr>))"
  unfolding event_layout_def trigger_layout_def by (rule castable_optional, simp)+

lemma mode_state_last: "castable (self_base_layout b) (self_base_layout (b\<lparr>modal_reactors := False\<rparr>))"
proof -
  have "single_threaded (b\<lparr>modal_reactors := False\<rparr>) = single_threaded b" by simp
  then show ?thesis
    unfolding self_base_layout_def append_assoc [symmetric] by (simp only:) (rule castable_optional, simp)
qed

lemma environment_prefix: "castable (environment_layout b) (Struct environment_common)"
  unfolding environment_layout_def by (rule castable_prefix)

lemma mode_state_moves:
  "\<not> castable (self_base_layout (b\<lparr>modal_reactors := True, single_threaded := False\<rparr>))
       (self_base_layout (b\<lparr>modal_reactors := True, single_threaded := True\<rparr>))"
  by (simp add: cast_simps self_base_layout_def mode_state_layout_def)

section \<open>Properties\<close>

text \<open>C20: the casts between the structures of the headers are sound in every build: a token template
  can be used as a token type; the base structures of ports and of actions, and a trigger, as a
  token template; an event as an element of its queue; and the two self structs of the generated
  headers as \<open>self_base_t\<close>.  Every field is found under its name, with its type, at its offset.  The
  structures the code generator makes for single ports and actions are not in the repository.\<close>

theorem casts_are_sound:
  "castable token_template_layout token_type_layout \<and>
   castable port_base_layout token_template_layout \<and>
   castable action_base_layout token_template_layout \<and>
   castable (trigger_layout b) token_template_layout \<and>
   castable (event_layout b) pqueue_tag_element_layout \<and>
   castable (federate__pv_self_layout b) (self_base_layout b) \<and>
   castable (planning_validator_self_layout b) (self_base_layout b)"
proof (intro conjI)
  show "castable token_template_layout token_type_layout" by (rule template_to_type)
  show "castable port_base_layout token_template_layout"
    unfolding port_base_layout_def by (rule starts_with_template)
  show "castable action_base_layout token_template_layout"
    unfolding action_base_layout_def by (rule starts_with_template)
  show "castable (trigger_layout b) token_template_layout"
    unfolding trigger_layout_def append_Cons by (rule starts_with_template)
  show "castable (event_layout b) pqueue_tag_element_layout" by (rule event_to_element)
  show "castable (federate__pv_self_layout b) (self_base_layout b)"
    unfolding federate__pv_self_layout_def by (rule self_base_fields)
  show "castable (planning_validator_self_layout b) (self_base_layout b)"
    unfolding planning_validator_self_layout_def by (rule self_base_fields)
qed

text \<open>every structure of the runtime lies properly in memory, in every build with sane platform
  types: its scalars lie one behind the other without overlap, each at a multiple of its
  alignment, and inside the size of the structure.\<close>

theorem structs_lie_properly:
  assumes "build_ok b" and "t \<in> set (runtime_structs b)"
  shows "sorted_wrt (\<lambda>m m'. stop m \<le> start m') (members t) \<and>
    list_all (\<lambda>m. aligned m \<and> stop m \<le> size_of t) (members t)"
proof -
  have "ctype_ok t" using runtime_structs_ok [OF assms(1)] assms(2) by (simp add: list_all_iff)
  then show ?thesis
    by (simp add: members_ordered members_align members_in_bounds list_all_iff)
qed

definition example_build :: "build" where
  "example_build = \<lparr>federated = True, decentralized = False, modal_reactors = True, single_threaded = False,
     enclaves = False, number_of_federates = 47, exchanges_per_interval = 10,
     thread_type = Foreign ''pthread_t'' 8 8, mutex_type = Foreign ''pthread_mutex_t'' 40 8,
     cond_type = Foreign ''pthread_cond_t'' 48 8, shared_ptr_type = Foreign ''shared_ptr'' 16 8\<rparr>"

theorem structs_lie_properly_witness:
  "sorted_wrt (\<lambda>m m'. stop m \<le> start m') (members (event_layout example_build)) \<and>
   list_all (\<lambda>m. aligned m \<and> stop m \<le> size_of (event_layout example_build)) (members (event_layout example_build)) \<and>
   size_of (event_layout example_build) = 64"
proof -
  have "build_ok example_build" by (simp add: build_ok_def example_build_def)
  moreover have "event_layout example_build \<in> set (runtime_structs example_build)"
    by (simp add: runtime_structs_def)
  moreover have "size_of (event_layout example_build) = 64"
    by (simp add: event_layout_def example_build_def pqueue_tag_element_layout_def tag_layout_def round_up_def)
  ultimately show ?thesis using structs_lie_properly [of example_build "event_layout example_build"] by simp
qed

text \<open>C39: which build options a precompiled runtime can differ in: the fields of events and triggers
  that only federated programs have come last, so that code compiled without \<open>FEDERATED\<close> finds its
  fields; the mode state of a reactor comes last too; the fields of an environment up to the
  number of workers are the same in all builds; but the mode state of a reactor moves when only
  one of the two sides is single-threaded.\<close>

theorem options_that_keep_fields:
  "castable (event_layout b) (event_layout (b\<lparr>federated := False\<rparr>)) \<and>
   castable (trigger_layout b) (trigger_layout (b\<lparr>federated := False\<rparr>)) \<and>
   castable (self_base_layout b) (self_base_layout (b\<lparr>modal_reactors := False\<rparr>)) \<and>
   castable (environment_layout b) (Struct environment_common) \<and>
   \<not> castable (self_base_layout (b\<lparr>modal_reactors := True, single_threaded := False\<rparr>))
       (self_base_layout (b\<lparr>modal_reactors := True, single_threaded := True\<rparr>))"
  by (intro conjI federated_fields_last mode_state_last environment_prefix mode_state_moves)

end
