(* ===== verification/Lf_Base.thy ===== *)
theory Lf_Base
  imports Main "HOL-Library.Word"
begin

text \<open>
  Prelude of the development: the machine types of the C code, the faults a C operation can
  run into, the bind of fallible operations, byte sequences with their little-endian reading,
  and the list and word lemmas the components share.

  A C operation that can fail returns a \<open>c_fault\<close> on the left of a sum; \<open>c_bind\<close> sequences
  such operations.  Reads and writes through an index are \<open>c_read\<close> and \<open>c_write\<close>, which fault
  outside the array instead of returning an unspecified value.
\<close>

unbundle bit_operations_syntax

type_synonym byte = "8 word"
type_synonym uint16_t = "16 word"
type_synonym uint32_t = "32 word"
type_synonym int32_t = "32 word"
type_synonym int64_t = "64 word"
type_synonym pointer = "64 word"
type_synonym size_t = "64 word"

named_theorems c_simps "reads, writes and sequencing of fallible C operations"

section \<open>Faults and sequencing\<close>

datatype c_fault =
    Assertion_Failed
  | Null_Dereference
  | Out_Of_Bounds
  | Division_By_Zero
  | Exit_Failure int
  | Uncaught_Exception

type_synonym 'a c_result = "c_fault + 'a"

definition c_bind :: "'a c_result \<Rightarrow> ('a \<Rightarrow> 'b c_result) \<Rightarrow> 'b c_result" where
  "c_bind r f = (case r of Inl e \<Rightarrow> Inl e | Inr x \<Rightarrow> f x)"

lemma c_bind_Inl [simp]: "c_bind (Inl e) f = Inl e"
  by (simp add: c_bind_def)

lemma c_bind_Inr [simp]: "c_bind (Inr x) f = f x"
  by (simp add: c_bind_def)

lemma c_bind_eq_Inr:
  "c_bind r f = Inr y \<longleftrightarrow> (\<exists>x. r = Inr x \<and> f x = Inr y)"
  by (cases r) auto

lemma c_bind_assoc: "c_bind (c_bind r f) g = c_bind r (\<lambda>x. c_bind (f x) g)"
  by (cases r) auto

text \<open>A sequence of fallible steps, stopping at the first fault.\<close>

fun c_fold :: "('a \<Rightarrow> 's \<Rightarrow> 's c_result) \<Rightarrow> 'a list \<Rightarrow> 's \<Rightarrow> 's c_result" where
  "c_fold f [] s = Inr s"
| "c_fold f (x # xs) s = c_bind (f x s) (c_fold f xs)"

lemma c_fold_append: "c_fold f (xs @ ys) s = c_bind (c_fold f xs s) (c_fold f ys)"
proof (induction xs arbitrary: s)
  case (Cons x xs)
  then show ?case by (cases "f x s") simp_all
qed simp

lemma c_fold_invariant:
  assumes "c_fold f xs s = Inr t" and "P s"
    and "\<And>x u w. x \<in> set xs \<Longrightarrow> P u \<Longrightarrow> f x u = Inr w \<Longrightarrow> P w"
  shows "P t"
  using assms
  by (induction xs arbitrary: s) (auto simp: c_bind_eq_Inr)

text \<open>Array accesses: the index is checked, as the C code relies on it being in range.\<close>

definition c_read :: "'a list \<Rightarrow> nat \<Rightarrow> 'a c_result" where
  "c_read xs i = (if i < length xs then Inr (xs ! i) else Inl Out_Of_Bounds)"

definition c_write :: "'a list \<Rightarrow> nat \<Rightarrow> 'a \<Rightarrow> 'a list c_result" where
  "c_write xs i x = (if i < length xs then Inr (xs[i := x]) else Inl Out_Of_Bounds)"

lemma c_read_Inr [c_simps]: "i < length xs \<Longrightarrow> c_read xs i = Inr (xs ! i)"
  by (simp add: c_read_def)

lemma c_write_Inr [c_simps]: "i < length xs \<Longrightarrow> c_write xs i x = Inr (xs[i := x])"
  by (simp add: c_write_def)

text \<open>A block of bytes written at an offset of a buffer.\<close>

definition c_write_block :: "'a list \<Rightarrow> nat \<Rightarrow> 'a list \<Rightarrow> 'a list c_result" where
  "c_write_block buf off bs =
     (if off + length bs \<le> length buf
      then Inr (take off buf @ bs @ drop (off + length bs) buf)
      else Inl Out_Of_Bounds)"

lemma c_write_block_Inr [c_simps]:
  "off + length bs \<le> length buf \<Longrightarrow>
   c_write_block buf off bs = Inr (take off buf @ bs @ drop (off + length bs) buf)"
  by (simp add: c_write_block_def)

lemma c_write_block_length:
  "c_write_block buf off bs = Inr buf' \<Longrightarrow> length buf' = length buf"
  by (auto simp: c_write_block_def split: if_splits)

lemma c_write_block_append:
  assumes "length pre = off" and "length old = length bs"
  shows "c_write_block (pre @ old @ post) off bs = Inr (pre @ bs @ post)"
  using assms by (simp add: c_write_block_def)

section \<open>Little-endian bytes\<close>

text \<open>
  \<open>le_bytes n x\<close> is the \<open>n\<close>-byte little-endian representation of \<open>x\<close>, lowest-order byte
  first, and \<open>le_value\<close> reads such a sequence back.
\<close>

fun le_bytes :: "nat \<Rightarrow> nat \<Rightarrow> byte list" where
  "le_bytes 0 x = []"
| "le_bytes (Suc n) x = word_of_nat x # le_bytes n (x div 256)"

fun le_value :: "byte list \<Rightarrow> nat" where
  "le_value [] = 0"
| "le_value (b # bs) = unat b + 256 * le_value bs"

lemma le_bytes_numeral:
  "le_bytes (numeral k) x = word_of_nat x # le_bytes (pred_numeral k) (x div 256)"
  by (simp only: numeral_eq_Suc le_bytes.simps)

lemma length_le_bytes [simp]: "length (le_bytes n x) = n"
  by (induction n arbitrary: x) auto

lemma le_value_le_bytes: "le_value (le_bytes n x) = x mod 256 ^ n"
proof (induction n arbitrary: x)
  case (Suc n)
  have "x mod (256 * 256 ^ n) = 256 * (x div 256 mod 256 ^ n) + x mod 256"
    by (rule mod_mult2_eq)
  with Suc show ?case by (simp add: unat_of_nat)
qed simp

lemma unat_byte_bound: "unat (b :: byte) < 256"
  using unsigned_less [of b] by simp

lemma unat_less_64: "unat (w :: 64 word) < 2 ^ 64"
  using unsigned_less [of w] by simp

lemma le_value_bound: "le_value bs < 256 ^ length bs"
proof (induction bs)
  case (Cons b bs)
  have "unat b < 256" by (rule unat_byte_bound)
  with Cons show ?case by simp
qed simp

lemma le_bytes_le_value: "le_bytes (length bs) (le_value bs) = bs"
proof (induction bs)
  case (Cons b bs)
  have b: "unat b < 256" by (rule unat_byte_bound)
  have "word_of_nat (unat b + 256 * le_value bs) = b"
  proof -
    have "(256 :: byte) = 0" by simp
    then show ?thesis
      by (simp only: of_nat_add of_nat_mult of_nat_numeral of_nat_unat ucast_id) simp
  qed
  moreover have "(unat b + 256 * le_value bs) div 256 = le_value bs"
    using b by simp
  ultimately show ?case using Cons by simp
qed simp

lemma le_bytes_inject:
  "x < 256 ^ n \<Longrightarrow> y < 256 ^ n \<Longrightarrow> le_bytes n x = le_bytes n y \<longleftrightarrow> x = y"
  by (metis le_value_le_bytes mod_less)

lemma nth_le_bytes: "i < n \<Longrightarrow> le_bytes n x ! i = word_of_nat (x div 256 ^ i)"
proof (induction n arbitrary: x i)
  case (Suc n)
  then show ?case
    by (cases i) (simp_all add: div_mult2_eq)
qed simp

end
