(* ===== verification/Tracing.thy ===== *)
theory Tracing
  imports Lf_Base
begin

text \<open>
  The tracepoints of \<open>core/tracepoint.h\<close>.  The header gives every program the same interface in
  two builds: with \<open>LF_TRACE\<close> the tracepoints are macros that call \<open>call_tracepoint\<close> and functions
  of the tracing library, without it they are macros and inline functions that do nothing; the
  functions about federates and about the RTI are also empty in traced programs that are not
  federated, or not the RTI.  The tracing library is not part of the repository: its functions
  are an argument.
\<close>

section \<open>Builds\<close>

record trace_build =
  lf_trace_defined :: bool
  rti_trace_defined :: bool
  federated_defined :: bool
  enclaves_defined :: bool

definition LF_TRACE :: "trace_build \<Rightarrow> bool" where
  "LF_TRACE b \<longleftrightarrow> lf_trace_defined b \<or> rti_trace_defined b"

section \<open>The interface\<close>

datatype declared = Macro | Inline | Extern

definition macro_names :: "string list" where
  "macro_names =
     [''tracepoint_reaction_starts'', ''tracepoint_reaction_ends'', ''tracepoint_worker_wait_starts'',
      ''tracepoint_worker_wait_ends'', ''tracepoint_scheduler_advancing_time_starts'',
      ''tracepoint_scheduler_advancing_time_ends'', ''tracepoint_reaction_deadline_missed'']"

definition user_functions :: "string list" where
  "user_functions =
     [''register_user_trace_event'', ''tracepoint_schedule'', ''tracepoint_user_event'', ''tracepoint_user_value'']"

definition federate_functions :: "string list" where
  "federate_functions =
     [''tracepoint_federate_to_rti'', ''tracepoint_federate_from_rti'', ''tracepoint_federate_to_federate'',
      ''tracepoint_federate_from_federate'']"

definition rti_functions :: "string list" where
  "rti_functions = [''tracepoint_rti_to_federate'', ''tracepoint_rti_from_federate'']"

definition library_functions :: "string list" where
  "library_functions = [''call_tracepoint'', ''_lf_register_trace_event'', ''lf_tracing_check_version'']"

text \<open>In a traced build these are declared by \<open>trace.h\<close>, which the header includes.\<close>

definition global_functions :: "string list" where
  "global_functions =
     [''lf_tracing_global_init'', ''lf_tracing_global_shutdown'', ''lf_tracing_set_start_time'']"

definition declare_as :: "declared \<Rightarrow> string list \<Rightarrow> (string \<times> declared) list" where
  "declare_as k = map (\<lambda>f. (f, k))"

definition traced_interface :: "trace_build \<Rightarrow> (string \<times> declared) list" where
  "traced_interface b =
     declare_as Extern (library_functions @ user_functions) @ declare_as Macro macro_names @
     declare_as (if federated_defined b \<or> enclaves_defined b then Extern else Inline) federate_functions @
     declare_as (if rti_trace_defined b then Extern else Inline) rti_functions"

definition silent_interface :: "(string \<times> declared) list" where
  "silent_interface =
     declare_as Inline (user_functions @ rti_functions @ federate_functions @ global_functions) @
     declare_as Macro macro_names"

definition trace_interface :: "trace_build \<Rightarrow> (string \<times> declared) list" where
  "trace_interface b = (if LF_TRACE b then traced_interface b else silent_interface)"

section \<open>The macros\<close>

datatype trace_event =
    reaction_starts
  | reaction_ends
  | worker_wait_starts
  | worker_wait_ends
  | scheduler_advancing_time_starts
  | scheduler_advancing_time_ends
  | reaction_deadline_missed

text \<open>The parts of an environment and of a reaction the macros read; pointers are addresses, \<open>None\<close> for \<open>NULL\<close>.\<close>

record trace_env =
  current_tag :: "int \<times> nat"

record trace_reaction =
  self_struct :: nat
  reaction_number :: int
  reaction_deadline :: int

record trace_call =
  event_type :: trace_event
  reactor :: "nat option"
  call_tag :: "int \<times> nat"
  worker_id :: int
  src_id :: int
  dst_id :: int
  physical_time :: "int option"
  call_trigger :: "nat option"
  extra_delay :: int

datatype tracepoint =
    Reaction_Starts trace_env trace_reaction int
  | Reaction_Ends trace_env trace_reaction int
  | Worker_Wait_Starts trace_env int
  | Worker_Wait_Ends trace_env int
  | Advancing_Time_Starts trace_env
  | Advancing_Time_Ends trace_env
  | Deadline_Missed trace_env trace_reaction int

definition reaction_call :: "trace_event \<Rightarrow> trace_env \<Rightarrow> trace_reaction \<Rightarrow> int \<Rightarrow> int \<Rightarrow> trace_call" where
  "reaction_call e env r worker delay =
     \<lparr>event_type = e, reactor = Some (self_struct r), call_tag = current_tag env, worker_id = worker,
      src_id = worker, dst_id = reaction_number r, physical_time = None, call_trigger = None, extra_delay = delay\<rparr>"

definition scheduler_call :: "trace_event \<Rightarrow> trace_env \<Rightarrow> int \<Rightarrow> trace_call" where
  "scheduler_call e env worker =
     \<lparr>event_type = e, reactor = None, call_tag = current_tag env, worker_id = worker,
      src_id = worker, dst_id = -1, physical_time = None, call_trigger = None, extra_delay = 0\<rparr>"

text \<open>
  What a macro expands to: a call, which is an expression; a semicolon, where the text of the macro
  has one; \<open>while (0) {...}\<close>, which is a statement.  \<open>Else\<close> comes from the program around it.
\<close>

datatype piece = Expression trace_call | Semicolon | While_0 | Else

fun traced_expansion :: "tracepoint \<Rightarrow> piece list" where
  "traced_expansion (Reaction_Starts env r worker) =
     [Expression (reaction_call reaction_starts env r worker (reaction_deadline r))]"
| "traced_expansion (Reaction_Ends env r worker) =
     [Expression (reaction_call reaction_ends env r worker (reaction_deadline r))]"
| "traced_expansion (Worker_Wait_Starts env worker) = [Expression (scheduler_call worker_wait_starts env worker)]"
| "traced_expansion (Worker_Wait_Ends env worker) = [Expression (scheduler_call worker_wait_ends env worker)]"
| "traced_expansion (Advancing_Time_Starts env) =
     [Expression (scheduler_call scheduler_advancing_time_starts env (-1)), Semicolon]"
| "traced_expansion (Advancing_Time_Ends env) =
     [Expression (scheduler_call scheduler_advancing_time_ends env (-1))]"
| "traced_expansion (Deadline_Missed env r worker) =
     [Expression (reaction_call reaction_deadline_missed env r worker 0)]"

fun silent_expansion :: "tracepoint \<Rightarrow> piece list" where
  "silent_expansion (Reaction_Starts env r worker) = [While_0]"
| "silent_expansion (Reaction_Ends env r worker) = [While_0]"
| "silent_expansion (Worker_Wait_Starts env worker) = [While_0]"
| "silent_expansion (Worker_Wait_Ends env worker) = [While_0]"
| "silent_expansion (Advancing_Time_Starts env) = [While_0]"
| "silent_expansion (Advancing_Time_Ends env) = [While_0]"
| "silent_expansion (Deadline_Missed env r worker) = [While_0]"

definition expansion :: "trace_build \<Rightarrow> tracepoint \<Rightarrow> piece list" where
  "expansion b p = (if LF_TRACE b then traced_expansion p else silent_expansion p)"

subsection \<open>The statements around them\<close>

datatype stmt = Do trace_call | Never | Empty

fun parse_stmt :: "piece list \<Rightarrow> (stmt \<times> piece list) option" where
  "parse_stmt (Expression c # Semicolon # ps) = Some (Do c, ps)"
| "parse_stmt (While_0 # ps) = Some (Never, ps)"
| "parse_stmt (Semicolon # ps) = Some (Empty, ps)"
| "parse_stmt ps = None"

lemma parse_stmt_shorter: "parse_stmt ps = Some (s, qs) \<Longrightarrow> length qs < length ps"
  by (induction ps rule: parse_stmt.induct) auto

function parse :: "piece list \<Rightarrow> stmt list option" where
  "parse ps = (if ps = [] then Some []
     else case parse_stmt ps of
         None \<Rightarrow> None
       | Some (s, qs) \<Rightarrow> map_option (Cons s) (parse qs))"
  by pat_completeness auto
termination by (relation "measure length") (auto simp: parse_stmt_shorter)

declare parse.simps [simp del]

text \<open>\<open>if (condition) then-part else else-part\<close>, with one statement on each side.\<close>

definition parse_if_else :: "piece list \<Rightarrow> (stmt \<times> stmt) option" where
  "parse_if_else ps = (case parse_stmt ps of
       Some (s, Else # qs) \<Rightarrow> (case parse_stmt qs of Some (s', []) \<Rightarrow> Some (s, s') | _ \<Rightarrow> None)
     | _ \<Rightarrow> None)"

fun exec :: "(trace_call \<Rightarrow> 's \<Rightarrow> 's) \<Rightarrow> stmt list \<Rightarrow> 's \<Rightarrow> 's" where
  "exec call_tracepoint [] s = s"
| "exec call_tracepoint (Do c # sts) s = exec call_tracepoint sts (call_tracepoint c s)"
| "exec call_tracepoint (Never # sts) s = exec call_tracepoint sts s"
| "exec call_tracepoint (Empty # sts) s = exec call_tracepoint sts s"

text \<open>A use of the macro as the headers intend it: followed by a semicolon.\<close>

definition written :: "trace_build \<Rightarrow> tracepoint list \<Rightarrow> piece list" where
  "written b points = concat (map (\<lambda>p. expansion b p @ [Semicolon]) points)"

section \<open>The functions\<close>

datatype trace_function =
    Register_User_Event nat string
  | Schedule nat nat int
  | User_Event nat string
  | User_Value nat string int
  | Federate_To_Rti nat int "(int \<times> nat) option"
  | Federate_From_Rti nat int "(int \<times> nat) option"
  | Federate_To_Federate nat int int "(int \<times> nat) option"
  | Federate_From_Federate nat int int "(int \<times> nat) option"
  | Rti_To_Federate nat int "(int \<times> nat) option"
  | Rti_From_Federate nat int "(int \<times> nat) option"

fun function_name :: "trace_function \<Rightarrow> string" where
  "function_name (Register_User_Event self description) = ''register_user_trace_event''"
| "function_name (Schedule env trigger delay) = ''tracepoint_schedule''"
| "function_name (User_Event self description) = ''tracepoint_user_event''"
| "function_name (User_Value self description v) = ''tracepoint_user_value''"
| "function_name (Federate_To_Rti e fed t) = ''tracepoint_federate_to_rti''"
| "function_name (Federate_From_Rti e fed t) = ''tracepoint_federate_from_rti''"
| "function_name (Federate_To_Federate e fed partner t) = ''tracepoint_federate_to_federate''"
| "function_name (Federate_From_Federate e fed partner t) = ''tracepoint_federate_from_federate''"
| "function_name (Rti_To_Federate e fed t) = ''tracepoint_rti_to_federate''"
| "function_name (Rti_From_Federate e fed t) = ''tracepoint_rti_from_federate''"

text \<open>
  Result and new state; only \<open>register_user_trace_event\<close> has a result.  The inline bodies use their
  arguments up and, there, return 0.
\<close>

fun inline_result :: "trace_function \<Rightarrow> int option" where
  "inline_result (Register_User_Event self description) = Some 0"
| "inline_result f = None"

definition call_function ::
  "trace_build \<Rightarrow> (trace_function \<Rightarrow> 's \<Rightarrow> int option \<times> 's) \<Rightarrow> trace_function \<Rightarrow> 's \<Rightarrow> int option \<times> 's" where
  "call_function b library f s =
     (if map_of (trace_interface b) (function_name f) = Some Inline then (inline_result f, s) else library f s)"

section \<open>Properties\<close>

text \<open>What a tracepoint tells the library in a traced build.\<close>

fun calls :: "piece list \<Rightarrow> trace_call list" where
  "calls [] = []"
| "calls (Expression c # ps) = c # calls ps"
| "calls (p # ps) = calls ps"

definition recorded :: "tracepoint \<Rightarrow> trace_call" where
  "recorded p = hd (calls (traced_expansion p))"

lemma one_call: "calls (traced_expansion p) = [recorded p]"
  by (cases p) (simp_all add: recorded_def)

lemma parse_simps [simp]:
  "parse [] = Some []"
  "parse (Expression c # Semicolon # ps) = map_option (Cons (Do c)) (parse ps)"
  "parse (While_0 # ps) = map_option (Cons Never) (parse ps)"
  "parse (Semicolon # ps) = map_option (Cons Empty) (parse ps)"
  by (simp_all add: parse.simps)

lemma append_eta: "append [] = (\<lambda>ys. ys)" "append (x # xs) = (\<lambda>ys. x # xs @ ys)"
  by auto

lemma exec_append: "exec f (xs @ ys) s = exec f ys (exec f xs s)"
  by (induction f xs s rule: exec.induct) simp_all

lemma parse_written:
  "\<exists>sts. parse (written b points @ ps) = map_option (append sts) (parse ps) \<and>
     (\<forall>s. exec f sts s = (if LF_TRACE b then fold f (map recorded points) s else s))"
proof (induction points)
  case Nil
  show ?case by (intro exI [of _ "[]"]) (simp add: written_def append_eta option.map_ident)
next
  case (Cons p points)
  then obtain sts where sts: "parse (written b points @ ps) = map_option (append sts) (parse ps)"
    "\<And>s. exec f sts s = (if LF_TRACE b then fold f (map recorded points) s else s)" by blast
  have "\<exists>one. (\<forall>qs. parse (expansion b p @ Semicolon # qs) = map_option (append one) (parse qs)) \<and>
      (\<forall>s. exec f one s = (if LF_TRACE b then f (recorded p) s else s))"
  proof (cases "LF_TRACE b")
    case True
    let ?one = "case p of Advancing_Time_Starts env \<Rightarrow> [Do (recorded p), Empty] | _ \<Rightarrow> [Do (recorded p)]"
    from True show ?thesis
      by (intro exI [of _ ?one]) (cases p; simp add: expansion_def recorded_def append_eta option.map_comp comp_def)
  next
    case False
    then have "expansion b p = [While_0]" by (cases p) (simp_all add: expansion_def)
    with False show ?thesis by (intro exI [of _ "[Never, Empty]"]) (simp add: append_eta option.map_comp comp_def)
  qed
  then obtain one where one: "\<And>qs. parse (expansion b p @ Semicolon # qs) = map_option (append one) (parse qs)"
    "\<And>s. exec f one s = (if LF_TRACE b then f (recorded p) s else s)" by blast
  have "written b (p # points) @ ps = expansion b p @ Semicolon # written b points @ ps" by (simp add: written_def)
  then have "parse (written b (p # points) @ ps) = map_option (append (one @ sts)) (parse ps)"
    by (cases "parse ps") (simp_all add: one(1) sts(1))
  moreover have "exec f (one @ sts) s = (if LF_TRACE b then fold f (map recorded (p # points)) s else s)" for s
    by (simp add: exec_append one(2) sts(2))
  ultimately show ?case by blast
qed


text \<open>C24: a tracepoint followed by a semicolon can stand as the then-part of an \<open>if\<close> with an \<open>else\<close>
  only in traced builds, and there only if it is not \<open>tracepoint_scheduler_advancing_time_starts\<close>,
  whose text ends with a semicolon of its own; without tracing every tracepoint is a \<open>while\<close>
  statement and an empty statement, and the \<open>else\<close> has no \<open>if\<close>.\<close>

theorem tracepoint_before_else:
  "parse_if_else (expansion b p @ [Semicolon, Else, Expression c, Semicolon]) =
     (if LF_TRACE b \<and> p \<notin> range Advancing_Time_Starts then Some (Do (recorded p), Do c) else None)"
  by (cases p) (auto simp: parse_if_else_def expansion_def recorded_def)

text \<open>Every build declares each of its names once, and a program that uses the tracepoints, and not the
  library below them, finds the same names in every build.\<close>

lemma interface_names:
  "map fst (declare_as k fs) = fs"
  "map fst (traced_interface b) =
     library_functions @ user_functions @ macro_names @ federate_functions @ rti_functions"
  "map fst silent_interface = user_functions @ rti_functions @ federate_functions @ global_functions @ macro_names"
  by (simp_all add: declare_as_def traced_interface_def silent_interface_def comp_def)

lemmas names_defs = macro_names_def user_functions_def federate_functions_def rti_functions_def
  library_functions_def global_functions_def

lemma trace_interface_names:
  "distinct (map fst (trace_interface b))"
  "set (macro_names @ user_functions @ federate_functions @ rti_functions) \<subseteq> set (map fst (trace_interface b))"
  by (simp_all only: trace_interface_def if_distrib interface_names split: if_split)
     (simp add: names_defs, auto)

text \<open>Which functions reach the library.\<close>

fun reaches_library :: "trace_build \<Rightarrow> trace_function \<Rightarrow> bool" where
  "reaches_library b (Rti_To_Federate e fed t) = rti_trace_defined b"
| "reaches_library b (Rti_From_Federate e fed t) = rti_trace_defined b"
| "reaches_library b (Register_User_Event self description) = LF_TRACE b"
| "reaches_library b (Schedule env trigger delay) = LF_TRACE b"
| "reaches_library b (User_Event self description) = LF_TRACE b"
| "reaches_library b (User_Value self description v) = LF_TRACE b"
| "reaches_library b f = (LF_TRACE b \<and> (federated_defined b \<or> enclaves_defined b))"

text \<open>Which calls of the tracing functions reach the library in which build: the RTI's only with
  \<open>RTI_TRACE\<close>, the federates' only in traced programs that are federated or have enclaves, the others
  in all traced programs.  All other calls leave the state alone, and registering a user event then
  returns 0, the value documented for a full table.\<close>

theorem call_function_outcome:
  "call_function b library f s = (if reaches_library b f then library f s else (inline_result f, s))"
  by (cases f) (simp_all add: call_function_def trace_interface_def traced_interface_def silent_interface_def
      declare_as_def macro_names_def user_functions_def federate_functions_def rti_functions_def
      library_functions_def global_functions_def LF_TRACE_def)

end
