(* ===== verification/Core_Macros.thy ===== *)
theory Core_Macros
  imports Lf_Base
begin

text \<open>
  The macros of \<open>core/utils/util.h\<close> and \<open>core/modal_models/modes.h\<close>.  A macro works on the text of
  its arguments, so the arguments are C expressions, and a macro is a function from expressions
  to expressions: the one the compiler reads after the substitution, with the precedences of C.
  The priority of a reaction, whose level \<open>LF_LEVEL\<close> extracts, comes from
  \<open>lf_combine_deadline_and_level\<close>, which has no body in the repository and is an argument.
\<close>

section \<open>Expressions\<close>

text \<open>
  Expressions on 64-bit integers.  \<open>Post_Increment\<close> stands for arguments with an effect.  Operands
  are evaluated from left to right (C leaves the order open).
\<close>

datatype c_expr =
    Literal int64_t
  | Variable string
  | Post_Increment string
  | Paren c_expr
  | Shift_Left c_expr nat
  | Greater c_expr c_expr
  | Less c_expr c_expr
  | Bit_And c_expr c_expr
  | Bit_Xor c_expr c_expr
  | Bit_Or c_expr c_expr
  | Conditional c_expr c_expr c_expr

type_synonym store = "string \<Rightarrow> int64_t"

fun eval :: "c_expr \<Rightarrow> store \<Rightarrow> int64_t \<times> store" where
  "eval (Literal n) s = (n, s)"
| "eval (Variable x) s = (s x, s)"
| "eval (Post_Increment x) s = (s x, s(x := s x + 1))"
| "eval (Paren e) s = eval e s"
| "eval (Shift_Left e k) s = (let (n, s) = eval e s in (push_bit k n, s))"
| "eval (Greater a b) s = (let (m, s) = eval a s; (n, s) = eval b s in (if sint n < sint m then 1 else 0, s))"
| "eval (Less a b) s = (let (m, s) = eval a s; (n, s) = eval b s in (if sint m < sint n then 1 else 0, s))"
| "eval (Bit_And a b) s = (let (m, s) = eval a s; (n, s) = eval b s in (m AND n, s))"
| "eval (Bit_Xor a b) s = (let (m, s) = eval a s; (n, s) = eval b s in (m XOR n, s))"
| "eval (Bit_Or a b) s = (let (m, s) = eval a s; (n, s) = eval b s in (m OR n, s))"
| "eval (Conditional c a b) s = (let (m, s) = eval c s in if m \<noteq> 0 then eval a s else eval b s)"

section \<open>The macros of util.h\<close>

text \<open>
  The text \<open>e & mask\<close>: operators that bind less than \<open>&\<close> keep their left operand for themselves.
\<close>

fun and_mask :: "c_expr \<Rightarrow> c_expr \<Rightarrow> c_expr" where
  "and_mask (Bit_Or a b) m = Bit_Or a (and_mask b m)"
| "and_mask (Bit_Xor a b) m = Bit_Xor a (and_mask b m)"
| "and_mask (Conditional c a b) m = Conditional c a (and_mask b m)"
| "and_mask e m = Bit_And e m"

definition LF_LEVEL :: "c_expr \<Rightarrow> c_expr" where
  "LF_LEVEL index = Paren (and_mask index (Literal 0xffff))"

definition LF_MAX :: "c_expr \<Rightarrow> c_expr \<Rightarrow> c_expr" where
  "LF_MAX X Y = Paren (Conditional (Paren (Greater (Paren X) (Paren Y))) (Paren X) (Paren Y))"

definition LF_MIN :: "c_expr \<Rightarrow> c_expr \<Rightarrow> c_expr" where
  "LF_MIN X Y = Paren (Conditional (Paren (Less (Paren X) (Paren Y))) (Paren X) (Paren Y))"

text \<open>\<open>CONCATENATE_THREE_STRINGS\<close>: adjacent string literals are one.\<close>

definition CONCATENATE_THREE_STRINGS :: "string \<Rightarrow> string \<Rightarrow> string \<Rightarrow> string" where
  "CONCATENATE_THREE_STRINGS string1 string2 string3 = string1 @ string2 @ string3"

text \<open>
  The ID of the federate, a \<open>uint16_t\<close>: what \<open>lf_fed_id\<close> returns when \<open>_lf_my_fed_id\<close> was given an
  ID, and its value in a comparison, where it is promoted to \<open>int\<close>.
\<close>

definition lf_my_fed_id :: "int \<Rightarrow> uint16_t" where
  "lf_my_fed_id i = word_of_int i"

definition promoted :: "uint16_t \<Rightarrow> int" where
  "promoted i = uint i"

section \<open>The mode of a reactor\<close>

datatype mode_change = no_transition | reset_transition | history_transition

record 'm mode_state =
  parent_mode :: "'m option"
  initial_mode :: "'m option"
  current_mode :: "'m option"
  next_mode :: "'m option"
  mode_change :: mode_change

definition LF_SET_MODE_WITH_TYPE :: "'m \<Rightarrow> mode_change \<Rightarrow> 'm mode_state \<Rightarrow> 'm mode_state" where
  "LF_SET_MODE_WITH_TYPE mode change s = s\<lparr>next_mode := Some mode, mode_change := change\<rparr>"

text \<open>\<open>lf_set_mode(mode)\<close> takes the type of the change from the variable \<open>_lf_<mode>_change_type\<close> of the reaction.\<close>

definition change_type_variable :: "string \<Rightarrow> string" where
  "change_type_variable mode = ''_lf_'' @ mode @ ''_change_type''"

definition lf_set_mode :: "(string \<Rightarrow> mode_change) \<Rightarrow> string \<Rightarrow> string mode_state \<Rightarrow> string mode_state" where
  "lf_set_mode variables mode = LF_SET_MODE_WITH_TYPE mode (variables (change_type_variable mode))"

section \<open>Properties\<close>

text \<open>Arguments that the text around them cannot take apart.\<close>

fun binds_tighter :: "c_expr \<Rightarrow> bool" where
  "binds_tighter (Bit_Or a b) = False"
| "binds_tighter (Bit_Xor a b) = False"
| "binds_tighter (Conditional c a b) = False"
| "binds_tighter e = True"

lemma and_mask_tight: "binds_tighter e \<Longrightarrow> and_mask e m = Bit_And e m"
  by (cases e) simp_all

fun no_effect :: "c_expr \<Rightarrow> bool" where
  "no_effect (Post_Increment x) = False"
| "no_effect (Paren e) = no_effect e"
| "no_effect (Shift_Left e k) = no_effect e"
| "no_effect (Greater a b) = (no_effect a \<and> no_effect b)"
| "no_effect (Less a b) = (no_effect a \<and> no_effect b)"
| "no_effect (Bit_And a b) = (no_effect a \<and> no_effect b)"
| "no_effect (Bit_Xor a b) = (no_effect a \<and> no_effect b)"
| "no_effect (Bit_Or a b) = (no_effect a \<and> no_effect b)"
| "no_effect (Conditional c a b) = (no_effect c \<and> no_effect a \<and> no_effect b)"
| "no_effect e = True"

lemma no_effect_keeps_store: "no_effect e \<Longrightarrow> snd (eval e s) = s"
  by (induction e arbitrary: s) (auto simp: case_prod_beta Let_def)

text \<open>\<open>LF_MAX\<close> and \<open>LF_MIN\<close> of arguments without effects are the signed maximum and minimum, and have
  no effect; an argument with an effect that is chosen has it twice.\<close>

theorem max_min_macros:
  assumes "no_effect X" and "no_effect Y"
  shows "sint (fst (eval (LF_MAX X Y) s)) = max (sint (fst (eval X s))) (sint (fst (eval Y s))) \<and>
    sint (fst (eval (LF_MIN X Y) s)) = min (sint (fst (eval X s))) (sint (fst (eval Y s))) \<and>
    snd (eval (LF_MAX X Y) s) = s \<and> snd (eval (LF_MIN X Y) s) = s"
  using assms by (auto simp: LF_MAX_def LF_MIN_def Let_def case_prod_beta no_effect_keeps_store)

theorem max_min_macros_witness:
  "sint (fst (eval (LF_MAX (Literal (-3)) (Variable ''x'')) (\<lambda>_. 5))) = 5"
  using max_min_macros [of "Literal (-3)" "Variable ''x''" "\<lambda>_. 5"] by simp

lemma LF_MAX_effect_twice:
  "eval (LF_MAX (Post_Increment ''i'') (Literal 0)) ((\<lambda>_. 0)(''i'' := 7)) = (8, (\<lambda>_. 0)(''i'' := 9))"
  by (auto simp: LF_MAX_def fun_eq_iff)

text \<open>The level of a reaction.\<close>

lemma low_16_bits: "(n :: int64_t) AND 0xffff = take_bit 16 n"
  by (simp add: take_bit_eq_mask mask_eq_exp_minus_1)

lemma level_of_tight:
  "binds_tighter e \<Longrightarrow> fst (eval (LF_LEVEL e) s) = take_bit 16 (fst (eval e s))"
  by (simp add: LF_LEVEL_def and_mask_tight case_prod_beta Let_def low_16_bits)

lemma level_of_or:
  "no_effect a \<Longrightarrow> binds_tighter b \<Longrightarrow>
     fst (eval (LF_LEVEL (Bit_Or a b)) s) = fst (eval a s) OR take_bit 16 (fst (eval b s))"
  by (simp add: LF_LEVEL_def and_mask_tight case_prod_beta Let_def low_16_bits no_effect_keeps_store)

text \<open>The priority of a reaction as the headers document it: the deadline, at most \<open>ULLONG_MAX >> 16\<close>, above
  the 16 bits of the level.\<close>

definition largest_deadline :: "64 word" where
  "largest_deadline = drop_bit 16 (- 1)"

definition documented_priority :: "64 word \<Rightarrow> 64 word \<Rightarrow> 64 word" where
  "documented_priority deadline level = push_bit 16 (min deadline largest_deadline) OR take_bit 16 level"

lemma unat_documented_priority:
  "unat (documented_priority d l) = unat (min d largest_deadline) * 2 ^ 16 + unat l mod 2 ^ 16"
proof -
  have bound: "unat (min d largest_deadline) < 2 ^ 48"
    by (simp add: min_def largest_deadline_def word_le_nat_alt unsigned_drop_bit_eq drop_bit_eq_div)
  have "push_bit 16 (unat (min d largest_deadline)) OR take_bit 16 (unat l) =
      push_bit 16 (unat (min d largest_deadline)) + take_bit 16 (unat l)"
    by (rule disjunctive_add_eq_or [symmetric]) (auto simp: bit_eq_iff bit_simps)
  moreover have "take_bit 64 (push_bit 16 (unat (min d largest_deadline))) = push_bit 16 (unat (min d largest_deadline))"
    using bound by (simp add: push_bit_eq_mult take_bit_eq_mod)
  moreover have width: "LENGTH(64) = 64" by simp
  have "unat (documented_priority d l) =
      take_bit 64 (push_bit 16 (unat (min d largest_deadline))) OR take_bit 16 (unat l)"
    by (simp only: documented_priority_def unsigned_or_eq unsigned_push_bit_eq unsigned_take_bit_eq
        width)
  ultimately show ?thesis by (simp only: push_bit_eq_mult take_bit_eq_mod)
qed

lemma lexicographic_below:
  fixes a b x y :: nat
  assumes "x < n" and "y < n"
  shows "a * n + x < b * n + y \<longleftrightarrow> a < b \<or> a = b \<and> x < y"
proof -
  have less: "a * n + x < b * n" if "a < b" "x < n" for a b x :: nat
  proof -
    from \<open>a < b\<close> obtain k where "b = Suc (a + k)" using less_imp_Suc_add by blast
    with \<open>x < n\<close> show ?thesis by (simp add: algebra_simps)
  qed
  show ?thesis
    using less [of a b x] less [of b a y] assms by (cases a b rule: linorder_cases) auto
qed

text \<open>if \<open>lf_combine_deadline_and_level\<close> computes the documented priority, then \<open>LF_LEVEL\<close> applied
  to the index of a reaction gives back its level, and the order of the indexes is the one by
  deadline first and by level second, for all levels below 65536 and deadlines capped at
  \<open>ULLONG_MAX >> 16\<close>; but \<open>LF_LEVEL\<close> applied to the expression of an index, spelled with \<open>|\<close>, does
  not mask the deadline, because the macro has no parentheses around its argument.\<close>

theorem reaction_priorities:
  assumes "\<And>d l. combine d l = documented_priority d l"
    and "unat l < 2 ^ 16" and "unat l' < 2 ^ 16"
  shows "fst (eval (LF_LEVEL (Literal (combine d l))) s) = l \<and>
    (combine d l < combine d' l' \<longleftrightarrow>
       min d largest_deadline < min d' largest_deadline \<or>
       min d largest_deadline = min d' largest_deadline \<and> l < l') \<and>
    fst (eval (LF_LEVEL (Bit_Or (Shift_Left (Literal d) 16) (Literal l))) s) = push_bit 16 d OR l"
proof -
  have level: "take_bit 16 l = l"
    using assms(2) by (simp only: word_unat_eq_iff unsigned_take_bit_eq) (simp add: take_bit_eq_mod)
  have "take_bit 16 (documented_priority d l) = take_bit 16 l"
    by (auto simp: documented_priority_def bit_eq_iff bit_simps)
  moreover have "combine d l < combine d' l' \<longleftrightarrow>
      unat (min d largest_deadline) < unat (min d' largest_deadline) \<or>
      unat (min d largest_deadline) = unat (min d' largest_deadline) \<and> unat l < unat l'"
    using assms(2,3) by (simp only: assms(1) word_less_nat_alt unat_documented_priority)
      (simp only: lexicographic_below mod_less)
  moreover have "fst (eval (LF_LEVEL (Bit_Or (Shift_Left (Literal d) 16) (Literal l))) s) = push_bit 16 d OR l"
    by (simp only: level_of_or no_effect.simps binds_tighter.simps eval.simps Let_def prod.case fst_conv level)
  ultimately show ?thesis
    using level by (simp only: assms(1) level_of_tight binds_tighter.simps eval.simps fst_conv word_less_nat_alt word_unat_eq_iff)
qed

theorem reaction_priorities_witness:
  "fst (eval (LF_LEVEL (Literal (documented_priority 9 3))) (\<lambda>_. 0)) = 3 \<and>
   documented_priority 9 3 < documented_priority 10 2"
  using reaction_priorities [of documented_priority 3 2 9 "\<lambda>_. 0" 10]
  by (simp add: min_def largest_deadline_def word_less_nat_alt word_le_nat_alt unsigned_drop_bit_eq
      unsigned_minus_1_eq_mask mask_eq_exp_minus_1 drop_bit_eq_div)

text \<open>The ID of a program that is not federated: the headers say -1, but the type is unsigned.\<close>

lemma federate_id_minus_one: "promoted (lf_my_fed_id (- 1)) = 65535"
  by (simp add: promoted_def lf_my_fed_id_def unsigned_minus_1_eq_mask mask_eq_exp_minus_1)

lemma federate_ids_promoted: "0 \<le> i \<Longrightarrow> i < 65535 \<Longrightarrow> promoted (lf_my_fed_id i) = i"
  by (simp add: promoted_def lf_my_fed_id_def unsigned_of_int take_bit_int_eq_self)

text \<open>Of several mode changes at a tag the last one has effect, and the mode itself stays as it is.\<close>

lemma last_mode_change:
  "fold (lf_set_mode variables) (modes @ [m]) s =
     s\<lparr>next_mode := Some m, mode_change := variables (change_type_variable m)\<rparr>"
proof (induction modes arbitrary: s)
  case (Cons m' modes)
  show ?case using Cons.IH [of "lf_set_mode variables m' s"] by (simp add: lf_set_mode_def LF_SET_MODE_WITH_TYPE_def)
qed (simp add: lf_set_mode_def LF_SET_MODE_WITH_TYPE_def)

end
