(* ===== verification/Carla_Lifecycle.thy ===== *)
theory Carla_Lifecycle
  imports Lf_Base
begin

text \<open>
  Life cycle of \<open>CarlaBridge\<close> (\<open>lf-src/carla_interface/carla_bridge.py\<close>): \<open>initialize\<close> acquires
  the ROS interface, the ego vehicle and the sensors one after the other, \<open>cleanup\<close> releases what
  was acquired.  The simulator and the ROS interface are third-party, so which of their calls
  raise an exception, and what they return, is an argument.  An operation runs on the attributes
  of the object together with the list of calls made so far, and returns or raises.
\<close>

section \<open>Calls, exceptions and attributes\<close>

datatype carla_call =
    Ros2_Interface
  | Client
  | Set_Timeout
  | Load_World
  | Get_World
  | Get_Settings
  | Apply_Settings
  | Provider_Set_World
  | Provider_Set_Client
  | Request_New_Actor
  | Get_Physics_Control
  | Make_Sensor_Wrapper
  | Setup_Sensors
  | Get_Trafficmanager
  | Tm_Synchronous
  | Tm_Seed
  | Get_Spawn_Points
  | Get_Blueprints
  | Try_Spawn nat
  | Set_Autopilot nat
  | World_Tick
  | Apply_Control
  | Get_Snapshot
  | Game_Time_On_Tick
  | Provider_On_Tick
  | Get_Data
  | Run_Step
  | Sensor_Cleanup
  | Interface_Shutdown
  | Ego_Destroy
  | Provider_Cleanup

datatype py_exception = Library_Error carla_call | Value_Error | Attribute_Error | Index_Error

text \<open>What the libraries do: the calls that raise, and the values the code branches on.\<close>

record simulator =
  raises :: "carla_call \<Rightarrow> bool"
  actor_granted :: bool
  spawn_points :: nat
  blueprints_found :: bool
  vehicle_spawned :: "nat \<Rightarrow> bool"

text \<open>The attributes of the object, as the tests of \<open>cleanup\<close> see them, and the calls.\<close>

record bridge_object =
  has_world :: bool
  has_interface :: bool
  has_ego_actor :: bool
  has_sensor_wrapper :: bool
  log :: "carla_call list"

type_synonym 'a py = "bridge_object \<Rightarrow> (py_exception + 'a) \<times> bridge_object"

definition py_return :: "'a \<Rightarrow> 'a py" where
  "py_return x s = (Inr x, s)"

definition py_raise :: "py_exception \<Rightarrow> 'a py" where
  "py_raise e s = (Inl e, s)"

definition py_bind :: "'a py \<Rightarrow> ('a \<Rightarrow> 'b py) \<Rightarrow> 'b py" where
  "py_bind m f s = (case m s of (Inl e, s') \<Rightarrow> (Inl e, s') | (Inr x, s') \<Rightarrow> f x s')"

text \<open>A statement after another, and \<open>try: ... except Exception: print(...)\<close>.\<close>

definition py_seq :: "unit py \<Rightarrow> 'b py \<Rightarrow> 'b py" where
  "py_seq m k = py_bind m (\<lambda>_. k)"

fun py_block :: "unit py list \<Rightarrow> unit py" where
  "py_block [] = py_return ()"
| "py_block (m # ms) = py_seq m (py_block ms)"

definition py_try :: "unit py \<Rightarrow> unit py" where
  "py_try m s = (Inr (), snd (m s))"

definition py_when :: "bool \<Rightarrow> unit py \<Rightarrow> unit py" where
  "py_when b m = (if b then m else py_return ())"

definition py_get :: "(bridge_object \<Rightarrow> 'a) \<Rightarrow> ('a \<Rightarrow> 'b py) \<Rightarrow> 'b py" where
  "py_get f k s = k (f s) s"

definition py_assign :: "(bridge_object \<Rightarrow> bridge_object) \<Rightarrow> unit py" where
  "py_assign f s = (Inr (), f s)"

definition call :: "simulator \<Rightarrow> carla_call \<Rightarrow> unit py" where
  "call sim c s =
     (if raises sim c then Inl (Library_Error c) else Inr (), s\<lparr>log := log s @ [c]\<rparr>)"

section \<open>Spawn point\<close>

record 'r transform =
  loc_x :: 'r
  loc_y :: 'r
  loc_z :: 'r
  roll :: 'r
  pitch :: 'r
  yaw :: 'r

fun split_commas :: "string \<Rightarrow> string list" where
  "split_commas [] = [[]]"
| "split_commas (c # cs) =
     (if c = CHR '','' then [] # split_commas cs
      else (case split_commas cs of [] \<Rightarrow> [[c]] | w # ws \<Rightarrow> (c # w) # ws))"

text \<open>\<open>float(...)\<close> is an argument: \<open>None\<close> is its ValueError.\<close>

definition parse_spawn_point ::
    "(string \<Rightarrow> 'r::numeral option) \<Rightarrow> 'r transform \<Rightarrow> string \<Rightarrow> py_exception + 'r transform" where
  "parse_spawn_point float origin spawn_str =
     (if spawn_str \<noteq> [] \<and> spawn_str \<noteq> ''None''
      then (case split_commas spawn_str of
              [x, y, z, ro, pi, ya] \<Rightarrow>
                (case those (map float [x, y, z, ro, pi, ya]) of
                   Some [x, y, z, ro, pi, ya] \<Rightarrow>
                     Inr \<lparr>loc_x = x, loc_y = y, loc_z = z + 2, roll = ro, pitch = pi, yaw = ya\<rparr>
                 | _ \<Rightarrow> Inl Value_Error)
            | _ \<Rightarrow> Inr origin)
      else Inr origin)"

section \<open>Traffic manager\<close>

text \<open>One vehicle per sampled spawn point, at most 30; an unspawned one is skipped.\<close>

definition spawn_vehicle :: "simulator \<Rightarrow> nat \<Rightarrow> unit py" where
  "spawn_vehicle sim i =
     py_seq (py_when (\<not> blueprints_found sim) (py_raise Index_Error))
    (py_seq (call sim (Try_Spawn i))
            (py_when (vehicle_spawned sim i) (call sim (Set_Autopilot i))))"

definition setup_traffic_manager :: "simulator \<Rightarrow> unit py" where
  "setup_traffic_manager sim =
     py_block ([call sim Get_Trafficmanager, call sim Tm_Synchronous, call sim Tm_Seed,
       call sim Get_Spawn_Points, call sim Get_Blueprints] @
       map (spawn_vehicle sim) [0..<min 30 (spawn_points sim)])"

section \<open>Initialisation and clean-up\<close>

definition bridge_object_new :: bridge_object where
  "bridge_object_new =
     \<lparr>has_world = False, has_interface = False, has_ego_actor = False, has_sensor_wrapper = False,
      log = []\<rparr>"

definition initialize ::
    "simulator \<Rightarrow> (string \<Rightarrow> 'r::numeral option) \<Rightarrow> 'r transform \<Rightarrow> string \<Rightarrow> bool \<Rightarrow> unit py" where
  "initialize sim float origin spawn_point use_traffic_manager =
     py_block
      [call sim Ros2_Interface, py_assign (\<lambda>s. s\<lparr>has_interface := True\<rparr>),
       call sim Client, call sim Set_Timeout, call sim Load_World,
       call sim Get_World, py_assign (\<lambda>s. s\<lparr>has_world := True\<rparr>),
       call sim Get_Settings, call sim Apply_Settings,
       call sim Provider_Set_World, call sim Provider_Set_Client,
       (case parse_spawn_point float origin spawn_point of
          Inl e \<Rightarrow> py_raise e | Inr transform \<Rightarrow> py_return ()),
       call sim Request_New_Actor, py_assign (\<lambda>s. s\<lparr>has_ego_actor := actor_granted sim\<rparr>),
       py_when (\<not> actor_granted sim) (py_raise Attribute_Error), call sim Get_Physics_Control,
       call sim Make_Sensor_Wrapper, py_assign (\<lambda>s. s\<lparr>has_sensor_wrapper := True\<rparr>),
       call sim Setup_Sensors,
       py_when use_traffic_manager (setup_traffic_manager sim),
       call sim World_Tick]"

definition cleanup :: "simulator \<Rightarrow> unit py" where
  "cleanup sim =
     py_block
      [py_get has_sensor_wrapper (\<lambda>b. py_when b (py_try (call sim Sensor_Cleanup))),
       py_get has_interface (\<lambda>b. py_when b (py_try (call sim Interface_Shutdown))),
       py_get has_ego_actor (\<lambda>b. py_when b (py_try (call sim Ego_Destroy))),
       py_try (call sim Provider_Cleanup)]"

text \<open>One step of the simulation; the frame count and the data are in theory \<open>Carla_Loop\<close>.\<close>

definition step_calls :: "simulator \<Rightarrow> unit py" where
  "step_calls sim =
     py_block
      [py_get has_ego_actor (\<lambda>b. py_when (\<not> b) (py_raise Attribute_Error)), call sim Apply_Control,
       call sim World_Tick, call sim Get_Snapshot, call sim Game_Time_On_Tick, call sim Provider_On_Tick,
       call sim Get_Data, call sim Run_Step]"

lemmas py_defs = py_return_def py_raise_def py_bind_def py_seq_def py_try_def py_when_def py_get_def
  py_assign_def call_def

text \<open>What \<open>cleanup\<close> does, whatever raises.\<close>

definition releases :: "bridge_object \<Rightarrow> carla_call list" where
  "releases s =
     (if has_sensor_wrapper s then [Sensor_Cleanup] else []) @
     (if has_interface s then [Interface_Shutdown] else []) @
     (if has_ego_actor s then [Ego_Destroy] else []) @ [Provider_Cleanup]"

lemma cleanup_effect: "cleanup sim s = (Inr (), s\<lparr>log := log s @ releases s\<rparr>)"
  by (cases s) (simp add: cleanup_def releases_def py_defs)

section \<open>Invariant of initialisation\<close>

text \<open>
  An attribute is set exactly when its constructor is among the calls made and returned; no
  release has been called.
\<close>

definition acquired :: "simulator \<Rightarrow> bridge_object \<Rightarrow> bool" where
  "acquired sim s \<longleftrightarrow>
     (has_interface s \<longleftrightarrow> Ros2_Interface \<in> set (log s) \<and> \<not> raises sim Ros2_Interface) \<and>
     (has_ego_actor s \<longleftrightarrow> Request_New_Actor \<in> set (log s) \<and> \<not> raises sim Request_New_Actor \<and> actor_granted sim) \<and>
     (has_sensor_wrapper s \<longleftrightarrow> Make_Sensor_Wrapper \<in> set (log s) \<and> \<not> raises sim Make_Sensor_Wrapper) \<and>
     set (log s) \<inter> {Sensor_Cleanup, Interface_Shutdown, Ego_Destroy, Provider_Cleanup} = {}"

definition resource_calls :: "carla_call set" where
  "resource_calls = {Ros2_Interface, Request_New_Actor, Make_Sensor_Wrapper, Sensor_Cleanup,
     Interface_Shutdown, Ego_Destroy, Provider_Cleanup}"

text \<open>\<open>keeps P m\<close>: \<open>m\<close> keeps \<open>P\<close>, whether it returns or raises.\<close>

definition keeps :: "(bridge_object \<Rightarrow> bool) \<Rightarrow> 'a py \<Rightarrow> bool" where
  "keeps P m \<longleftrightarrow> (\<forall>s. P s \<longrightarrow> P (snd (m s)))"

named_theorems keeps_intros "operations that keep a predicate"

lemma keeps_return [keeps_intros]: "keeps P (py_return x)"
  by (simp add: keeps_def py_return_def)

lemma keeps_raise [keeps_intros]: "keeps P (py_raise e)"
  by (simp add: keeps_def py_raise_def)

lemma keeps_seq [keeps_intros]: "keeps P m \<Longrightarrow> keeps P k \<Longrightarrow> keeps P (py_seq m k)"
  by (fastforce simp: keeps_def py_seq_def py_bind_def split: prod.splits sum.splits)

lemma keeps_when [keeps_intros]: "keeps P m \<Longrightarrow> keeps P (py_when b m)"
  by (simp add: py_when_def keeps_return)

lemma keeps_block: "(\<And>m. m \<in> set ms \<Longrightarrow> keeps P m) \<Longrightarrow> keeps P (py_block ms)"
  by (induction ms) (simp_all add: keeps_return keeps_seq)

lemma keeps_call [keeps_intros]: "c \<notin> resource_calls \<Longrightarrow> keeps (acquired sim) (call sim c)"
  by (auto simp: keeps_def call_def acquired_def resource_calls_def)

lemma keeps_setup_traffic_manager [keeps_intros]: "keeps (acquired sim) (setup_traffic_manager sim)"
  unfolding setup_traffic_manager_def spawn_vehicle_def
  by (rule keeps_block) (auto intro!: keeps_intros simp: resource_calls_def)

text \<open>A constructor and the assignment of its result are taken together.\<close>

lemma keeps_acquire [keeps_intros]:
  assumes "keeps (acquired sim) k"
  shows "keeps (acquired sim) (py_seq (call sim Get_World)
      (py_seq (py_assign (\<lambda>s. s\<lparr>has_world := True\<rparr>)) k))"
    and "keeps (acquired sim) (py_seq (call sim Ros2_Interface)
      (py_seq (py_assign (\<lambda>s. s\<lparr>has_interface := True\<rparr>)) k))"
    and "keeps (acquired sim) (py_seq (call sim Request_New_Actor)
      (py_seq (py_assign (\<lambda>s. s\<lparr>has_ego_actor := actor_granted sim\<rparr>)) k))"
    and "keeps (acquired sim) (py_seq (call sim Make_Sensor_Wrapper)
      (py_seq (py_assign (\<lambda>s. s\<lparr>has_sensor_wrapper := True\<rparr>)) k))"
  using assms by (auto simp: keeps_def acquired_def py_defs)

lemma initialize_acquires:
  "keeps (acquired sim) (initialize sim float origin spawn_point use_traffic_manager)"
  unfolding initialize_def py_block.simps
  by (intro keeps_intros) (auto intro!: keeps_intros simp: resource_calls_def split: sum.split)

lemma keeps_get [keeps_intros]: "(\<And>x. keeps P (k x)) \<Longrightarrow> keeps P (py_get f k)"
  by (simp add: keeps_def py_get_def)

lemma step_calls_acquires: "keeps (acquired sim) (step_calls sim)"
  unfolding step_calls_def
  by (rule keeps_block) (auto intro!: keeps_intros simp: resource_calls_def)

section \<open>Runs in which nothing raises\<close>

definition quiet :: "simulator \<Rightarrow> bool" where
  "quiet sim \<longleftrightarrow> (\<forall>c. \<not> raises sim c)"

lemma quiet_call: "quiet sim \<Longrightarrow> call sim c s = (Inr (), s\<lparr>log := log s @ [c]\<rparr>)"
  by (simp add: quiet_def call_def)

text \<open>The calls for the \<open>i\<close>-th vehicle of the traffic manager.\<close>

definition vehicle_calls :: "simulator \<Rightarrow> nat \<Rightarrow> carla_call list" where
  "vehicle_calls sim i = Try_Spawn i # (if vehicle_spawned sim i then [Set_Autopilot i] else [])"

lemma quiet_spawn_vehicle:
  "quiet sim \<Longrightarrow> blueprints_found sim \<Longrightarrow>
   spawn_vehicle sim i s = (Inr (), s\<lparr>log := log s @ vehicle_calls sim i\<rparr>)"
  by (simp add: spawn_vehicle_def vehicle_calls_def py_seq_def py_bind_def py_when_def py_return_def
      quiet_call)

lemma quiet_spawn_vehicles:
  assumes "quiet sim" and "blueprints_found sim"
  shows "py_block (map (spawn_vehicle sim) is) s =
    (Inr (), s\<lparr>log := log s @ concat (map (vehicle_calls sim) is)\<rparr>)"
  by (induction "is" arbitrary: s)
    (simp_all add: py_seq_def py_bind_def py_return_def quiet_spawn_vehicle [OF assms])

lemma quiet_setup_traffic_manager:
  assumes "quiet sim" and "blueprints_found sim"
  shows "setup_traffic_manager sim s = (Inr (), s\<lparr>log := log s @
    [Get_Trafficmanager, Tm_Synchronous, Tm_Seed, Get_Spawn_Points, Get_Blueprints] @
    concat (map (vehicle_calls sim) [0..<min 30 (spawn_points sim)])\<rparr>)"
  by (simp add: setup_traffic_manager_def py_seq_def py_bind_def quiet_call [OF assms(1)]
      quiet_spawn_vehicles [OF assms])

section \<open>Items of a spawn point\<close>

fun join_commas :: "string list \<Rightarrow> string" where
  "join_commas [] = []"
| "join_commas [w] = w"
| "join_commas (w # ws) = w @ CHR '','' # join_commas ws"

lemma split_commas_item: "CHR '','' \<notin> set w \<Longrightarrow> split_commas w = [w]"
  by (induction w) auto

lemma split_commas_append:
  "CHR '','' \<notin> set w \<Longrightarrow> split_commas (w @ CHR '','' # cs) = w # split_commas cs"
  by (induction w) auto

lemma split_join_commas:
  "ws \<noteq> [] \<Longrightarrow> \<forall>w \<in> set ws. CHR '','' \<notin> set w \<Longrightarrow> split_commas (join_commas ws) = ws"
  by (induction ws rule: join_commas.induct) (simp_all add: split_commas_item split_commas_append)

section \<open>Properties\<close>

text \<open>The clean-up releases exactly what the initialisation acquired, whatever goes wrong.  For
  every pattern of calls that raise, before and during the clean-up, and every configuration, the
  clean-up after an initialisation that returned or raised does not raise; it shuts down the
  sensors, the ROS interface and the ego vehicle exactly when their constructors had returned one,
  in this order, and then the data provider.\<close>

theorem cleanup_releases_what_was_acquired:
  "let (result, s) = initialize sim float origin spawn_point use_tm bridge_object_new;
       (result', s') = cleanup sim' s in
   result' = Inr () \<and>
   log s' = log s @
     (if Make_Sensor_Wrapper \<in> set (log s) \<and> \<not> raises sim Make_Sensor_Wrapper then [Sensor_Cleanup] else []) @
     (if Ros2_Interface \<in> set (log s) \<and> \<not> raises sim Ros2_Interface then [Interface_Shutdown] else []) @
     (if Request_New_Actor \<in> set (log s) \<and> \<not> raises sim Request_New_Actor \<and> actor_granted sim
      then [Ego_Destroy] else []) @ [Provider_Cleanup]"
proof -
  have "acquired sim bridge_object_new" by (simp add: acquired_def bridge_object_new_def)
  then have "acquired sim (snd (initialize sim float origin spawn_point use_tm bridge_object_new))"
    using initialize_acquires [of sim float origin spawn_point use_tm] by (simp add: keeps_def)
  then show ?thesis
    by (simp add: case_prod_beta Let_def cleanup_effect releases_def acquired_def)
qed

text \<open>An initialisation in which no library call raises, the vehicle is granted and the spawn
  point is readable returns with every attribute set, after the calls in the order of the code:
  in particular the synchronous mode is set before the vehicle exists, the world ticks once, at
  the end, and the traffic manager, when asked for, tries at most 30 vehicles and puts on
  autopilot exactly those that were spawned.\<close>

theorem initialize_calls:
  assumes "quiet sim" and "actor_granted sim" and "blueprints_found sim"
    and "parse_spawn_point float origin spawn_point = Inr transform"
  shows "initialize sim float origin spawn_point use_tm bridge_object_new =
    (Inr (), \<lparr>has_world = True, has_interface = True, has_ego_actor = True, has_sensor_wrapper = True,
      log = [Ros2_Interface, Client, Set_Timeout, Load_World, Get_World, Get_Settings, Apply_Settings,
          Provider_Set_World, Provider_Set_Client, Request_New_Actor, Get_Physics_Control,
          Make_Sensor_Wrapper, Setup_Sensors] @
        (if use_tm
         then [Get_Trafficmanager, Tm_Synchronous, Tm_Seed, Get_Spawn_Points, Get_Blueprints] @
           concat (map (vehicle_calls sim) [0..<min 30 (spawn_points sim)])
         else []) @ [World_Tick]\<rparr>)"
  by (simp add: initialize_def assms py_seq_def py_bind_def py_assign_def py_when_def py_return_def
      quiet_call quiet_setup_traffic_manager bridge_object_new_def)

definition sample_simulator :: simulator where
  "sample_simulator =
     \<lparr>raises = (\<lambda>c. False), actor_granted = True, spawn_points = 2, blueprints_found = True,
      vehicle_spawned = (\<lambda>i. i = 0)\<rparr>"

theorem initialize_calls_witness:
  "drop 18 (log (snd (initialize sample_simulator (\<lambda>s. None)
     \<lparr>loc_x = 0 :: int, loc_y = 0, loc_z = 0, roll = 0, pitch = 0, yaw = 0\<rparr> ''None'' True bridge_object_new))) =
   [Try_Spawn 0, Set_Autopilot 0, Try_Spawn 1, World_Tick]"
proof -
  have "quiet sample_simulator" "actor_granted sample_simulator" "blueprints_found sample_simulator"
    "spawn_points sample_simulator = 2"
    by (simp_all add: quiet_def sample_simulator_def)
  moreover have "[0..<2] = [0, 1 :: nat]" by (simp add: numeral_2_eq_2)
  ultimately show ?thesis
    by (subst initialize_calls) (auto simp: parse_spawn_point_def vehicle_calls_def sample_simulator_def)
qed

text \<open>C38: A spawn point of items without commas is read item by item: with six items, each through
  \<open>float\<close>, with 2 added to the height, or a ValueError when one of them is no number; with any
  other number of items it is ignored, whatever they are, and the vehicle spawns at the origin of
  a fresh transform.\<close>

theorem parse_spawn_point_items:
  assumes "ws \<noteq> []" and "\<forall>w \<in> set ws. CHR '','' \<notin> set w"
  shows "parse_spawn_point float origin (join_commas ws) =
    (case (ws, map float ws) of
       ([_, _, _, _, _, _], [Some x, Some y, Some z, Some ro, Some pi, Some ya]) \<Rightarrow>
         Inr \<lparr>loc_x = x, loc_y = y, loc_z = z + 2, roll = ro, pitch = pi, yaw = ya\<rparr>
     | ([_, _, _, _, _, _], _) \<Rightarrow> Inl Value_Error
     | _ \<Rightarrow> Inr origin)"
proof -
  have items: "split_commas (join_commas ws) = ws" by (rule split_join_commas [OF assms])
  then have "join_commas ws \<noteq> [] \<and> join_commas ws \<noteq> ''None''" if "length ws = 6"
    using that by (auto simp: split_commas.simps)
  then show ?thesis
    using items by (auto simp: parse_spawn_point_def split: list.splits option.splits)
qed

definition sample_origin :: "int transform" where
  "sample_origin = \<lparr>loc_x = 0, loc_y = 0, loc_z = 0, roll = 0, pitch = 0, yaw = 0\<rparr>"

theorem parse_spawn_point_items_witness:
  "parse_spawn_point (\<lambda>s. Some (int (length s))) sample_origin ''1,22,333,4,5,6'' =
    Inr \<lparr>loc_x = 1, loc_y = 2, loc_z = 5, roll = 1, pitch = 1, yaw = 1\<rparr> \<and>
   parse_spawn_point (\<lambda>s. Some (int (length s))) sample_origin ''1,2'' = Inr sample_origin"
  using parse_spawn_point_items [of "[''1'', ''22'', ''333'', ''4'', ''5'', ''6'']" "\<lambda>s. Some (int (length s))" sample_origin]
    parse_spawn_point_items [of "[''1'', ''2'']" "\<lambda>s. Some (int (length s))" sample_origin]
  by simp

end
