(* ===== verification/Carla_Loop.thy ===== *)
theory Carla_Loop
  imports Carla_Lifecycle
begin

text \<open>
  The CARLA federate while it runs (\<open>carla_interface/CarlaInterface.lf\<close>, the same reactors in
  \<open>federate__ci.lf\<close>, and \<open>carla_bridge.py\<close>): the reactor Carla steps the simulator, the reactor
  ControlBridge answers every sensor tick with a control command, and the connection back to
  Carla has the delay "after 0".

  The simulator and its ROS interface are third-party: which of their calls raises an exception is
  an argument, a function of the calls made before, and \<open>run_step\<close> is what the interface returns
  as the next control, a function of the number of the frame.  The start is the one of
  \<open>Carla_Lifecycle\<close>; here it has returned, so that there is a vehicle.
\<close>

section \<open>CarlaBridge\<close>

text \<open>\<open>made\<close> are the calls of the libraries so far, \<open>applied\<close> the controls given to the vehicle and
  \<open>overrides\<close> those given to \<open>CarlaBridge.apply_control\<close>.\<close>

record 'ctl carla_bridge =
  current_control :: 'ctl
  frame_count :: int
  made :: "carla_call list"
  applied :: "'ctl list"
  overrides :: "'ctl list"

type_synonym 'ctl statements = "'ctl carla_bridge \<Rightarrow> (py_exception + unit) \<times> 'ctl carla_bridge"

definition attempt :: "(carla_call list \<Rightarrow> carla_call \<Rightarrow> bool) \<Rightarrow> carla_call \<Rightarrow> 'ctl statements" where
  "attempt raising c b =
     (if raising (made b) c then Inl (Library_Error c) else Inr (), b\<lparr>made := made b @ [c]\<rparr>)"

definition update :: "('ctl carla_bridge \<Rightarrow> 'ctl carla_bridge) \<Rightarrow> 'ctl statements" where
  "update f b = (Inr (), f b)"

fun statements :: "'ctl statements list \<Rightarrow> 'ctl statements" where
  "statements [] b = (Inr (), b)"
| "statements (m # ms) b = (case m b of (Inl e, b') \<Rightarrow> (Inl e, b') | (Inr x, b') \<Rightarrow> statements ms b')"

definition bridge_step :: "(carla_call list \<Rightarrow> carla_call \<Rightarrow> bool) \<Rightarrow> (int \<Rightarrow> 'ctl) \<Rightarrow> 'ctl statements" where
  "bridge_step raising run_step =
     statements
      [attempt raising Apply_Control, update (\<lambda>b. b\<lparr>applied := applied b @ [current_control b]\<rparr>),
       attempt raising World_Tick, update (\<lambda>b. b\<lparr>frame_count := frame_count b + 1\<rparr>),
       attempt raising Get_Snapshot, attempt raising Game_Time_On_Tick, attempt raising Provider_On_Tick,
       attempt raising Get_Data,
       attempt raising Run_Step, update (\<lambda>b. b\<lparr>current_control := run_step (frame_count b)\<rparr>)]"

definition bridge_apply_control :: "'ctl option \<Rightarrow> 'ctl carla_bridge \<Rightarrow> 'ctl carla_bridge" where
  "bridge_apply_control control_override b =
     (case control_override of
        None \<Rightarrow> b
      | Some c \<Rightarrow> b\<lparr>current_control := c, overrides := overrides b @ [c]\<rparr>)"

section \<open>The two reactors and their connection\<close>

text \<open>
  The state of the program between tags: the current tag (time in nanoseconds since the start,
  microstep), the reactors' state, the event queue (control commands, \<open>None\<close> or a control, with the
  tag at which they arrive at the input of Carla), and the exception a reaction has ended with.
  What the runtime then does is not in the repository; the reaction has not set its output, so no
  event follows from it.
\<close>

type_synonym tag = "nat \<times> nat"

record 'ctl loop =
  now :: tag
  carla :: "'ctl carla_bridge"
  latest_control :: "'ctl option"
  events :: "(tag \<times> 'ctl option) list"
  failed :: "py_exception option"

text \<open>
  A connection with the delay \<open>after d\<close>: it delivers \<open>d\<close> later, and with \<open>d = 0\<close> at the same
  time, one microstep later.
\<close>

definition after_delay :: "nat \<Rightarrow> tag \<Rightarrow> tag" where
  "after_delay d t = (if d = 0 then (fst t, snd t + 1) else (fst t + d, 0))"

definition carla_on_control ::
    "(carla_call list \<Rightarrow> carla_call \<Rightarrow> bool) \<Rightarrow> (int \<Rightarrow> 'ctl) \<Rightarrow> 'ctl option \<Rightarrow> 'ctl statements" where
  "carla_on_control raising run_step cmd b =
     bridge_step raising run_step (case cmd of None \<Rightarrow> b | Some c \<Rightarrow> bridge_apply_control (Some c) b)"

text \<open>ControlBridge on a sensor tick: the latest control goes out through the connection.\<close>

definition control_bridge_on_tick :: "'ctl loop \<Rightarrow> 'ctl loop" where
  "control_bridge_on_tick s =
     s\<lparr>events := events s @ [(after_delay 0 (now s), latest_control s)]\<rparr>"

text \<open>A reaction of Carla has ended: with its output set it triggers ControlBridge at the same tag.\<close>

definition carla_done :: "(py_exception + unit) \<times> 'ctl carla_bridge \<Rightarrow> 'ctl loop \<Rightarrow> 'ctl loop" where
  "carla_done r s =
     (case r of
        (Inl e, b) \<Rightarrow> s\<lparr>carla := b, failed := Some e\<rparr>
      | (Inr x, b) \<Rightarrow> control_bridge_on_tick (s\<lparr>carla := b\<rparr>))"

text \<open>
  The start tag: the startup reactions, that of Carla after \<open>initialize\<close>, which has made the calls
  \<open>made0\<close>.  A later tag: the first event arrives at Carla.  No event left: no tag follows.
\<close>

definition loop_start ::
    "(carla_call list \<Rightarrow> carla_call \<Rightarrow> bool) \<Rightarrow> (int \<Rightarrow> 'ctl) \<Rightarrow> 'ctl \<Rightarrow> carla_call list \<Rightarrow> 'ctl loop" where
  "loop_start raising run_step vehicle_control made0 =
     (let b = \<lparr>current_control = vehicle_control, frame_count = 0, made = made0, applied = [], overrides = []\<rparr> in
      carla_done (bridge_step raising run_step b)
        \<lparr>now = (0, 0), carla = b, latest_control = None, events = [], failed = None\<rparr>)"

definition loop_next ::
    "(carla_call list \<Rightarrow> carla_call \<Rightarrow> bool) \<Rightarrow> (int \<Rightarrow> 'ctl) \<Rightarrow> 'ctl loop \<Rightarrow> 'ctl loop" where
  "loop_next raising run_step s =
     (case events s of
        [] \<Rightarrow> s
      | (t, cmd) # rest \<Rightarrow>
          carla_done (carla_on_control raising run_step cmd (carla s)) (s\<lparr>now := t, events := rest\<rparr>))"

section \<open>A step of the simulation\<close>

text \<open>The controls of the first \<open>n\<close> steps: the initial one, then what the interface returned.\<close>

definition interface_controls :: "(int \<Rightarrow> 'ctl) \<Rightarrow> 'ctl \<Rightarrow> nat \<Rightarrow> 'ctl list" where
  "interface_controls run_step vehicle_control n =
     map (\<lambda>i. if i = 0 then vehicle_control else run_step (int i)) [0..<n]"

lemma interface_controls_Suc:
  "interface_controls run_step vehicle_control (Suc n) =
   interface_controls run_step vehicle_control n @ [if n = 0 then vehicle_control else run_step (int n)]"
  by (simp add: interface_controls_def)

text \<open>The bridge after \<open>n\<close> steps that have returned.\<close>

definition stepped :: "(int \<Rightarrow> 'ctl) \<Rightarrow> 'ctl \<Rightarrow> nat \<Rightarrow> 'ctl carla_bridge \<Rightarrow> bool" where
  "stepped run_step vehicle_control n b \<longleftrightarrow>
     frame_count b = int n \<and> overrides b = [] \<and>
     applied b = interface_controls run_step vehicle_control n \<and>
     current_control b = (if n = 0 then vehicle_control else run_step (int n))"

text \<open>The bridge when the call of a step has raised.\<close>

definition broken_off ::
    "(carla_call list \<Rightarrow> carla_call \<Rightarrow> bool) \<Rightarrow> (int \<Rightarrow> 'ctl) \<Rightarrow> 'ctl \<Rightarrow> nat \<Rightarrow> py_exception \<Rightarrow> 'ctl carla_bridge \<Rightarrow> bool" where
  "broken_off raising run_step vehicle_control n e b \<longleftrightarrow>
     overrides b = [] \<and> (frame_count b = int n \<or> frame_count b = int n + 1) \<and>
     (applied b = interface_controls run_step vehicle_control n \<or>
      applied b = interface_controls run_step vehicle_control (Suc n)) \<and>
     (\<exists>before c. made b = before @ [c] \<and> raising before c \<and> e = Library_Error c)"

lemma bridge_step_outcome:
  assumes "stepped run_step vehicle_control n b"
  shows "case bridge_step raising run_step b of
      (Inr x, b') \<Rightarrow> stepped run_step vehicle_control (Suc n) b'
    | (Inl e, b') \<Rightarrow> broken_off raising run_step vehicle_control n e b'"
  using assms
  by (simp add: bridge_step_def attempt_def update_def stepped_def broken_off_def interface_controls_Suc
      add.commute del: append_assoc)

section \<open>Runs\<close>

text \<open>After \<open>n\<close> tags: all steps have returned and one event is pending, or one has raised.\<close>

definition loop_state ::
    "(carla_call list \<Rightarrow> carla_call \<Rightarrow> bool) \<Rightarrow> (int \<Rightarrow> 'ctl) \<Rightarrow> 'ctl \<Rightarrow> nat \<Rightarrow> 'ctl loop \<Rightarrow> bool" where
  "loop_state raising run_step vehicle_control n s \<longleftrightarrow>
     latest_control s = None \<and>
     (case failed s of
        None \<Rightarrow> now s = (0, n) \<and> events s = [((0, n + 1), None)] \<and>
          stepped run_step vehicle_control (Suc n) (carla s)
      | Some e \<Rightarrow> events s = [] \<and>
          (\<exists>m \<le> n. now s = (0, m) \<and> broken_off raising run_step vehicle_control m e (carla s)))"

lemma carla_done_state:
  assumes "stepped run_step vehicle_control n b" and "now s = (0, n)" and "events s = []"
    and "failed s = None" and "latest_control s = None"
  shows "loop_state raising run_step vehicle_control n (carla_done (bridge_step raising run_step b) s)"
  using bridge_step_outcome [OF assms(1), of raising] assms(2-5)
  by (auto simp: loop_state_def carla_done_def control_bridge_on_tick_def after_delay_def
      split: prod.splits sum.splits)

lemma loop_start_state:
  "loop_state raising run_step vehicle_control 0 (loop_start raising run_step vehicle_control made0)"
  unfolding loop_start_def Let_def
  by (rule carla_done_state) (simp_all add: stepped_def interface_controls_def)

lemma loop_next_state:
  assumes "loop_state raising run_step vehicle_control n s"
  shows "loop_state raising run_step vehicle_control (Suc n) (loop_next raising run_step s)"
proof (cases "failed s")
  case None
  with assms show ?thesis
    by (auto simp: loop_state_def [of _ _ _ n] loop_next_def carla_on_control_def intro: carla_done_state)
next
  case (Some e)
  with assms show ?thesis
    by (auto simp: loop_state_def loop_next_def intro: le_SucI)
qed

lemma loop_states:
  "loop_state raising run_step vehicle_control n
     ((loop_next raising run_step ^^ n) (loop_start raising run_step vehicle_control made0))"
  by (induction n) (simp_all add: loop_start_state loop_next_state)

section \<open>Properties\<close>

text \<open>C16: the closed loop runs at logical time 0 until a call of the libraries raises.  Whatever
  raises, and when: as long as nothing has, after \<open>n\<close> tags the program is at microstep \<open>n\<close> of time 0
  with exactly one event, at the next microstep, and each tag has made one step; once a call has
  raised, the loop has no event left and no tag follows, and logical time has not advanced
  either.  All the while the command Lingua Franca feeds back is \<open>None\<close>, so that
  \<open>CarlaBridge.apply_control\<close> is never called, and the vehicle is given, step for step, the control
  the ROS interface returned in the step before.\<close>

theorem carla_loop_stays_at_time_zero:
  "let s = (loop_next raising run_step ^^ n) (loop_start raising run_step vehicle_control made0) in
   fst (now s) = 0 \<and> latest_control s = None \<and> overrides (carla s) = [] \<and>
   (case failed s of
      None \<Rightarrow> snd (now s) = n \<and> map fst (events s) = [(0, n + 1)] \<and> frame_count (carla s) = int n + 1 \<and>
        applied (carla s) = interface_controls run_step vehicle_control (n + 1)
    | Some e \<Rightarrow> snd (now s) \<le> n \<and> events s = [] \<and>
        (\<exists>before c. made (carla s) = before @ [c] \<and> raising before c \<and> e = Library_Error c) \<and>
        (\<exists>m \<le> snd (now s) + 1. applied (carla s) = interface_controls run_step vehicle_control m))"
proof -
  let ?s = "(loop_next raising run_step ^^ n) (loop_start raising run_step vehicle_control made0)"
  have *: "loop_state raising run_step vehicle_control n ?s" by (rule loop_states)
  show ?thesis
  proof (cases "failed ?s")
    case None
    with * show ?thesis by (simp add: loop_state_def stepped_def Let_def)
  next
    case (Some e)
    with * obtain m where m: "m \<le> n" "now ?s = (0, m)" "events ?s = []" "latest_control ?s = None"
        "broken_off raising run_step vehicle_control m e (carla ?s)"
      by (auto simp: loop_state_def)
    then have "\<exists>m' \<le> m + 1. applied (carla ?s) = interface_controls run_step vehicle_control m'"
      unfolding broken_off_def by (metis Suc_eq_plus1 le_add1 order_refl)
    with Some m show ?thesis by (simp add: broken_off_def Let_def)
  qed
qed

end
