(* ===== verification/Carla_Startup.thy ===== *)
theory Carla_Startup
  imports Carla_Lifecycle
begin

text \<open>
  The reactor Carla of \<open>carla_interface/CarlaInterface.lf\<close> from start to end: the startup reaction
  reads the configuration from the environment, constructs the bridge, initialises it and makes
  the first step; the shutdown reaction cleans up when there is a bridge.  \<open>int(...)\<close> and
  \<open>float(...)\<close> of a string are arguments; \<open>None\<close> is their ValueError.
\<close>

section \<open>Configuration\<close>

definition os_environ_get :: "(string \<Rightarrow> string option) \<Rightarrow> string \<Rightarrow> string \<Rightarrow> string" where
  "os_environ_get getenv name default_value =
     (case getenv name of None \<Rightarrow> default_value | Some v \<Rightarrow> v)"

text \<open>\<open>str.lower\<close> on ASCII letters.\<close>

definition lower_char :: "char \<Rightarrow> char" where
  "lower_char c = (if 65 \<le> (of_char c :: nat) \<and> (of_char c :: nat) \<le> 90 then char_of (of_char c + 32 :: nat) else c)"

definition lower :: "string \<Rightarrow> string" where
  "lower s = map lower_char s"

definition os_path_join :: "string \<Rightarrow> string \<Rightarrow> string" where
  "os_path_join a b =
     (if b \<noteq> [] \<and> hd b = CHR ''/'' then b
      else if a = [] \<or> last a = CHR ''/'' then a @ b
      else a @ ''/'' @ b)"

record 'r carla_config =
  carla_host :: string
  carla_port :: int
  carla_timeout :: 'r
  carla_map :: string
  fixed_delta_seconds :: 'r
  vehicle_type :: string
  spawn_point :: string
  ego_vehicle_role_name :: string
  use_traffic_manager :: bool
  sensor_mapping_file :: string
  sensor_kit_name :: string

definition lf_autoware_home :: "(string \<Rightarrow> string option) \<Rightarrow> string" where
  "lf_autoware_home getenv = os_environ_get getenv ''LF_AUTOWARE_HOME'' []"

definition carla_config_of ::
    "(string \<Rightarrow> int option) \<Rightarrow> (string \<Rightarrow> 'r option) \<Rightarrow> (string \<Rightarrow> string option) \<Rightarrow>
     py_exception + 'r carla_config" where
  "carla_config_of int_of_string float getenv =
     (let get = os_environ_get getenv in
      case int_of_string (get ''CARLA_PORT'' ''2000'') of None \<Rightarrow> Inl Value_Error | Some p \<Rightarrow>
      case float (get ''CARLA_TIMEOUT'' ''20'') of None \<Rightarrow> Inl Value_Error | Some t \<Rightarrow>
      case float (get ''CARLA_FIXED_DELTA'' ''0.05'') of None \<Rightarrow> Inl Value_Error | Some d \<Rightarrow>
      Inr \<lparr>carla_host = get ''CARLA_HOST'' ''localhost'', carla_port = p, carla_timeout = t,
        carla_map = get ''CARLA_MAP'' ''Town01'', fixed_delta_seconds = d,
        vehicle_type = get ''CARLA_VEHICLE_TYPE'' ''vehicle.toyota.prius'',
        spawn_point = get ''CARLA_SPAWN_POINT'' ''None'',
        ego_vehicle_role_name = get ''CARLA_EGO_ROLE'' ''ego_vehicle'',
        use_traffic_manager = lower (get ''CARLA_USE_TM'' ''False'') = ''true'',
        sensor_mapping_file = get ''CARLA_SENSOR_MAPPING''
          (os_path_join (lf_autoware_home getenv)
            ''src/universe/autoware_universe/simulator/autoware_carla_interface/config/sensor_mapping.yaml''),
        sensor_kit_name = get ''CARLA_SENSOR_KIT'' ''carla_sensor_kit_description''\<rparr>)"

text \<open>The argument \<open>random_location\<close> of the request for the vehicle.\<close>

definition random_location :: "'r carla_config \<Rightarrow> bool" where
  "random_location c \<longleftrightarrow> spawn_point c = ''None''"

section \<open>The reactor\<close>

definition carla_reaction_startup ::
    "simulator \<Rightarrow> (string \<Rightarrow> int option) \<Rightarrow> (string \<Rightarrow> 'r::numeral option) \<Rightarrow> 'r transform \<Rightarrow>
     (string \<Rightarrow> string option) \<Rightarrow> (py_exception + unit) \<times> bridge_object option" where
  "carla_reaction_startup sim int_of_string float origin getenv =
     (case carla_config_of int_of_string float getenv of
        Inl e \<Rightarrow> (Inl e, None)
      | Inr c \<Rightarrow>
          let (result, s) = py_seq (initialize sim float origin (spawn_point c) (use_traffic_manager c))
                (step_calls sim) bridge_object_new
          in (result, Some s))"

definition carla_reaction_shutdown ::
    "simulator \<Rightarrow> bridge_object option \<Rightarrow> (py_exception + unit) \<times> bridge_object option" where
  "carla_reaction_shutdown sim bridge =
     (case bridge of
        None \<Rightarrow> (Inr (), None)
      | Some s \<Rightarrow> let (result, s') = cleanup sim s in (result, Some s'))"

section \<open>Properties\<close>

text \<open>The defaults are those \<open>LAUNCH_README.md\<close> lists.\<close>

lemma documented_defaults:
  assumes "int_of_string ''2000'' = Some 2000" and "float ''20'' = Some t" and "float ''0.05'' = Some d"
  shows "\<exists>c. carla_config_of int_of_string float (\<lambda>_. None) = Inr c \<and> carla_host c = ''localhost'' \<and> carla_port c = 2000 \<and>
    carla_map c = ''Town01'' \<and> fixed_delta_seconds c = d \<and> vehicle_type c = ''vehicle.toyota.prius'' \<and>
    random_location c \<and> \<not> use_traffic_manager c \<and> carla_timeout c = t"
  using assms by (simp add: carla_config_of_def os_environ_get_def random_location_def Let_def lower_def)

text \<open>
  A spawn point that is set but has not six items, the empty one included, is neither reported nor
  random: the vehicle is requested at the origin.
\<close>

lemma malformed_spawn_point:
  assumes "spawn_point c \<noteq> ''None''" and "length (split_commas (spawn_point c)) \<noteq> 6"
  shows "parse_spawn_point float origin (spawn_point c) = Inr origin \<and> \<not> random_location c"
  using assms by (auto simp: parse_spawn_point_def random_location_def split: list.splits)

lemma startup_acquired:
  assumes "carla_reaction_startup sim int_of_string float origin getenv = (result, Some s)"
  shows "acquired sim s"
proof -
  have new: "acquired sim bridge_object_new" by (simp add: acquired_def bridge_object_new_def)
  have "keeps (acquired sim) (py_seq (initialize sim float origin sp tm) (step_calls sim))" for sp tm
    by (intro keeps_seq initialize_acquires step_calls_acquires)
  then have "acquired sim (snd (py_seq (initialize sim float origin sp tm) (step_calls sim) bridge_object_new))" for sp tm
    using new by (simp add: keeps_def)
  with assms show ?thesis
    by (auto simp: carla_reaction_startup_def case_prod_beta Let_def split: sum.splits)
qed

text \<open>C15: the shutdown reaction releases what the startup reaction acquired, whatever goes wrong.
  For every environment, configuration and pattern of library calls that raise, during the start
  and during the shutdown: either a number in the environment is unreadable, then the start ends
  with a ValueError before anything is acquired and the shutdown does nothing; or the shutdown
  returns after shutting down the sensors, the ROS interface and the ego vehicle exactly when
  their constructors had returned one, in this order, and then the data provider.\<close>

theorem shutdown_releases_what_startup_acquired:
  "let (result, bridge) = carla_reaction_startup sim int_of_string float origin getenv;
       (result', bridge') = carla_reaction_shutdown sim' bridge in
   result' = Inr () \<and>
   (case (bridge, bridge') of
      (None, None) \<Rightarrow> result = Inl Value_Error \<and> carla_config_of int_of_string float getenv = Inl Value_Error
    | (Some s, Some s') \<Rightarrow> log s' = log s @
        (if Make_Sensor_Wrapper \<in> set (log s) \<and> \<not> raises sim Make_Sensor_Wrapper then [Sensor_Cleanup] else []) @
        (if Ros2_Interface \<in> set (log s) \<and> \<not> raises sim Ros2_Interface then [Interface_Shutdown] else []) @
        (if Request_New_Actor \<in> set (log s) \<and> \<not> raises sim Request_New_Actor \<and> actor_granted sim
         then [Ego_Destroy] else []) @ [Provider_Cleanup]
    | _ \<Rightarrow> False)"
proof (cases "snd (carla_reaction_startup sim int_of_string float origin getenv)")
  case None
  then obtain e where e: "carla_config_of int_of_string float getenv = Inl e"
    by (auto simp: carla_reaction_startup_def case_prod_beta Let_def split: sum.splits)
  then have "e = Value_Error" by (auto simp: carla_config_of_def Let_def split: option.splits)
  with e show ?thesis by (simp add: carla_reaction_startup_def carla_reaction_shutdown_def)
next
  case (Some s)
  then obtain result where start: "carla_reaction_startup sim int_of_string float origin getenv = (result, Some s)"
    by (metis prod.collapse)
  then have "acquired sim s" by (rule startup_acquired)
  with start show ?thesis
    by (simp add: carla_reaction_shutdown_def cleanup_effect releases_def acquired_def)
qed

end
