(* ===== verification/Reactors.thy ===== *)
theory Reactors
  imports Lf_Base
begin

text \<open>
  The Lingua Franca reactors that wrap the Autoware nodes (\<open>lf-src/<package>/<package>_main.lf\<close>).
  A wrapped node is third-party C++: its callback is an argument of the definitions, a function
  on the node.  What the wrappers rely on is the node's output slots, a value
  \<open>lf_output_X\<close> with a flag \<open>lf_X_is_set\<close>; a reaction runs the callback, forwards every slot
  whose flag is set to its port, and clears the flag.

  The node's spin thread runs beside the reaction without a lock.  What it does to the node before
  the \<open>k\<close>-th step of a reaction is the argument \<open>threads k\<close>, any function on the node, so that it
  can fall between any two of the steps.  \<open>Forwarding\<close> has the reactions of all nine wrappers with
  outputs, as a step relation.

  A port at a tag is an option: absent, or present with the value it was set to last.
\<close>

section \<open>Ports and slots\<close>

type_synonym 'a port = "'a option"

definition lf_set :: "'a port \<Rightarrow> 'a \<Rightarrow> 'a port" where
  "lf_set out val = Some val"

record 'a slot =
  is_set :: bool
  lf_output :: 'a

text \<open>
  The fragment every reaction repeats per output: test the flag, copy, set the port, clear.  \<open>get\<close>
  and \<open>put\<close> are the slot's place in the node; \<open>k\<close> is the number of the test among the reaction's
  steps.
\<close>

definition forward ::
    "('n \<Rightarrow> 'a slot) \<Rightarrow> ('a slot \<Rightarrow> 'n \<Rightarrow> 'n) \<Rightarrow> (nat \<Rightarrow> 'n \<Rightarrow> 'n) \<Rightarrow> nat \<Rightarrow> 'n \<Rightarrow> 'a port \<Rightarrow> 'n \<times> 'a port" where
  "forward get put threads k node out =
     (let node = threads k node in
      if is_set (get node)
      then let node = threads (k + 1) node; msg = lf_output (get node);
               node = threads (k + 2) node; out = lf_set out msg;
               node = threads (k + 3) node in
        (put ((get node)\<lparr>is_set := False\<rparr>) node, out)
      else (node, out))"

text \<open>
  What is pending in a slot; what a reaction sees that tests the flag of one slot and copies the
  value of another, the same one later.
\<close>

definition pending :: "'a slot \<Rightarrow> 'a port" where
  "pending s = (if is_set s then Some (lf_output s) else None)"

definition observed :: "'a slot \<Rightarrow> 'a slot \<Rightarrow> 'a port" where
  "observed tested copied = (if is_set tested then Some (lf_output copied) else None)"

lemma observed_same [simp]: "observed s s = pending s"
  by (simp add: observed_def pending_def)

lemma forward_port:
  "snd (forward get put threads k node None) =
     observed (get (threads k node)) (get (threads (k + 1) (threads k node)))"
  by (simp add: forward_def observed_def lf_set_def Let_def)

text \<open>The fragment as one step, with nothing in between.\<close>

definition forward_at_once :: "'a slot \<Rightarrow> 'a port \<Rightarrow> 'a slot \<times> 'a port" where
  "forward_at_once s out =
     (if is_set s
      then let msg = lf_output s; out = lf_set out msg in (s\<lparr>is_set := False\<rparr>, out)
      else (s, out))"

lemma forward_undisturbed: "forward (\<lambda>s. s) (\<lambda>s' s. s') (\<lambda>k s. s) k s out = forward_at_once s out"
  by (simp add: forward_def forward_at_once_def Let_def)

lemma forward_at_once_absent: "forward_at_once s None = (s\<lparr>is_set := False\<rparr>, pending s)"
  by (cases s) (simp add: forward_at_once_def pending_def lf_set_def)

lemma forward_at_once_state: "fst (forward_at_once s out) = s\<lparr>is_set := False\<rparr>"
  by (cases s) (simp add: forward_at_once_def)

lemma pending_cleared [simp]: "pending (s\<lparr>is_set := False\<rparr>) = None"
  by (simp add: pending_def)

section \<open>The smoother and the selector\<close>

text \<open>\<open>velocity_smoother\<close>: one output, produced by the callback of its input.\<close>

record ('s, 'a) node1 =
  n1_state :: 's
  n1_slot :: "'a slot"

definition velocity_smoother_reaction ::
    "('a \<Rightarrow> ('s, 'a) node1 \<Rightarrow> ('s, 'a) node1) \<Rightarrow> 'a \<Rightarrow> (nat \<Rightarrow> ('s, 'a) node1 \<Rightarrow> ('s, 'a) node1) \<Rightarrow>
     ('s, 'a) node1 \<Rightarrow> 'a port \<Rightarrow> ('s, 'a) node1 \<times> 'a port" where
  "velocity_smoother_reaction onCurrentTrajectory trajectory_in threads node trajectory_out =
     (let node = onCurrentTrajectory trajectory_in (threads 0 node) in
      forward n1_slot (\<lambda>s. n1_slot_update (\<lambda>_. s)) threads 1 node trajectory_out)"

record ('s, 'a, 'b) node2 =
  n2_state :: 's
  n2_slot1 :: "'a slot"
  n2_slot2 :: "'b slot"

text \<open>\<open>scenario_selector\<close>: trajectory and scenario, every 100 ms.\<close>

definition scenario_selector_reaction ::
    "(('s, 'a, 'b) node2 \<Rightarrow> ('s, 'a, 'b) node2) \<Rightarrow> (nat \<Rightarrow> ('s, 'a, 'b) node2 \<Rightarrow> ('s, 'a, 'b) node2) \<Rightarrow>
     ('s, 'a, 'b) node2 \<Rightarrow> 'a port \<times> 'b port \<Rightarrow> ('s, 'a, 'b) node2 \<times> ('a port \<times> 'b port)" where
  "scenario_selector_reaction onTimer threads node ports =
     (let (trajectory_out, scenario_out) = ports;
          node = onTimer (threads 0 node);
          (node, trajectory_out) =
            forward n2_slot1 (\<lambda>s. n2_slot1_update (\<lambda>_. s)) threads 1 node trajectory_out;
          (node, scenario_out) =
            forward n2_slot2 (\<lambda>s. n2_slot2_update (\<lambda>_. s)) threads 5 node scenario_out in
      (node, (trajectory_out, scenario_out)))"

text \<open>The four outputs of \<open>vehicle_cmd_gate\<close>.\<close>

record ('c, 'g, 't, 'h) gate_ports =
  control_cmd :: "'c port"
  gear_cmd :: "'g port"
  turn_indicators_cmd :: "'t port"
  hazard_lights_cmd :: "'h port"

section \<open>What a forwarding reaction promises\<close>

text \<open>
  Executions: the list gives, for each tick, what the node's other threads do to the node before
  each step of the reaction (\<open>0\<close> before the first); the reaction runs on absent ports.  The result
  is the ports of every tick; \<open>node_at\<close> is the node before a tick.
\<close>

fun ticks ::
    "((nat \<Rightarrow> 'n \<Rightarrow> 'n) \<Rightarrow> 'n \<Rightarrow> 'p \<Rightarrow> 'n \<times> 'p) \<Rightarrow> 'p \<Rightarrow> (nat \<Rightarrow> 'n \<Rightarrow> 'n) list \<Rightarrow> 'n \<Rightarrow> 'p list" where
  "ticks react absent [] n = []"
| "ticks react absent (threads # fs) n =
     (let (n', p) = react threads n absent in p # ticks react absent fs n')"

fun node_at ::
    "((nat \<Rightarrow> 'n \<Rightarrow> 'n) \<Rightarrow> 'n \<Rightarrow> 'p \<Rightarrow> 'n \<times> 'p) \<Rightarrow> 'p \<Rightarrow> (nat \<Rightarrow> 'n \<Rightarrow> 'n) list \<Rightarrow> nat \<Rightarrow> 'n \<Rightarrow> 'n" where
  "node_at react absent fs 0 n = n"
| "node_at react absent fs (Suc i) n = fst (react (fs ! i) (node_at react absent fs i n) absent)"

lemma node_at_Cons:
  "node_at react absent (f # fs) (Suc i) n = node_at react absent fs i (fst (react f n absent))"
  by (induction i) simp_all

lemma length_ticks [simp]: "length (ticks react absent fs n) = length fs"
  by (induction fs arbitrary: n) (simp_all add: Let_def split: prod.splits)

text \<open>
  The contract of a reaction with an output that it forwards first: on absent ports, the output
  carries a value exactly if the flag is up when it is tested after the callback, namely the value
  the slot has when it is copied.
\<close>

definition at_test :: "(nat \<Rightarrow> 'n \<Rightarrow> 'n) \<Rightarrow> ('n \<Rightarrow> 'n) \<Rightarrow> 'n \<Rightarrow> 'n" where
  "at_test threads callback n = threads 1 (callback (threads 0 n))"

definition at_copy :: "(nat \<Rightarrow> 'n \<Rightarrow> 'n) \<Rightarrow> ('n \<Rightarrow> 'n) \<Rightarrow> 'n \<Rightarrow> 'n" where
  "at_copy threads callback n = threads 2 (at_test threads callback n)"

locale forwarding_reaction =
  fixes react :: "(nat \<Rightarrow> 'n \<Rightarrow> 'n) \<Rightarrow> 'n \<Rightarrow> 'p \<Rightarrow> 'n \<times> 'p"
    and callback :: "'n \<Rightarrow> 'n"
    and slot :: "'n \<Rightarrow> 'a slot"
    and out :: "'p \<Rightarrow> 'a port"
    and absent :: 'p
  assumes emits: "out (snd (react threads n absent)) =
    observed (slot (at_test threads callback n)) (slot (at_copy threads callback n))"
begin

lemma ticks_nth:
  "i < length fs \<Longrightarrow>
   out (ticks react absent fs n ! i) =
     observed (slot (at_test (fs ! i) callback (node_at react absent fs i n)))
       (slot (at_copy (fs ! i) callback (node_at react absent fs i n)))"
proof (induction fs arbitrary: n i)
  case (Cons f fs)
  show ?case
  proof (cases i)
    case 0
    then show ?thesis by (simp add: Let_def case_prod_beta emits)
  next
    case (Suc j)
    with Cons show ?thesis
      by (simp add: Let_def case_prod_beta node_at_Cons del: node_at.simps)
  qed
qed simp

text \<open>While the other threads rest until the copy, the output is what the callback left pending.\<close>

lemma undisturbed:
  assumes "\<And>m. threads 1 m = m" and "\<And>m. threads 2 m = m"
  shows "out (snd (react threads n absent)) = pending (slot (callback (threads 0 n)))"
  using assms by (simp add: emits at_test_def at_copy_def)

end

interpretation vs: forwarding_reaction "velocity_smoother_reaction onCurrentTrajectory trajectory_in"
    "onCurrentTrajectory trajectory_in" n1_slot "\<lambda>p. p" None
  for onCurrentTrajectory :: "'a \<Rightarrow> ('s, 'a) node1 \<Rightarrow> ('s, 'a) node1" and trajectory_in
  by unfold_locales
    (simp add: velocity_smoother_reaction_def forward_port at_test_def at_copy_def Let_def
      numeral_2_eq_2)

interpretation ss: forwarding_reaction "scenario_selector_reaction onTimer" onTimer n2_slot1 fst "(None, None)"
  for onTimer :: "('s, 'a, 'b) node2 \<Rightarrow> ('s, 'a, 'b) node2"
  by unfold_locales
    (simp add: scenario_selector_reaction_def case_prod_beta forward_port at_test_def at_copy_def Let_def
      numeral_2_eq_2)

end
