(* ===== verification/Mission_Planner.thy ===== *)
theory Mission_Planner
  imports Reactors
begin

text \<open>
  The mission planner's wrapper (\<open>lf-src/mission_planner/mission_planner_main.lf\<close>) as a concurrent
  program.  Its slot is filled by service callbacks that run in the spin thread, while the timer
  reaction tests the flag, copies the route, sets the port and clears the flag, one after the
  other and without a lock.  A state machine interleaves the two: a route request (the value,
  then the flag, taken as one step, which favours the program) may fall between any two steps
  of the reaction.
\<close>

section \<open>The interleaved state machine\<close>

text \<open>Where the reaction stands: idle, flag seen, message copied, port set.\<close>

datatype 'a position =
    Idle
  | Flag_Seen
  | Copied 'a
  | Port_Set

record 'a planner =
  route_slot :: "'a slot"
  position :: "'a position"
  requested :: "'a list"
  emitted :: "'a list"

definition request_route :: "'a \<Rightarrow> 'a planner \<Rightarrow> 'a planner" where
  "request_route r s =
     s\<lparr>route_slot := \<lparr>is_set = True, lf_output = r\<rparr>, requested := requested s @ [r]\<rparr>"

inductive planner_step :: "'a planner \<Rightarrow> 'a planner \<Rightarrow> bool" where
  request: "planner_step s (request_route r s)"
| test: "position s = Idle \<Longrightarrow> is_set (route_slot s) \<Longrightarrow> planner_step s (s\<lparr>position := Flag_Seen\<rparr>)"
| copy: "position s = Flag_Seen \<Longrightarrow>
    planner_step s (s\<lparr>position := Copied (lf_output (route_slot s))\<rparr>)"
| set_port: "position s = Copied msg \<Longrightarrow>
    planner_step s (s\<lparr>position := Port_Set, emitted := emitted s @ [msg]\<rparr>)"
| clear: "position s = Port_Set \<Longrightarrow>
    planner_step s (s\<lparr>position := Idle, route_slot := (route_slot s)\<lparr>is_set := False\<rparr>\<rparr>)"

inductive_cases planner_stepE: "planner_step s t"

text \<open>The same program with the reaction as one step, as its wrapper is written to be read.\<close>

inductive atomic_step :: "'a planner \<Rightarrow> 'a planner \<Rightarrow> bool" where
  atomic_request: "atomic_step s (request_route r s)"
| atomic_reaction: "forward_at_once (route_slot s) None = (slot, out) \<Longrightarrow>
    atomic_step s (s\<lparr>route_slot := slot,
      emitted := emitted s @ (case out of None \<Rightarrow> [] | Some msg \<Rightarrow> [msg])\<rparr>)"

inductive_cases atomic_stepE: "atomic_step s t"

definition planner_start :: "'a \<Rightarrow> 'a planner" where
  "planner_start r0 =
     \<lparr>route_slot = \<lparr>is_set = False, lf_output = r0\<rparr>, position = Idle, requested = [], emitted = []\<rparr>"

text \<open>A state that will emit nothing more without another request, but owes its last route.\<close>

definition last_route_lost :: "'a planner \<Rightarrow> bool" where
  "last_route_lost s \<longleftrightarrow>
     position s = Idle \<and> \<not> is_set (route_slot s) \<and> requested s \<noteq> [] \<and>
     last (requested s) \<notin> set (emitted s)"

section \<open>Invariants\<close>

text \<open>Fine-grained: whatever was copied or emitted was requested.\<close>

definition planner_inv :: "'a planner \<Rightarrow> bool" where
  "planner_inv s \<longleftrightarrow>
     set (emitted s) \<subseteq> set (requested s) \<and>
     (position s = Flag_Seen \<or> is_set (route_slot s) \<longrightarrow> lf_output (route_slot s) \<in> set (requested s)) \<and>
     (\<forall>msg. position s = Copied msg \<longrightarrow> msg \<in> set (requested s))"

lemma planner_inv_start: "planner_inv (planner_start r0)"
  by (simp add: planner_inv_def planner_start_def)

lemma planner_inv_step: "planner_step s t \<Longrightarrow> planner_inv s \<Longrightarrow> planner_inv t"
  by (erule planner_stepE) (auto simp: planner_inv_def request_route_def)

lemma planner_inv_reachable: "planner_step\<^sup>*\<^sup>* (planner_start r0) s \<Longrightarrow> planner_inv s"
  by (induction rule: rtranclp_induct) (auto intro: planner_inv_start planner_inv_step)

text \<open>Atomic: the last request is emitted last or still pending.\<close>

definition atomic_inv :: "'a planner \<Rightarrow> bool" where
  "atomic_inv s \<longleftrightarrow>
     set (emitted s) \<subseteq> set (requested s) \<and>
     (is_set (route_slot s) \<longrightarrow> requested s \<noteq> [] \<and> lf_output (route_slot s) = last (requested s)) \<and>
     (\<not> is_set (route_slot s) \<longrightarrow> requested s = [] \<or> emitted s \<noteq> [] \<and> last (emitted s) = last (requested s))"

lemma atomic_inv_start: "atomic_inv (planner_start r0)"
  by (simp add: atomic_inv_def planner_start_def)

lemma atomic_inv_step: "atomic_step s t \<Longrightarrow> atomic_inv s \<Longrightarrow> atomic_inv t"
  by (erule atomic_stepE)
    (auto simp: atomic_inv_def request_route_def forward_at_once_absent pending_def split: if_splits)

lemma atomic_inv_reachable: "atomic_step\<^sup>*\<^sup>* (planner_start r0) s \<Longrightarrow> atomic_inv s"
  by (induction rule: rtranclp_induct) (auto intro: atomic_inv_start atomic_inv_step)

section \<open>Properties\<close>

text \<open>C14: a route can be lost: if a second request arrives after the reaction has copied the first
  route and before it clears the flag, the flag of the second request is cleared with the first,
  and no later tick emits it.\<close>

theorem mission_planner_can_lose_a_route:
  assumes "r1 \<noteq> r2"
  shows "\<exists>s. planner_step\<^sup>*\<^sup>* (planner_start r0) s \<and> requested s = [r1, r2] \<and> emitted s = [r1] \<and>
    last_route_lost s \<and> snd (forward_at_once (route_slot s) None) = None"
proof -
  let ?slot1 = "\<lparr>is_set = True, lf_output = r1\<rparr>" and ?slot2 = "\<lparr>is_set = True, lf_output = r2\<rparr>"
  let ?s1 = "\<lparr>route_slot = ?slot1, position = Idle, requested = [r1], emitted = []\<rparr>"
  let ?s2 = "\<lparr>route_slot = ?slot1, position = Flag_Seen, requested = [r1], emitted = []\<rparr>"
  let ?s3 = "\<lparr>route_slot = ?slot1, position = Copied r1, requested = [r1], emitted = []\<rparr>"
  let ?s4 = "\<lparr>route_slot = ?slot2, position = Copied r1, requested = [r1, r2], emitted = []\<rparr>"
  let ?s5 = "\<lparr>route_slot = ?slot2, position = Port_Set, requested = [r1, r2], emitted = [r1]\<rparr>"
  let ?s6 = "\<lparr>route_slot = \<lparr>is_set = False, lf_output = r2\<rparr>, position = Idle,
    requested = [r1, r2], emitted = [r1]\<rparr>"
  have "planner_step (planner_start r0) ?s1"
    using request [of "planner_start r0" r1] by (simp add: request_route_def planner_start_def)
  moreover have "planner_step ?s1 ?s2" using test [of ?s1] by simp
  moreover have "planner_step ?s2 ?s3" using copy [of ?s2] by simp
  moreover have "planner_step ?s3 ?s4" using request [of ?s3 r2] by (simp add: request_route_def)
  moreover have "planner_step ?s4 ?s5" using set_port [of ?s4 r1] by simp
  moreover have "planner_step ?s5 ?s6" using clear [of ?s5] by simp
  ultimately have "planner_step\<^sup>*\<^sup>* (planner_start r0) ?s6"
    by (meson rtranclp.rtrancl_into_rtrancl rtranclp.rtrancl_refl)
  then show ?thesis
    using assms by (intro exI [of _ ?s6]) (simp add: last_route_lost_def forward_at_once_def)
qed

theorem mission_planner_can_lose_a_route_witness:
  "\<exists>s. planner_step\<^sup>*\<^sup>* (planner_start (0 :: nat)) s \<and> requested s = [1, 2] \<and> emitted s = [1] \<and>
    last_route_lost s"
  using mission_planner_can_lose_a_route [of "1 :: nat" 2 0] by auto

text \<open>In every interleaving what the planner emits was requested: the race loses routes but
  never invents one.\<close>

theorem mission_planner_emits_requested:
  assumes "planner_step\<^sup>*\<^sup>* (planner_start r0) s"
  shows "set (emitted s) \<subseteq> set (requested s)"
  using planner_inv_reachable [OF assms] by (simp add: planner_inv_def)

theorem mission_planner_emits_requested_witness:
  "set (emitted (request_route 5 (planner_start (0 :: nat)))) \<subseteq> {5}"
  using mission_planner_emits_requested [OF r_into_rtranclp, OF request [of "planner_start (0 :: nat)" 5]]
  by (simp add: request_route_def planner_start_def)

text \<open>with the reaction as one step no last route is lost: in every reachable state the last
  requested route is the last one emitted or still pending for the next tick.\<close>

theorem atomic_mission_planner_keeps_last_route:
  assumes "atomic_step\<^sup>*\<^sup>* (planner_start r0) s"
  shows "\<not> last_route_lost s \<and> set (emitted s) \<subseteq> set (requested s)"
  using atomic_inv_reachable [OF assms] unfolding atomic_inv_def last_route_lost_def
  by (metis last_in_set)

theorem atomic_mission_planner_keeps_last_route_witness:
  "\<not> last_route_lost (request_route 5 (planner_start (0 :: nat)))"
  using atomic_mission_planner_keeps_last_route
    [OF r_into_rtranclp, OF atomic_request [of "planner_start (0 :: nat)" 5]] by simp

end
