(* ===== verification/Forwarding.thy ===== *)
theory Forwarding
  imports Mission_Planner
begin

text \<open>
  The reactions of the nine wrappers with outputs (\<open>lf-src/<package>/<package>_main.lf\<close>) as
  concurrent programs.  A reaction calls methods of the node, and for each output tests a flag,
  copies a value, sets the port and clears the flag.  The node is third-party code: its methods,
  and its own callbacks in the spin thread, which runs beside the reaction without a lock, write
  the values and raise or lower the flags at any moment, between any two of these steps.  Nothing
  is assumed about when they do.  The two reactions that \<open>Reactors\<close> has as functions are, with no
  other thread, runs of the programs here.
\<close>

section \<open>Programs\<close>

text \<open>
  The statements of a reaction: the call of a method of the node, and the fragment
  \<open>if (flag) { auto msg = make_shared(value); lf_set(port, msg); flag = false; }\<close>.
\<close>

datatype statement =
    Call string
  | Forward string string string

definition trajectory_follower_code :: "statement list" where
  "trajectory_follower_code =
     [Call ''callbackTimerControl'',
      Forward ''lf_control_cmd_is_set'' ''lf_output_control_cmd'' ''control_cmd'']"

definition shift_decider_code :: "statement list" where
  "shift_decider_code =
     [Call ''onTimer'', Forward ''lf_gear_cmd_is_set'' ''lf_output_gear_cmd'' ''gear_cmd'']"

definition costmap_generator_code :: "statement list" where
  "costmap_generator_code =
     [Call ''onTimer'',
      Forward ''lf_occupancy_grid_is_set'' ''lf_output_occupancy_grid'' ''occupancy_grid_out'']"

definition velocity_smoother_code :: "statement list" where
  "velocity_smoother_code =
     [Call ''onCurrentTrajectory'',
      Forward ''lf_trajectory_is_set'' ''lf_output_trajectory'' ''trajectory_out'']"

definition mission_planner_code :: "statement list" where
  "mission_planner_code = [Forward ''lf_route_is_set'' ''lf_output_route'' ''route_out'']"

definition freespace_planner_code :: "statement list" where
  "freespace_planner_code =
     [Call ''onTimer'',
      Forward ''lf_trajectory_is_set'' ''lf_output_trajectory'' ''trajectory_out'',
      Forward ''lf_is_completed_is_set'' ''lf_is_completed'' ''is_completed'']"

definition scenario_selector_code :: "statement list" where
  "scenario_selector_code =
     [Call ''onTimer'',
      Forward ''lf_trajectory_is_set'' ''lf_output_trajectory'' ''trajectory_out'',
      Forward ''lf_scenario_is_set'' ''lf_output_scenario'' ''scenario_out'']"

definition behavior_path_planner_code :: "statement list" where
  "behavior_path_planner_code =
     [Call ''run'',
      Forward ''lf_path_is_set'' ''lf_output_path'' ''path_out'',
      Forward ''lf_turn_signal_is_set'' ''lf_output_turn_signal'' ''turn_signal_out'',
      Forward ''lf_hazard_signal_is_set'' ''lf_output_hazard_signal'' ''hazard_signal_out'']"

definition vehicle_cmd_gate_code :: "statement list" where
  "vehicle_cmd_gate_code =
     [Call ''onTimer'',
      Forward ''lf_control_cmd_is_set'' ''lf_output_control_cmd'' ''control_cmd'',
      Forward ''lf_gear_cmd_is_set'' ''lf_output_gear_cmd'' ''gear_cmd'',
      Forward ''lf_turn_indicators_is_set'' ''lf_output_turn_indicators_cmd'' ''turn_indicators_cmd'',
      Forward ''lf_hazard_lights_is_set'' ''lf_output_hazard_lights_cmd'' ''hazard_lights_cmd'',
      Call ''publishStatus'']"

definition forwarding_code :: "statement list list" where
  "forwarding_code =
     [trajectory_follower_code, shift_decider_code, costmap_generator_code, velocity_smoother_code,
      mission_planner_code, freespace_planner_code, scenario_selector_code,
      behavior_path_planner_code, vehicle_cmd_gate_code]"

lemmas forwarding_code_defs = forwarding_code_def trajectory_follower_code_def shift_decider_code_def
  costmap_generator_code_def velocity_smoother_code_def mission_planner_code_def
  freespace_planner_code_def scenario_selector_code_def behavior_path_planner_code_def
  vehicle_cmd_gate_code_def

section \<open>The machine\<close>

text \<open>
  The members of the node the reaction works on, by name; the statements the reaction has yet to
  execute and where it stands in the first of them (\<open>position\<close>, as for the mission planner); the
  ports of the current tag; and what has happened so far, the latest last.
\<close>

datatype 'a event =
    Wrote string 'a
  | Raised string
  | Lowered string
  | Triggered
  | Called string
  | Sent string 'a
  | Cleared string

record 'a machine =
  flags :: "string \<Rightarrow> bool"
  vals :: "string \<Rightarrow> 'a"
  code :: "statement list"
  stage :: "'a position"
  ports :: "string \<Rightarrow> 'a port"
  happened :: "'a event list"

definition node_writes :: "string \<Rightarrow> 'a \<Rightarrow> 'a machine \<Rightarrow> 'a machine" where
  "node_writes v x s = s\<lparr>vals := (vals s)(v := x), happened := happened s @ [Wrote v x]\<rparr>"

definition node_raises :: "string \<Rightarrow> 'a machine \<Rightarrow> 'a machine" where
  "node_raises f s = s\<lparr>flags := (flags s)(f := True), happened := happened s @ [Raised f]\<rparr>"

definition node_lowers :: "string \<Rightarrow> 'a machine \<Rightarrow> 'a machine" where
  "node_lowers f s = s\<lparr>flags := (flags s)(f := False), happened := happened s @ [Lowered f]\<rparr>"

text \<open>One step of the thread that executes the reaction.\<close>

inductive reaction_step :: "'a machine \<Rightarrow> 'a machine \<Rightarrow> bool" where
  call_method: "code s = Call m # c \<Longrightarrow>
    reaction_step s (s\<lparr>code := c, happened := happened s @ [Called m]\<rparr>)"
| test_true: "code s = Forward f v p # c \<Longrightarrow> stage s = Idle \<Longrightarrow> flags s f \<Longrightarrow>
    reaction_step s (s\<lparr>stage := Flag_Seen\<rparr>)"
| test_false: "code s = Forward f v p # c \<Longrightarrow> stage s = Idle \<Longrightarrow> \<not> flags s f \<Longrightarrow>
    reaction_step s (s\<lparr>code := c\<rparr>)"
| copy_value: "code s = Forward f v p # c \<Longrightarrow> stage s = Flag_Seen \<Longrightarrow>
    reaction_step s (s\<lparr>stage := Copied (vals s v)\<rparr>)"
| set_output: "code s = Forward f v p # c \<Longrightarrow> stage s = Copied msg \<Longrightarrow>
    reaction_step s (s\<lparr>stage := Port_Set, ports := (ports s)(p := lf_set (ports s p) msg),
      happened := happened s @ [Sent p msg]\<rparr>)"
| clear_flag: "code s = Forward f v p # c \<Longrightarrow> stage s = Port_Set \<Longrightarrow>
    reaction_step s (s\<lparr>code := c, stage := Idle, flags := (flags s)(f := False),
      happened := happened s @ [Cleared f]\<rparr>)"

text \<open>
  A step of the program: the trigger of the reaction at the next tag, when the last one has ended
  and its ports are absent again, a step of the reaction, or a step of the node.
\<close>

inductive wrapper_step :: "statement list \<Rightarrow> 'a machine \<Rightarrow> 'a machine \<Rightarrow> bool"
  for program :: "statement list" where
  trigger: "code s = [] \<Longrightarrow>
    wrapper_step program s (s\<lparr>code := program, ports := (\<lambda>p. None), happened := happened s @ [Triggered]\<rparr>)"
| reaction: "reaction_step s t \<Longrightarrow> wrapper_step program s t"
| write_value: "wrapper_step program s (node_writes v x s)"
| raise_flag: "wrapper_step program s (node_raises f s)"
| lower_flag: "wrapper_step program s (node_lowers f s)"

inductive_cases reaction_stepE: "reaction_step s t"
inductive_cases wrapper_stepE: "wrapper_step program s t"

definition machine_start :: "(string \<Rightarrow> bool) \<Rightarrow> (string \<Rightarrow> 'a) \<Rightarrow> 'a machine" where
  "machine_start flags0 vals0 =
     \<lparr>flags = flags0, vals = vals0, code = [], stage = Idle, ports = (\<lambda>p. None), happened = []\<rparr>"

text \<open>What was written to a member, what was sent to a port, and how often a flag was raised.\<close>

definition written :: "string \<Rightarrow> 'a event list \<Rightarrow> 'a list" where
  "written v es = concat (map (\<lambda>e. case e of Wrote v' x \<Rightarrow> if v' = v then [x] else [] | _ \<Rightarrow> []) es)"

definition sent :: "string \<Rightarrow> 'a event list \<Rightarrow> 'a list" where
  "sent p es = concat (map (\<lambda>e. case e of Sent p' x \<Rightarrow> if p' = p then [x] else [] | _ \<Rightarrow> []) es)"

definition raises :: "string \<Rightarrow> 'a event list \<Rightarrow> nat" where
  "raises f es = length (filter (\<lambda>e. case e of Raised f' \<Rightarrow> f' = f | _ \<Rightarrow> False) es)"

lemma written_simps [simp]:
  "written v [] = []" "written v (es @ es') = written v es @ written v es'"
  "written v [Wrote v' x] = (if v' = v then [x] else [])"
  "written v [Raised f] = []" "written v [Lowered f] = []" "written v [Triggered] = []"
  "written v [Called m] = []" "written v [Sent p x] = []" "written v [Cleared f] = []"
  by (simp_all add: written_def)

lemma sent_simps [simp]:
  "sent p [] = []" "sent p (es @ es') = sent p es @ sent p es'"
  "sent p [Sent p' x] = (if p' = p then [x] else [])"
  "sent p [Wrote v x] = []" "sent p [Raised f] = []" "sent p [Lowered f] = []"
  "sent p [Triggered] = []" "sent p [Called m] = []" "sent p [Cleared f] = []"
  by (simp_all add: sent_def)

lemma raises_simps [simp]:
  "raises f [] = 0" "raises f (es @ es') = raises f es + raises f es'"
  "raises f [Raised f'] = of_bool (f' = f)"
  "raises f [Wrote v x] = 0" "raises f [Lowered f'] = 0" "raises f [Triggered] = 0"
  "raises f [Called m] = 0" "raises f [Sent p x] = 0" "raises f [Cleared f'] = 0"
  by (simp_all add: raises_def)

text \<open>No two outputs of a program share a flag or a port.\<close>

definition outputs :: "statement list \<Rightarrow> (string \<times> string \<times> string) list" where
  "outputs program = concat (map (\<lambda>i. case i of Forward f v p \<Rightarrow> [(f, v, p)] | _ \<Rightarrow> []) program)"

definition separate :: "statement list \<Rightarrow> bool" where
  "separate program \<longleftrightarrow>
     distinct (map fst (outputs program)) \<and> distinct (map (\<lambda>(f, v, p). p) (outputs program))"

lemma in_outputs: "(f, v, p) \<in> set (outputs program) \<longleftrightarrow> Forward f v p \<in> set program"
  by (force simp: outputs_def split: statement.splits)

lemma forwarding_code_separate: "program \<in> set forwarding_code \<Longrightarrow> separate program"
proof -
  have "list_all separate forwarding_code" by code_simp
  then show "program \<in> set forwarding_code \<Longrightarrow> separate program" by (simp add: list_all_iff)
qed

lemma separateD:
  assumes "separate program" and "Forward f v p \<in> set program" and "Forward f' v' p' \<in> set program"
  shows "f = f' \<longleftrightarrow> p = p'" and "p' = p \<Longrightarrow> v' = v"
proof -
  have o: "(f, v, p) \<in> set (outputs program)" "(f', v', p') \<in> set (outputs program)"
    using assms(2,3) by (simp_all add: in_outputs)
  have d: "inj_on fst (set (outputs program))" "inj_on (\<lambda>(f, v, p). p) (set (outputs program))"
    using assms(1) by (simp_all add: separate_def distinct_map)
  have "(f, v, p) = (f', v', p')" if "f = f'"
    by (rule inj_onD [OF d(1) _ o]) (simp add: that)
  moreover have "(f, v, p) = (f', v', p')" if "p = p'"
    by (rule inj_onD [OF d(2) _ o]) (simp add: that)
  ultimately show "f = f' \<longleftrightarrow> p = p'" and "p' = p \<Longrightarrow> v' = v" by auto
qed

lemma node_happened [simp]:
  "happened (node_writes v x s) = happened s @ [Wrote v x]"
  "happened (node_raises f s) = happened s @ [Raised f]"
  "happened (node_lowers f s) = happened s @ [Lowered f]"
  by (simp_all add: node_writes_def node_raises_def node_lowers_def)

section \<open>Invariants\<close>

text \<open>The reaction is in its own code, and between the statements unless it is in an output.\<close>

definition in_code :: "statement list \<Rightarrow> 'a machine \<Rightarrow> bool" where
  "in_code program s \<longleftrightarrow> set (code s) \<subseteq> set program \<and>
     (stage s \<noteq> Idle \<longrightarrow> (\<exists>f v p c. code s = Forward f v p # c))"

lemma in_code_reaction: "reaction_step s t \<Longrightarrow> in_code program s \<Longrightarrow> in_code program t"
  by (induction rule: reaction_step.induct) (simp_all add: in_code_def)

lemma in_code_step: "wrapper_step program s t \<Longrightarrow> in_code program s \<Longrightarrow> in_code program t"
  by (induction rule: wrapper_step.induct)
    (simp_all add: in_code_reaction, simp_all add: in_code_def node_writes_def node_raises_def node_lowers_def)

text \<open>
  Where the values sent to a port come from: the position of each among the values the member has
  had, the initial one first.  A value that has been copied is newer than those sent before.
\<close>

definition values_of :: "(string \<Rightarrow> 'a) \<Rightarrow> string \<Rightarrow> 'a event list \<Rightarrow> 'a list" where
  "values_of vals0 v es = vals0 v # written v es"

definition origins :: "(string \<Rightarrow> 'a) \<Rightarrow> string \<Rightarrow> string \<Rightarrow> 'a machine \<Rightarrow> nat list \<Rightarrow> bool" where
  "origins vals0 v p s ks \<longleftrightarrow>
     sorted ks \<and> (\<forall>k \<in> set ks. k < length (values_of vals0 v (happened s))) \<and>
     sent p (happened s) = map ((!) (values_of vals0 v (happened s))) ks"

definition copied_origin :: "(string \<Rightarrow> 'a) \<Rightarrow> string \<Rightarrow> string \<Rightarrow> 'a machine \<Rightarrow> nat list \<Rightarrow> bool" where
  "copied_origin vals0 v p s ks \<longleftrightarrow>
     (\<forall>f c x. code s = Forward f v p # c \<longrightarrow> stage s = Copied x \<longrightarrow>
        (\<exists>n < length (values_of vals0 v (happened s)).
           x = values_of vals0 v (happened s) ! n \<and> (\<forall>k \<in> set ks. k \<le> n)))"

definition current_value :: "(string \<Rightarrow> 'a) \<Rightarrow> string \<Rightarrow> 'a machine \<Rightarrow> bool" where
  "current_value vals0 v s \<longleftrightarrow> vals s v = last (values_of vals0 v (happened s))"

definition order_inv :: "(string \<Rightarrow> 'a) \<Rightarrow> string \<Rightarrow> string \<Rightarrow> 'a machine \<Rightarrow> bool" where
  "order_inv vals0 v p s \<longleftrightarrow>
     current_value vals0 v s \<and> (\<exists>ks. origins vals0 v p s ks \<and> copied_origin vals0 v p s ks)"

lemma values_of_append: "values_of vals0 v (es @ es') = values_of vals0 v es @ written v es'"
  by (simp add: values_of_def)

lemma values_of_nonempty [simp]: "values_of vals0 v es \<noteq> []" "0 < length (values_of vals0 v es)"
  by (simp_all add: values_of_def)

text \<open>What has been sent is a part of the state that a step only extends.\<close>

lemma origins_extend:
  assumes "origins vals0 v p s ks" and "happened t = happened s @ es" and "sent p es = []"
  shows "origins vals0 v p t ks"
  using assms by (auto simp: origins_def values_of_append nth_append)

lemma copied_origin_extend:
  assumes "copied_origin vals0 v p s ks" and "happened t = happened s @ es"
    and "code t = code s" and "stage t = stage s"
  shows "copied_origin vals0 v p t ks"
  unfolding copied_origin_def
proof (intro allI impI)
  fix f c x assume "code t = Forward f v p # c" "stage t = Copied x"
  then obtain n where "n < length (values_of vals0 v (happened s))"
      "x = values_of vals0 v (happened s) ! n" "\<forall>k \<in> set ks. k \<le> n"
    using assms(1,3,4) unfolding copied_origin_def by metis
  then show "\<exists>n < length (values_of vals0 v (happened t)).
      x = values_of vals0 v (happened t) ! n \<and> (\<forall>k \<in> set ks. k \<le> n)"
    by (intro exI [of _ n]) (simp add: assms(2) values_of_append nth_append)
qed

lemma current_value_extend:
  assumes "current_value vals0 v s" and "happened t = happened s @ es" and "written v es = []"
    and "vals t v = vals s v"
  shows "current_value vals0 v t"
  using assms by (simp add: current_value_def values_of_append)

text \<open>A step that neither sends nor copies: the order is kept.\<close>

lemma order_inv_extend:
  assumes "order_inv vals0 v p s" and "happened t = happened s @ es" and "sent p es = []"
    and "current_value vals0 v t"
    and "code t = code s \<and> stage t = stage s \<or> (\<forall>x. stage t \<noteq> Copied x)"
  shows "order_inv vals0 v p t"
proof -
  obtain ks where "origins vals0 v p s ks" "copied_origin vals0 v p s ks"
    using assms(1) by (auto simp: order_inv_def)
  moreover have "copied_origin vals0 v p t ks"
    using assms(5) copied_origin_extend [OF calculation(2) assms(2)] by (auto simp: copied_origin_def)
  ultimately show ?thesis
    using assms(4) origins_extend [OF _ assms(2,3)] by (auto simp: order_inv_def)
qed

lemma order_inv_reaction:
  assumes "reaction_step s t" and "in_code program s" and "separate program"
    and "Forward f v p \<in> set program" and "order_inv vals0 v p s"
  shows "order_inv vals0 v p t"
  using assms(1)
proof (cases rule: reaction_step.cases)
  case (copy_value f' v' p' c)
  then have "p' = p \<Longrightarrow> v' = v"
    using separateD(2) [OF assms(3,4)] assms(2) by (auto simp: in_code_def)
  moreover obtain ks where "origins vals0 v p s ks" and now: "current_value vals0 v s"
    using assms(5) by (auto simp: order_inv_def)
  moreover from this(1) have "\<forall>k \<in> set ks. k \<le> length (written v (happened s))"
    by (auto simp: origins_def values_of_def)
  ultimately show ?thesis
    using copy_value now unfolding order_inv_def
    by (intro conjI exI [of _ ks])
      (auto simp: origins_def copied_origin_def current_value_def values_of_def last_conv_nth
        intro!: exI [of _ "length (written v (happened s))"])
next
  case (set_output f' v' p' c msg)
  show ?thesis
  proof (cases "p' = p")
    case True
    then have v: "v' = v" using set_output separateD(2) [OF assms(3,4)] assms(2) by (auto simp: in_code_def)
    obtain ks where ks: "origins vals0 v p s ks" "copied_origin vals0 v p s ks"
      using assms(5) by (auto simp: order_inv_def)
    then obtain n where "n < length (values_of vals0 v (happened s))"
        "msg = values_of vals0 v (happened s) ! n" "\<forall>k \<in> set ks. k \<le> n"
      using set_output True v unfolding copied_origin_def by metis
    with ks(1) have "origins vals0 v p t (ks @ [n])"
      using set_output True by (auto simp: origins_def values_of_def sorted_append)
    moreover have "current_value vals0 v t"
      using assms(5) set_output by (simp add: order_inv_def current_value_def values_of_def)
    ultimately show ?thesis
      using set_output by (auto simp: order_inv_def copied_origin_def)
  next
    case False
    show ?thesis
      by (rule order_inv_extend [OF assms(5), of _ "[Sent p' msg]"])
        (use assms(5) set_output False in \<open>simp_all add: order_inv_def current_value_def values_of_def\<close>)
  qed
next
  case (call_method m c)
  with assms(2) have "stage s = Idle" by (auto simp: in_code_def)
  with call_method show ?thesis
    by (intro order_inv_extend [OF assms(5), of _ "[Called m]"])
      (use assms(5) in \<open>simp_all add: order_inv_def current_value_def values_of_def\<close>)
next
  case (clear_flag f' v' p' c)
  then show ?thesis
    by (intro order_inv_extend [OF assms(5), of _ "[Cleared f']"])
      (use assms(5) in \<open>simp_all add: order_inv_def current_value_def values_of_def\<close>)
next
  case test_true
  then show ?thesis
    by (intro order_inv_extend [OF assms(5), of _ "[]"])
      (use assms(5) in \<open>simp_all add: order_inv_def current_value_def\<close>)
next
  case test_false
  then show ?thesis
    by (intro order_inv_extend [OF assms(5), of _ "[]"])
      (use assms(5) in \<open>simp_all add: order_inv_def current_value_def\<close>)
qed

lemma order_inv_step:
  assumes "wrapper_step program s t" and "in_code program s" and "separate program"
    and "Forward f v p \<in> set program" and "order_inv vals0 v p s"
  shows "order_inv vals0 v p t"
  using assms(1)
proof (cases rule: wrapper_step.cases)
  case trigger
  with assms(2) have "stage s = Idle" by (auto simp: in_code_def)
  with trigger show ?thesis
    by (intro order_inv_extend [OF assms(5), of _ "[Triggered]"])
      (use assms(5) in \<open>simp_all add: order_inv_def current_value_def values_of_def\<close>)
next
  case reaction
  then show ?thesis using order_inv_reaction assms(2-5) by metis
next
  case (write_value v' x)
  then show ?thesis
    by (intro order_inv_extend [OF assms(5), of _ "[Wrote v' x]"])
      (use assms(5) in \<open>simp_all add: node_writes_def order_inv_def current_value_def values_of_def\<close>)
next
  case (raise_flag f')
  then show ?thesis
    by (intro order_inv_extend [OF assms(5), of _ "[Raised f']"])
      (use assms(5) in \<open>simp_all add: node_raises_def order_inv_def current_value_def values_of_def\<close>)
next
  case (lower_flag f')
  then show ?thesis
    by (intro order_inv_extend [OF assms(5), of _ "[Lowered f']"])
      (use assms(5) in \<open>simp_all add: node_lowers_def order_inv_def current_value_def values_of_def\<close>)
qed

text \<open>
  How often a port is set: each time the test has found the flag raised, and it has been lowered
  since, so there is a raise for each.  The initial flag counts as one.
\<close>

definition underway :: "string \<Rightarrow> 'a machine \<Rightarrow> nat" where
  "underway f s =
     (case code s of
        Forward f' v p # c \<Rightarrow>
          if f' = f \<and> stage s \<noteq> Idle then of_bool (stage s \<noteq> Port_Set) else of_bool (flags s f)
      | _ \<Rightarrow> of_bool (flags s f))"

definition count_inv :: "bool \<Rightarrow> string \<Rightarrow> string \<Rightarrow> 'a machine \<Rightarrow> bool" where
  "count_inv flag0 f p s \<longleftrightarrow>
     length (sent p (happened s)) + underway f s \<le> raises f (happened s) + of_bool flag0"

lemma count_inv_reaction:
  assumes "reaction_step s t" and "in_code program s" and "separate program"
    and "Forward f v p \<in> set program" and "count_inv flag0 f p s"
  shows "count_inv flag0 f p t"
  using assms(1)
proof (cases rule: reaction_step.cases)
  case (call_method m c)
  with assms(2,5) show ?thesis
    by (auto simp: count_inv_def underway_def in_code_def split: list.splits statement.splits)
next
  case (test_false f' v' p' c)
  with assms(2,5) show ?thesis
    by (auto simp: count_inv_def underway_def in_code_def split: list.splits statement.splits)
next
  case (set_output f' v' p' c msg)
  then have "f = f' \<longleftrightarrow> p = p'" using separateD(1) [OF assms(3,4)] assms(2) by (auto simp: in_code_def)
  with set_output assms(5) show ?thesis by (auto simp: count_inv_def underway_def)
next
  case (clear_flag f' v' p' c)
  with assms(5) show ?thesis
    by (auto simp: count_inv_def underway_def split: list.splits statement.splits)
next
  case (copy_value f' v' p' c)
  with assms(5) show ?thesis by (cases "f' = f") (simp_all add: count_inv_def underway_def)
next
  case (test_true f' v' p' c)
  with assms(5) show ?thesis by (cases "f' = f") (simp_all add: count_inv_def underway_def)
qed

lemma underway_node:
  "underway f (node_writes v x s) = underway f s"
  "underway f (node_raises f' s) \<le> underway f s + of_bool (f' = f)"
  "underway f (node_lowers f' s) \<le> underway f s"
  by (cases "code s"; (cases "hd (code s)")?; simp add: underway_def node_writes_def node_raises_def node_lowers_def)+

lemma count_inv_step:
  assumes "wrapper_step program s t" and "in_code program s" and "separate program"
    and "Forward f v p \<in> set program" and "count_inv flag0 f p s"
  shows "count_inv flag0 f p t"
  using assms(1)
proof (cases rule: wrapper_step.cases)
  case trigger
  with assms(2,5) show ?thesis
    by (auto simp: count_inv_def underway_def in_code_def split: list.splits statement.splits)
next
  case reaction
  then show ?thesis using count_inv_reaction assms(2-5) by metis
next
  case (write_value v' x)
  with assms(5) underway_node(1) [of f v' x s] show ?thesis by (simp add: count_inv_def)
next
  case (raise_flag f')
  with assms(5) underway_node(2) [of f f' s] show ?thesis by (auto simp: count_inv_def)
next
  case (lower_flag f')
  with assms(5) underway_node(3) [of f f' s] show ?thesis by (simp add: count_inv_def)
qed

section \<open>From a raised flag to the port\<close>

text \<open>
  The reaction has copied the value of an output and not yet cleared its flag: a flag raised now is
  cleared unseen.
\<close>

definition past_copy :: "string \<Rightarrow> 'a machine \<Rightarrow> bool" where
  "past_copy f s \<longleftrightarrow>
     (case code s of
        Forward f' v p # c \<Rightarrow> f' = f \<and> (case stage s of Copied x \<Rightarrow> True | Port_Set \<Rightarrow> True | _ \<Rightarrow> False)
      | _ \<Rightarrow> False)"

lemma past_copy_Idle: "stage s = Idle \<Longrightarrow> \<not> past_copy f s"
  by (simp add: past_copy_def split: list.splits statement.splits)

lemma past_copy_cong: "code u = code t \<Longrightarrow> stage u = stage t \<Longrightarrow> past_copy f u = past_copy f t"
  unfolding past_copy_def by (simp only:)

lemma past_copy_Forward:
  "code s = Forward f' v p # c \<Longrightarrow>
   past_copy f s \<longleftrightarrow> f' = f \<and> (case stage s of Copied x \<Rightarrow> True | Port_Set \<Rightarrow> True | _ \<Rightarrow> False)"
  by (simp add: past_copy_def)

text \<open>
  What becomes of a raised flag, \<open>n\<close> values having been written when it was seen raised, \<open>es\<close> having
  happened since: it is still raised, ahead of the reaction in the code once it is triggered; its
  value, or a newer one, has been copied; or it has been sent.
\<close>

definition awaiting :: "string \<Rightarrow> string \<Rightarrow> string \<Rightarrow> 'a event list \<Rightarrow> 'a machine \<Rightarrow> bool" where
  "awaiting f v p es t \<longleftrightarrow>
     flags t f \<and> \<not> past_copy f t \<and> Cleared f \<notin> set es \<and>
     (Triggered \<in> set es \<longrightarrow> Forward f v p \<in> set (code t))"

definition taken ::
    "(string \<Rightarrow> 'a) \<Rightarrow> string \<Rightarrow> string \<Rightarrow> string \<Rightarrow> nat \<Rightarrow> 'a event list \<Rightarrow> 'a machine \<Rightarrow> bool" where
  "taken vals0 f v p n es t \<longleftrightarrow>
     Cleared f \<notin> set es \<and>
     (\<exists>c k. code t = Forward f v p # c \<and> n \<le> k \<and> k < length (values_of vals0 v (happened t)) \<and>
        stage t = Copied (values_of vals0 v (happened t) ! k))"

definition delivered ::
    "(string \<Rightarrow> 'a) \<Rightarrow> string \<Rightarrow> string \<Rightarrow> nat \<Rightarrow> 'a event list \<Rightarrow> 'a machine \<Rightarrow> bool" where
  "delivered vals0 v p n es t \<longleftrightarrow>
     (\<exists>k. n \<le> k \<and> k < length (values_of vals0 v (happened t)) \<and>
        values_of vals0 v (happened t) ! k \<in> set (sent p es))"

lemma delivered_extend:
  "delivered vals0 v p n es t \<Longrightarrow> happened u = happened t @ e \<Longrightarrow> delivered vals0 v p n (es @ e) u"
  unfolding delivered_def by (elim exE conjE, rule_tac x = k in exI) (simp add: values_of_append nth_append)

lemma happened_extends: "wrapper_step program s t \<Longrightarrow> \<exists>e. happened t = happened s @ e"
  by (induction rule: wrapper_step.induct)
    (simp_all add: node_writes_def node_raises_def node_lowers_def, erule reaction_step.cases, simp_all)

text \<open>A step that leaves code and stage as they are.\<close>

lemma awaiting_extend:
  assumes "awaiting f v p es t" and "Cleared f \<notin> set e" and "Triggered \<notin> set e" and "flags u f"
    and "code u = code t" and "stage u = stage t"
  shows "awaiting f v p (es @ e) u"
  using assms(1-5) past_copy_cong [OF assms(5,6), of f] by (simp add: awaiting_def)

lemma taken_extend:
  assumes "taken vals0 f v p n es t" and "happened u = happened t @ e" and "Cleared f \<notin> set e"
    and "code u = code t" and "stage u = stage t"
  shows "taken vals0 f v p n (es @ e) u"
  using assms unfolding taken_def
  by (elim exE conjE) (rule conjI, simp, rule_tac x = c in exI, rule_tac x = k in exI,
    simp add: values_of_append nth_append)

lemma taken_step:
  assumes "wrapper_step program t u" and "taken vals0 f v p n es t"
  shows "\<exists>e. happened u = happened t @ e \<and>
    (taken vals0 f v p n (es @ e) u \<or> delivered vals0 v p n (es @ e) u)"
  using assms(1)
proof (cases rule: wrapper_step.cases)
  case reaction
  then show ?thesis
    by (cases rule: reaction_step.cases)
      (use assms(2) in \<open>auto simp: taken_def delivered_def values_of_append\<close>)
next
  case (write_value v' x)
  then show ?thesis
    by (intro exI [of _ "[Wrote v' x]"] conjI disjI1 taken_extend [OF assms(2)]) (simp_all add: node_writes_def)
next
  case (raise_flag f')
  then show ?thesis
    by (intro exI [of _ "[Raised f']"] conjI disjI1 taken_extend [OF assms(2)]) (simp_all add: node_raises_def)
next
  case (lower_flag f')
  then show ?thesis
    by (intro exI [of _ "[Lowered f']"] conjI disjI1 taken_extend [OF assms(2)]) (simp_all add: node_lowers_def)
qed (use assms(2) in \<open>simp add: taken_def\<close>)

lemma awaiting_reaction:
  assumes "reaction_step t u" and "in_code program t" and "separate program"
    and "Forward f v p \<in> set program" and "current_value vals0 v t"
    and "n \<le> length (written v (happened t))" and "awaiting f v p es t"
  shows "\<exists>e. happened u = happened t @ e \<and> (awaiting f v p (es @ e) u \<or> taken vals0 f v p n (es @ e) u)"
  using assms(1)
proof (cases rule: reaction_step.cases)
  case (call_method m c)
  with assms(2) have "stage u = Idle" by (auto simp: in_code_def)
  with call_method assms(7) show ?thesis by (simp add: awaiting_def past_copy_Idle)
next
  case (test_false f' v' p' c)
  with assms(7) have "f' \<noteq> f" by (auto simp: awaiting_def)
  with test_false assms(7) show ?thesis by (simp add: awaiting_def past_copy_Idle)
next
  case (copy_value f' v' p' c)
  show ?thesis
  proof (cases "f' = f")
    case True
    from copy_value assms(2) have "Forward f' v' p' \<in> set program" by (auto simp: in_code_def)
    from separateD [OF assms(3,4) this] True have "p' = p" "v' = v" by simp_all
    moreover have "values_of vals0 v (happened t) ! length (written v (happened t)) = vals t v"
      using assms(5) by (simp add: current_value_def values_of_def last_conv_nth)
    ultimately have "taken vals0 f v p n es u"
      using True copy_value assms(6,7)
      by (simp add: taken_def awaiting_def)
        (intro exI [of _ "length (written v (happened t))"], simp add: values_of_def)
    with copy_value show ?thesis by simp
  next
    case False
    with copy_value assms(7) show ?thesis by (simp add: awaiting_def past_copy_Forward)
  qed
next
  case (set_output f' v' p' c msg)
  with assms(7) have "f' \<noteq> f" by (simp add: awaiting_def past_copy_Forward)
  with set_output assms(7) show ?thesis by (simp add: awaiting_def past_copy_Forward)
next
  case (clear_flag f' v' p' c)
  with assms(7) have "f' \<noteq> f" by (simp add: awaiting_def past_copy_Forward)
  with clear_flag assms(7) show ?thesis by (simp add: awaiting_def past_copy_Idle)
next
  case (test_true f' v' p' c)
  with assms(7) show ?thesis by (simp add: awaiting_def past_copy_Forward)
qed

lemma awaiting_step:
  assumes "wrapper_step program t u" and "in_code program t" and "separate program"
    and "Forward f v p \<in> set program" and "current_value vals0 v t"
    and "n \<le> length (written v (happened t))" and "awaiting f v p es t"
  shows "\<exists>e. happened u = happened t @ e \<and>
    (Lowered f \<in> set e \<or> awaiting f v p (es @ e) u \<or> taken vals0 f v p n (es @ e) u)"
  using assms(1)
proof (cases rule: wrapper_step.cases)
  case trigger
  with assms(2) have "stage u = Idle" by (auto simp: in_code_def)
  with trigger assms(4,7) show ?thesis by (simp add: awaiting_def past_copy_Idle)
next
  case reaction
  then show ?thesis using awaiting_reaction [OF _ assms(2-7)] by blast
next
  case (write_value v' x)
  have "flags t f" using assms(7) by (simp add: awaiting_def)
  with write_value show ?thesis
    by (intro exI [of _ "[Wrote v' x]"] conjI disjI2 disjI1 awaiting_extend [OF assms(7)])
      (simp_all add: node_writes_def)
next
  case (raise_flag f')
  have "flags t f" using assms(7) by (simp add: awaiting_def)
  with raise_flag show ?thesis
    by (intro exI [of _ "[Raised f']"] conjI disjI2 disjI1 awaiting_extend [OF assms(7)])
      (simp_all add: node_raises_def)
next
  case (lower_flag f')
  have "flags t f" using assms(7) by (simp add: awaiting_def)
  show ?thesis
  proof (cases "f' = f")
    case True
    with lower_flag show ?thesis by (simp add: node_lowers_def)
  next
    case False
    with lower_flag \<open>flags t f\<close> show ?thesis
      by (intro exI [of _ "[Lowered f']"] conjI disjI2 disjI1 awaiting_extend [OF assms(7)])
        (simp_all add: node_lowers_def)
  qed
qed

section \<open>Runs\<close>

text \<open>All invariants over a run from the start.\<close>

lemma run_invariants:
  assumes "(wrapper_step program)\<^sup>*\<^sup>* (machine_start flags0 vals0) s"
    and "separate program" and "Forward f v p \<in> set program"
  shows "in_code program s \<and> order_inv vals0 v p s \<and> count_inv (flags0 f) f p s"
  using assms(1)
proof (induction rule: rtranclp_induct)
  case base
  show ?case
    by (auto simp: in_code_def order_inv_def current_value_def values_of_def origins_def copied_origin_def
        count_inv_def underway_def machine_start_def intro!: exI [of _ "[]"])
next
  case (step s t)
  then show ?case
    using in_code_step order_inv_step [OF _ _ assms(2,3)] count_inv_step [OF _ _ assms(2,3)] by metis
qed

lemma run_delivers:
  assumes "(wrapper_step program)\<^sup>*\<^sup>* s t" and "(wrapper_step program)\<^sup>*\<^sup>* (machine_start flags0 vals0) s"
    and "separate program" and "Forward f v p \<in> set program" and "flags s f" and "\<not> past_copy f s"
  shows "\<exists>es. happened t = happened s @ es \<and>
    (Lowered f \<in> set es \<or> awaiting f v p es t \<or> taken vals0 f v p (length (written v (happened s))) es t \<or>
     delivered vals0 v p (length (written v (happened s))) es t)"
  using assms(1)
proof (induction rule: rtranclp_induct)
  case base
  with assms(5,6) show ?case by (intro exI [of _ "[]"]) (simp add: awaiting_def)
next
  case (step t u)
  let ?n = "length (written v (happened s))"
  from step.IH obtain es where es: "happened t = happened s @ es"
      "Lowered f \<in> set es \<or> awaiting f v p es t \<or> taken vals0 f v p ?n es t \<or> delivered vals0 v p ?n es t"
    by blast
  have inv: "in_code program t" "current_value vals0 v t"
    using run_invariants [OF rtranclp_trans [OF assms(2) step.hyps(1)] assms(3,4)]
    by (simp_all add: order_inv_def)
  have n: "?n \<le> length (written v (happened t))" by (simp add: es(1))
  obtain e where e: "happened u = happened t @ e" using happened_extends [OF step.hyps(2)] by blast
  have "Lowered f \<in> set (es @ e) \<or> awaiting f v p (es @ e) u \<or> taken vals0 f v p ?n (es @ e) u \<or>
      delivered vals0 v p ?n (es @ e) u"
    using es(2)
  proof (elim disjE)
    assume "awaiting f v p es t"
    from awaiting_step [OF step.hyps(2) inv(1) assms(3,4) inv(2) n this] e show ?thesis by auto
  next
    assume "taken vals0 f v p ?n es t"
    from taken_step [OF step.hyps(2) this] e show ?thesis by auto
  qed (use delivered_extend [OF _ e] in auto)
  with es(1) e show ?case by (intro exI [of _ "es @ e"]) simp
qed

section \<open>The reaction alone\<close>

fun run_alone ::
    "statement list \<Rightarrow> (string \<Rightarrow> 'a) \<Rightarrow> (string \<Rightarrow> bool) \<times> (string \<Rightarrow> 'a port) \<Rightarrow>
     (string \<Rightarrow> bool) \<times> (string \<Rightarrow> 'a port)" where
  "run_alone [] vs fp = fp"
| "run_alone (Call m # c) vs fp = run_alone c vs fp"
| "run_alone (Forward f v p # c) vs (fs, ps) =
     (let (s, out) = forward_at_once \<lparr>is_set = fs f, lf_output = vs v\<rparr> (ps p) in
      run_alone c vs (fs(f := is_set s), ps(p := out)))"

text \<open>A statement at a time, without a step of the node.\<close>

lemma statement_alone:
  assumes "code s = i # c" and "stage s = Idle"
  shows "\<exists>t. reaction_step\<^sup>*\<^sup>* s t \<and> code t = c \<and> stage t = Idle \<and> vals t = vals s \<and>
    (flags t, ports t) = run_alone [i] (vals s) (flags s, ports s)"
proof (cases i)
  case (Call m)
  with assms show ?thesis
    by (intro exI [of _ "s\<lparr>code := c, happened := happened s @ [Called m]\<rparr>"] conjI)
      (auto intro: r_into_rtranclp call_method)
next
  case (Forward f v p)
  show ?thesis
  proof (cases "flags s f")
    case False
    then have "reaction_step s (s\<lparr>code := c\<rparr>)"
      using assms Forward by (intro test_false) auto
    with False Forward assms(2) show ?thesis
      by (intro exI [of _ "s\<lparr>code := c\<rparr>"]) (auto simp: forward_at_once_def fun_eq_iff)
  next
    case True
    let ?s1 = "s\<lparr>stage := Flag_Seen\<rparr>" and ?s2 = "s\<lparr>stage := Copied (vals s v)\<rparr>"
    let ?s3 = "s\<lparr>stage := Port_Set, ports := (ports s)(p := lf_set (ports s p) (vals s v)),
      happened := happened s @ [Sent p (vals s v)]\<rparr>"
    let ?s4 = "?s3\<lparr>code := c, stage := Idle, flags := (flags s)(f := False),
      happened := happened s @ [Sent p (vals s v), Cleared f]\<rparr>"
    have "reaction_step s ?s1" using assms Forward True by (intro test_true) auto
    moreover have "reaction_step ?s1 ?s2" using copy_value [of ?s1 f v p c] assms Forward by simp
    moreover have "reaction_step ?s2 ?s3" using set_output [of ?s2 f v p c "vals s v"] assms Forward by simp
    moreover have "reaction_step ?s3 ?s4" using clear_flag [of ?s3 f v p c] assms Forward by simp
    ultimately have "reaction_step\<^sup>*\<^sup>* s ?s4"
      by (meson rtranclp.rtrancl_into_rtrancl rtranclp.rtrancl_refl)
    with True Forward show ?thesis by (intro exI [of _ ?s4]) (simp add: forward_at_once_def Let_def)
  qed
qed

lemma run_alone_Cons: "run_alone (i # c) vs fp = run_alone c vs (run_alone [i] vs fp)"
  by (cases i; cases fp) (simp_all add: Let_def case_prod_beta)

lemma reaction_alone:
  assumes "stage s = Idle"
  shows "\<exists>t. reaction_step\<^sup>*\<^sup>* s t \<and> code t = [] \<and> stage t = Idle \<and> vals t = vals s \<and>
    (flags t, ports t) = run_alone (code s) (vals s) (flags s, ports s)"
  using assms
proof (induction "code s" arbitrary: s)
  case Nil
  then show ?case by (intro exI [of _ s]) simp
next
  case (Cons i c)
  obtain t where t: "reaction_step\<^sup>*\<^sup>* s t" "code t = c" "stage t = Idle" "vals t = vals s"
      "(flags t, ports t) = run_alone [i] (vals s) (flags s, ports s)"
    using statement_alone [OF Cons.hyps(2) [symmetric] Cons.prems] by blast
  from Cons.hyps(1) [OF t(2) [symmetric] t(3)] obtain u where
      u: "reaction_step\<^sup>*\<^sup>* t u" "code u = []" "stage u = Idle" "vals u = vals t"
      "(flags u, ports u) = run_alone (code t) (vals t) (flags t, ports t)"
    by blast
  have "(flags u, ports u) = run_alone (code s) (vals s) (flags s, ports s)"
    using u(5) unfolding t(2,4,5) Cons.hyps(2) [symmetric] run_alone_Cons [of i c, symmetric] .
  with u t show ?case by (intro exI [of _ u]) (auto intro: rtranclp_trans)
qed

text \<open>The thread has one next step, and none when the reaction has ended.\<close>

lemma reaction_step_deterministic: "reaction_step s t \<Longrightarrow> reaction_step s u \<Longrightarrow> u = t"
  by (erule reaction_step.cases; erule reaction_step.cases; simp)

lemma ends_once:
  assumes "reaction_step\<^sup>*\<^sup>* s t" and "code t = []" and "reaction_step\<^sup>*\<^sup>* s u" and "code u = []"
  shows "u = t"
  using assms(1,3)
proof (induction rule: converse_rtranclp_induct)
  case base
  then show ?case using assms(2) by (cases rule: converse_rtranclpE) (auto elim: reaction_stepE)
next
  case (step x y)
  from step.prems show ?case
  proof (cases rule: converse_rtranclpE)
    case base
    with assms(4) step.hyps(1) show ?thesis by (auto elim: reaction_stepE)
  next
    case (step z)
    with reaction_step_deterministic [OF \<open>reaction_step x y\<close>, of z] show ?thesis
      by (intro step.IH) simp
  qed
qed

text \<open>The functions of \<open>Reactors\<close>, with no other thread, are the runs of the programs alone, after the method.\<close>

lemma scenario_selector_alone:
  "snd (scenario_selector_reaction (\<lambda>n. n) (\<lambda>k n. n)
      \<lparr>n2_state = s, n2_slot1 = \<lparr>is_set = fs ''lf_trajectory_is_set'', lf_output = vs ''lf_output_trajectory''\<rparr>,
       n2_slot2 = \<lparr>is_set = fs ''lf_scenario_is_set'', lf_output = vs ''lf_output_scenario''\<rparr>\<rparr> (None, None)) =
   (let ps = snd (run_alone scenario_selector_code vs (fs, \<lambda>p. None)) in
    (ps ''trajectory_out'', ps ''scenario_out''))"
  by (simp add: scenario_selector_reaction_def scenario_selector_code_def forward_def forward_at_once_def lf_set_def Let_def)

lemma velocity_smoother_alone:
  "snd (velocity_smoother_reaction (\<lambda>x n. n) x (\<lambda>k n. n)
      \<lparr>n1_state = s, n1_slot = \<lparr>is_set = fs ''lf_trajectory_is_set'', lf_output = vs ''lf_output_trajectory''\<rparr>\<rparr>
      None) =
   snd (run_alone velocity_smoother_code vs (fs, \<lambda>p. None)) ''trajectory_out''"
  by (simp add: velocity_smoother_reaction_def velocity_smoother_code_def forward_def forward_at_once_def lf_set_def Let_def)

text \<open>What a run alone does to each output, when outputs are separate.\<close>

lemma run_alone_Forward:
  "run_alone (Forward f v p # c) vs (fs, ps) =
   run_alone c vs (fs(f := False), ps(p := snd (forward_at_once \<lparr>is_set = fs f, lf_output = vs v\<rparr> (ps p))))"
  by (simp add: Let_def case_prod_beta forward_at_once_state)

lemma outputs_Cons [simp]:
  "outputs [] = []" "outputs (Call m # c) = outputs c" "outputs (Forward f v p # c) = (f, v, p) # outputs c"
  by (simp_all add: outputs_def)

lemma run_alone_other:
  assumes "(fs', ps') = run_alone c vs (fs, ps)"
  shows "(f \<notin> fst ` set (outputs c) \<longrightarrow> fs' f = fs f) \<and>
    (p \<notin> (\<lambda>(f, v, p). p) ` set (outputs c) \<longrightarrow> ps' p = ps p)"
  using assms
proof (induction c arbitrary: fs ps)
  case (Cons i c)
  then show ?case
    by (cases i) (auto simp: run_alone_Forward simp del: run_alone.simps(3))
qed simp

lemma run_alone_output:
  assumes "separate c" and "Forward f v p \<in> set c" and "(fs', ps') = run_alone c vs (fs, ps)"
  shows "(\<lparr>is_set = fs' f, lf_output = vs v\<rparr>, ps' p) = forward_at_once \<lparr>is_set = fs f, lf_output = vs v\<rparr> (ps p)"
  using assms
proof (induction c arbitrary: fs ps)
  case (Cons i c)
  show ?case
  proof (cases i)
    case (Call m)
    with Cons show ?thesis by (simp add: separate_def)
  next
    case (Forward f' v' p')
    let ?ps = "ps(p' := snd (forward_at_once \<lparr>is_set = fs f', lf_output = vs v'\<rparr> (ps p')))"
    have rest: "(fs', ps') = run_alone c vs (fs(f' := False), ?ps)"
      using Cons.prems(3) Forward by (simp add: run_alone_Forward del: run_alone.simps(3))
    have sep: "separate c" "f' \<notin> fst ` set (outputs c)" "p' \<notin> (\<lambda>(f, v, p). p) ` set (outputs c)"
      using Cons.prems(1) Forward by (auto simp: separate_def)
    show ?thesis
    proof (cases "Forward f v p \<in> set c")
      case True
      then have "(f, v, p) \<in> set (outputs c)" by (simp add: in_outputs)
      then have "f \<noteq> f'" "p \<noteq> p'" using sep(2,3) by force+
      with Cons.IH [OF sep(1) True rest] show ?thesis by simp
    next
      case False
      with Cons.prems(2) Forward have "f = f'" "v = v'" "p = p'" by auto
      with run_alone_other [OF rest, of f' p'] sep(2,3) show ?thesis
        by (simp add: forward_at_once_def Let_def)
    qed
  qed
qed simp

text \<open>A run for the witnesses: a route is requested and its flag raised, and the timer triggers.\<close>

definition sample_raised :: "nat machine" where
  "sample_raised = node_raises ''lf_route_is_set'' (node_writes ''lf_output_route'' 5
     (machine_start (\<lambda>f. False) (\<lambda>v. 0)))"

definition sample_sent :: "nat machine" where
  "sample_sent = sample_raised\<lparr>ports := (\<lambda>p. None)(''route_out'' := Some 5), code := [], stage := Idle,
     flags := (flags sample_raised)(''lf_route_is_set'' := False),
     happened := happened sample_raised @ [Triggered, Sent ''route_out'' 5, Cleared ''lf_route_is_set'']\<rparr>"

lemma sample_raised_reachable:
  "(wrapper_step mission_planner_code)\<^sup>*\<^sup>* (machine_start (\<lambda>f. False) (\<lambda>v. 0)) sample_raised"
  unfolding sample_raised_def
  by (meson rtranclp.rtrancl_into_rtrancl rtranclp.rtrancl_refl write_value raise_flag)

lemma sample_sent_reached: "(wrapper_step mission_planner_code)\<^sup>*\<^sup>* sample_raised sample_sent"
proof -
  let ?s1 = "sample_raised\<lparr>code := mission_planner_code, ports := \<lambda>p. None,
    happened := happened sample_raised @ [Triggered]\<rparr>"
  let ?s2 = "?s1\<lparr>stage := Flag_Seen\<rparr>"
  let ?s3 = "?s1\<lparr>stage := Copied 5\<rparr>"
  let ?s4 = "?s1\<lparr>stage := Port_Set, ports := (\<lambda>p. None)(''route_out'' := Some 5),
    happened := happened sample_raised @ [Triggered, Sent ''route_out'' 5]\<rparr>"
  have start: "code sample_raised = []" "stage sample_raised = Idle" "flags sample_raised ''lf_route_is_set''"
    "vals sample_raised ''lf_output_route'' = 5"
    by (simp_all add: sample_raised_def node_raises_def node_writes_def machine_start_def)
  note code = mission_planner_code_def
  have "wrapper_step mission_planner_code sample_raised ?s1" using trigger [OF start(1)] by simp
  moreover have "reaction_step ?s1 ?s2"
    using test_true [of ?s1 "''lf_route_is_set''"] by (simp add: start code)
  then have "wrapper_step mission_planner_code ?s1 ?s2" by (rule reaction)
  moreover have "reaction_step ?s2 ?s3"
    using copy_value [of ?s2] by (simp add: start code)
  then have "wrapper_step mission_planner_code ?s2 ?s3" by (rule reaction)
  moreover have "reaction_step ?s3 ?s4"
    using set_output [of ?s3] by (simp add: start code lf_set_def)
  then have "wrapper_step mission_planner_code ?s3 ?s4" by (rule reaction)
  moreover have "reaction_step ?s4 sample_sent"
    using clear_flag [of ?s4] by (simp add: start code sample_sent_def)
  then have "wrapper_step mission_planner_code ?s4 sample_sent" by (rule reaction)
  ultimately show ?thesis by (meson rtranclp.rtrancl_into_rtrancl rtranclp.rtrancl_refl)
qed

lemma sample_happened:
  "happened sample_raised = [Wrote ''lf_output_route'' 5, Raised ''lf_route_is_set'']"
  "happened sample_sent = happened sample_raised @
     [Triggered, Sent ''route_out'' 5, Cleared ''lf_route_is_set'']"
  by (simp_all add: sample_sent_def) (simp add: sample_raised_def machine_start_def)

section \<open>Properties\<close>



text \<open>C3: a raised flag is not overlooked.  If a flag is up in a reachable state of one of the nine
  wrappers, and the reaction is not between copying its value and clearing it, then, whatever
  happens next except that the node itself lowers it, the flag is not cleared before its value, or
  one written since, has been sent; and that has happened as soon as the next reaction to be
  triggered has ended.\<close>

theorem raised_outputs_are_sent:
  assumes "program \<in> set forwarding_code" and "Forward f v p \<in> set program"
    and "(wrapper_step program)\<^sup>*\<^sup>* (machine_start flags0 vals0) s"
    and "flags s f" and "\<not> past_copy f s"
    and "(wrapper_step program)\<^sup>*\<^sup>* s t" and "happened t = happened s @ es" and "Lowered f \<notin> set es"
    and "Cleared f \<in> set es \<or> Triggered \<in> set es \<and> code t = []"
  shows "\<exists>k. length (written v (happened s)) \<le> k \<and> k \<le> length (written v (happened t)) \<and>
    (vals0 v # written v (happened t)) ! k \<in> set (sent p es)"
proof -
  have "awaiting f v p es t \<or> taken vals0 f v p (length (written v (happened s))) es t \<or>
      delivered vals0 v p (length (written v (happened s))) es t"
    using run_delivers [OF assms(6,3) forwarding_code_separate [OF assms(1)] assms(2,4,5)] assms(7,8)
    by auto
  then have "delivered vals0 v p (length (written v (happened s))) es t"
    using assms(9) by (auto simp: awaiting_def taken_def)
  then show ?thesis unfolding delivered_def values_of_def by (metis length_Cons less_Suc_eq_le)
qed

theorem raised_outputs_are_sent_witness:
  "\<exists>k. 1 \<le> k \<and> k \<le> (1 :: nat) \<and> ([0, 5] ! k :: nat) \<in> {5}"
proof -
  have "flags sample_raised ''lf_route_is_set''" "\<not> past_copy ''lf_route_is_set'' sample_raised"
    by (simp_all add: sample_raised_def node_raises_def machine_start_def past_copy_def node_writes_def)
  from raised_outputs_are_sent [OF _ _ sample_raised_reachable this sample_sent_reached sample_happened(2),
      of "''lf_output_route''" "''route_out''"]
  show ?thesis
    by (simp add: forwarding_code_def sample_happened) (simp add: mission_planner_code_def written_def sent_def)
qed

text \<open>C8: the reaction by itself is the atomic reaction.  From any point between two statements of
  one of the nine programs, the thread of the reaction, as long as the node does nothing, ends in
  exactly one state; in it every output still ahead has been forwarded as by \<open>forward_at_once\<close>: its port
  carries the value if the flag was up and is as before if not, the flag is down, and nothing else
  has changed.\<close>

theorem undisturbed_reactions_forward:
  assumes "program \<in> set forwarding_code" and "program = before @ code s" and "stage s = Idle"
  shows "\<exists>t. (\<forall>u. reaction_step\<^sup>*\<^sup>* s u \<and> code u = [] \<longleftrightarrow> u = t) \<and> vals t = vals s \<and>
    (\<forall>f v p. Forward f v p \<in> set (code s) \<longrightarrow>
       (\<lparr>is_set = flags t f, lf_output = vals t v\<rparr>, ports t p) =
         forward_at_once \<lparr>is_set = flags s f, lf_output = vals s v\<rparr> (ports s p)) \<and>
    (\<forall>f. f \<notin> fst ` set (outputs (code s)) \<longrightarrow> flags t f = flags s f) \<and>
    (\<forall>p. p \<notin> (\<lambda>(f, v, p). p) ` set (outputs (code s)) \<longrightarrow> ports t p = ports s p)"
proof -
  obtain t where t: "reaction_step\<^sup>*\<^sup>* s t" "code t = []" "vals t = vals s"
      "(flags t, ports t) = run_alone (code s) (vals s) (flags s, ports s)"
    using reaction_alone [OF assms(3)] by blast
  have "separate program" by (rule forwarding_code_separate [OF assms(1)])
  then have "separate (code s)"
    by (simp add: assms(2) separate_def outputs_def)
  from run_alone_output [OF this _ t(4)] run_alone_other [OF t(4)] t(3)
  have "\<forall>f v p. Forward f v p \<in> set (code s) \<longrightarrow>
       (\<lparr>is_set = flags t f, lf_output = vals t v\<rparr>, ports t p) =
         forward_at_once \<lparr>is_set = flags s f, lf_output = vals s v\<rparr> (ports s p)"
    "\<forall>f. f \<notin> fst ` set (outputs (code s)) \<longrightarrow> flags t f = flags s f"
    "\<forall>p. p \<notin> (\<lambda>(f, v, p). p) ` set (outputs (code s)) \<longrightarrow> ports t p = ports s p"
    by auto
  then show ?thesis using t(1-3) ends_once [OF t(1,2)] by (intro exI [of _ t]) blast
qed

theorem undisturbed_reactions_forward_witness:
  "\<exists>t. reaction_step\<^sup>*\<^sup>* (sample_raised\<lparr>code := mission_planner_code\<rparr>) t \<and> code t = [] \<and>
    ports t ''route_out'' = Some 5 \<and> \<not> flags t ''lf_route_is_set''"
proof -
  let ?s = "sample_raised\<lparr>code := mission_planner_code\<rparr>"
  have "mission_planner_code = [] @ code ?s" "stage ?s = Idle" "flags ?s ''lf_route_is_set''"
      "vals ?s ''lf_output_route'' = 5"
    by (simp_all add: sample_raised_def node_raises_def node_writes_def machine_start_def)
  moreover have "mission_planner_code \<in> set forwarding_code"
    "Forward ''lf_route_is_set'' ''lf_output_route'' ''route_out'' \<in> set (code ?s)"
    by (simp_all add: forwarding_code_def) (simp add: mission_planner_code_def)
  ultimately show ?thesis
    using undisturbed_reactions_forward [of mission_planner_code "[]" ?s]
    by (fastforce simp: forward_at_once_def lf_set_def Let_def)
qed

end
