(* ===== verification/Pointer_Hashmap.thy ===== *)
theory Pointer_Hashmap
  imports Lf_Base
begin

text \<open>
  The open-addressing hash map of \<open>core/utils/impl/hashmap.h\<close>, at the instance that
  \<open>core/utils/impl/pointer_hashmap.h\<close> declares: keys are pointers, values are C ints, and the
  hash of a key is its address.  The array has one entry more than the capacity; the last one
  is a boundary that always holds the key \<open>nothing\<close>, so that the probing loops stop.
  Addresses of entries are indices of the list \<open>entries\<close>.
\<close>

section \<open>Data and operations\<close>

record entry_t =
  e_key :: pointer
  e_value :: int32_t

record hashmap_t =
  entries :: "entry_t list"
  capacity :: size_t
  num_entries :: size_t
  nothing :: pointer

definition hash_of :: "pointer \<Rightarrow> size_t" where
  "hash_of key = key"

definition get_ideal_address :: "hashmap_t \<Rightarrow> pointer \<Rightarrow> nat c_result" where
  "get_ideal_address hashmap key =
     (if capacity hashmap = 0 then Inl Division_By_Zero
      else let address = unat (hash_of key mod capacity hashmap) in
           if address < unat (capacity hashmap) then Inr address else Inl Assertion_Failed)"

text \<open>The probing loop: advance while the entry is taken by another key.\<close>

function probe :: "entry_t list \<Rightarrow> pointer \<Rightarrow> pointer \<Rightarrow> nat \<Rightarrow> nat c_result" where
  "probe es none key address =
     (if address < length es
      then (if e_key (es ! address) \<noteq> none \<and> e_key (es ! address) \<noteq> key
            then probe es none key (Suc address)
            else Inr address)
      else Inl Out_Of_Bounds)"
  by pat_completeness auto
termination by (relation "measure (\<lambda>(es, none, key, address). length es - address)") auto

declare probe.simps [simp del]

text \<open>The result \<open>None\<close> is the NULL pointer.\<close>

definition get_actual_address :: "hashmap_t \<Rightarrow> pointer \<Rightarrow> nat option c_result" where
  "get_actual_address hashmap key =
     c_bind (get_ideal_address hashmap key) (\<lambda>start.
     c_bind (probe (entries hashmap) (nothing hashmap) key start) (\<lambda>address.
     c_bind
       (if address = unat (capacity hashmap)
        then c_bind (probe (entries hashmap) (nothing hashmap) key 0) (\<lambda>again.
               Inr (if again = unat (capacity hashmap) then None else Some again))
        else Inr (Some address))
       (\<lambda>found. case found of
          None \<Rightarrow> Inr None
        | Some address \<Rightarrow>
            c_bind (c_read (entries hashmap) address) (\<lambda>e.
              if e_key e = key \<or> e_key e = nothing hashmap
              then Inr (Some address) else Inl Assertion_Failed))))"

text \<open>
  The loop of \<open>new\<close> that marks the first \<open>n\<close> entries free; it leaves their values as
  \<open>malloc\<close> returned them.
\<close>

fun clear_keys :: "pointer \<Rightarrow> nat \<Rightarrow> entry_t list \<Rightarrow> entry_t list c_result" where
  "clear_keys none 0 es = Inr es"
| "clear_keys none (Suc i) es =
     c_bind (clear_keys none i es) (\<lambda>es'.
     c_bind (c_read es' i) (\<lambda>e. c_write es' i (e\<lparr>e_key := none\<rparr>)))"

definition sizeof_entry_t :: size_t where
  "sizeof_entry_t = 16"

definition sizeof_hashmap_t :: size_t where
  "sizeof_hashmap_t = 32"

text \<open>
  \<open>malloc n\<close> says whether an allocation of \<open>n\<close> bytes succeeds, and \<open>junk\<close> is what the fresh
  memory holds.  The size of the array is computed in \<open>size_t\<close>, where it may wrap around.
\<close>

definition hashmap_new ::
    "(size_t \<Rightarrow> bool) \<Rightarrow> (nat \<Rightarrow> entry_t) \<Rightarrow> size_t \<Rightarrow> pointer \<Rightarrow> hashmap_t c_result" where
  "hashmap_new malloc junk cap none =
     (let bytes = (cap + 1) * sizeof_entry_t;
          block = map junk [0..<unat bytes div unat sizeof_entry_t] in
      if \<not> malloc bytes then Inl (Exit_Failure 1)
      else if \<not> malloc sizeof_hashmap_t then Inl (Exit_Failure 1)
      else c_bind (clear_keys none (unat (cap + 1)) block) (\<lambda>es.
             Inr \<lparr>entries = es, capacity = cap, num_entries = 0, nothing = none\<rparr>))"

definition hashmap_put :: "hashmap_t \<Rightarrow> pointer \<Rightarrow> int32_t \<Rightarrow> hashmap_t c_result" where
  "hashmap_put hashmap key val =
     (if key = nothing hashmap then Inl Assertion_Failed
      else c_bind (get_actual_address hashmap key) (\<lambda>write_to.
        case write_to of
          None \<Rightarrow> Inl Null_Dereference
        | Some i \<Rightarrow>
            c_bind (c_write (entries hashmap) i \<lparr>e_key = key, e_value = val\<rparr>) (\<lambda>es.
              Inr (hashmap\<lparr>entries := es\<rparr>))))"

definition hashmap_get :: "hashmap_t \<Rightarrow> pointer \<Rightarrow> int32_t c_result" where
  "hashmap_get hashmap key =
     (if key = nothing hashmap then Inl Assertion_Failed
      else c_bind (get_actual_address hashmap key) (\<lambda>read_from.
        case read_from of
          None \<Rightarrow> Inl Null_Dereference
        | Some i \<Rightarrow> c_bind (c_read (entries hashmap) i) (\<lambda>e. Inr (e_value e))))"

section \<open>Invariant and abstraction\<close>

definition slot_key :: "hashmap_t \<Rightarrow> nat \<Rightarrow> pointer" where
  "slot_key h i = e_key (entries h ! i)"

definition ideal :: "hashmap_t \<Rightarrow> pointer \<Rightarrow> nat" where
  "ideal h k = unat k mod unat (capacity h)"

text \<open>\<open>visited c a i j\<close>: a cyclic search from \<open>a\<close> in \<open>c\<close> slots meets \<open>j\<close> before \<open>i\<close>.\<close>

definition visited :: "nat \<Rightarrow> nat \<Rightarrow> nat \<Rightarrow> nat \<Rightarrow> bool" where
  "visited c a i j = (if a \<le> i then a \<le> j \<and> j < i else (a \<le> j \<and> j < c) \<or> j < i)"

text \<open>
  The invariant: the array holds the capacity and a free boundary entry; no key occurs twice;
  no free slot lies between the ideal slot of a stored key and the slot it is stored in.
\<close>

definition hashmap_inv :: "hashmap_t \<Rightarrow> bool" where
  "hashmap_inv h = (let c = unat (capacity h) in
     0 < c \<and> length (entries h) = Suc c \<and> slot_key h c = nothing h \<and>
     (\<forall>i < c. \<forall>j < c. slot_key h i \<noteq> nothing h \<longrightarrow> slot_key h i = slot_key h j \<longrightarrow> i = j) \<and>
     (\<forall>i < c. slot_key h i \<noteq> nothing h \<longrightarrow>
        (\<forall>j < c. visited c (ideal h (slot_key h i)) i j \<longrightarrow> slot_key h j \<noteq> nothing h)))"

text \<open>The finite map that the array stands for.\<close>

definition hashmap_abs :: "hashmap_t \<Rightarrow> pointer \<Rightarrow> int32_t option" where
  "hashmap_abs h k =
     (if k = nothing h then None
      else map_option e_value (find (\<lambda>e. e_key e = k) (take (unat (capacity h)) (entries h))))"


section \<open>Probing\<close>

lemma probe_Inr:
  assumes "probe es none k a = Inr i"
  shows "a \<le> i \<and> i < length es \<and> (e_key (es ! i) = none \<or> e_key (es ! i) = k) \<and>
    (\<forall>j. a \<le> j \<longrightarrow> j < i \<longrightarrow> e_key (es ! j) \<noteq> none \<and> e_key (es ! j) \<noteq> k)"
  using assms
proof (induction es none k a rule: probe.induct)
  case (1 es none k a)
  show ?case
  proof (cases "a < length es \<and> e_key (es ! a) \<noteq> none \<and> e_key (es ! a) \<noteq> k")
    case True
    then have "probe es none k (Suc a) = Inr i"
      using "1.prems" by (simp add: probe.simps [of es none k a])
    with "1.IH" True have "Suc a \<le> i \<and> i < length es \<and> (e_key (es ! i) = none \<or> e_key (es ! i) = k) \<and>
      (\<forall>j. Suc a \<le> j \<longrightarrow> j < i \<longrightarrow> e_key (es ! j) \<noteq> none \<and> e_key (es ! j) \<noteq> k)" by blast
    with True show ?thesis by (metis Suc_leD Suc_leI order_le_imp_less_or_eq)
  next
    case False
    then show ?thesis
      using "1.prems" by (auto simp: probe.simps [of es none k a] split: if_splits)
  qed
qed

text \<open>The boundary entry stops the loop: probing from inside the array never leaves it.\<close>

lemma probe_stops:
  assumes "a \<le> s" and "s < length es" and "e_key (es ! s) = none"
  shows "\<exists>i. probe es none k a = Inr i \<and> i \<le> s"
  using assms
proof (induction es none k a rule: probe.induct)
  case (1 es none k a)
  show ?case
  proof (cases "e_key (es ! a) \<noteq> none \<and> e_key (es ! a) \<noteq> k")
    case True
    with "1.prems" have "Suc a \<le> s" by (metis Suc_leI order_le_imp_less_or_eq)
    with "1.IH" "1.prems" True show ?thesis
      by (simp add: probe.simps [of es none k a])
  next
    case False
    with "1.prems" show ?thesis by (auto simp: probe.simps [of es none k a])
  qed
qed

lemma hashmap_invD:
  assumes "hashmap_inv h"
  shows "0 < unat (capacity h)" and "length (entries h) = Suc (unat (capacity h))"
    and "slot_key h (unat (capacity h)) = nothing h"
    and "\<And>i j. \<lbrakk>i < unat (capacity h); j < unat (capacity h); slot_key h i \<noteq> nothing h;
           slot_key h i = slot_key h j\<rbrakk> \<Longrightarrow> i = j"
    and "\<And>i j. \<lbrakk>i < unat (capacity h); slot_key h i \<noteq> nothing h; j < unat (capacity h);
           visited (unat (capacity h)) (ideal h (slot_key h i)) i j\<rbrakk> \<Longrightarrow> slot_key h j \<noteq> nothing h"
  using assms unfolding hashmap_inv_def Let_def by blast+

lemma ideal_less: "hashmap_inv h \<Longrightarrow> ideal h k < unat (capacity h)"
  by (simp add: ideal_def hashmap_invD)

lemma get_ideal_address_eq:
  "hashmap_inv h \<Longrightarrow> get_ideal_address h k = Inr (ideal h k)"
  using hashmap_invD(1) [of h] ideal_less [of h k]
  by (auto simp: get_ideal_address_def hash_of_def ideal_def unat_mod)

lemma visited_total:
  "i < c \<Longrightarrow> j < c \<Longrightarrow> i \<noteq> j \<Longrightarrow> visited c a i j \<or> visited c a j i"
  by (auto simp: visited_def)

definition stops :: "hashmap_t \<Rightarrow> pointer \<Rightarrow> nat \<Rightarrow> bool" where
  "stops h k i = (slot_key h i = nothing h \<or> slot_key h i = k)"

text \<open>
  The search: it ends at the first slot, in cyclic order from the ideal one, that is free or
  holds the key, and at NULL when there is none.  No branch of it faults.
\<close>

lemma get_actual_address_cases:
  assumes "hashmap_inv h"
  obtains (found) i where "get_actual_address h k = Inr (Some i)" "i < unat (capacity h)"
      "stops h k i" "\<And>j. j < unat (capacity h) \<Longrightarrow> visited (unat (capacity h)) (ideal h k) i j \<Longrightarrow> \<not> stops h k j"
  | (full) "get_actual_address h k = Inr None" "\<And>j. j < unat (capacity h) \<Longrightarrow> \<not> stops h k j"
proof -
  let ?c = "unat (capacity h)"
  note inv = hashmap_invD [OF assms]
  have sentinel: "?c < length (entries h)" "e_key (entries h ! ?c) = nothing h"
    using inv(2,3) by (simp_all add: slot_key_def)
  obtain i where i: "probe (entries h) (nothing h) k (ideal h k) = Inr i" "i \<le> ?c"
    using probe_stops [OF _ sentinel] ideal_less [OF assms] by (metis less_imp_le)
  obtain l where l: "probe (entries h) (nothing h) k 0 = Inr l" "l \<le> ?c"
    using probe_stops [OF _ sentinel] by blast
  note pi = probe_Inr [OF i(1)] and pl = probe_Inr [OF l(1)]
  show thesis
  proof (cases "i = ?c")
    case False
    then show thesis
      using i pi by (intro found [of i])
        (auto simp: get_actual_address_def get_ideal_address_eq [OF assms] c_read_def stops_def
           slot_key_def visited_def)
  next
    case i_c: True
    show thesis
    proof (cases "l = ?c")
      case True
      then show thesis
        using i_c i l pl by (intro full)
          (auto simp: get_actual_address_def get_ideal_address_eq [OF assms] stops_def slot_key_def)
    next
      case False
      then have "l < ideal h k"
        using i_c l pi pl by (metis le_eq_less_or_eq not_le_imp_less)
      then show thesis
        using False i_c i l pi pl by (intro found [of l])
          (auto simp: get_actual_address_def get_ideal_address_eq [OF assms] c_read_def stops_def
             slot_key_def visited_def)
    qed
  qed
qed

section \<open>The array as a finite map\<close>

lemma find_key_Some:
  assumes uniq: "\<And>i j. i < n \<Longrightarrow> j < n \<Longrightarrow> e_key (es ! i) = k \<Longrightarrow> e_key (es ! j) = k \<Longrightarrow> i = j"
    and len: "n \<le> length es"
  shows "find (\<lambda>e. e_key e = k) (take n es) = Some e \<longleftrightarrow>
         (\<exists>i < n. es ! i = e \<and> e_key e = k)" (is "?found \<longleftrightarrow> ?stored")
proof
  assume ?found
  then show ?stored using len by (auto simp: find_Some_iff)
next
  assume ?stored
  then obtain i where i: "i < n" "es ! i = e" "e_key e = k" by blast
  have "e_key (take n es ! j) \<noteq> k" if "j < i" for j
    using uniq [of j i] i that by auto
  with i len show ?found unfolding find_Some_iff by (intro exI [of _ i]) simp
qed

lemma hashmap_abs_Some:
  assumes "hashmap_inv h" and "k \<noteq> nothing h"
  shows "hashmap_abs h k = Some v \<longleftrightarrow>
    (\<exists>i < unat (capacity h). slot_key h i = k \<and> e_value (entries h ! i) = v)"
proof -
  have uniq: "i = j" if "i < unat (capacity h)" "j < unat (capacity h)"
      "e_key (entries h ! i) = k" "e_key (entries h ! j) = k" for i j
    using hashmap_invD(4) [OF assms(1) that(1,2)] that(3,4) assms(2) by (simp add: slot_key_def)
  have len: "unat (capacity h) \<le> length (entries h)"
    by (simp add: hashmap_invD(2) [OF assms(1)])
  show ?thesis
    unfolding hashmap_abs_def slot_key_def
    using assms(2) find_key_Some [of "unat (capacity h)" "entries h" k, OF uniq len]
    by fastforce
qed

lemma hashmap_abs_nothing [simp]: "hashmap_abs h (nothing h) = None"
  by (simp add: hashmap_abs_def)

lemma hashmap_abs_dom:
  assumes "hashmap_inv h"
  shows "k \<in> dom (hashmap_abs h) \<longleftrightarrow>
    k \<noteq> nothing h \<and> (\<exists>i < unat (capacity h). slot_key h i = k)"
  using hashmap_abs_Some [OF assms, of k] by (cases "k = nothing h") auto

text \<open>A stored key is found in its own slot.\<close>

lemma search_present:
  assumes inv: "hashmap_inv h" and k: "k \<noteq> nothing h"
    and p: "p < unat (capacity h)" "slot_key h p = k"
  shows "get_actual_address h k = Inr (Some p)"
  using inv
proof (cases rule: get_actual_address_cases [where k = k])
  case (found i)
  have "i = p"
  proof (rule ccontr)
    assume ne: "i \<noteq> p"
    have "slot_key h i \<noteq> k"
      using hashmap_invD(4) [OF inv found(2) p(1)] ne k p(2) by auto
    with found(3) have free: "slot_key h i = nothing h" by (simp add: stops_def)
    have "\<not> visited (unat (capacity h)) (ideal h k) p i"
      using hashmap_invD(5) [OF inv p(1) _ found(2)] p(2) k free by auto
    with visited_total [OF found(2) p(1) ne]
    have "visited (unat (capacity h)) (ideal h k) i p" by blast
    then show False using found(4) [OF p(1)] p(2) by (simp add: stops_def)
  qed
  with found(1) show ?thesis by simp
next
  case full
  then show ?thesis using p by (auto simp: stops_def)
qed

text \<open>An absent key ends the search at a free slot, the first one on its way, or at NULL.\<close>

lemma search_absent:
  assumes inv: "hashmap_inv h" and k: "k \<noteq> nothing h" and absent: "hashmap_abs h k = None"
  obtains (free) i where "get_actual_address h k = Inr (Some i)" "i < unat (capacity h)"
      "slot_key h i = nothing h"
      "\<And>j. j < unat (capacity h) \<Longrightarrow> visited (unat (capacity h)) (ideal h k) i j \<Longrightarrow>
         slot_key h j \<noteq> nothing h"
  | (full) "get_actual_address h k = Inr None"
      "\<And>j. j < unat (capacity h) \<Longrightarrow> slot_key h j \<noteq> nothing h"
proof -
  have no: "slot_key h j \<noteq> k" if "j < unat (capacity h)" for j
    using hashmap_abs_dom [OF inv, of k] absent k that by (auto simp: domIff)
  from inv show thesis
  proof (cases rule: get_actual_address_cases [where k = k])
    case (found i)
    then show thesis using no by (intro free [of i]) (auto simp: stops_def)
  next
    case full
    then show thesis by (intro that(2)) (auto simp: stops_def)
  qed
qed

text \<open>The number of stored keys never exceeds the capacity; it reaches it when no slot is free.\<close>

lemma hashmap_keys_image:
  assumes "hashmap_inv h"
  shows "dom (hashmap_abs h) =
    slot_key h ` {i. i < unat (capacity h) \<and> slot_key h i \<noteq> nothing h}"
  by (rule set_eqI, unfold hashmap_abs_dom [OF assms]) auto

lemma hashmap_card_dom:
  assumes "hashmap_inv h"
  shows "card (dom (hashmap_abs h)) = card {i. i < unat (capacity h) \<and> slot_key h i \<noteq> nothing h}"
  unfolding hashmap_keys_image [OF assms]
  by (rule card_image) (auto simp: inj_on_def dest: hashmap_invD(4) [OF assms])

lemma hashmap_finite_dom: "hashmap_inv h \<Longrightarrow> finite (dom (hashmap_abs h))"
  by (simp add: hashmap_keys_image)

lemma hashmap_card_bound:
  "hashmap_inv h \<Longrightarrow> card (dom (hashmap_abs h)) \<le> unat (capacity h)"
  using card_mono [of "{..< unat (capacity h)}" "{i. i < unat (capacity h) \<and> slot_key h i \<noteq> nothing h}"]
  by (auto simp: hashmap_card_dom)

lemma hashmap_full_iff:
  assumes "hashmap_inv h"
  shows "card (dom (hashmap_abs h)) = unat (capacity h) \<longleftrightarrow>
    (\<forall>i < unat (capacity h). slot_key h i \<noteq> nothing h)"
proof -
  let ?A = "{i. i < unat (capacity h) \<and> slot_key h i \<noteq> nothing h}"
  have "card ?A = unat (capacity h) \<longleftrightarrow> ?A = {..< unat (capacity h)}"
  proof
    assume "card ?A = unat (capacity h)"
    then show "?A = {..< unat (capacity h)}"
      by (intro card_subset_eq) auto
  next
    assume "?A = {..< unat (capacity h)}"
    then show "card ?A = unat (capacity h)" by (simp only: card_lessThan)
  qed
  then show ?thesis by (auto simp: hashmap_card_dom [OF assms])
qed

section \<open>Put and get\<close>

text \<open>Writing an entry where the search ended keeps the invariant and updates the map.\<close>

lemma slot_key_update:
  "i < length (entries h) \<Longrightarrow>
   slot_key (h\<lparr>entries := (entries h)[i := e]\<rparr>) j = (if j = i then e_key e else slot_key h j)"
  by (simp add: slot_key_def nth_list_update)

lemma ideal_update [simp]: "ideal (h\<lparr>entries := es\<rparr>) k = ideal h k"
  by (simp add: ideal_def)

lemma write_found:
  fixes v :: int32_t
  assumes inv: "hashmap_inv h" and k: "k \<noteq> nothing h" and i: "i < unat (capacity h)"
    and stop: "slot_key h i = k \<or> slot_key h i = nothing h \<and> hashmap_abs h k = None"
    and path: "\<And>j. j < unat (capacity h) \<Longrightarrow> visited (unat (capacity h)) (ideal h k) i j \<Longrightarrow>
         slot_key h j \<noteq> nothing h"
  defines "h' \<equiv> h\<lparr>entries := (entries h)[i := \<lparr>e_key = k, e_value = v\<rparr>]\<rparr>"
  shows "hashmap_inv h'" and "hashmap_abs h' = (hashmap_abs h)(k \<mapsto> v)"
proof -
  note D = hashmap_invD [OF inv]
  have key: "slot_key h' j = (if j = i then k else slot_key h j)" for j
    using i D(2) by (simp add: h'_def slot_key_update)
  have same: "capacity h' = capacity h" "nothing h' = nothing h" "ideal h' x = ideal h x"
      "length (entries h') = Suc (unat (capacity h))" for x
    using D(2) by (simp_all add: h'_def)
  have other: "slot_key h j \<noteq> k" if "j < unat (capacity h)" "j \<noteq> i" for j
    using stop hashmap_abs_dom [OF inv, of k] D(4) [OF i that(1)] that k
    by (auto simp: domIff)
  show "hashmap_inv h'"
    unfolding hashmap_inv_def Let_def same key
  proof (intro conjI allI impI)
    fix a b assume "a < unat (capacity h)" "b < unat (capacity h)"
      "(if a = i then k else slot_key h a) \<noteq> nothing h"
      "(if a = i then k else slot_key h a) = (if b = i then k else slot_key h b)"
    then show "a = b" using other [of a] other [of b] D(4) [of a b] by (auto split: if_splits)
  next
    fix a b assume "a < unat (capacity h)" "(if a = i then k else slot_key h a) \<noteq> nothing h"
      "b < unat (capacity h)"
      "visited (unat (capacity h)) (ideal h (if a = i then k else slot_key h a)) a b"
    then show "(if b = i then k else slot_key h b) \<noteq> nothing h"
      using path [of b] D(5) [of a b] k by (auto split: if_splits)
  qed (use D(1,3) i in auto)
  then have abs': "hashmap_abs h' x = Some w \<longleftrightarrow>
      (\<exists>j < unat (capacity h). slot_key h' j = x \<and> e_value (entries h' ! j) = w)"
    if "x \<noteq> nothing h" for x w
    using hashmap_abs_Some [of h' x w] that by (simp add: same)
  have val: "e_value (entries h' ! j) = (if j = i then v else e_value (entries h ! j))" for j
    using i D(2) by (simp add: h'_def nth_list_update)
  show "hashmap_abs h' = (hashmap_abs h)(k \<mapsto> v)"
  proof (rule ext)
    fix x show "hashmap_abs h' x = ((hashmap_abs h)(k \<mapsto> v)) x"
    proof (cases "x = nothing h")
      case True
      then show ?thesis using k by (metis fun_upd_other hashmap_abs_nothing same(2))
    next
      case False
      have "hashmap_abs h' x = Some w \<longleftrightarrow> ((hashmap_abs h)(k \<mapsto> v)) x = Some w" for w
        unfolding abs' [OF False] key val fun_upd_apply
      proof (cases "x = k")
        case True
        then show "(\<exists>j < unat (capacity h). (if j = i then k else slot_key h j) = x \<and>
            (if j = i then v else e_value (entries h ! j)) = w) \<longleftrightarrow>
            (if x = k then Some v else hashmap_abs h x) = Some w"
          using other i by auto
      next
        case ne: False
        then have "slot_key h i \<noteq> x" using stop False by auto
        then have "(\<exists>j < unat (capacity h). (if j = i then k else slot_key h j) = x \<and>
            (if j = i then v else e_value (entries h ! j)) = w) \<longleftrightarrow>
            (\<exists>j < unat (capacity h). slot_key h j = x \<and> e_value (entries h ! j) = w)"
          using ne by metis
        then show "(\<exists>j < unat (capacity h). (if j = i then k else slot_key h j) = x \<and>
            (if j = i then v else e_value (entries h ! j)) = w) \<longleftrightarrow>
            (if x = k then Some v else hashmap_abs h x) = Some w"
          using ne hashmap_abs_Some [OF inv False, of w] by simp
      qed
      then show ?thesis by (metis not_None_eq)
    qed
  qed
qed

lemma put_succeeds:
  assumes inv: "hashmap_inv h" and k: "k \<noteq> nothing h"
    and room: "k \<in> dom (hashmap_abs h) \<or> card (dom (hashmap_abs h)) < unat (capacity h)"
  shows "\<exists>es. hashmap_put h k v = Inr (h\<lparr>entries := es\<rparr>) \<and> hashmap_inv (h\<lparr>entries := es\<rparr>) \<and>
    hashmap_abs (h\<lparr>entries := es\<rparr>) = (hashmap_abs h)(k \<mapsto> v)"
proof -
  note D = hashmap_invD [OF inv]
  have "\<exists>i < unat (capacity h). get_actual_address h k = Inr (Some i) \<and>
      (slot_key h i = k \<or> slot_key h i = nothing h \<and> hashmap_abs h k = None) \<and>
      (\<forall>j < unat (capacity h). visited (unat (capacity h)) (ideal h k) i j \<longrightarrow>
         slot_key h j \<noteq> nothing h)"
  proof (cases "hashmap_abs h k")
    case None
    from inv k None show ?thesis
    proof (cases rule: search_absent)
      case (free i)
      then show ?thesis using None by auto
    next
      case full
      then have "card (dom (hashmap_abs h)) = unat (capacity h)"
        using hashmap_full_iff [OF inv] by blast
      then show ?thesis using room None by auto
    qed
  next
    case (Some w)
    then have "\<exists>p < unat (capacity h). slot_key h p = k"
      using hashmap_abs_Some [OF inv k] by blast
    then obtain p where p: "p < unat (capacity h)" "slot_key h p = k" by blast
    from search_present [OF inv k p] D(5) [OF p(1)] p k show ?thesis by auto
  qed
  then obtain i where i: "i < unat (capacity h)" "get_actual_address h k = Inr (Some i)"
      "slot_key h i = k \<or> slot_key h i = nothing h \<and> hashmap_abs h k = None"
      "\<And>j. j < unat (capacity h) \<Longrightarrow> visited (unat (capacity h)) (ideal h k) i j \<Longrightarrow>
         slot_key h j \<noteq> nothing h" by blast
  have "hashmap_put h k v = Inr (h\<lparr>entries := (entries h)[i := \<lparr>e_key = k, e_value = v\<rparr>]\<rparr>)"
    using i(1,2) k D(2) by (simp add: hashmap_put_def c_simps)
  with write_found [OF inv k i(1,3,4)] show ?thesis by blast
qed

lemma get_present:
  assumes inv: "hashmap_inv h" and stored: "hashmap_abs h k = Some v"
  shows "hashmap_get h k = Inr v"
proof -
  have k: "k \<noteq> nothing h" using stored by auto
  then obtain p where p: "p < unat (capacity h)" "slot_key h p = k" "e_value (entries h ! p) = v"
    using stored hashmap_abs_Some [OF inv k] by blast
  then show ?thesis
    using k search_present [OF inv k p(1,2)] hashmap_invD(2) [OF inv]
    by (simp add: hashmap_get_def c_simps)
qed

lemma hashmap_put_num_entries:
  "hashmap_put h k v = Inr h' \<Longrightarrow> num_entries h' = num_entries h"
  by (auto simp: hashmap_put_def c_bind_eq_Inr split: if_splits option.splits)

lemma put_full:
  assumes inv: "hashmap_inv h" and k: "k \<noteq> nothing h" and absent: "k \<notin> dom (hashmap_abs h)"
    and full: "card (dom (hashmap_abs h)) = unat (capacity h)"
  shows "hashmap_put h k v = Inl Null_Dereference" and "hashmap_get h k = Inl Null_Dereference"
proof -
  have "hashmap_abs h k = None" using absent by auto
  with inv k have "get_actual_address h k = Inr None"
  proof (cases rule: search_absent)
    case (free i)
    then show ?thesis using full hashmap_full_iff [OF inv] by blast
  qed
  with k show "hashmap_put h k v = Inl Null_Dereference" "hashmap_get h k = Inl Null_Dereference"
    by (simp_all add: hashmap_put_def hashmap_get_def)
qed

text \<open>What the bytes of a fresh map hold, and when \<open>new\<close> writes past them.\<close>

lemma clear_keys_eq:
  "clear_keys none n es =
     (if n \<le> length es then Inr (map (\<lambda>e. e\<lparr>e_key := none\<rparr>) (take n es) @ drop n es)
      else Inl Out_Of_Bounds)"
proof (induction n)
  case (Suc i)
  show ?case
  proof (cases "i < length es")
    case True
    then have "(map (\<lambda>e. e\<lparr>e_key := none\<rparr>) (take i es) @ drop i es)[i := (es ! i)\<lparr>e_key := none\<rparr>] =
        map (\<lambda>e. e\<lparr>e_key := none\<rparr>) (take (Suc i) es) @ drop (Suc i) es"
      by (simp add: list_update_append take_Suc_conv_app_nth Cons_nth_drop_Suc [symmetric])
    with True Suc show ?thesis
      by (simp add: c_read_def c_write_def nth_append)
  next
    case False
    with Suc show ?thesis by (auto simp: c_read_def not_less)
  qed
qed simp

lemma hashmap_new_eq:
  assumes "malloc ((cap + 1) * 16)" and "malloc 32" and "unat cap < 2 ^ 60 - 1"
  shows "hashmap_new malloc junk cap none =
    Inr \<lparr>entries = map (\<lambda>i. (junk i)\<lparr>e_key := none\<rparr>) [0..<Suc (unat cap)], capacity = cap,
         num_entries = 0, nothing = none\<rparr>"
proof -
  have cap1: "unat (cap + 1) = Suc (unat cap)"
    using assms(3) by (simp add: unat_word_ariths)
  have "unat ((cap + 1) * 16) = Suc (unat cap) * 16"
    using assms(3) unat_mult_lem [of "cap + 1" 16] by (simp add: cap1 del: distrib_right_numeral)
  then show ?thesis
    using assms(1,2)
    by (simp add: hashmap_new_def sizeof_entry_t_def sizeof_hashmap_t_def cap1 clear_keys_eq
        del: upt_Suc)
qed

lemma fresh_hashmap:
  fixes junk :: "nat \<Rightarrow> entry_t" and none :: pointer
  assumes "0 < unat cap"
  defines "h \<equiv> \<lparr>entries = map (\<lambda>i. (junk i)\<lparr>e_key := none\<rparr>) [0..<Suc (unat cap)],
    capacity = cap, num_entries = 0, nothing = none\<rparr>"
  shows "hashmap_inv h" and "hashmap_abs h = Map.empty"
proof -
  have key: "slot_key h i = none" if "i \<le> unat cap" for i
    using that by (simp add: slot_key_def h_def del: upt_Suc)
  have fields: "capacity h = cap" "nothing h = none" "length (entries h) = Suc (unat cap)"
    by (simp_all add: h_def)
  show inv: "hashmap_inv h"
    using assms(1) by (simp add: hashmap_inv_def Let_def fields key)
  show "hashmap_abs h = Map.empty"
  proof (rule ext)
    fix k show "hashmap_abs h k = None"
      using hashmap_abs_dom [OF inv, of k] by (auto simp: fields key domIff)
  qed
qed

section \<open>The contract of a bounded map\<close>

text \<open>
  What the header promises of a map without removal and without resizing: it holds up to
  \<open>room\<close> keys, a put of a key it holds or has room for succeeds, and a get returns the last
  value put.
\<close>

locale bounded_map =
  fixes inv :: "'m \<Rightarrow> bool"
    and lookup :: "'m \<Rightarrow> 'k \<Rightarrow> 'v option"
    and room :: "'m \<Rightarrow> nat"
    and unused :: "'m \<Rightarrow> 'k"
    and put :: "'m \<Rightarrow> 'k \<Rightarrow> 'v \<Rightarrow> 'm c_result"
    and get :: "'m \<Rightarrow> 'k \<Rightarrow> 'v c_result"
  assumes put_ok: "\<lbrakk>inv m; k \<noteq> unused m; k \<in> dom (lookup m) \<or> card (dom (lookup m)) < room m\<rbrakk> \<Longrightarrow>
      \<exists>m'. put m k v = Inr m' \<and> inv m' \<and> lookup m' = (lookup m)(k \<mapsto> v) \<and>
        room m' = room m \<and> unused m' = unused m"
    and get_ok: "\<lbrakk>inv m; lookup m k = Some v\<rbrakk> \<Longrightarrow> get m k = Inr v"
    and finite_lookup: "inv m \<Longrightarrow> finite (dom (lookup m))"
begin

lemma put_sequence:
  assumes "inv m" and "unused m \<notin> fst ` set kvs"
    and "card (dom (lookup m) \<union> fst ` set kvs) \<le> room m"
  shows "\<exists>m'. c_fold (\<lambda>(k, v) m. put m k v) kvs m = Inr m' \<and> inv m' \<and>
    lookup m' = lookup m ++ map_of (rev kvs) \<and> room m' = room m \<and> unused m' = unused m"
  using assms
proof (induction kvs arbitrary: m)
  case (Cons kv kvs)
  obtain k v where kv: "kv = (k, v)" by fastforce
  have fin: "finite (dom (lookup m) \<union> fst ` set (kv # kvs))"
    using finite_lookup [OF Cons.prems(1)] by simp
  have "k \<in> dom (lookup m) \<or> card (dom (lookup m)) < room m"
  proof (cases "k \<in> dom (lookup m)")
    case False
    have "card (dom (lookup m)) < card (dom (lookup m) \<union> fst ` set (kv # kvs))"
      by (rule psubset_card_mono [OF fin]) (use False kv in auto)
    with Cons.prems(3) show ?thesis by simp
  qed simp
  moreover have "k \<noteq> unused m" using Cons.prems(2) kv by auto
  ultimately obtain m1 where m1: "put m k v = Inr m1" "inv m1"
      "lookup m1 = (lookup m)(k \<mapsto> v)" "room m1 = room m" "unused m1 = unused m"
    using put_ok [OF Cons.prems(1)] by blast
  have "dom (lookup m1) \<union> fst ` set kvs = dom (lookup m) \<union> fst ` set (kv # kvs)"
    using kv m1(3) by auto
  with Cons.prems(3) m1(4) have fits: "card (dom (lookup m1) \<union> fst ` set kvs) \<le> room m1" by simp
  have "unused m1 \<notin> fst ` set kvs" using Cons.prems(2) m1(5) by auto
  from Cons.IH [OF m1(2) this fits] have "\<exists>m'. c_fold (\<lambda>(k, v) m. put m k v) kvs m1 = Inr m' \<and> inv m' \<and>
      lookup m' = lookup m1 ++ map_of (rev kvs) \<and> room m' = room m1 \<and> unused m' = unused m1" .
  with kv m1 show ?case by (auto simp: map_add_assoc)
qed simp

lemma get_after_puts:
  assumes "inv m" and "lookup m = Map.empty" and "unused m \<notin> fst ` set kvs"
    and "card (fst ` set kvs) \<le> room m"
  shows "\<exists>m'. c_fold (\<lambda>(k, v) m. put m k v) kvs m = Inr m' \<and> inv m' \<and>
    lookup m' = map_of (rev kvs) \<and> (\<forall>k v. map_of (rev kvs) k = Some v \<longrightarrow> get m' k = Inr v)"
  using put_sequence [OF assms(1,3)] assms(2,4) get_ok by fastforce

end

interpretation phm: bounded_map hashmap_inv hashmap_abs "\<lambda>h. unat (capacity h)" nothing
    hashmap_put hashmap_get
proof (unfold_locales, goal_cases)
  case (1 m k v)
  from put_succeeds [OF this, of v] show ?case by fastforce
next
  case (2 m k v)
  then show ?case by (rule get_present)
next
  case (3 m)
  then show ?case by (rule hashmap_finite_dom)
qed

section \<open>Properties\<close>

text \<open>A small concrete map for the witnesses: two slots, the second one taken.\<close>

definition sample_map :: hashmap_t where
  "sample_map = \<lparr>entries = [\<lparr>e_key = 0, e_value = 77\<rparr>, \<lparr>e_key = 5, e_value = 9\<rparr>, \<lparr>e_key = 0, e_value = 3\<rparr>],
     capacity = 2, num_entries = 0, nothing = 0\<rparr>"

definition sample_full :: hashmap_t where
  "sample_full = \<lparr>entries = [\<lparr>e_key = 7, e_value = 1\<rparr>, \<lparr>e_key = 5, e_value = 9\<rparr>, \<lparr>e_key = 0, e_value = 3\<rparr>],
     capacity = 2, num_entries = 0, nothing = 0\<rparr>"

lemma all_less_2: "(\<forall>i < (2 :: nat). P i) \<longleftrightarrow> P 0 \<and> P 1"
  by (auto simp: numeral_2_eq_2 less_Suc_eq)

lemma ex_less_2: "(\<exists>i < (2 :: nat). P i) \<longleftrightarrow> P 0 \<or> P 1"
  by (auto simp: numeral_2_eq_2 less_Suc_eq)

lemma sample_map_facts:
  "hashmap_inv sample_map" "hashmap_abs sample_map = [5 \<mapsto> 9]" "nothing sample_map = 0"
  "capacity sample_map = 2"
  by (auto simp: hashmap_inv_def sample_map_def slot_key_def all_less_2 visited_def ideal_def
      hashmap_abs_def fun_eq_iff)

lemma sample_full_facts:
  "hashmap_inv sample_full" "hashmap_abs sample_full = [7 \<mapsto> 1, 5 \<mapsto> 9]" "nothing sample_full = 0"
  "capacity sample_full = 2"
  by (auto simp: hashmap_inv_def sample_full_def slot_key_def all_less_2 visited_def ideal_def
      hashmap_abs_def fun_eq_iff)

text \<open>C13: a put refines the update of the finite map and keeps the invariant: when the key is
  stored already or a slot is free, \<open>put\<close> returns, the array stands for the updated map, the
  invariant holds again, and capacity, \<open>nothing\<close> and \<open>num_entries\<close> are as before.\<close>

theorem hashmap_put_refines_update:
  assumes "hashmap_inv h" and "k \<noteq> nothing h"
    and "k \<in> dom (hashmap_abs h) \<or> card (dom (hashmap_abs h)) < unat (capacity h)"
  shows "\<exists>h'. hashmap_put h k v = Inr h' \<and> hashmap_inv h' \<and>
    hashmap_abs h' = (hashmap_abs h)(k \<mapsto> v) \<and> capacity h' = capacity h \<and>
    nothing h' = nothing h \<and> num_entries h' = num_entries h"
  using put_succeeds [OF assms, of v] by fastforce

theorem hashmap_put_refines_update_witness:
  "\<exists>h'. hashmap_put sample_map 7 1 = Inr h' \<and> hashmap_abs h' = [5 \<mapsto> 9, 7 \<mapsto> 1]"
  using hashmap_put_refines_update [of sample_map 7 1] by (auto simp: sample_map_facts)

text \<open>C12: any sequence of puts from \<open>new\<close> works as a map: for a capacity whose array size does
  not wrap around in \<open>size_t\<close> and at most that many distinct keys, whatever the fresh memory
  held, every put returns, and afterwards \<open>get\<close> returns for each key the value put last.  The
  counter \<open>num_entries\<close> is still 0: no operation of the header updates it.\<close>

theorem hashmap_works_up_to_capacity:
  assumes "malloc ((cap + 1) * 16)" and "malloc 32" and "0 < unat cap" and "unat cap < 2 ^ 60 - 1"
    and "none \<notin> fst ` set kvs" and "card (fst ` set kvs) \<le> unat cap"
  shows "\<exists>h h'. hashmap_new malloc junk cap none = Inr h \<and>
    c_fold (\<lambda>(k, v) h. hashmap_put h k v) kvs h = Inr h' \<and> hashmap_inv h' \<and>
    hashmap_abs h' = map_of (rev kvs) \<and>
    (\<forall>k v. map_of (rev kvs) k = Some v \<longrightarrow> hashmap_get h' k = Inr v) \<and>
    num_entries h' = 0"
proof -
  let ?h = "\<lparr>entries = map (\<lambda>i. (junk i)\<lparr>e_key := none\<rparr>) [0..<Suc (unat cap)], capacity = cap,
         num_entries = 0, nothing = none\<rparr>"
  have new: "hashmap_new malloc junk cap none = Inr ?h"
    by (rule hashmap_new_eq) (fact assms)+
  note fresh = fresh_hashmap [OF assms(3), where junk = junk and none = none]
  have "\<exists>h'. c_fold (\<lambda>(k, v) h. hashmap_put h k v) kvs ?h = Inr h' \<and> hashmap_inv h' \<and>
      hashmap_abs h' = map_of (rev kvs) \<and>
      (\<forall>k v. map_of (rev kvs) k = Some v \<longrightarrow> hashmap_get h' k = Inr v)"
    by (rule phm.get_after_puts [OF fresh]) (use assms(5,6) in simp_all)
  then obtain h' where h': "c_fold (\<lambda>(k, v) h. hashmap_put h k v) kvs ?h = Inr h'" "hashmap_inv h'"
      "hashmap_abs h' = map_of (rev kvs)" "\<forall>k v. map_of (rev kvs) k = Some v \<longrightarrow> hashmap_get h' k = Inr v"
    by blast
  have "num_entries h' = 0"
    by (rule c_fold_invariant [OF h'(1)]) (auto dest: hashmap_put_num_entries)
  with new h' show ?thesis by blast
qed

theorem hashmap_works_up_to_capacity_witness:
  "\<exists>h h'. hashmap_new (\<lambda>n. n \<le> 4096) (\<lambda>i. \<lparr>e_key = 1, e_value = 77\<rparr>) 3 0 = Inr h \<and>
    c_fold (\<lambda>(k, v) h. hashmap_put h k v) [(16, 1), (19, 2), (16, 5)] h = Inr h' \<and>
    hashmap_get h' 16 = Inr 5 \<and> hashmap_get h' 19 = Inr 2"
proof -
  have "\<exists>h h'. hashmap_new (\<lambda>n. n \<le> 4096) (\<lambda>i. \<lparr>e_key = 1, e_value = 77\<rparr>) 3 0 = Inr h \<and>
    c_fold (\<lambda>(k, v) h. hashmap_put h k v) [(16, 1), (19, 2), (16, 5)] h = Inr h' \<and> hashmap_inv h' \<and>
    hashmap_abs h' = map_of (rev [(16, 1), (19, 2), (16, 5)]) \<and>
    (\<forall>k v. map_of (rev [(16, 1), (19, 2), (16, 5)]) k = Some v \<longrightarrow> hashmap_get h' k = Inr v) \<and>
    num_entries h' = 0"
    by (rule hashmap_works_up_to_capacity) (simp_all add: card_insert_if)
  then obtain h h' where "hashmap_new (\<lambda>n. n \<le> 4096) (\<lambda>i. \<lparr>e_key = 1, e_value = 77\<rparr>) 3 0 = Inr h"
    "c_fold (\<lambda>(k, v) h. hashmap_put h k v) [(16, 1), (19, 2), (16, 5)] h = Inr h'"
    "\<forall>k v. map_of (rev [(16, 1), (19, 2), (16, 5)]) k = Some v \<longrightarrow> hashmap_get h' k = Inr v"
    by blast
  then show ?thesis by (intro exI [of _ h] exI [of _ h']) simp
qed

text \<open>C18: exactly when the map is full and the key is new does \<open>put\<close> dereference NULL, as
  \<open>pointer_hashmap.h\<close> says of a map at capacity; it has no other fault on a usable key.\<close>

theorem hashmap_put_faults_only_when_full:
  assumes "hashmap_inv h" and "k \<noteq> nothing h"
  shows "hashmap_put h k v = Inl e \<longleftrightarrow>
    e = Null_Dereference \<and> hashmap_abs h k = None \<and>
    card (dom (hashmap_abs h)) = unat (capacity h)"
proof (cases "k \<in> dom (hashmap_abs h) \<or> card (dom (hashmap_abs h)) < unat (capacity h)")
  case True
  then show ?thesis using put_succeeds [OF assms True, of v] by auto
next
  case False
  then have "card (dom (hashmap_abs h)) = unat (capacity h)"
    using hashmap_card_bound [OF assms(1)] by simp
  with False put_full(1) [OF assms, of v] show ?thesis by auto
qed

theorem hashmap_put_faults_only_when_full_witness:
  "hashmap_put sample_full 3 1 = Inl Null_Dereference"
proof -
  have "card (dom [7 \<mapsto> (1 :: int32_t), (5 :: pointer) \<mapsto> 9]) = 2" by simp
  then show ?thesis
    using hashmap_put_faults_only_when_full [of sample_full 3 1 Null_Dereference]
    by (simp add: sample_full_facts)
qed

text \<open>C27: a get of an absent key does not crash while a slot is free: it returns what the value
  field of some free slot was left with (the bytes \<open>malloc\<close> returned), although the source
  says "Crash the program if the key cannot be found" and \<open>pointer_hashmap.h\<close> "This will
  segfault if the entry is not in the hashmap".\<close>

theorem hashmap_get_absent_returns_leftover:
  assumes "hashmap_inv h" and "k \<noteq> nothing h" and "hashmap_abs h k = None"
    and "card (dom (hashmap_abs h)) < unat (capacity h)"
  shows "\<exists>i < unat (capacity h). e_key (entries h ! i) = nothing h \<and>
    hashmap_get h k = Inr (e_value (entries h ! i))"
  using assms(1-3)
proof (cases rule: search_absent)
  case (free i)
  then show ?thesis
    using assms(2) hashmap_invD(2) [OF assms(1)]
    by (intro exI [of _ i]) (simp add: hashmap_get_def c_simps slot_key_def)
next
  case full
  then show ?thesis using hashmap_full_iff [OF assms(1)] assms(4) by auto
qed

theorem hashmap_get_absent_returns_leftover_witness:
  "hashmap_get sample_map 7 = Inr 77"
proof -
  have "hashmap_abs sample_map 7 = None" by (simp add: sample_map_facts)
  moreover have "card (dom (hashmap_abs sample_map)) < unat (capacity sample_map)"
    by (simp add: sample_map_facts)
  ultimately have "\<exists>i < 2. e_key (entries sample_map ! i) = 0 \<and>
      hashmap_get sample_map 7 = Inr (e_value (entries sample_map ! i))"
    using hashmap_get_absent_returns_leftover [of sample_map 7] by (simp add: sample_map_facts)
  then show ?thesis by (simp only: ex_less_2) (simp add: sample_map_def)
qed



end
