(* ===== verification/Net_Messages.thy ===== *)
theory Net_Messages
  imports Lf_Base
begin

text \<open>
  What \<open>core/federated/network/net_common.h\<close> defines of the messages of the federation: the
  identifying bytes and the rejection codes (one definition per \<open>#define\<close>), lengths and constants,
  and the three macros that fill a caller's buffer.

  The byte encoders the macros call (\<open>encode_int64\<close>, \<open>encode_int32\<close>) are declared in
  \<open>net_util.h\<close> without a body; they are arguments of the definitions, and \<open>little_endian\<close> is
  what the header documents of them.  There is no code that writes or reads the other messages.
\<close>

section \<open>Identifying bytes\<close>

definition MSG_TYPE_REJECT :: byte where
  "MSG_TYPE_REJECT = 0"

definition MSG_TYPE_ACK :: byte where
  "MSG_TYPE_ACK = 255"

definition MSG_TYPE_UDP_PORT :: byte where
  "MSG_TYPE_UDP_PORT = 254"

definition MSG_TYPE_FED_IDS :: byte where
  "MSG_TYPE_FED_IDS = 1"

definition MSG_TYPE_FED_NONCE :: byte where
  "MSG_TYPE_FED_NONCE = 100"

definition MSG_TYPE_RTI_RESPONSE :: byte where
  "MSG_TYPE_RTI_RESPONSE = 101"

definition MSG_TYPE_FED_RESPONSE :: byte where
  "MSG_TYPE_FED_RESPONSE = 102"

definition MSG_TYPE_TIMESTAMP :: byte where
  "MSG_TYPE_TIMESTAMP = 2"

definition MSG_TYPE_MESSAGE :: byte where
  "MSG_TYPE_MESSAGE = 3"

definition MSG_TYPE_RESIGN :: byte where
  "MSG_TYPE_RESIGN = 4"

definition MSG_TYPE_TAGGED_MESSAGE :: byte where
  "MSG_TYPE_TAGGED_MESSAGE = 5"

definition MSG_TYPE_NEXT_EVENT_TAG :: byte where
  "MSG_TYPE_NEXT_EVENT_TAG = 6"

definition MSG_TYPE_TAG_ADVANCE_GRANT :: byte where
  "MSG_TYPE_TAG_ADVANCE_GRANT = 7"

definition MSG_TYPE_PROVISIONAL_TAG_ADVANCE_GRANT :: byte where
  "MSG_TYPE_PROVISIONAL_TAG_ADVANCE_GRANT = 8"

definition MSG_TYPE_LATEST_TAG_CONFIRMED :: byte where
  "MSG_TYPE_LATEST_TAG_CONFIRMED = 9"

definition MSG_TYPE_STOP_REQUEST :: byte where
  "MSG_TYPE_STOP_REQUEST = 10"

definition MSG_TYPE_STOP_REQUEST_REPLY :: byte where
  "MSG_TYPE_STOP_REQUEST_REPLY = 11"

definition MSG_TYPE_STOP_GRANTED :: byte where
  "MSG_TYPE_STOP_GRANTED = 12"

definition MSG_TYPE_ADDRESS_QUERY :: byte where
  "MSG_TYPE_ADDRESS_QUERY = 13"

definition MSG_TYPE_ADDRESS_QUERY_REPLY :: byte where
  "MSG_TYPE_ADDRESS_QUERY_REPLY = 14"

definition MSG_TYPE_ADDRESS_ADVERTISEMENT :: byte where
  "MSG_TYPE_ADDRESS_ADVERTISEMENT = 15"

definition MSG_TYPE_P2P_SENDING_FED_ID :: byte where
  "MSG_TYPE_P2P_SENDING_FED_ID = 16"

definition MSG_TYPE_P2P_MESSAGE :: byte where
  "MSG_TYPE_P2P_MESSAGE = 17"

definition MSG_TYPE_P2P_TAGGED_MESSAGE :: byte where
  "MSG_TYPE_P2P_TAGGED_MESSAGE = 18"

definition MSG_TYPE_CLOCK_SYNC_T1 :: byte where
  "MSG_TYPE_CLOCK_SYNC_T1 = 19"

definition MSG_TYPE_CLOCK_SYNC_T3 :: byte where
  "MSG_TYPE_CLOCK_SYNC_T3 = 20"

definition MSG_TYPE_CLOCK_SYNC_T4 :: byte where
  "MSG_TYPE_CLOCK_SYNC_T4 = 21"

definition MSG_TYPE_CLOCK_SYNC_CODED_PROBE :: byte where
  "MSG_TYPE_CLOCK_SYNC_CODED_PROBE = 22"

definition MSG_TYPE_PORT_ABSENT :: byte where
  "MSG_TYPE_PORT_ABSENT = 23"

definition MSG_TYPE_NEIGHBOR_STRUCTURE :: byte where
  "MSG_TYPE_NEIGHBOR_STRUCTURE = 24"

definition MSG_TYPE_FAILED :: byte where
  "MSG_TYPE_FAILED = 25"

definition MSG_TYPE_DOWNSTREAM_NEXT_EVENT_TAG :: byte where
  "MSG_TYPE_DOWNSTREAM_NEXT_EVENT_TAG = 26"

definition FEDERATION_ID_DOES_NOT_MATCH :: byte where
  "FEDERATION_ID_DOES_NOT_MATCH = 1"

definition FEDERATE_ID_IN_USE :: byte where
  "FEDERATE_ID_IN_USE = 2"

definition FEDERATE_ID_OUT_OF_RANGE :: byte where
  "FEDERATE_ID_OUT_OF_RANGE = 3"

definition UNEXPECTED_MESSAGE :: byte where
  "UNEXPECTED_MESSAGE = 4"

definition WRONG_SERVER :: byte where
  "WRONG_SERVER = 5"

definition HMAC_DOES_NOT_MATCH :: byte where
  "HMAC_DOES_NOT_MATCH = 6"

definition RTI_NOT_EXECUTED_WITH_AUTH :: byte where
  "RTI_NOT_EXECUTED_WITH_AUTH = 7"

lemmas message_type_defs =
    MSG_TYPE_REJECT_def MSG_TYPE_ACK_def MSG_TYPE_UDP_PORT_def MSG_TYPE_FED_IDS_def
    MSG_TYPE_FED_NONCE_def MSG_TYPE_RTI_RESPONSE_def MSG_TYPE_FED_RESPONSE_def
    MSG_TYPE_TIMESTAMP_def MSG_TYPE_MESSAGE_def MSG_TYPE_RESIGN_def MSG_TYPE_TAGGED_MESSAGE_def
    MSG_TYPE_NEXT_EVENT_TAG_def MSG_TYPE_TAG_ADVANCE_GRANT_def
    MSG_TYPE_PROVISIONAL_TAG_ADVANCE_GRANT_def MSG_TYPE_LATEST_TAG_CONFIRMED_def
    MSG_TYPE_STOP_REQUEST_def MSG_TYPE_STOP_REQUEST_REPLY_def MSG_TYPE_STOP_GRANTED_def
    MSG_TYPE_ADDRESS_QUERY_def MSG_TYPE_ADDRESS_QUERY_REPLY_def MSG_TYPE_ADDRESS_ADVERTISEMENT_def
    MSG_TYPE_P2P_SENDING_FED_ID_def MSG_TYPE_P2P_MESSAGE_def MSG_TYPE_P2P_TAGGED_MESSAGE_def
    MSG_TYPE_CLOCK_SYNC_T1_def MSG_TYPE_CLOCK_SYNC_T3_def MSG_TYPE_CLOCK_SYNC_T4_def
    MSG_TYPE_CLOCK_SYNC_CODED_PROBE_def MSG_TYPE_PORT_ABSENT_def MSG_TYPE_NEIGHBOR_STRUCTURE_def
    MSG_TYPE_FAILED_def MSG_TYPE_DOWNSTREAM_NEXT_EVENT_TAG_def

definition message_types :: "byte list" where
  "message_types =
    [MSG_TYPE_REJECT, MSG_TYPE_ACK, MSG_TYPE_UDP_PORT, MSG_TYPE_FED_IDS, MSG_TYPE_FED_NONCE,
     MSG_TYPE_RTI_RESPONSE, MSG_TYPE_FED_RESPONSE, MSG_TYPE_TIMESTAMP, MSG_TYPE_MESSAGE,
     MSG_TYPE_RESIGN, MSG_TYPE_TAGGED_MESSAGE, MSG_TYPE_NEXT_EVENT_TAG, MSG_TYPE_TAG_ADVANCE_GRANT,
     MSG_TYPE_PROVISIONAL_TAG_ADVANCE_GRANT, MSG_TYPE_LATEST_TAG_CONFIRMED, MSG_TYPE_STOP_REQUEST,
     MSG_TYPE_STOP_REQUEST_REPLY, MSG_TYPE_STOP_GRANTED, MSG_TYPE_ADDRESS_QUERY,
     MSG_TYPE_ADDRESS_QUERY_REPLY, MSG_TYPE_ADDRESS_ADVERTISEMENT, MSG_TYPE_P2P_SENDING_FED_ID,
     MSG_TYPE_P2P_MESSAGE, MSG_TYPE_P2P_TAGGED_MESSAGE, MSG_TYPE_CLOCK_SYNC_T1,
     MSG_TYPE_CLOCK_SYNC_T3, MSG_TYPE_CLOCK_SYNC_T4, MSG_TYPE_CLOCK_SYNC_CODED_PROBE,
     MSG_TYPE_PORT_ABSENT, MSG_TYPE_NEIGHBOR_STRUCTURE, MSG_TYPE_FAILED,
     MSG_TYPE_DOWNSTREAM_NEXT_EVENT_TAG]"

definition rejection_codes :: "byte list" where
  "rejection_codes =
    [FEDERATION_ID_DOES_NOT_MATCH, FEDERATE_ID_IN_USE, FEDERATE_ID_OUT_OF_RANGE,
     UNEXPECTED_MESSAGE, WRONG_SERVER, HMAC_DOES_NOT_MATCH, RTI_NOT_EXECUTED_WITH_AUTH]"

section \<open>Sizes\<close>

definition FED_COM_BUFFER_SIZE :: nat where
  "FED_COM_BUFFER_SIZE = 256"

definition NONCE_LENGTH :: nat where
  "NONCE_LENGTH = 8"

definition SHA256_HMAC_LENGTH :: nat where
  "SHA256_HMAC_LENGTH = 32"

text \<open>\<open>sizeof(instant_t)\<close> and \<open>sizeof(microstep_t)\<close>: the 8 and 4 bytes the header gives a tag.\<close>

definition sizeof_instant_t :: nat where
  "sizeof_instant_t = 8"

definition sizeof_microstep_t :: nat where
  "sizeof_microstep_t = 4"

definition MSG_TYPE_TIMESTAMP_LENGTH :: nat where
  "MSG_TYPE_TIMESTAMP_LENGTH = 1 + 8"

definition MSG_TYPE_STOP_REQUEST_LENGTH :: nat where
  "MSG_TYPE_STOP_REQUEST_LENGTH = 1 + sizeof_instant_t + sizeof_microstep_t"

definition MSG_TYPE_STOP_REQUEST_REPLY_LENGTH :: nat where
  "MSG_TYPE_STOP_REQUEST_REPLY_LENGTH = 1 + sizeof_instant_t + sizeof_microstep_t"

definition MSG_TYPE_STOP_GRANTED_LENGTH :: nat where
  "MSG_TYPE_STOP_GRANTED_LENGTH = 1 + sizeof_instant_t + sizeof_microstep_t"

definition MSG_TYPE_NEIGHBOR_STRUCTURE_HEADER_SIZE :: nat where
  "MSG_TYPE_NEIGHBOR_STRUCTURE_HEADER_SIZE = 9"

section \<open>Tags and messages with data\<close>

record tag_t =
  time :: int64_t
  microstep :: uint32_t

text \<open>A message that carries data: destination port, destination federate, and the bytes.\<close>

record routed =
  dest_port :: uint16_t
  dest_federate :: uint16_t
  body :: "byte list"

text \<open>Machine integers as bytes, lowest-order byte first.\<close>

definition word_bytes :: "nat \<Rightarrow> 'a::len word \<Rightarrow> byte list" where
  "word_bytes n w = le_bytes n (unat w)"

lemma length_word_bytes [simp]: "length (word_bytes n w) = n"
  by (simp add: word_bytes_def)

section \<open>The encoding macros\<close>

text \<open>
  The byte encoders of \<open>net_util.h\<close> write a fixed number of bytes at the address they are given:
  an encoder is the function from the datum to those bytes.  The header documents that they
  come "in little-endian order (lowest order byte first)".
\<close>

definition little_endian :: "nat \<Rightarrow> ('a::len word \<Rightarrow> byte list) \<Rightarrow> bool" where
  "little_endian n enc \<longleftrightarrow> (\<forall>x. enc x = le_bytes n (unat x))"

text \<open>The macros differ in the identifying byte only.\<close>

definition encode_stop_message ::
    "byte \<Rightarrow> (int64_t \<Rightarrow> byte list) \<Rightarrow> (int32_t \<Rightarrow> byte list) \<Rightarrow> byte list \<Rightarrow> int64_t \<Rightarrow> uint32_t \<Rightarrow>
     byte list c_result" where
  "encode_stop_message msg_type encode_int64 encode_int32 buffer t m =
     c_bind (c_write buffer 0 msg_type) (\<lambda>buffer.
     c_bind (c_write_block buffer 1 (encode_int64 t)) (\<lambda>buffer.
     c_write_block buffer (1 + sizeof_instant_t) (encode_int32 m)))"

definition ENCODE_STOP_REQUEST where
  "ENCODE_STOP_REQUEST = encode_stop_message MSG_TYPE_STOP_REQUEST"

definition ENCODE_STOP_REQUEST_REPLY where
  "ENCODE_STOP_REQUEST_REPLY = encode_stop_message MSG_TYPE_STOP_REQUEST_REPLY"

definition ENCODE_STOP_GRANTED where
  "ENCODE_STOP_GRANTED = encode_stop_message MSG_TYPE_STOP_GRANTED"

lemma encode_stop_message_eq:
  assumes "little_endian 8 encode_int64" and "little_endian 4 encode_int32"
  shows "encode_stop_message msg_type encode_int64 encode_int32 buffer t m =
    (if 13 \<le> length buffer
     then Inr (msg_type # word_bytes 8 t @ word_bytes 4 m @ drop 13 buffer)
     else Inl Out_Of_Bounds)"
proof -
  have enc: "encode_int64 t = word_bytes 8 t" "encode_int32 m = word_bytes 4 m"
    using assms by (simp_all add: little_endian_def word_bytes_def)
  show ?thesis
  proof (cases buffer)
    case Nil
    then show ?thesis by (simp add: encode_stop_message_def c_write_def)
  next
    case (Cons b rest)
    have first: "c_write (b # rest) 0 msg_type = Inr (msg_type # rest)"
      by (simp add: c_write_def)
    have second: "c_write_block (msg_type # rest) 1 (word_bytes 8 t) =
      (if 8 \<le> length rest then Inr (msg_type # word_bytes 8 t @ drop 8 rest) else Inl Out_Of_Bounds)"
      by (simp add: c_write_block_def)
    have third: "c_write_block (msg_type # word_bytes 8 t @ drop 8 rest) (1 + 8) (word_bytes 4 m) =
      (if 12 \<le> length rest then Inr (msg_type # word_bytes 8 t @ word_bytes 4 m @ drop 12 rest)
       else Inl Out_Of_Bounds)" if "8 \<le> length rest"
      using that by (auto simp: c_write_block_def)
    show ?thesis
      unfolding encode_stop_message_def enc Cons sizeof_instant_t_def first c_bind_Inr second
      using third by (cases "8 \<le> length rest") simp_all
  qed
qed

section \<open>Properties\<close>

text \<open>C23: the three stop macros write the layout documented beside them (identifying byte, 8 bytes of
  time, 4 bytes of microstep): on a buffer of at least the length the header defines for the message
  they overwrite its beginning and leave the rest, and on a shorter buffer they write past its
  end.\<close>

theorem encode_stop_macros_layout:
  assumes "little_endian 8 encode_int64" and "little_endian 4 encode_int32"
  shows "ENCODE_STOP_REQUEST encode_int64 encode_int32 buffer t m =
      (if MSG_TYPE_STOP_REQUEST_LENGTH \<le> length buffer
       then Inr (MSG_TYPE_STOP_REQUEST # word_bytes 8 t @ word_bytes 4 m @
         drop MSG_TYPE_STOP_REQUEST_LENGTH buffer)
       else Inl Out_Of_Bounds) \<and>
    ENCODE_STOP_REQUEST_REPLY encode_int64 encode_int32 buffer t m =
      (if MSG_TYPE_STOP_REQUEST_REPLY_LENGTH \<le> length buffer
       then Inr (MSG_TYPE_STOP_REQUEST_REPLY # word_bytes 8 t @ word_bytes 4 m @
         drop MSG_TYPE_STOP_REQUEST_REPLY_LENGTH buffer)
       else Inl Out_Of_Bounds) \<and>
    ENCODE_STOP_GRANTED encode_int64 encode_int32 buffer t m =
      (if MSG_TYPE_STOP_GRANTED_LENGTH \<le> length buffer
       then Inr (MSG_TYPE_STOP_GRANTED # word_bytes 8 t @ word_bytes 4 m @
         drop MSG_TYPE_STOP_GRANTED_LENGTH buffer)
       else Inl Out_Of_Bounds)"
  by (simp add: ENCODE_STOP_REQUEST_def ENCODE_STOP_REQUEST_REPLY_def ENCODE_STOP_GRANTED_def
      encode_stop_message_eq [OF assms] MSG_TYPE_STOP_REQUEST_LENGTH_def
      MSG_TYPE_STOP_REQUEST_REPLY_LENGTH_def MSG_TYPE_STOP_GRANTED_LENGTH_def sizeof_instant_t_def
      sizeof_microstep_t_def)

theorem encode_stop_macros_layout_witness:
  "ENCODE_STOP_REQUEST (word_bytes 8) (word_bytes 4) (replicate 13 0) 258 2 =
     Inr [10, 2, 1, 0, 0, 0, 0, 0, 0, 2, 0, 0, 0]"
proof -
  have "little_endian 8 (word_bytes 8 :: int64_t \<Rightarrow> byte list)"
    "little_endian 4 (word_bytes 4 :: int32_t \<Rightarrow> byte list)"
    by (simp_all add: little_endian_def word_bytes_def)
  from encode_stop_macros_layout [OF this, of "replicate 13 0" 258 2]
  show ?thesis
    by (simp add: MSG_TYPE_STOP_REQUEST_LENGTH_def sizeof_instant_t_def sizeof_microstep_t_def
        word_bytes_def MSG_TYPE_STOP_REQUEST_def le_bytes_numeral)
qed

end
