(* ===== verification/Param_Files.thy ===== *)
theory Param_Files
  imports Lf_Base "HOL-Library.Sublist"
begin

text \<open>
  The parameter-file helpers of \<open>lf-src/lf-include/utils.hpp\<close> that every wrapper's startup
  reaction calls: \<open>resolve_yaml_vars\<close>, which substitutes launch variables and writes a copy,
  \<open>_rewrite_yaml_as_global\<close>, and the two functions that turn YAML files into node options.

  The YAML parser of ROS (\<open>rcl_parse_yaml_file\<close> with \<open>parameter_map_from\<close>) is an argument: the
  parameters per node of a file's contents, or a failure.  The file system is a map from paths
  to contents; the C++ string functions are written out.
\<close>

section \<open>C++ strings\<close>

text \<open>\<open>content.find(pattern, pos)\<close>; \<open>None\<close> is \<open>npos\<close>.\<close>

definition str_find :: "string \<Rightarrow> string \<Rightarrow> nat \<Rightarrow> nat option" where
  "str_find content pattern pos =
     List.find (\<lambda>i. take (length pattern) (drop i content) = pattern)
       [pos..<Suc (length content) - length pattern]"

definition str_replace :: "string \<Rightarrow> nat \<Rightarrow> nat \<Rightarrow> string \<Rightarrow> string" where
  "str_replace content pos n val = take pos content @ val @ drop (pos + n) content"

text \<open>\<open>std::to_string\<close> of an unsigned number.\<close>

fun digits :: "nat \<Rightarrow> string" where
  "digits n = (if n < 10 then [char_of (48 + n)] else digits (n div 10) @ [char_of (48 + n mod 10)])"

declare digits.simps [simp del]

section \<open>Substitution of launch variables\<close>

text \<open>The inner loop.  It need not end, so its value is an option.\<close>

partial_function (option) replace_loop :: "string \<Rightarrow> string \<Rightarrow> string \<Rightarrow> nat \<Rightarrow> string option" where
  "replace_loop pattern val content pos =
     (case str_find content pattern pos of
        None \<Rightarrow> Some content
      | Some found \<Rightarrow>
          replace_loop pattern val (str_replace content found (length pattern) val)
            (found + length val))"

fun replace_vars :: "(string \<times> string) list \<Rightarrow> string \<Rightarrow> string option" where
  "replace_vars [] content = Some content"
| "replace_vars ((pattern, val) # rs) content =
     (case replace_loop pattern val content 0 of
        None \<Rightarrow> None
      | Some content' \<Rightarrow> replace_vars rs content')"

text \<open>
  The host: the files, the process ID, and the static counters of the two functions that write
  temporary files.
\<close>

record host =
  files :: "string \<Rightarrow> string option"
  pid :: nat
  params_counter :: nat
  resolved_counter :: nat

text \<open>
  \<open>None\<close>: the call does not return.  An unreadable file ends the program with an error.
\<close>

definition resolve_yaml_vars ::
    "string \<Rightarrow> (string \<times> string) list \<Rightarrow> host \<Rightarrow> (string \<times> host) c_result option" where
  "resolve_yaml_vars yaml_path replacements h =
     (case files h yaml_path of
        None \<Rightarrow> Some (Inl (Exit_Failure 1))
      | Some content \<Rightarrow>
          (case replace_vars replacements content of
             None \<Rightarrow> None
           | Some content \<Rightarrow>
               let tmp_path = ''/tmp/lf_resolved_'' @ digits (pid h) @ ''_'' @
                     digits (resolved_counter h) @ ''.yaml'' in
               Some (Inr (tmp_path,
                 h\<lparr>resolved_counter := resolved_counter h + 1,
                   files := (files h)(tmp_path \<mapsto> content)\<rparr>))))"

section \<open>Node options\<close>

datatype 'd param_value =
    Param_Bool bool
  | Param_Integer int
  | Param_Double 'd
  | Param_String string
  | Param_String_Array "string list"
  | Param_Other

type_synonym 'd parameter = "string \<times> 'd param_value"

text \<open>Parameters per node name, in the order of the map.\<close>

type_synonym 'd param_map = "(string \<times> 'd parameter list) list"

text \<open>How numbers are printed by \<open>operator<<\<close>.\<close>

record 'd printer =
  print_int :: "int \<Rightarrow> string"
  print_double :: "'d \<Rightarrow> string"

definition newline :: string where
  "newline = [char_of (10 :: nat)]"

fun param_line :: "'d printer \<Rightarrow> 'd parameter \<Rightarrow> string" where
  "param_line pr (name, Param_Bool b) =
     ''    '' @ name @ '': '' @ (if b then ''true'' else ''false'') @ newline"
| "param_line pr (name, Param_Integer i) = ''    '' @ name @ '': '' @ print_int pr i @ newline"
| "param_line pr (name, Param_Double d) = ''    '' @ name @ '': '' @ print_double pr d @ newline"
| "param_line pr (name, Param_String s) =
     ''    '' @ name @ '': '' @ [char_of (34 :: nat)] @ s @ [char_of (34 :: nat)] @ newline"
| "param_line pr (name, Param_String_Array ss) = []"
| "param_line pr (name, Param_Other) = []"

definition parse_file :: "(string \<Rightarrow> 'd param_map option) \<Rightarrow> host \<Rightarrow> string \<Rightarrow> 'd param_map option" where
  "parse_file parse h path = (case files h path of None \<Rightarrow> None | Some content \<Rightarrow> parse content)"

definition global_root :: string where
  "global_root = ''/**''"

definition rewrite_yaml_as_global ::
    "(string \<Rightarrow> 'd param_map option) \<Rightarrow> 'd printer \<Rightarrow> string \<Rightarrow> string \<Rightarrow> host \<Rightarrow> string \<times> host" where
  "rewrite_yaml_as_global parse pr path root h =
     (if root = global_root then (path, h)
      else if files h path = None then (path, h)
      else
       (case parse_file parse h path of
          None \<Rightarrow> (path, h)
        | Some options \<Rightarrow>
            (case List.find (\<lambda>option. fst option = root) options of
               None \<Rightarrow> (path, h)
             | Some option \<Rightarrow>
                 let tmp_path = ''/tmp/lf_params_'' @ digits (pid h) @ ''_'' @
                       digits (params_counter h) @ ''.yaml'';
                     tmp = ''/**:'' @ newline @ ''  ros__parameters:'' @ newline @
                       concat (map (param_line pr) (snd option)) in
                 (tmp_path, h\<lparr>params_counter := params_counter h + 1,
                   files := (files h)(tmp_path \<mapsto> tmp)\<rparr>))))"

record 'd node_options =
  parameter_overrides :: "'d parameter list"
  arguments :: "string list"

definition get_node_options_from_yaml ::
    "(string \<Rightarrow> 'd param_map option) \<Rightarrow> 'd printer \<Rightarrow> string \<Rightarrow> string \<Rightarrow> host \<Rightarrow>
     ('d node_options \<times> host) c_result" where
  "get_node_options_from_yaml parse pr path root_name h =
     (case parse_file parse h path of
        None \<Rightarrow> Inl (Exit_Failure 1)
      | Some options \<Rightarrow>
          let overrides = foldl (\<lambda>acc option. if fst option = root_name then snd option else acc) [] options;
              (params_file, h) = rewrite_yaml_as_global parse pr path root_name h in
          Inr (\<lparr>parameter_overrides = overrides,
                arguments = [''--ros-args'', ''--params-file'', params_file]\<rparr>, h))"

text \<open>One iteration of the loop over several files: an unreadable one is skipped with a warning.\<close>

definition add_yaml ::
    "(string \<Rightarrow> 'd param_map option) \<Rightarrow> 'd printer \<Rightarrow> 'd node_options \<times> host \<Rightarrow> string \<times> string \<Rightarrow>
     'd node_options \<times> host" where
  "add_yaml parse pr s config =
     (let (opts, h) = s; (path, root_name) = config in
      case parse_file parse h path of
        None \<Rightarrow> (opts, h)
      | Some options \<Rightarrow>
          let overrides = foldl (\<lambda>acc option. if fst option = root_name then acc @ snd option else acc)
                (parameter_overrides opts) options;
              (params_file, h) = rewrite_yaml_as_global parse pr path root_name h in
          (opts\<lparr>parameter_overrides := overrides,
                arguments := arguments opts @ [''--params-file'', params_file]\<rparr>, h))"

definition get_node_options_from_yamls ::
    "(string \<Rightarrow> 'd param_map option) \<Rightarrow> 'd printer \<Rightarrow> (string \<times> string) list \<Rightarrow> host \<Rightarrow>
     'd node_options \<times> host" where
  "get_node_options_from_yamls parse pr yaml_configs h =
     foldl (add_yaml parse pr)
       (\<lparr>parameter_overrides = [], arguments = [''--ros-args'']\<rparr>, h) yaml_configs"

definition get_lf_autoware_home :: "(string \<Rightarrow> string option) \<Rightarrow> string c_result" where
  "get_lf_autoware_home getenv =
     (case getenv ''LF_AUTOWARE_HOME'' of None \<Rightarrow> Inl (Exit_Failure 1) | Some home \<Rightarrow> Inr home)"

section \<open>Substitution, as a reference\<close>

text \<open>
  The text with every occurrence of a non-empty pattern replaced, from left to right, without
  looking at what was put in.
\<close>

function replace_all :: "string \<Rightarrow> string \<Rightarrow> string \<Rightarrow> string" where
  "replace_all pattern val s =
     (if pattern = [] \<or> s = [] then s
      else if prefix pattern s then val @ replace_all pattern val (drop (length pattern) s)
      else hd s # replace_all pattern val (tl s))"
  by pat_completeness auto
termination by (relation "measure (\<lambda>(pattern, val, s). length s)") auto

declare replace_all.simps [simp del]

lemma prefix_take: "prefix p s \<longleftrightarrow> take (length p) s = p"
  by (metis append_eq_conv_conj append_take_drop_id prefix_def)

lemma find_upt_shift: "List.find P [Suc a..<Suc b] = map_option Suc (List.find (\<lambda>i. P (Suc i)) [a..<b])"
proof -
  have "List.find P (map Suc xs) = map_option Suc (List.find (\<lambda>i. P (Suc i)) xs)" for xs
    by (induction xs) auto
  then show ?thesis by (metis map_Suc_upt)
qed

lemma str_find_Cons:
  "str_find (c # s) p 0 =
     (if length p \<le> Suc (length s) \<and> prefix p (c # s) then Some 0
      else map_option Suc (str_find s p 0))"
proof (cases "length p \<le> Suc (length s)")
  case True
  have "[0..<Suc (Suc (length s)) - length p] = 0 # [Suc 0..<Suc (Suc (length s) - length p)]"
    using True by (simp add: Suc_diff_le upt_conv_Cons)
  then show ?thesis
    using True unfolding str_find_def
    by (simp add: prefix_take find_upt_shift del: upt_Suc)
next
  case False
  then show ?thesis by (simp add: str_find_def not_le)
qed

lemma str_find_shift:
  "str_find (pre @ s) p (length pre) = map_option ((+) (length pre)) (str_find s p 0)"
proof (induction pre)
  case Nil
  show ?case by (cases "str_find s p 0") (simp_all add: str_find_def)
next
  case (Cons c pre)
  have "str_find (c # pre @ s) p (Suc (length pre)) = map_option Suc (str_find (pre @ s) p (length pre))"
  proof (cases "length p \<le> Suc (length (pre @ s))")
    case True
    have "[Suc (length pre)..<Suc (Suc (length (pre @ s))) - length p] =
        [Suc (length pre)..<Suc (Suc (length (pre @ s)) - length p)]"
      using True by (simp add: Suc_diff_le)
    then show ?thesis unfolding str_find_def by (simp add: find_upt_shift del: upt_Suc)
  next
    case False
    then show ?thesis by (simp add: str_find_def not_le)
  qed
  with Cons show ?case by (simp add: option.map_comp o_def)
qed

text \<open>The reference, in terms of the first occurrence.\<close>

lemma replace_all_find:
  assumes "p \<noteq> []"
  shows "replace_all p v s =
    (case str_find s p 0 of None \<Rightarrow> s
     | Some i \<Rightarrow> take i s @ v @ replace_all p v (drop (i + length p) s))"
proof (induction s)
  case Nil
  then show ?case
    using assms by (cases p) (simp_all add: replace_all.simps [of _ v "[]"] str_find_def)
next
  case (Cons c s)
  show ?case
  proof (cases "prefix p (c # s)")
    case True
    then have "length p \<le> Suc (length s)" using prefix_length_le by fastforce
    with True assms show ?thesis by (simp add: replace_all.simps [of p v "c # s"] str_find_Cons)
  next
    case False
    then have "replace_all p v (c # s) = c # replace_all p v s"
      using assms by (simp add: replace_all.simps [of p v "c # s"])
    with Cons.IH False show ?thesis by (simp add: str_find_Cons split: option.splits)
  qed
qed

lemma str_find_bound: "str_find s p 0 = Some i \<Longrightarrow> i + length p \<le> length s"
  by (auto simp: str_find_def find_Some_iff split: if_splits)

lemma replace_loop_from:
  assumes "p \<noteq> []"
  shows "replace_loop p v (pre @ s) (length pre) = Some (pre @ replace_all p v s)"
proof (induction "length s" arbitrary: pre s rule: less_induct)
  case less
  show ?case
  proof (cases "str_find s p 0")
    case None
    then show ?thesis
      using assms by (simp add: replace_loop.simps [of p v "pre @ s"] str_find_shift replace_all_find [of p v s])
  next
    case (Some i)
    note bound = str_find_bound [OF Some]
    let ?rest = "drop (i + length p) s"
    have smaller: "length ?rest < length s" using bound assms by (cases p) auto
    have "str_replace (pre @ s) (length pre + i) (length p) v = (pre @ take i s @ v) @ ?rest"
      by (simp add: str_replace_def add.assoc)
    moreover have "length pre + i + length v = length (pre @ take i s @ v)"
      using bound by simp
    ultimately have "replace_loop p v (pre @ s) (length pre) =
        replace_loop p v ((pre @ take i s @ v) @ ?rest) (length (pre @ take i s @ v))"
      using Some by (simp add: replace_loop.simps [of p v "pre @ s"] str_find_shift add.assoc)
    also have "\<dots> = Some ((pre @ take i s @ v) @ replace_all p v ?rest)"
      by (rule less [OF smaller])
    finally show ?thesis using assms Some by (simp add: replace_all_find [of p v s])
  qed
qed

lemma replace_vars_eq:
  "\<forall>(pattern, val) \<in> set rs. pattern \<noteq> [] \<Longrightarrow>
   replace_vars rs content = Some (foldl (\<lambda>c (pattern, val). replace_all pattern val c) content rs)"
proof (induction rs arbitrary: content)
  case (Cons r rs)
  obtain pattern val where r: "r = (pattern, val)" by fastforce
  with Cons.prems have "replace_loop pattern val content 0 = Some (replace_all pattern val content)"
    using replace_loop_from [of pattern val "[]" content] by auto
  with Cons r show ?case by simp
qed simp

text \<open>With an empty pattern every search succeeds at once, so the loop has no result.\<close>

lemma str_find_empty: "pos \<le> length content \<Longrightarrow> str_find content [] pos = Some pos"
  by (simp add: str_find_def upt_conv_Cons del: upt_Suc)

lemma replace_loop_empty_aux:
  assumes "replace_loop pattern val content pos = Some r"
  shows "\<not> (pattern = [] \<and> pos \<le> length content)"
proof (rule replace_loop.raw_induct
    [where P = "\<lambda>pattern val content pos r. \<not> (pattern = [] \<and> pos \<le> length content)", OF _ assms])
  fix loop pattern val content pos r
  assume IH: "\<And>pattern val content pos r. loop pattern val content pos = Some r \<Longrightarrow>
      \<not> (pattern = [] \<and> pos \<le> length content)"
    and result: "(case str_find content pattern pos of None \<Rightarrow> Some content
      | Some found \<Rightarrow> loop pattern val (str_replace content found (length pattern) val)
          (found + length val)) = Some r"
  show "\<not> (pattern = [] \<and> pos \<le> length content)"
  proof
    assume empty: "pattern = [] \<and> pos \<le> length content"
    with result have "loop [] val (str_replace content pos 0 val) (pos + length val) = Some r"
      by (simp add: str_find_empty)
    from IH [OF this] show False
      using empty by (simp add: str_replace_def)
  qed
qed

lemma replace_loop_empty: "replace_loop [] val content 0 = None"
  using replace_loop_empty_aux [of "[]" val content 0] by (cases "replace_loop [] val content 0") auto

section \<open>Node options of the wrappers\<close>

lemma rewrite_global [simp]: "rewrite_yaml_as_global parse pr path global_root h = (path, h)"
  by (simp add: rewrite_yaml_as_global_def)

lemma foldl_append_matching:
  "foldl (\<lambda>acc option. if fst option = root then acc @ snd option else acc) acc options =
   acc @ concat (map snd (filter (\<lambda>option. fst option = root) options))"
  by (induction options arbitrary: acc) auto

lemma foldl_last_matching:
  "distinct (map fst options) \<Longrightarrow>
   foldl (\<lambda>acc option. if fst option = root then snd option else acc) acc options =
   (case map_of options root of None \<Rightarrow> acc | Some ps \<Rightarrow> ps)"
proof (induction options arbitrary: acc)
  case (Cons x options)
  obtain n ps where x: "x = (n, ps)" by fastforce
  show ?case
  proof (cases "n = root")
    case True
    then have "map_of options root = None"
      using Cons.prems x by (auto simp: map_of_eq_None_iff)
    with True Cons x show ?thesis by simp
  next
    case False
    with Cons x show ?thesis by simp
  qed
qed simp

lemma filter_matching:
  "distinct (map fst options) \<Longrightarrow>
   concat (map snd (filter (\<lambda>option. fst option = root) options)) =
   (case map_of options root of None \<Rightarrow> [] | Some ps \<Rightarrow> ps)"
  using foldl_append_matching [of root "[]" options]
proof (induction options)
  case (Cons x options)
  obtain n ps where x: "x = (n, ps)" by fastforce
  show ?case
  proof (cases "n = root")
    case True
    then have "filter (\<lambda>option. fst option = root) options = []"
      using Cons.prems x by (auto simp: filter_empty_conv image_iff)
    with True x show ?thesis by simp
  next
    case False
    with Cons x show ?thesis using foldl_append_matching by simp
  qed
qed simp

text \<open>The parameters a file gives to the global node, none when it cannot be read.\<close>

definition global_params :: "(string \<Rightarrow> 'd param_map option) \<Rightarrow> host \<Rightarrow> string \<Rightarrow> 'd parameter list" where
  "global_params parse h path =
     (case parse_file parse h path of
        None \<Rightarrow> []
      | Some options \<Rightarrow> concat (map snd (filter (\<lambda>option. fst option = global_root) options)))"

lemma node_options_from:
  "foldl (add_yaml parse pr) (opts, h) (map (\<lambda>path. (path, global_root)) paths) =
   (opts\<lparr>parameter_overrides := parameter_overrides opts @ concat (map (global_params parse h) paths),
         arguments := arguments opts @
           concat (map (\<lambda>path. [''--params-file'', path])
             (filter (\<lambda>path. parse_file parse h path \<noteq> None) paths))\<rparr>, h)"
proof (induction paths arbitrary: opts)
  case (Cons path paths)
  show ?case
  proof (cases "parse_file parse h path")
    case None
    then have "add_yaml parse pr (opts, h) (path, global_root) = (opts, h)"
      by (simp add: add_yaml_def)
    with None Cons show ?thesis by (simp add: global_params_def)
  next
    case (Some options)
    then have "add_yaml parse pr (opts, h) (path, global_root) =
        (opts\<lparr>parameter_overrides := parameter_overrides opts @ global_params parse h path,
          arguments := arguments opts @ [''--params-file'', path]\<rparr>, h)"
      by (simp add: add_yaml_def global_params_def foldl_append_matching)
    with Some Cons show ?thesis by simp
  qed
qed simp

section \<open>Properties\<close>

text \<open>C19: \<open>resolve_yaml_vars\<close> substitutes: with non-empty patterns and a readable file it returns,
  for every content, the path of a temporary file that holds the content with each pattern
  in turn replaced everywhere, from left to right; it changes no other file, and the counter
  advances by one.\<close>

theorem resolve_yaml_vars_substitutes:
  assumes "files h path = Some content" and "\<forall>(pattern, val) \<in> set replacements. pattern \<noteq> []"
  shows "\<exists>tmp h'. resolve_yaml_vars path replacements h = Some (Inr (tmp, h')) \<and>
    files h' tmp = Some (foldl (\<lambda>c (pattern, val). replace_all pattern val c) content replacements) \<and>
    (\<forall>other. other \<noteq> tmp \<longrightarrow> files h' other = files h other) \<and>
    resolved_counter h' = resolved_counter h + 1"
  using assms(1) replace_vars_eq [OF assms(2)] by (simp add: resolve_yaml_vars_def Let_def)

definition sample_host :: host where
  "sample_host = \<lparr>files = [''a'' \<mapsto> ''x=$y;$y''], pid = 12, params_counter = 0, resolved_counter = 3\<rparr>"

theorem resolve_yaml_vars_substitutes_witness:
  "\<exists>tmp h'. resolve_yaml_vars ''a'' [(''$y'', ''$y1'')] sample_host = Some (Inr (tmp, h')) \<and>
    files h' tmp = Some ''x=$y1;$y1''"
proof -
  have "replace_all ''$y'' ''$y1'' ''x=$y;$y'' = ''x=$y1;$y1''"
    by (simp add: replace_all.simps)
  then show ?thesis
    using resolve_yaml_vars_substitutes [of sample_host "''a''" "''x=$y;$y''" "[(''$y'', ''$y1'')]"]
    by (auto simp: sample_host_def)
qed

text \<open>C22: an empty pattern makes \<open>resolve_yaml_vars\<close> run forever: the search finds it at every
  position, so the loop never ends, whatever the file and the value.\<close>

theorem resolve_yaml_vars_empty_pattern_diverges:
  assumes "files h path = Some content"
  shows "resolve_yaml_vars path [([], val)] h = None"
  using assms by (simp add: resolve_yaml_vars_def replace_loop_empty)

theorem resolve_yaml_vars_empty_pattern_diverges_witness:
  "resolve_yaml_vars ''a'' [([], ''v'')] sample_host = None"
  by (rule resolve_yaml_vars_empty_pattern_diverges) (simp add: sample_host_def)

text \<open>The node options of a list of files, as every wrapper asks for them (for the global node
  \<open>/**\<close>): the overrides are the parameters of the readable files in order, the arguments name
  exactly the readable files, unreadable ones are skipped, and no file is written.\<close>

theorem node_options_of_yamls:
  "get_node_options_from_yamls parse pr (map (\<lambda>path. (path, global_root)) paths) h =
   (\<lparr>parameter_overrides = concat (map (global_params parse h) paths),
     arguments = ''--ros-args'' # concat (map (\<lambda>path. [''--params-file'', path])
       (filter (\<lambda>path. parse_file parse h path \<noteq> None) paths))\<rparr>, h)"
  by (simp add: get_node_options_from_yamls_def node_options_from)

text \<open>The two functions agree on one readable file whose node names are distinct (keys of a
  map), for any root name: same overrides, same arguments, same effect on the files; on a file
  that cannot be read they differ, as the first ends the program and the second goes on
  without it.\<close>

theorem node_options_single_file:
  assumes "\<And>options. parse_file parse h path = Some options \<Longrightarrow> distinct (map fst options)"
  shows "get_node_options_from_yaml parse pr path root h =
    (if parse_file parse h path = None then Inl (Exit_Failure 1)
     else Inr (get_node_options_from_yamls parse pr [(path, root)] h)) \<and>
    (parse_file parse h path = None \<longrightarrow>
     get_node_options_from_yamls parse pr [(path, root)] h =
       (\<lparr>parameter_overrides = [], arguments = [''--ros-args'']\<rparr>, h))"
proof (cases "parse_file parse h path")
  case None
  then show ?thesis
    by (simp add: get_node_options_from_yaml_def get_node_options_from_yamls_def add_yaml_def)
next
  case (Some options)
  note distinct = assms [OF Some]
  then show ?thesis
    using Some
    by (simp add: get_node_options_from_yaml_def get_node_options_from_yamls_def add_yaml_def
        foldl_last_matching [OF distinct] foldl_append_matching filter_matching [OF distinct]
        Let_def case_prod_beta)
qed

theorem node_options_single_file_witness:
  "get_node_options_from_yaml (\<lambda>c. Some [(''/**'', [(c, Param_Bool True)])])
     \<lparr>print_int = (\<lambda>i. []), print_double = (\<lambda>d :: nat. [])\<rparr> ''a'' ''/**'' sample_host =
   Inr (\<lparr>parameter_overrides = [(''x=$y;$y'', Param_Bool True)],
      arguments = [''--ros-args'', ''--params-file'', ''a'']\<rparr>, sample_host)"
proof -
  let ?parse = "\<lambda>c. Some [(''/**'', [(c, Param_Bool True :: nat param_value)])]"
  have parsed: "parse_file ?parse sample_host ''a'' = Some [(''/**'', [(''x=$y;$y'', Param_Bool True)])]"
    by (simp add: parse_file_def sample_host_def)
  then have "\<And>options. parse_file ?parse sample_host ''a'' = Some options \<Longrightarrow> distinct (map fst options)"
    by auto
  from node_options_single_file
    [where parse = ?parse and h = sample_host and path = "''a''", OF this, where root = "''/**''" and
      pr = "\<lparr>print_int = (\<lambda>i. []), print_double = (\<lambda>d :: nat. [])\<rparr>"]
  show ?thesis
    using parsed
    by (simp add: get_node_options_from_yamls_def add_yaml_def rewrite_yaml_as_global_def global_root_def)
qed

fun scalar :: "'d param_value \<Rightarrow> bool" where
  "scalar (Param_String_Array ss) = False"
| "scalar Param_Other = False"
| "scalar v = True"

lemma param_line_not_scalar: "\<not> scalar (snd p) \<Longrightarrow> param_line pr p = []"
  by (cases "(pr, p)" rule: param_line.cases) auto



end
