(* ===== verification/Parameter_Paths.thy ===== *)
theory Parameter_Paths
  imports Main
begin

text \<open>
  Paths of parameter files, relative to \<open>LF_AUTOWARE_HOME\<close> or the data directory: all the constants
  of \<open>lf-include/constants.hpp\<close>, in its order, and the two functions that give the default
  directories.
\<close>

definition get_default_map_path :: "(string \<Rightarrow> string option) \<Rightarrow> string" where
  "get_default_map_path getenv =
     (case getenv ''HOME'' of None \<Rightarrow> ''/root'' | Some h \<Rightarrow> h) @ ''/autoware_map/Town01''"

definition get_default_data_path :: "(string \<Rightarrow> string option) \<Rightarrow> string" where
  "get_default_data_path getenv =
     (case getenv ''HOME'' of None \<Rightarrow> ''/root'' | Some h \<Rightarrow> h) @ ''/autoware_data''"

definition LAUNCHER_CONFIG_PATH :: string where
  "LAUNCHER_CONFIG_PATH =
     ''src/launcher/autoware_launch/autoware_launch/config''"

definition LIDAR_CENTERPOINT_ML_PACKAGE_PARAM :: string where
  "LIDAR_CENTERPOINT_ML_PACKAGE_PARAM =
     ''lidar_centerpoint/centerpoint_tiny_ml_package.param.yaml''"

definition LIDAR_CENTERPOINT_CLASS_REMAPPER_PARAM :: string where
  "LIDAR_CENTERPOINT_CLASS_REMAPPER_PARAM =
     ''lidar_centerpoint/detection_class_remapper.param.yaml''"

definition VELOCITY_SMOOTHER_PARAM_DIR :: string where
  "VELOCITY_SMOOTHER_PARAM_DIR =
     LAUNCHER_CONFIG_PATH @ ''/planning/scenario_planning/common/autoware_velocity_smoother''"

definition VELOCITY_SMOOTHER_PARAM :: string where
  "VELOCITY_SMOOTHER_PARAM =
     VELOCITY_SMOOTHER_PARAM_DIR @ ''/velocity_smoother.param.yaml''"

definition VELOCITY_SMOOTHER_ALGORITHM_PARAM :: string where
  "VELOCITY_SMOOTHER_ALGORITHM_PARAM =
     VELOCITY_SMOOTHER_PARAM_DIR @ ''/Analytical.param.yaml''"

definition VELOCITY_SMOOTHER_COMMON_PARAM :: string where
  "VELOCITY_SMOOTHER_COMMON_PARAM =
     ''src/core/autoware_core/planning/autoware_velocity_smoother/config/default_common.param.yaml''"

definition PLANNING_COMMON_PARAM :: string where
  "PLANNING_COMMON_PARAM =
     LAUNCHER_CONFIG_PATH @ ''/planning/scenario_planning/common/common.param.yaml''"

definition PLANNING_NEAREST_SEARCH_PARAM :: string where
  "PLANNING_NEAREST_SEARCH_PARAM =
     LAUNCHER_CONFIG_PATH @ ''/planning/scenario_planning/common/nearest_search.param.yaml''"

definition CONTROL_NEAREST_SEARCH_PARAM :: string where
  "CONTROL_NEAREST_SEARCH_PARAM =
     LAUNCHER_CONFIG_PATH @ ''/control/common/nearest_search.param.yaml''"

definition BEHAVIOR_PATH_PLANNER_PARAM_DIR :: string where
  "BEHAVIOR_PATH_PLANNER_PARAM_DIR =
     LAUNCHER_CONFIG_PATH @ ''/planning/scenario_planning/lane_driving/behavior_planning/behavior_path_planner''"

definition BEHAVIOR_PATH_PLANNER_PARAM :: string where
  "BEHAVIOR_PATH_PLANNER_PARAM =
     BEHAVIOR_PATH_PLANNER_PARAM_DIR @ ''/behavior_path_planner.param.yaml''"

definition BEHAVIOR_PATH_PLANNER_DRIVABLE_AREA_PARAM :: string where
  "BEHAVIOR_PATH_PLANNER_DRIVABLE_AREA_PARAM =
     BEHAVIOR_PATH_PLANNER_PARAM_DIR @ ''/drivable_area_expansion.param.yaml''"

definition BEHAVIOR_PATH_PLANNER_SCENE_MANAGER_PARAM :: string where
  "BEHAVIOR_PATH_PLANNER_SCENE_MANAGER_PARAM =
     BEHAVIOR_PATH_PLANNER_PARAM_DIR @ ''/scene_module_manager.param.yaml''"

definition BEHAVIOR_PATH_PLANNER_SIDE_SHIFT_PARAM :: string where
  "BEHAVIOR_PATH_PLANNER_SIDE_SHIFT_PARAM =
     BEHAVIOR_PATH_PLANNER_PARAM_DIR @ ''/side_shift/side_shift.param.yaml''"

definition BEHAVIOR_PATH_PLANNER_AVOIDANCE_PARAM :: string where
  "BEHAVIOR_PATH_PLANNER_AVOIDANCE_PARAM =
     BEHAVIOR_PATH_PLANNER_PARAM_DIR @ ''/autoware_behavior_path_static_obstacle_avoidance_module/static_obstacle_avoidance.param.yaml''"

definition BEHAVIOR_PATH_PLANNER_AVOIDANCE_BY_LC_PARAM :: string where
  "BEHAVIOR_PATH_PLANNER_AVOIDANCE_BY_LC_PARAM =
     BEHAVIOR_PATH_PLANNER_PARAM_DIR @ ''/avoidance_by_lane_change/avoidance_by_lane_change.param.yaml''"

definition BEHAVIOR_PATH_PLANNER_DYNAMIC_AVOIDANCE_PARAM :: string where
  "BEHAVIOR_PATH_PLANNER_DYNAMIC_AVOIDANCE_PARAM =
     BEHAVIOR_PATH_PLANNER_PARAM_DIR @ ''/autoware_behavior_path_dynamic_obstacle_avoidance_module/dynamic_obstacle_avoidance.param.yaml''"

definition BEHAVIOR_PATH_PLANNER_LANE_CHANGE_PARAM :: string where
  "BEHAVIOR_PATH_PLANNER_LANE_CHANGE_PARAM =
     BEHAVIOR_PATH_PLANNER_PARAM_DIR @ ''/lane_change/lane_change.param.yaml''"

definition BEHAVIOR_PATH_PLANNER_GOAL_PLANNER_PARAM :: string where
  "BEHAVIOR_PATH_PLANNER_GOAL_PLANNER_PARAM =
     BEHAVIOR_PATH_PLANNER_PARAM_DIR @ ''/goal_planner/goal_planner.param.yaml''"

definition BEHAVIOR_PATH_PLANNER_START_PLANNER_PARAM :: string where
  "BEHAVIOR_PATH_PLANNER_START_PLANNER_PARAM =
     BEHAVIOR_PATH_PLANNER_PARAM_DIR @ ''/start_planner/start_planner.param.yaml''"

definition BEHAVIOR_PATH_PLANNER_BIDIRECTIONAL_TRAFFIC_PARAM :: string where
  "BEHAVIOR_PATH_PLANNER_BIDIRECTIONAL_TRAFFIC_PARAM =
     BEHAVIOR_PATH_PLANNER_PARAM_DIR @ ''/autoware_behavior_path_bidirectional_traffic_module/bidirectional_traffic.param.yaml''"

definition BEHAVIOR_PATH_PLANNER_SAMPLING_PARAM :: string where
  "BEHAVIOR_PATH_PLANNER_SAMPLING_PARAM =
     BEHAVIOR_PATH_PLANNER_PARAM_DIR @ ''/sampling_planner/sampling_planner.param.yaml''"

definition MISSION_PLANNER_PARAM :: string where
  "MISSION_PLANNER_PARAM =
     LAUNCHER_CONFIG_PATH @ ''/planning/mission_planning/mission_planner/mission_planner.param.yaml''"

definition MISSION_PLANNER_DEFAULT_PARAM :: string where
  "MISSION_PLANNER_DEFAULT_PARAM =
     ''src/core/autoware_core/planning/autoware_mission_planner/config/mission_planner.param.yaml''"

definition FREESPACE_PLANNER_PARAM :: string where
  "FREESPACE_PLANNER_PARAM =
     LAUNCHER_CONFIG_PATH @ ''/planning/scenario_planning/parking/freespace_planner/freespace_planner.param.yaml''"

definition TRAJECTORY_FOLLOWER_PARAM_DIR :: string where
  "TRAJECTORY_FOLLOWER_PARAM_DIR =
     LAUNCHER_CONFIG_PATH @ ''/control/trajectory_follower''"

definition TRAJECTORY_FOLLOWER_PARAM :: string where
  "TRAJECTORY_FOLLOWER_PARAM =
     TRAJECTORY_FOLLOWER_PARAM_DIR @ ''/trajectory_follower_node.param.yaml''"

definition MPC_LATERAL_PARAM :: string where
  "MPC_LATERAL_PARAM =
     TRAJECTORY_FOLLOWER_PARAM_DIR @ ''/lateral/mpc.param.yaml''"

definition PID_LONGITUDINAL_PARAM :: string where
  "PID_LONGITUDINAL_PARAM =
     TRAJECTORY_FOLLOWER_PARAM_DIR @ ''/longitudinal/pid.param.yaml''"

definition VEHICLE_CMD_GATE_PARAM :: string where
  "VEHICLE_CMD_GATE_PARAM =
     LAUNCHER_CONFIG_PATH @ ''/control/vehicle_cmd_gate/vehicle_cmd_gate.param.yaml''"

definition SHIFT_DECIDER_PARAM :: string where
  "SHIFT_DECIDER_PARAM =
     LAUNCHER_CONFIG_PATH @ ''/control/shift_decider/shift_decider.param.yaml''"

definition VEHICLE_INFO_PARAM :: string where
  "VEHICLE_INFO_PARAM =
     ''src/launcher/autoware_launch/vehicle/awsim_labs_vehicle_launch/awsim_labs_vehicle_description/config/vehicle_info.param.yaml''"

definition SCENARIO_SELECTOR_PARAM :: string where
  "SCENARIO_SELECTOR_PARAM =
     ''src/universe/autoware_universe/planning/autoware_scenario_selector/config/scenario_selector.param.yaml''"

definition COSTMAP_GENERATOR_PARAM :: string where
  "COSTMAP_GENERATOR_PARAM =
     ''src/universe/autoware_universe/planning/autoware_costmap_generator/config/costmap_generator.param.yaml''"

definition IMU_CORRECTOR_PARAM :: string where
  "IMU_CORRECTOR_PARAM =
     ''src/universe/autoware_universe/sensing/autoware_imu_corrector/config/imu_corrector.param.yaml''"

definition VEHICLE_VELOCITY_CONVERTER_PARAM :: string where
  "VEHICLE_VELOCITY_CONVERTER_PARAM =
     ''src/core/autoware_core/sensing/autoware_vehicle_velocity_converter/config/vehicle_velocity_converter.param.yaml''"

definition MIRROR_PARAM :: string where
  "MIRROR_PARAM =
     ''src/launcher/autoware_launch/sensor_kit/carla_sensor_kit_launch/carla_sensor_kit_launch/config/mirror.param.yaml''"

definition NDT_SCAN_MATCHER_PARAM :: string where
  "NDT_SCAN_MATCHER_PARAM =
     LAUNCHER_CONFIG_PATH @ ''/localization/ndt_scan_matcher/ndt_scan_matcher.param.yaml''"

definition GYRO_ODOMETER_PARAM :: string where
  "GYRO_ODOMETER_PARAM =
     ''src/core/autoware_core/localization/autoware_gyro_odometer/config/gyro_odometer.param.yaml''"

definition EKF_LOCALIZER_PARAM :: string where
  "EKF_LOCALIZER_PARAM =
     LAUNCHER_CONFIG_PATH @ ''/localization/ekf_localizer.param.yaml''"

definition BEHAVIOR_VELOCITY_PLANNER_PARAM_DIR :: string where
  "BEHAVIOR_VELOCITY_PLANNER_PARAM_DIR =
     LAUNCHER_CONFIG_PATH @ ''/planning/scenario_planning/lane_driving/behavior_planning/behavior_velocity_planner''"

definition BEHAVIOR_VELOCITY_PLANNER_PARAM :: string where
  "BEHAVIOR_VELOCITY_PLANNER_PARAM =
     BEHAVIOR_VELOCITY_PLANNER_PARAM_DIR @ ''/behavior_velocity_planner.param.yaml''"

definition BEHAVIOR_VELOCITY_PLANNER_COMMON_PARAM :: string where
  "BEHAVIOR_VELOCITY_PLANNER_COMMON_PARAM =
     BEHAVIOR_VELOCITY_PLANNER_PARAM_DIR @ ''/behavior_velocity_planner_common.param.yaml''"

definition BEHAVIOR_VELOCITY_PLANNER_BLIND_SPOT_PARAM :: string where
  "BEHAVIOR_VELOCITY_PLANNER_BLIND_SPOT_PARAM =
     BEHAVIOR_VELOCITY_PLANNER_PARAM_DIR @ ''/blind_spot.param.yaml''"

definition BEHAVIOR_VELOCITY_PLANNER_CROSSWALK_PARAM :: string where
  "BEHAVIOR_VELOCITY_PLANNER_CROSSWALK_PARAM =
     BEHAVIOR_VELOCITY_PLANNER_PARAM_DIR @ ''/crosswalk.param.yaml''"

definition BEHAVIOR_VELOCITY_PLANNER_WALKWAY_PARAM :: string where
  "BEHAVIOR_VELOCITY_PLANNER_WALKWAY_PARAM =
     BEHAVIOR_VELOCITY_PLANNER_PARAM_DIR @ ''/walkway.param.yaml''"

definition BEHAVIOR_VELOCITY_PLANNER_DETECTION_AREA_PARAM :: string where
  "BEHAVIOR_VELOCITY_PLANNER_DETECTION_AREA_PARAM =
     BEHAVIOR_VELOCITY_PLANNER_PARAM_DIR @ ''/detection_area.param.yaml''"

definition BEHAVIOR_VELOCITY_PLANNER_INTERSECTION_PARAM :: string where
  "BEHAVIOR_VELOCITY_PLANNER_INTERSECTION_PARAM =
     BEHAVIOR_VELOCITY_PLANNER_PARAM_DIR @ ''/intersection.param.yaml''"

definition BEHAVIOR_VELOCITY_PLANNER_ROUNDABOUT_PARAM :: string where
  "BEHAVIOR_VELOCITY_PLANNER_ROUNDABOUT_PARAM =
     BEHAVIOR_VELOCITY_PLANNER_PARAM_DIR @ ''/roundabout.param.yaml''"

definition BEHAVIOR_VELOCITY_PLANNER_STOP_LINE_PARAM :: string where
  "BEHAVIOR_VELOCITY_PLANNER_STOP_LINE_PARAM =
     BEHAVIOR_VELOCITY_PLANNER_PARAM_DIR @ ''/stop_line.param.yaml''"

definition BEHAVIOR_VELOCITY_PLANNER_TRAFFIC_LIGHT_PARAM :: string where
  "BEHAVIOR_VELOCITY_PLANNER_TRAFFIC_LIGHT_PARAM =
     BEHAVIOR_VELOCITY_PLANNER_PARAM_DIR @ ''/traffic_light.param.yaml''"

definition BEHAVIOR_VELOCITY_PLANNER_VIRTUAL_TRAFFIC_LIGHT_PARAM :: string where
  "BEHAVIOR_VELOCITY_PLANNER_VIRTUAL_TRAFFIC_LIGHT_PARAM =
     BEHAVIOR_VELOCITY_PLANNER_PARAM_DIR @ ''/virtual_traffic_light.param.yaml''"

definition BEHAVIOR_VELOCITY_PLANNER_OCCLUSION_SPOT_PARAM :: string where
  "BEHAVIOR_VELOCITY_PLANNER_OCCLUSION_SPOT_PARAM =
     BEHAVIOR_VELOCITY_PLANNER_PARAM_DIR @ ''/occlusion_spot.param.yaml''"

definition BEHAVIOR_VELOCITY_PLANNER_NO_STOPPING_AREA_PARAM :: string where
  "BEHAVIOR_VELOCITY_PLANNER_NO_STOPPING_AREA_PARAM =
     BEHAVIOR_VELOCITY_PLANNER_PARAM_DIR @ ''/no_stopping_area.param.yaml''"

definition BEHAVIOR_VELOCITY_PLANNER_SPEED_BUMP_PARAM :: string where
  "BEHAVIOR_VELOCITY_PLANNER_SPEED_BUMP_PARAM =
     BEHAVIOR_VELOCITY_PLANNER_PARAM_DIR @ ''/speed_bump.param.yaml''"

definition BEHAVIOR_VELOCITY_PLANNER_NO_DRIVABLE_LANE_PARAM :: string where
  "BEHAVIOR_VELOCITY_PLANNER_NO_DRIVABLE_LANE_PARAM =
     BEHAVIOR_VELOCITY_PLANNER_PARAM_DIR @ ''/no_drivable_lane.param.yaml''"

definition PATH_SMOOTHER_PARAM :: string where
  "PATH_SMOOTHER_PARAM =
     LAUNCHER_CONFIG_PATH @ ''/planning/scenario_planning/lane_driving/motion_planning/path_smoother/elastic_band_smoother.param.yaml''"

definition PATH_OPTIMIZER_PARAM :: string where
  "PATH_OPTIMIZER_PARAM =
     LAUNCHER_CONFIG_PATH @ ''/planning/scenario_planning/lane_driving/motion_planning/autoware_path_optimizer/path_optimizer.param.yaml''"

definition MOTION_VELOCITY_PLANNER_PARAM_DIR :: string where
  "MOTION_VELOCITY_PLANNER_PARAM_DIR =
     LAUNCHER_CONFIG_PATH @ ''/planning/scenario_planning/lane_driving/motion_planning/motion_velocity_planner''"

definition MOTION_VELOCITY_PLANNER_PARAM :: string where
  "MOTION_VELOCITY_PLANNER_PARAM =
     MOTION_VELOCITY_PLANNER_PARAM_DIR @ ''/motion_velocity_planner.param.yaml''"

definition MOTION_VELOCITY_PLANNER_OBSTACLE_STOP_PARAM :: string where
  "MOTION_VELOCITY_PLANNER_OBSTACLE_STOP_PARAM =
     MOTION_VELOCITY_PLANNER_PARAM_DIR @ ''/obstacle_stop.param.yaml''"

definition MOTION_VELOCITY_PLANNER_OBSTACLE_SLOW_DOWN_PARAM :: string where
  "MOTION_VELOCITY_PLANNER_OBSTACLE_SLOW_DOWN_PARAM =
     MOTION_VELOCITY_PLANNER_PARAM_DIR @ ''/obstacle_slow_down.param.yaml''"

definition MOTION_VELOCITY_PLANNER_OBSTACLE_CRUISE_PARAM :: string where
  "MOTION_VELOCITY_PLANNER_OBSTACLE_CRUISE_PARAM =
     MOTION_VELOCITY_PLANNER_PARAM_DIR @ ''/obstacle_cruise.param.yaml''"

definition MOTION_VELOCITY_PLANNER_DYNAMIC_OBSTACLE_STOP_PARAM :: string where
  "MOTION_VELOCITY_PLANNER_DYNAMIC_OBSTACLE_STOP_PARAM =
     MOTION_VELOCITY_PLANNER_PARAM_DIR @ ''/dynamic_obstacle_stop.param.yaml''"

definition MOTION_VELOCITY_PLANNER_OUT_OF_LANE_PARAM :: string where
  "MOTION_VELOCITY_PLANNER_OUT_OF_LANE_PARAM =
     MOTION_VELOCITY_PLANNER_PARAM_DIR @ ''/out_of_lane.param.yaml''"

definition MOTION_VELOCITY_PLANNER_OBSTACLE_VELOCITY_LIMITER_PARAM :: string where
  "MOTION_VELOCITY_PLANNER_OBSTACLE_VELOCITY_LIMITER_PARAM =
     MOTION_VELOCITY_PLANNER_PARAM_DIR @ ''/obstacle_velocity_limiter.param.yaml''"

definition MOTION_VELOCITY_PLANNER_RUN_OUT_PARAM :: string where
  "MOTION_VELOCITY_PLANNER_RUN_OUT_PARAM =
     MOTION_VELOCITY_PLANNER_PARAM_DIR @ ''/run_out.param.yaml''"

definition MOTION_VELOCITY_PLANNER_BOUNDARY_DEPARTURE_PREVENTION_PARAM :: string where
  "MOTION_VELOCITY_PLANNER_BOUNDARY_DEPARTURE_PREVENTION_PARAM =
     MOTION_VELOCITY_PLANNER_PARAM_DIR @ ''/boundary_departure_prevention.param.yaml''"

definition MOTION_VELOCITY_PLANNER_ROAD_USER_STOP_PARAM :: string where
  "MOTION_VELOCITY_PLANNER_ROAD_USER_STOP_PARAM =
     MOTION_VELOCITY_PLANNER_PARAM_DIR @ ''/road_user_stop.param.yaml''"

definition SURROUND_OBSTACLE_CHECKER_PARAM :: string where
  "SURROUND_OBSTACLE_CHECKER_PARAM =
     LAUNCHER_CONFIG_PATH @ ''/planning/scenario_planning/lane_driving/motion_planning/surround_obstacle_checker/surround_obstacle_checker.param.yaml''"

definition PLANNING_VALIDATOR_PARAM_DIR :: string where
  "PLANNING_VALIDATOR_PARAM_DIR =
     LAUNCHER_CONFIG_PATH @ ''/planning/scenario_planning/common/planning_validator''"

definition PLANNING_VALIDATOR_PARAM :: string where
  "PLANNING_VALIDATOR_PARAM =
     PLANNING_VALIDATOR_PARAM_DIR @ ''/planning_validator.param.yaml''"

definition PLANNING_VALIDATOR_LATENCY_CHECKER_PARAM :: string where
  "PLANNING_VALIDATOR_LATENCY_CHECKER_PARAM =
     PLANNING_VALIDATOR_PARAM_DIR @ ''/latency_checker.param.yaml''"

definition PLANNING_VALIDATOR_TRAJECTORY_CHECKER_PARAM :: string where
  "PLANNING_VALIDATOR_TRAJECTORY_CHECKER_PARAM =
     PLANNING_VALIDATOR_PARAM_DIR @ ''/trajectory_checker.param.yaml''"

definition PLANNING_VALIDATOR_INTERSECTION_COLLISION_CHECKER_PARAM :: string where
  "PLANNING_VALIDATOR_INTERSECTION_COLLISION_CHECKER_PARAM =
     PLANNING_VALIDATOR_PARAM_DIR @ ''/intersection_collision_checker.param.yaml''"

definition PLANNING_VALIDATOR_REAR_COLLISION_CHECKER_PARAM :: string where
  "PLANNING_VALIDATOR_REAR_COLLISION_CHECKER_PARAM =
     PLANNING_VALIDATOR_PARAM_DIR @ ''/rear_collision_checker.param.yaml''"

definition EXTERNAL_VELOCITY_LIMIT_SELECTOR_COMMON_PARAM :: string where
  "EXTERNAL_VELOCITY_LIMIT_SELECTOR_COMMON_PARAM =
     ''src/universe/autoware_universe/planning/autoware_external_velocity_limit_selector/config/default_common.param.yaml''"

definition EXTERNAL_VELOCITY_LIMIT_SELECTOR_PARAM :: string where
  "EXTERNAL_VELOCITY_LIMIT_SELECTOR_PARAM =
     ''src/universe/autoware_universe/planning/autoware_external_velocity_limit_selector/config/default.param.yaml''"

definition OPERATION_MODE_TRANSITION_MANAGER_PARAM :: string where
  "OPERATION_MODE_TRANSITION_MANAGER_PARAM =
     LAUNCHER_CONFIG_PATH @ ''/control/operation_mode_transition_manager/operation_mode_transition_manager.param.yaml''"

definition LANE_DEPARTURE_CHECKER_PARAM :: string where
  "LANE_DEPARTURE_CHECKER_PARAM =
     LAUNCHER_CONFIG_PATH @ ''/control/lane_departure_checker/lane_departure_checker.param.yaml''"

definition CONTROL_VALIDATOR_PARAM :: string where
  "CONTROL_VALIDATOR_PARAM =
     LAUNCHER_CONFIG_PATH @ ''/control/control_validator/control_validator.param.yaml''"

definition AUTONOMOUS_EMERGENCY_BRAKING_PARAM :: string where
  "AUTONOMOUS_EMERGENCY_BRAKING_PARAM =
     LAUNCHER_CONFIG_PATH @ ''/control/autoware_autonomous_emergency_braking/autonomous_emergency_braking.param.yaml''"

definition COLLISION_DETECTOR_PARAM :: string where
  "COLLISION_DETECTOR_PARAM =
     LAUNCHER_CONFIG_PATH @ ''/control/autoware_collision_detector/collision_detector.param.yaml''"

definition POINTCLOUD_MAP_LOADER_PARAM :: string where
  "POINTCLOUD_MAP_LOADER_PARAM =
     LAUNCHER_CONFIG_PATH @ ''/map/pointcloud_map_loader.param.yaml''"

definition LANELET2_MAP_LOADER_PARAM :: string where
  "LANELET2_MAP_LOADER_PARAM =
     LAUNCHER_CONFIG_PATH @ ''/map/lanelet2_map_loader.param.yaml''"

definition CROP_BOX_FILTER_PARAM :: string where
  "CROP_BOX_FILTER_PARAM =
     ''src/core/autoware_core/sensing/autoware_crop_box_filter/config/crop_box_filter_node.param.yaml''"

definition SCAN_GROUND_FILTER_PARAM :: string where
  "SCAN_GROUND_FILTER_PARAM =
     ''src/universe/autoware_universe/perception/autoware_ground_segmentation/config/scan_ground_filter.param.yaml''"

definition LIDAR_CENTERPOINT_PARAM :: string where
  "LIDAR_CENTERPOINT_PARAM =
     LAUNCHER_CONFIG_PATH @ ''/perception/object_recognition/detection/lidar_model/centerpoint.param.yaml''"

definition LIDAR_CENTERPOINT_COMMON_PARAM :: string where
  "LIDAR_CENTERPOINT_COMMON_PARAM =
     LAUNCHER_CONFIG_PATH @ ''/perception/object_recognition/detection/lidar_model/centerpoint_common.param.yaml''"

definition EUCLIDEAN_CLUSTER_PARAM :: string where
  "EUCLIDEAN_CLUSTER_PARAM =
     LAUNCHER_CONFIG_PATH @ ''/perception/object_recognition/detection/clustering/voxel_grid_based_euclidean_cluster.param.yaml''"

definition COMPARE_MAP_FILTER_PARAM :: string where
  "COMPARE_MAP_FILTER_PARAM =
     ''src/universe/autoware_universe/perception/autoware_compare_map_segmentation/config/voxel_based_approximate_compare_map_filter.param.yaml''"

definition DETECTION_BY_TRACKER_PARAM :: string where
  "DETECTION_BY_TRACKER_PARAM =
     LAUNCHER_CONFIG_PATH @ ''/perception/object_recognition/detection/detection_by_tracker/detection_by_tracker.param.yaml''"

definition OBSTACLE_POINTCLOUD_VALIDATOR_PARAM :: string where
  "OBSTACLE_POINTCLOUD_VALIDATOR_PARAM =
     LAUNCHER_CONFIG_PATH @ ''/perception/object_recognition/detection/detected_object_validation/obstacle_pointcloud_based_validator.param.yaml''"

definition OBJECT_LANELET_FILTER_PARAM :: string where
  "OBJECT_LANELET_FILTER_PARAM =
     LAUNCHER_CONFIG_PATH @ ''/perception/object_recognition/detection/object_filter/object_lanelet_filter.param.yaml''"

definition ROI_CLUSTER_FUSION_PARAM :: string where
  "ROI_CLUSTER_FUSION_PARAM =
     LAUNCHER_CONFIG_PATH @ ''/perception/object_recognition/detection/image_projection_based_fusion/roi_cluster_fusion.param.yaml''"

definition FUSION_COMMON_PARAM :: string where
  "FUSION_COMMON_PARAM =
     LAUNCHER_CONFIG_PATH @ ''/perception/object_recognition/detection/image_projection_based_fusion/fusion_common.param.yaml''"

definition MULTI_OBJECT_TRACKER_PARAM :: string where
  "MULTI_OBJECT_TRACKER_PARAM =
     LAUNCHER_CONFIG_PATH @ ''/perception/object_recognition/tracking/multi_object_tracker/multi_object_tracker_node.param.yaml''"

definition MULTI_OBJECT_TRACKER_DATA_ASSOCIATION_PARAM :: string where
  "MULTI_OBJECT_TRACKER_DATA_ASSOCIATION_PARAM =
     LAUNCHER_CONFIG_PATH @ ''/perception/object_recognition/tracking/multi_object_tracker/data_association_matrix.param.yaml''"

definition MULTI_OBJECT_TRACKER_INPUT_CHANNELS_PARAM :: string where
  "MULTI_OBJECT_TRACKER_INPUT_CHANNELS_PARAM =
     LAUNCHER_CONFIG_PATH @ ''/perception/object_recognition/tracking/multi_object_tracker/input_channels.param.yaml''"

definition MAP_BASED_PREDICTION_PARAM :: string where
  "MAP_BASED_PREDICTION_PARAM =
     LAUNCHER_CONFIG_PATH @ ''/perception/object_recognition/prediction/map_based_prediction.param.yaml''"

definition OCCUPANCY_GRID_MAP_PARAM :: string where
  "OCCUPANCY_GRID_MAP_PARAM =
     LAUNCHER_CONFIG_PATH @ ''/perception/occupancy_grid_map/pointcloud_based_occupancy_grid_map.param.yaml''"

definition OCCUPANCY_GRID_MAP_UPDATER_PARAM :: string where
  "OCCUPANCY_GRID_MAP_UPDATER_PARAM =
     LAUNCHER_CONFIG_PATH @ ''/perception/occupancy_grid_map/binary_bayes_filter_updater.param.yaml''"

definition TRAFFIC_LIGHT_MAP_BASED_DETECTOR_PARAM :: string where
  "TRAFFIC_LIGHT_MAP_BASED_DETECTOR_PARAM =
     ''src/universe/autoware_universe/perception/autoware_traffic_light_map_based_detector/config/traffic_light_map_based_detector.param.yaml''"

definition TRAFFIC_LIGHT_CLASSIFIER_PARAM :: string where
  "TRAFFIC_LIGHT_CLASSIFIER_PARAM =
     LAUNCHER_CONFIG_PATH @ ''/perception/traffic_light_recognition/traffic_light_classifier/car_traffic_light_classifier.param.yaml''"

definition TRAFFIC_LIGHT_ARBITER_PARAM :: string where
  "TRAFFIC_LIGHT_ARBITER_PARAM =
     LAUNCHER_CONFIG_PATH @ ''/perception/traffic_light_recognition/traffic_light_arbiter/traffic_light_arbiter.param.yaml''"

definition TRAFFIC_LIGHT_OCCLUSION_PREDICTOR_PARAM :: string where
  "TRAFFIC_LIGHT_OCCLUSION_PREDICTOR_PARAM =
     LAUNCHER_CONFIG_PATH @ ''/perception/traffic_light_recognition/traffic_light_occlusion_predictor/traffic_light_occlusion_predictor.param.yaml''"

definition CROSSWALK_TRAFFIC_LIGHT_ESTIMATOR_PARAM :: string where
  "CROSSWALK_TRAFFIC_LIGHT_ESTIMATOR_PARAM =
     LAUNCHER_CONFIG_PATH @ ''/perception/traffic_light_recognition/crosswalk_traffic_light_estimator/crosswalk_traffic_light_estimator.param.yaml''"

definition TRAFFIC_LIGHT_FINE_DETECTOR_PARAM :: string where
  "TRAFFIC_LIGHT_FINE_DETECTOR_PARAM =
     LAUNCHER_CONFIG_PATH @ ''/perception/traffic_light_recognition/traffic_light_fine_detector/traffic_light_fine_detector.param.yaml''"

definition MAP_PROJECTION_LOADER_PARAM :: string where
  "MAP_PROJECTION_LOADER_PARAM =
     ''src/core/autoware_core/map/autoware_map_projection_loader/config/map_projection_loader.param.yaml''"

definition POINTCLOUD_DOWNSAMPLING_PARAM :: string where
  "POINTCLOUD_DOWNSAMPLING_PARAM =
     LAUNCHER_CONFIG_PATH @ ''/localization/ndt_scan_matcher/pointcloud_preprocessor/voxel_grid_filter.param.yaml''"

definition POSE_INITIALIZER_PARAM :: string where
  "POSE_INITIALIZER_PARAM =
     ''src/core/autoware_core/localization/autoware_pose_initializer/config/pose_initializer.param.yaml''"

definition MRM_HANDLER_PARAM :: string where
  "MRM_HANDLER_PARAM =
     LAUNCHER_CONFIG_PATH @ ''/system/mrm_handler/mrm_handler.param.yaml''"

definition MRM_EMERGENCY_STOP_OPERATOR_PARAM :: string where
  "MRM_EMERGENCY_STOP_OPERATOR_PARAM =
     LAUNCHER_CONFIG_PATH @ ''/system/mrm_emergency_stop_operator/mrm_emergency_stop_operator.param.yaml''"

definition DIAGNOSTIC_AGGREGATOR_PARAM :: string where
  "DIAGNOSTIC_AGGREGATOR_PARAM =
     ''src/universe/autoware_universe/system/autoware_diagnostic_graph_aggregator/config/default.param.yaml''"

definition DIAGNOSTIC_AGGREGATOR_GRAPH_PARAM :: string where
  "DIAGNOSTIC_AGGREGATOR_GRAPH_PARAM =
     LAUNCHER_CONFIG_PATH @ ''/system/diagnostics/autoware-main.yaml''"

definition SYSTEM_MONITOR_CPU_PARAM :: string where
  "SYSTEM_MONITOR_CPU_PARAM =
     LAUNCHER_CONFIG_PATH @ ''/system/system_monitor/cpu_monitor.param.yaml''"

definition SYSTEM_MONITOR_GPU_PARAM :: string where
  "SYSTEM_MONITOR_GPU_PARAM =
     LAUNCHER_CONFIG_PATH @ ''/system/system_monitor/gpu_monitor.param.yaml''"

definition SYSTEM_MONITOR_HDD_PARAM :: string where
  "SYSTEM_MONITOR_HDD_PARAM =
     LAUNCHER_CONFIG_PATH @ ''/system/system_monitor/hdd_monitor.param.yaml''"

definition SYSTEM_MONITOR_MEM_PARAM :: string where
  "SYSTEM_MONITOR_MEM_PARAM =
     LAUNCHER_CONFIG_PATH @ ''/system/system_monitor/mem_monitor.param.yaml''"

definition SYSTEM_MONITOR_NET_PARAM :: string where
  "SYSTEM_MONITOR_NET_PARAM =
     LAUNCHER_CONFIG_PATH @ ''/system/system_monitor/net_monitor.param.yaml''"

definition SYSTEM_MONITOR_NTP_PARAM :: string where
  "SYSTEM_MONITOR_NTP_PARAM =
     LAUNCHER_CONFIG_PATH @ ''/system/system_monitor/ntp_monitor.param.yaml''"

definition SYSTEM_MONITOR_PROCESS_PARAM :: string where
  "SYSTEM_MONITOR_PROCESS_PARAM =
     LAUNCHER_CONFIG_PATH @ ''/system/system_monitor/process_monitor.param.yaml''"

definition SYSTEM_MONITOR_VOLTAGE_PARAM :: string where
  "SYSTEM_MONITOR_VOLTAGE_PARAM =
     LAUNCHER_CONFIG_PATH @ ''/system/system_monitor/voltage_monitor.param.yaml''"

definition DEFAULT_ADAPI_PARAM :: string where
  "DEFAULT_ADAPI_PARAM =
     ''src/universe/autoware_universe/system/autoware_default_adapi_universe/config/default_adapi.param.yaml''"

definition VEHICLE_XACRO_PATH :: string where
  "VEHICLE_XACRO_PATH =
     ''src/launcher/autoware_launch/vehicle/awsim_labs_vehicle_launch/awsim_labs_vehicle_description/urdf/vehicle.xacro''"

definition RANDOM_DOWNSAMPLE_FILTER_PARAM :: string where
  "RANDOM_DOWNSAMPLE_FILTER_PARAM =
     ''src/universe/autoware_universe/sensing/autoware_pointcloud_preprocessor/config/random_downsample_filter_node.param.yaml''"

definition PASSTHROUGH_FILTER_PARAM :: string where
  "PASSTHROUGH_FILTER_PARAM =
     ''src/universe/autoware_universe/sensing/autoware_pointcloud_preprocessor/config/passthrough_filter_uint16_node.param.yaml''"

definition VOXEL_GRID_OUTLIER_FILTER_PARAM :: string where
  "VOXEL_GRID_OUTLIER_FILTER_PARAM =
     ''src/universe/autoware_universe/sensing/autoware_pointcloud_preprocessor/config/voxel_grid_outlier_filter_node.param.yaml''"

definition APPROXIMATE_DOWNSAMPLE_FILTER_PARAM :: string where
  "APPROXIMATE_DOWNSAMPLE_FILTER_PARAM =
     ''src/universe/autoware_universe/sensing/autoware_pointcloud_preprocessor/config/approximate_downsample_filter_node.param.yaml''"

definition POINTCLOUD_CONCATENATOR_PARAM :: string where
  "POINTCLOUD_CONCATENATOR_PARAM =
     ''src/universe/autoware_universe/sensing/autoware_pointcloud_preprocessor/config/concatenate_and_time_sync_node.param.yaml''"

definition IMAGE_DECOMPRESSOR_PARAM :: string where
  "IMAGE_DECOMPRESSOR_PARAM =
     ''src/universe/autoware_universe/sensing/autoware_image_transport_decompressor/config/image_transport_decompressor.param.yaml''"

definition LOCALIZATION_ERROR_MONITOR_PARAM :: string where
  "LOCALIZATION_ERROR_MONITOR_PARAM =
     LAUNCHER_CONFIG_PATH @ ''/localization/localization_error_monitor.param.yaml''"

definition STOP_FILTER_PARAM :: string where
  "STOP_FILTER_PARAM =
     ''src/core/autoware_core/localization/autoware_stop_filter/config/stop_filter.param.yaml''"

definition POSE_INSTABILITY_DETECTOR_PARAM :: string where
  "POSE_INSTABILITY_DETECTOR_PARAM =
     ''src/universe/autoware_universe/localization/autoware_pose_instability_detector/config/pose_instability_detector.param.yaml''"

definition MAP_TF_GENERATOR_PARAM :: string where
  "MAP_TF_GENERATOR_PARAM =
     ''src/universe/autoware_universe/map/autoware_map_tf_generator/config/map_tf_generator.param.yaml''"

definition OBJECT_RANGE_SPLITTER_PARAM :: string where
  "OBJECT_RANGE_SPLITTER_PARAM =
     ''src/universe/autoware_universe/perception/autoware_object_range_splitter/config/object_range_splitter.param.yaml''"

definition SIMPLE_OBJECT_MERGER_PARAM :: string where
  "SIMPLE_OBJECT_MERGER_PARAM =
     ''src/universe/autoware_universe/perception/autoware_simple_object_merger/config/simple_object_merger.param.yaml''"

definition OCCUPANCY_GRID_MAP_OUTLIER_FILTER_PARAM :: string where
  "OCCUPANCY_GRID_MAP_OUTLIER_FILTER_PARAM =
     LAUNCHER_CONFIG_PATH @ ''/perception/obstacle_segmentation/occupancy_grid_based_outlier_filter/occupancy_grid_map_outlier_filter.param.yaml''"

definition TENSORRT_YOLOX_PARAM :: string where
  "TENSORRT_YOLOX_PARAM =
     LAUNCHER_CONFIG_PATH @ ''/perception/traffic_light_recognition/tensorrt_yolox/yolox_traffic_light_detector.param.yaml''"

definition PATH_GENERATOR_PARAM :: string where
  "PATH_GENERATOR_PARAM =
     LAUNCHER_CONFIG_PATH @ ''/planning/scenario_planning/lane_driving/behavior_planning/path_generator/path_generator.param.yaml''"

definition PATH_SAMPLER_PARAM :: string where
  "PATH_SAMPLER_PARAM =
     LAUNCHER_CONFIG_PATH @ ''/planning/scenario_planning/lane_driving/motion_planning/path_sampler/path_sampler.param.yaml''"

definition OBSTACLE_COLLISION_CHECKER_PARAM :: string where
  "OBSTACLE_COLLISION_CHECKER_PARAM =
     LAUNCHER_CONFIG_PATH @ ''/control/obstacle_collision_checker/obstacle_collision_checker.param.yaml''"

definition PREDICTED_PATH_CHECKER_PARAM :: string where
  "PREDICTED_PATH_CHECKER_PARAM =
     LAUNCHER_CONFIG_PATH @ ''/control/predicted_path_checker/predicted_path_checker.param.yaml''"

definition EXTERNAL_CMD_SELECTOR_PARAM :: string where
  "EXTERNAL_CMD_SELECTOR_PARAM =
     LAUNCHER_CONFIG_PATH @ ''/control/external_cmd_selector/external_cmd_selector.param.yaml''"

definition MRM_COMFORTABLE_STOP_OPERATOR_PARAM :: string where
  "MRM_COMFORTABLE_STOP_OPERATOR_PARAM =
     LAUNCHER_CONFIG_PATH @ ''/system/mrm_comfortable_stop_operator/mrm_comfortable_stop_operator.param.yaml''"

definition HAZARD_STATUS_CONVERTER_PARAM :: string where
  "HAZARD_STATUS_CONVERTER_PARAM =
     ''src/universe/autoware_universe/system/autoware_hazard_status_converter/config/hazard_status_converter.param.yaml''"

definition DUPLICATED_NODE_CHECKER_PARAM :: string where
  "DUPLICATED_NODE_CHECKER_PARAM =
     LAUNCHER_CONFIG_PATH @ ''/system/duplicated_node_checker/duplicated_node_checker.param.yaml''"

definition PROCESSING_TIME_CHECKER_PARAM :: string where
  "PROCESSING_TIME_CHECKER_PARAM =
     LAUNCHER_CONFIG_PATH @ ''/system/processing_time_checker/processing_time_checker.param.yaml''"

definition PIPELINE_LATENCY_MONITOR_PARAM :: string where
  "PIPELINE_LATENCY_MONITOR_PARAM =
     LAUNCHER_CONFIG_PATH @ ''/system/pipeline_latency_monitor/pipeline_latency_monitor.param.yaml''"

definition COMPONENT_STATE_MONITOR_PARAM :: string where
  "COMPONENT_STATE_MONITOR_PARAM =
     LAUNCHER_CONFIG_PATH @ ''/system/component_state_monitor/topics.yaml''"

end
