(* ===== verification/Wrapper_Startup.thy ===== *)
theory Wrapper_Startup
  imports Param_Files Parameter_Paths
begin

text \<open>
  Startup reactions of the wrappers (\<open>lf-src/<package>/<package>_main.lf\<close>): the parameter files
  they load, the overrides they push, the ROS timers they cancel in favour of Lingua Franca's,
  and the thread they start.  The nine wrappers that forward outputs, and the two that resolve
  launch variables first.

  The node constructors are third-party: a started node is recorded by the options it was
  constructed with.  The environment variables, the files and the YAML parser are arguments.
\<close>

section \<open>Started nodes\<close>

record 'd started =
  started_with :: "'d node_options"
  cancelled_timers :: "string list"
  spinning :: bool

definition push_override :: "'d parameter \<Rightarrow> 'd node_options \<Rightarrow> 'd node_options" where
  "push_override p opts = opts\<lparr>parameter_overrides := parameter_overrides opts @ [p]\<rparr>"

section \<open>Wrappers that load several files\<close>

definition trajectory_follower_startup ::
    "(string \<Rightarrow> 'd param_map option) \<Rightarrow> 'd printer \<Rightarrow> (string \<Rightarrow> string option) \<Rightarrow> host \<Rightarrow>
     ('d started \<times> host) c_result" where
  "trajectory_follower_startup parse pr getenv h =
     c_bind (get_lf_autoware_home getenv) (\<lambda>home.
     let nearest_search_path = home @ ''/'' @ CONTROL_NEAREST_SEARCH_PARAM;
         yaml_path = home @ ''/'' @ TRAJECTORY_FOLLOWER_PARAM;
         mpc_path = home @ ''/'' @ MPC_LATERAL_PARAM;
         pid_path = home @ ''/'' @ PID_LONGITUDINAL_PARAM;
         vehicle_info_path = home @ ''/'' @ VEHICLE_INFO_PARAM;
         (nodeOptions, h) = get_node_options_from_yamls parse pr
           [(nearest_search_path, global_root), (yaml_path, global_root), (mpc_path,
            global_root), (pid_path, global_root), (vehicle_info_path, global_root)] h;
         nodeOptions = push_override (''lateral_controller_mode'', Param_String ''mpc'') nodeOptions;
         nodeOptions = push_override (''longitudinal_controller_mode'', Param_String ''pid'') nodeOptions
     in Inr (\<lparr>started_with = nodeOptions, cancelled_timers = [''timer_control_''], spinning = True\<rparr>, h))"

definition costmap_generator_startup ::
    "(string \<Rightarrow> 'd param_map option) \<Rightarrow> 'd printer \<Rightarrow> (string \<Rightarrow> string option) \<Rightarrow> host \<Rightarrow>
     ('d started \<times> host) c_result" where
  "costmap_generator_startup parse pr getenv h =
     c_bind (get_lf_autoware_home getenv) (\<lambda>home.
     let yaml_path = home @ ''/'' @ COSTMAP_GENERATOR_PARAM;
         vehicle_info_path = home @ ''/'' @ VEHICLE_INFO_PARAM;
         (nodeOptions, h) = get_node_options_from_yamls parse pr
           [(yaml_path, global_root), (vehicle_info_path, global_root)] h
     in Inr (\<lparr>started_with = nodeOptions, cancelled_timers = [''timer_''], spinning = True\<rparr>, h))"

definition freespace_planner_startup ::
    "(string \<Rightarrow> 'd param_map option) \<Rightarrow> 'd printer \<Rightarrow> (string \<Rightarrow> string option) \<Rightarrow> host \<Rightarrow>
     ('d started \<times> host) c_result" where
  "freespace_planner_startup parse pr getenv h =
     c_bind (get_lf_autoware_home getenv) (\<lambda>home.
     let yaml_path = home @ ''/'' @ FREESPACE_PLANNER_PARAM;
         vehicle_info_path = home @ ''/'' @ VEHICLE_INFO_PARAM;
         (nodeOptions, h) = get_node_options_from_yamls parse pr
           [(yaml_path, global_root), (vehicle_info_path, global_root)] h
     in Inr (\<lparr>started_with = nodeOptions, cancelled_timers = [''timer_''], spinning = True\<rparr>, h))"

definition behavior_path_planner_startup ::
    "(string \<Rightarrow> 'd param_map option) \<Rightarrow> 'd printer \<Rightarrow> (string \<Rightarrow> string option) \<Rightarrow> host \<Rightarrow>
     ('d started \<times> host) c_result" where
  "behavior_path_planner_startup parse pr getenv h =
     c_bind (get_lf_autoware_home getenv) (\<lambda>home.
     let common_param_path = home @ ''/'' @ PLANNING_COMMON_PARAM;
         nearest_search_path = home @ ''/'' @ PLANNING_NEAREST_SEARCH_PARAM;
         yaml_path = home @ ''/'' @ BEHAVIOR_PATH_PLANNER_PARAM;
         drivable_area_path = home @ ''/'' @ BEHAVIOR_PATH_PLANNER_DRIVABLE_AREA_PARAM;
         scene_manager_path = home @ ''/'' @ BEHAVIOR_PATH_PLANNER_SCENE_MANAGER_PARAM;
         side_shift_path = home @ ''/'' @ BEHAVIOR_PATH_PLANNER_SIDE_SHIFT_PARAM;
         avoidance_path = home @ ''/'' @ BEHAVIOR_PATH_PLANNER_AVOIDANCE_PARAM;
         avoidance_by_lc_path = home @ ''/'' @ BEHAVIOR_PATH_PLANNER_AVOIDANCE_BY_LC_PARAM;
         dynamic_avoidance_path = home @ ''/'' @ BEHAVIOR_PATH_PLANNER_DYNAMIC_AVOIDANCE_PARAM;
         lane_change_path = home @ ''/'' @ BEHAVIOR_PATH_PLANNER_LANE_CHANGE_PARAM;
         goal_planner_path = home @ ''/'' @ BEHAVIOR_PATH_PLANNER_GOAL_PLANNER_PARAM;
         start_planner_path = home @ ''/'' @ BEHAVIOR_PATH_PLANNER_START_PLANNER_PARAM;
         bidirectional_path = home @ ''/'' @ BEHAVIOR_PATH_PLANNER_BIDIRECTIONAL_TRAFFIC_PARAM;
         sampling_path = home @ ''/'' @ BEHAVIOR_PATH_PLANNER_SAMPLING_PARAM;
         vehicle_info_path = home @ ''/'' @ VEHICLE_INFO_PARAM;
         (nodeOptions, h) = get_node_options_from_yamls parse pr
           [(common_param_path, global_root), (nearest_search_path, global_root), (yaml_path,
            global_root), (drivable_area_path, global_root), (scene_manager_path, global_root),
            (side_shift_path, global_root), (avoidance_path, global_root), (avoidance_by_lc_path,
            global_root), (dynamic_avoidance_path, global_root), (lane_change_path, global_root),
            (goal_planner_path, global_root), (start_planner_path, global_root),
            (bidirectional_path, global_root), (sampling_path, global_root), (vehicle_info_path,
            global_root)] h;
         nodeOptions = push_override (''launch_modules'', Param_String_Array []) nodeOptions
     in Inr (\<lparr>started_with = nodeOptions, cancelled_timers = [''timer_''], spinning = True\<rparr>, h))"

definition vehicle_cmd_gate_startup ::
    "(string \<Rightarrow> 'd param_map option) \<Rightarrow> 'd printer \<Rightarrow> (string \<Rightarrow> string option) \<Rightarrow> host \<Rightarrow>
     ('d started \<times> host) c_result" where
  "vehicle_cmd_gate_startup parse pr getenv h =
     c_bind (get_lf_autoware_home getenv) (\<lambda>home.
     let yaml_path = home @ ''/'' @ VEHICLE_CMD_GATE_PARAM;
         vehicle_info_path = home @ ''/'' @ VEHICLE_INFO_PARAM;
         (nodeOptions, h) = get_node_options_from_yamls parse pr
           [(yaml_path, global_root), (vehicle_info_path, global_root)] h;
         nodeOptions = push_override (''check_external_emergency_heartbeat'', Param_Bool False) nodeOptions;
         nodeOptions = push_override (''is_simulation'', Param_Bool True) nodeOptions
     in Inr (\<lparr>started_with = nodeOptions, cancelled_timers = [''timer_'', ''timer_pub_status_''], spinning = True\<rparr>, h))"

definition velocity_smoother_startup ::
    "(string \<Rightarrow> 'd param_map option) \<Rightarrow> 'd printer \<Rightarrow> (string \<Rightarrow> string option) \<Rightarrow> host \<Rightarrow>
     ('d started \<times> host) c_result" where
  "velocity_smoother_startup parse pr getenv h =
     c_bind (get_lf_autoware_home getenv) (\<lambda>home.
     let common_param_path = home @ ''/'' @ VELOCITY_SMOOTHER_COMMON_PARAM;
         nearest_search_path = home @ ''/'' @ PLANNING_NEAREST_SEARCH_PARAM;
         yaml_path = home @ ''/'' @ VELOCITY_SMOOTHER_PARAM;
         algorithm_path = home @ ''/'' @ VELOCITY_SMOOTHER_ALGORITHM_PARAM;
         vehicle_info_path = home @ ''/'' @ VEHICLE_INFO_PARAM;
         (nodeOptions, h) = get_node_options_from_yamls parse pr
           [(common_param_path, global_root), (nearest_search_path, global_root), (yaml_path,
            global_root), (algorithm_path, global_root), (vehicle_info_path, global_root)] h;
         nodeOptions = push_override (''algorithm_type'', Param_String ''Analytical'') nodeOptions;
         nodeOptions = push_override (''publish_debug_trajs'', Param_Bool False) nodeOptions
     in Inr (\<lparr>started_with = nodeOptions, cancelled_timers = [], spinning = True\<rparr>, h))"

definition mission_planner_startup ::
    "(string \<Rightarrow> 'd param_map option) \<Rightarrow> 'd printer \<Rightarrow> (string \<Rightarrow> string option) \<Rightarrow> host \<Rightarrow>
     ('d started \<times> host) c_result" where
  "mission_planner_startup parse pr getenv h =
     c_bind (get_lf_autoware_home getenv) (\<lambda>home.
     let default_param_path = home @ ''/'' @ MISSION_PLANNER_DEFAULT_PARAM;
         yaml_path = home @ ''/'' @ MISSION_PLANNER_PARAM;
         vehicle_info_path = home @ ''/'' @ VEHICLE_INFO_PARAM;
         (nodeOptions, h) = get_node_options_from_yamls parse pr
           [(default_param_path, global_root), (yaml_path, global_root), (vehicle_info_path,
            global_root)] h
     in Inr (\<lparr>started_with = nodeOptions, cancelled_timers = [], spinning = True\<rparr>, h))"

section \<open>Wrappers that load one file\<close>

definition shift_decider_startup ::
    "(string \<Rightarrow> 'd param_map option) \<Rightarrow> 'd printer \<Rightarrow> (string \<Rightarrow> string option) \<Rightarrow> host \<Rightarrow>
     ('d started \<times> host) c_result" where
  "shift_decider_startup parse pr getenv h =
     c_bind (get_lf_autoware_home getenv) (\<lambda>home.
     let yaml_path = home @ ''/'' @ SHIFT_DECIDER_PARAM in
     c_bind (get_node_options_from_yaml parse pr yaml_path global_root h) (\<lambda>(nodeOptions, h).
     Inr (\<lparr>started_with = nodeOptions, cancelled_timers = [''timer_''], spinning = True\<rparr>, h)))"

definition scenario_selector_startup ::
    "(string \<Rightarrow> 'd param_map option) \<Rightarrow> 'd printer \<Rightarrow> (string \<Rightarrow> string option) \<Rightarrow> host \<Rightarrow>
     ('d started \<times> host) c_result" where
  "scenario_selector_startup parse pr getenv h =
     c_bind (get_lf_autoware_home getenv) (\<lambda>home.
     let yaml_path = home @ ''/'' @ SCENARIO_SELECTOR_PARAM in
     c_bind (get_node_options_from_yaml parse pr yaml_path global_root h) (\<lambda>(nodeOptions, h).
     Inr (\<lparr>started_with = nodeOptions, cancelled_timers = [''timer_''], spinning = True\<rparr>, h)))"

section \<open>Wrappers that resolve launch variables\<close>

text \<open>\<open>None\<close>: the reaction does not return, as \<open>resolve_yaml_vars\<close> may do.\<close>

definition after_resolving ::
    "(string \<times> host) c_result option \<Rightarrow> (string \<Rightarrow> host \<Rightarrow> 'a c_result) \<Rightarrow> 'a c_result option" where
  "after_resolving r k = map_option (\<lambda>r. c_bind r (\<lambda>(resolved_yaml, h). k resolved_yaml h)) r"

definition lidar_centerpoint_startup ::
    "(string \<Rightarrow> 'd param_map option) \<Rightarrow> 'd printer \<Rightarrow> (string \<Rightarrow> string option) \<Rightarrow> host \<Rightarrow>
     ('d started \<times> host) c_result option" where
  "lidar_centerpoint_startup parse pr getenv h =
     (case get_lf_autoware_home getenv of
        Inl e \<Rightarrow> Some (Inl e)
      | Inr home \<Rightarrow>
          let yaml_path = home @ ''/'' @ LIDAR_CENTERPOINT_PARAM;
              common_path = home @ ''/'' @ LIDAR_CENTERPOINT_COMMON_PARAM;
              data_path = get_default_data_path getenv;
              ml_pkg_path = data_path @ ''/'' @ LIDAR_CENTERPOINT_ML_PACKAGE_PARAM;
              class_remapper_path = data_path @ ''/'' @ LIDAR_CENTERPOINT_CLASS_REMAPPER_PARAM;
              model_dir = data_path @ ''/lidar_centerpoint'';
              model_name = ''centerpoint_tiny'' in
          after_resolving
            (resolve_yaml_vars yaml_path
              [(''$(var model_path)'', model_dir), (''$(var model_name)'', model_name)] h)
            (\<lambda>resolved_yaml h.
              let (nodeOptions, h) = get_node_options_from_yamls parse pr
                    [(resolved_yaml, global_root), (common_path, global_root),
                     (ml_pkg_path, global_root), (class_remapper_path, global_root)] h in
              Inr (\<lparr>started_with = nodeOptions, cancelled_timers = [], spinning = True\<rparr>, h)))"

definition pointcloud_map_loader_startup ::
    "(string \<Rightarrow> 'd param_map option) \<Rightarrow> 'd printer \<Rightarrow> (string \<Rightarrow> string option) \<Rightarrow> host \<Rightarrow>
     ('d started \<times> host) c_result option" where
  "pointcloud_map_loader_startup parse pr getenv h =
     (case get_lf_autoware_home getenv of
        Inl e \<Rightarrow> Some (Inl e)
      | Inr home \<Rightarrow>
          let yaml_path = home @ ''/'' @ POINTCLOUD_MAP_LOADER_PARAM;
              map_path = get_default_map_path getenv in
          after_resolving
            (resolve_yaml_vars yaml_path
              [(''$(var pointcloud_map_path)'', map_path @ ''/pointcloud_map.pcd''),
               (''$(var pointcloud_map_metadata_path)'', map_path @ ''/pointcloud_map_metadata.yaml'')] h)
            (\<lambda>resolved_yaml h.
              c_bind (get_node_options_from_yaml parse pr resolved_yaml global_root h) (\<lambda>(nodeOptions, h).
              Inr (\<lparr>started_with = nodeOptions, cancelled_timers = [], spinning = True\<rparr>, h))))"

section \<open>What the wrappers promise\<close>

text \<open>
  The start of a wrapper with several files: without the environment variable the program ends;
  otherwise the node gets the global parameters of the files that can be read, in order, then the
  extra overrides, and one argument per readable file; no file is written.
\<close>

definition starts_with ::
    "(string \<Rightarrow> 'd param_map option) \<Rightarrow> (string \<Rightarrow> string option) \<Rightarrow> host \<Rightarrow> string list \<Rightarrow>
     'd parameter list \<Rightarrow> string list \<Rightarrow> ('d started \<times> host) c_result" where
  "starts_with parse getenv h param_files extra timers =
     (case getenv ''LF_AUTOWARE_HOME'' of
        None \<Rightarrow> Inl (Exit_Failure 1)
      | Some home \<Rightarrow>
          let paths = map (\<lambda>file. home @ ''/'' @ file) param_files in
          Inr (\<lparr>started_with =
                 \<lparr>parameter_overrides = concat (map (global_params parse h) paths) @ extra,
                  arguments = ''--ros-args'' # concat (map (\<lambda>path. [''--params-file'', path])
                    (filter (\<lambda>path. parse_file parse h path \<noteq> None) paths))\<rparr>,
               cancelled_timers = timers, spinning = True\<rparr>, h))"

lemma yamls_global:
  "get_node_options_from_yamls parse pr (map (\<lambda>path. (path, global_root)) paths) h =
   (\<lparr>parameter_overrides = concat (map (global_params parse h) paths),
     arguments = ''--ros-args'' # concat (map (\<lambda>path. [''--params-file'', path])
       (filter (\<lambda>path. parse_file parse h path \<noteq> None) paths))\<rparr>, h)"
  by (simp add: get_node_options_from_yamls_def node_options_from)

lemma push_override_simps [simp]:
  "parameter_overrides (push_override p opts) = parameter_overrides opts @ [p]"
  "arguments (push_override p opts) = arguments opts"
  by (simp_all add: push_override_def)

lemma starts_with_eq:
  "c_bind (get_lf_autoware_home getenv) (\<lambda>home.
     let (opts, h) = get_node_options_from_yamls parse pr
           (map (\<lambda>path. (path, global_root)) (map (\<lambda>file. home @ ''/'' @ file) param_files)) h;
         opts = foldl (\<lambda>opts p. push_override p opts) opts extra in
     Inr (\<lparr>started_with = opts, cancelled_timers = timers, spinning = True\<rparr>, h)) =
   starts_with parse getenv h param_files extra timers"
proof -
  have "foldl (\<lambda>opts p. push_override p opts) opts extra =
      opts\<lparr>parameter_overrides := parameter_overrides opts @ extra\<rparr>" for opts :: "'a node_options"
    by (induction extra arbitrary: opts) (simp_all add: push_override_def)
  then show ?thesis
    by (auto simp: starts_with_def get_lf_autoware_home_def yamls_global Let_def simp del: map_map split: option.split)
qed

lemma trajectory_follower_starts:
  "trajectory_follower_startup parse pr getenv h = starts_with parse getenv h
     [CONTROL_NEAREST_SEARCH_PARAM, TRAJECTORY_FOLLOWER_PARAM, MPC_LATERAL_PARAM,
      PID_LONGITUDINAL_PARAM, VEHICLE_INFO_PARAM]
     [(''lateral_controller_mode'', Param_String ''mpc''),
      (''longitudinal_controller_mode'', Param_String ''pid'')]
     [''timer_control_'']"
  using starts_with_eq
    [where getenv = getenv and parse = parse and pr = pr and h = h and
      param_files = "[CONTROL_NEAREST_SEARCH_PARAM, TRAJECTORY_FOLLOWER_PARAM, MPC_LATERAL_PARAM,
        PID_LONGITUDINAL_PARAM, VEHICLE_INFO_PARAM]" and
      extra = "[(''lateral_controller_mode'', Param_String ''mpc''), (''longitudinal_controller_mode'',
        Param_String ''pid'')]" and timers = "[''timer_control_'']"]
  by (simp add: trajectory_follower_startup_def Let_def)

lemma costmap_generator_starts:
  "costmap_generator_startup parse pr getenv h = starts_with parse getenv h
     [COSTMAP_GENERATOR_PARAM, VEHICLE_INFO_PARAM]
     [] [''timer_'']"
  using starts_with_eq
    [where getenv = getenv and parse = parse and pr = pr and h = h and
      param_files = "[COSTMAP_GENERATOR_PARAM, VEHICLE_INFO_PARAM]" and
      extra = "[]" and timers = "[''timer_'']"]
  by (simp add: costmap_generator_startup_def Let_def)

lemma freespace_planner_starts:
  "freespace_planner_startup parse pr getenv h = starts_with parse getenv h
     [FREESPACE_PLANNER_PARAM, VEHICLE_INFO_PARAM]
     [] [''timer_'']"
  using starts_with_eq
    [where getenv = getenv and parse = parse and pr = pr and h = h and
      param_files = "[FREESPACE_PLANNER_PARAM, VEHICLE_INFO_PARAM]" and
      extra = "[]" and timers = "[''timer_'']"]
  by (simp add: freespace_planner_startup_def Let_def)

lemma behavior_path_planner_starts:
  "behavior_path_planner_startup parse pr getenv h = starts_with parse getenv h
     [PLANNING_COMMON_PARAM, PLANNING_NEAREST_SEARCH_PARAM, BEHAVIOR_PATH_PLANNER_PARAM,
      BEHAVIOR_PATH_PLANNER_DRIVABLE_AREA_PARAM, BEHAVIOR_PATH_PLANNER_SCENE_MANAGER_PARAM,
      BEHAVIOR_PATH_PLANNER_SIDE_SHIFT_PARAM, BEHAVIOR_PATH_PLANNER_AVOIDANCE_PARAM,
      BEHAVIOR_PATH_PLANNER_AVOIDANCE_BY_LC_PARAM,
      BEHAVIOR_PATH_PLANNER_DYNAMIC_AVOIDANCE_PARAM, BEHAVIOR_PATH_PLANNER_LANE_CHANGE_PARAM,
      BEHAVIOR_PATH_PLANNER_GOAL_PLANNER_PARAM, BEHAVIOR_PATH_PLANNER_START_PLANNER_PARAM,
      BEHAVIOR_PATH_PLANNER_BIDIRECTIONAL_TRAFFIC_PARAM, BEHAVIOR_PATH_PLANNER_SAMPLING_PARAM,
      VEHICLE_INFO_PARAM]
     [(''launch_modules'', Param_String_Array [])] [''timer_'']"
  using starts_with_eq
    [where getenv = getenv and parse = parse and pr = pr and h = h and
      param_files = "[PLANNING_COMMON_PARAM, PLANNING_NEAREST_SEARCH_PARAM, BEHAVIOR_PATH_PLANNER_PARAM,
        BEHAVIOR_PATH_PLANNER_DRIVABLE_AREA_PARAM, BEHAVIOR_PATH_PLANNER_SCENE_MANAGER_PARAM,
        BEHAVIOR_PATH_PLANNER_SIDE_SHIFT_PARAM, BEHAVIOR_PATH_PLANNER_AVOIDANCE_PARAM,
        BEHAVIOR_PATH_PLANNER_AVOIDANCE_BY_LC_PARAM,
        BEHAVIOR_PATH_PLANNER_DYNAMIC_AVOIDANCE_PARAM, BEHAVIOR_PATH_PLANNER_LANE_CHANGE_PARAM,
        BEHAVIOR_PATH_PLANNER_GOAL_PLANNER_PARAM, BEHAVIOR_PATH_PLANNER_START_PLANNER_PARAM,
        BEHAVIOR_PATH_PLANNER_BIDIRECTIONAL_TRAFFIC_PARAM, BEHAVIOR_PATH_PLANNER_SAMPLING_PARAM,
        VEHICLE_INFO_PARAM]" and
      extra = "[(''launch_modules'', Param_String_Array [])]" and timers = "[''timer_'']"]
  by (simp add: behavior_path_planner_startup_def Let_def)

lemma vehicle_cmd_gate_starts:
  "vehicle_cmd_gate_startup parse pr getenv h = starts_with parse getenv h
     [VEHICLE_CMD_GATE_PARAM, VEHICLE_INFO_PARAM]
     [(''check_external_emergency_heartbeat'', Param_Bool False),
      (''is_simulation'', Param_Bool True)]
     [''timer_'', ''timer_pub_status_'']"
  using starts_with_eq
    [where getenv = getenv and parse = parse and pr = pr and h = h and
      param_files = "[VEHICLE_CMD_GATE_PARAM, VEHICLE_INFO_PARAM]" and
      extra = "[(''check_external_emergency_heartbeat'', Param_Bool False), (''is_simulation'',
        Param_Bool True)]" and timers = "[''timer_'', ''timer_pub_status_'']"]
  by (simp add: vehicle_cmd_gate_startup_def Let_def)

lemma velocity_smoother_starts:
  "velocity_smoother_startup parse pr getenv h = starts_with parse getenv h
     [VELOCITY_SMOOTHER_COMMON_PARAM, PLANNING_NEAREST_SEARCH_PARAM, VELOCITY_SMOOTHER_PARAM,
      VELOCITY_SMOOTHER_ALGORITHM_PARAM, VEHICLE_INFO_PARAM]
     [(''algorithm_type'', Param_String ''Analytical''),
      (''publish_debug_trajs'', Param_Bool False)] []"
  using starts_with_eq
    [where getenv = getenv and parse = parse and pr = pr and h = h and
      param_files = "[VELOCITY_SMOOTHER_COMMON_PARAM, PLANNING_NEAREST_SEARCH_PARAM, VELOCITY_SMOOTHER_PARAM,
        VELOCITY_SMOOTHER_ALGORITHM_PARAM, VEHICLE_INFO_PARAM]" and
      extra = "[(''algorithm_type'', Param_String ''Analytical''), (''publish_debug_trajs'', Param_Bool
        False)]" and timers = "[]"]
  by (simp add: velocity_smoother_startup_def Let_def)

lemma mission_planner_starts:
  "mission_planner_startup parse pr getenv h = starts_with parse getenv h
     [MISSION_PLANNER_DEFAULT_PARAM, MISSION_PLANNER_PARAM, VEHICLE_INFO_PARAM]
     [] []"
  using starts_with_eq
    [where getenv = getenv and parse = parse and pr = pr and h = h and
      param_files = "[MISSION_PLANNER_DEFAULT_PARAM, MISSION_PLANNER_PARAM, VEHICLE_INFO_PARAM]" and
      extra = "[]" and timers = "[]"]
  by (simp add: mission_planner_startup_def Let_def)

text \<open>The value a node gets for a parameter: the last override of the name.\<close>

definition override :: "string \<Rightarrow> 'd node_options \<Rightarrow> 'd param_value option" where
  "override name opts = map_of (rev (parameter_overrides opts)) name"

lemma override_pushed:
  "override name \<lparr>parameter_overrides = ps @ extra, arguments = args\<rparr> =
   (case map_of (rev extra) name of None \<Rightarrow> map_of (rev ps) name | Some v \<Rightarrow> Some v)"
  by (simp add: override_def map_add_def)

text \<open>
  \<open>parameter_map_from\<close> gives a map from node names to parameters, so a name has one entry.
\<close>

definition keyed :: "(string \<Rightarrow> 'd param_map option) \<Rightarrow> bool" where
  "keyed parse \<longleftrightarrow> (\<forall>content options. parse content = Some options \<longrightarrow> distinct (map fst options))"

lemma single_file_global:
  assumes "keyed parse"
  shows "get_node_options_from_yaml parse pr path global_root h =
    (if parse_file parse h path = None then Inl (Exit_Failure 1)
     else Inr (\<lparr>parameter_overrides = global_params parse h path,
            arguments = [''--ros-args'', ''--params-file'', path]\<rparr>, h))"
proof (cases "parse_file parse h path")
  case (Some options)
  then have "distinct (map fst options)"
    using assms by (auto simp: parse_file_def keyed_def split: option.splits)
  then show ?thesis
    using Some by (simp add: get_node_options_from_yaml_def global_params_def foldl_last_matching
        filter_matching)
qed (simp add: get_node_options_from_yaml_def)

text \<open>The copy \<open>resolve_yaml_vars\<close> writes, and the state after it.\<close>

definition resolved_copy :: "string \<Rightarrow> (string \<times> string) list \<Rightarrow> host \<Rightarrow> string \<times> host" where
  "resolved_copy content replacements h =
     (let tmp = ''/tmp/lf_resolved_'' @ digits (pid h) @ ''_'' @ digits (resolved_counter h) @ ''.yaml'' in
      (tmp, h\<lparr>resolved_counter := resolved_counter h + 1, files := (files h)(tmp \<mapsto>
         foldl (\<lambda>c (pattern, val). replace_all pattern val c) content replacements)\<rparr>))"

lemma resolve_copy:
  assumes "\<forall>(pattern, val) \<in> set replacements. pattern \<noteq> []"
  shows "resolve_yaml_vars path replacements h =
    Some (case files h path of None \<Rightarrow> Inl (Exit_Failure 1)
      | Some content \<Rightarrow> Inr (resolved_copy content replacements h))"
  by (simp add: resolve_yaml_vars_def replace_vars_eq [OF assms] resolved_copy_def Let_def split: option.split)

definition lidar_replacements :: "(string \<Rightarrow> string option) \<Rightarrow> (string \<times> string) list" where
  "lidar_replacements getenv =
     [(''$(var model_path)'', get_default_data_path getenv @ ''/lidar_centerpoint''),
      (''$(var model_name)'', ''centerpoint_tiny'')]"

definition loader_replacements :: "(string \<Rightarrow> string option) \<Rightarrow> (string \<times> string) list" where
  "loader_replacements getenv =
     [(''$(var pointcloud_map_path)'', get_default_map_path getenv @ ''/pointcloud_map.pcd''),
      (''$(var pointcloud_map_metadata_path)'', get_default_map_path getenv @ ''/pointcloud_map_metadata.yaml'')]"

lemma replacements_nonempty:
  "\<forall>(pattern, val) \<in> set (lidar_replacements getenv). pattern \<noteq> []"
  "\<forall>(pattern, val) \<in> set (loader_replacements getenv). pattern \<noteq> []"
  by (simp_all add: lidar_replacements_def loader_replacements_def)

lemma yamls_first:
  "\<exists>opts rest. get_node_options_from_yamls parse pr
      [(a, global_root), (b, global_root), (c, global_root), (d, global_root)] h = (opts, h) \<and>
    parameter_overrides opts = global_params parse h a @ rest"
  using yamls_global [of parse pr "[a, b, c, d]" h] by simp

lemma lidar_returns:
  assumes "getenv ''LF_AUTOWARE_HOME'' = Some home"
    and "files h (home @ ''/'' @ LIDAR_CENTERPOINT_PARAM) = Some content"
    and "resolved_copy content (lidar_replacements getenv) h = (tmp, h')"
  shows "\<exists>n rest. lidar_centerpoint_startup parse pr getenv h = Some (Inr (n, h')) \<and>
    parameter_overrides (started_with n) = global_params parse h' tmp @ rest"
proof -
  obtain opts rest where opts: "get_node_options_from_yamls parse pr
      [(tmp, global_root), (home @ ''/'' @ LIDAR_CENTERPOINT_COMMON_PARAM, global_root),
       (get_default_data_path getenv @ ''/'' @ LIDAR_CENTERPOINT_ML_PACKAGE_PARAM, global_root),
       (get_default_data_path getenv @ ''/'' @ LIDAR_CENTERPOINT_CLASS_REMAPPER_PARAM, global_root)] h' = (opts, h')"
      "parameter_overrides opts = global_params parse h' tmp @ rest"
    using yamls_first by blast
  have "lidar_centerpoint_startup parse pr getenv h =
      Some (Inr (\<lparr>started_with = opts, cancelled_timers = [], spinning = True\<rparr>, h'))"
    unfolding lidar_centerpoint_startup_def get_lf_autoware_home_def assms(1) Let_def after_resolving_def
      lidar_replacements_def [symmetric] resolve_copy [OF replacements_nonempty(1)]
      option.case sum.case assms(2,3) option.map c_bind_Inr prod.case opts(1) ..
  then show ?thesis using opts(2) by simp
qed

lemma lidar_without_file:
  assumes "getenv ''LF_AUTOWARE_HOME'' = Some home"
    and "files h (home @ ''/'' @ LIDAR_CENTERPOINT_PARAM) = None"
  shows "lidar_centerpoint_startup parse pr getenv h = Some (Inl (Exit_Failure 1))"
  unfolding lidar_centerpoint_startup_def get_lf_autoware_home_def assms(1) Let_def after_resolving_def
    lidar_replacements_def [symmetric] resolve_copy [OF replacements_nonempty(1)]
    option.case sum.case assms(2) option.map c_bind_Inl ..

lemma loader_returns:
  assumes "getenv ''LF_AUTOWARE_HOME'' = Some home"
    and "files h (home @ ''/'' @ POINTCLOUD_MAP_LOADER_PARAM) = Some content"
    and "resolved_copy content (loader_replacements getenv) h = (tmp, h')"
  shows "pointcloud_map_loader_startup parse pr getenv h =
    Some (c_bind (get_node_options_from_yaml parse pr tmp global_root h') (\<lambda>(nodeOptions, h).
      Inr (\<lparr>started_with = nodeOptions, cancelled_timers = [], spinning = True\<rparr>, h)))"
  unfolding pointcloud_map_loader_startup_def get_lf_autoware_home_def assms(1) Let_def after_resolving_def
    loader_replacements_def [symmetric] resolve_copy [OF replacements_nonempty(2)]
    option.case sum.case assms(2,3) option.map c_bind_Inr prod.case ..

lemma loader_without_file:
  assumes "getenv ''LF_AUTOWARE_HOME'' = Some home"
    and "files h (home @ ''/'' @ POINTCLOUD_MAP_LOADER_PARAM) = None"
  shows "pointcloud_map_loader_startup parse pr getenv h = Some (Inl (Exit_Failure 1))"
  unfolding pointcloud_map_loader_startup_def get_lf_autoware_home_def assms(1) Let_def after_resolving_def
    loader_replacements_def [symmetric] resolve_copy [OF replacements_nonempty(2)]
    option.case sum.case assms(2) option.map c_bind_Inl ..

text \<open>The resolved copies, as texts.\<close>

lemma lidar_copy:
  "resolved_copy content (lidar_replacements getenv) h = (tmp, h') \<Longrightarrow>
   files h' = (files h)(tmp \<mapsto> replace_all ''$(var model_name)'' ''centerpoint_tiny''
     (replace_all ''$(var model_path)'' (get_default_data_path getenv @ ''/lidar_centerpoint'') content))"
  unfolding resolved_copy_def lidar_replacements_def Let_def by (elim Pair_inject) (drule sym, simp)

definition loader_copy_of :: "(string \<Rightarrow> string option) \<Rightarrow> string \<Rightarrow> string" where
  "loader_copy_of getenv content =
     replace_all ''$(var pointcloud_map_metadata_path)''
       (get_default_map_path getenv @ ''/pointcloud_map_metadata.yaml'')
       (replace_all ''$(var pointcloud_map_path)''
         (get_default_map_path getenv @ ''/pointcloud_map.pcd'') content)"

lemma loader_copy:
  assumes "resolved_copy content (loader_replacements getenv) h = (tmp, h')"
  shows "files h' = (files h)(tmp \<mapsto> loader_copy_of getenv content) \<and>
    parse_file parse h' tmp = parse (loader_copy_of getenv content)"
proof -
  have "files h' = (files h)(tmp \<mapsto> loader_copy_of getenv content)"
    using assms unfolding resolved_copy_def loader_replacements_def loader_copy_of_def Let_def
    by (elim Pair_inject) (drule sym, simp)
  then show ?thesis by (simp add: parse_file_def)
qed

definition sample_printer :: "nat printer" where
  "sample_printer = \<lparr>print_int = (\<lambda>i. []), print_double = (\<lambda>d. [])\<rparr>"

section \<open>Properties\<close>

text \<open>The seven wrappers with several parameter files start in the same way.  Each ends the
  program exactly when the environment variable is missing; otherwise its node gets the global
  parameters of those of its files that can be read, in the order of the reaction, then its own
  overrides; a file that cannot be read is skipped, and no temporary file is written.\<close>

theorem startup_of_wrappers:
  "trajectory_follower_startup parse pr getenv h = starts_with parse getenv h
     [CONTROL_NEAREST_SEARCH_PARAM, TRAJECTORY_FOLLOWER_PARAM, MPC_LATERAL_PARAM,
      PID_LONGITUDINAL_PARAM, VEHICLE_INFO_PARAM]
     [(''lateral_controller_mode'', Param_String ''mpc''),
      (''longitudinal_controller_mode'', Param_String ''pid'')]
     [''timer_control_''] \<and>
   costmap_generator_startup parse pr getenv h = starts_with parse getenv h
     [COSTMAP_GENERATOR_PARAM, VEHICLE_INFO_PARAM]
     [] [''timer_''] \<and>
   freespace_planner_startup parse pr getenv h = starts_with parse getenv h
     [FREESPACE_PLANNER_PARAM, VEHICLE_INFO_PARAM]
     [] [''timer_''] \<and>
   behavior_path_planner_startup parse pr getenv h = starts_with parse getenv h
     [PLANNING_COMMON_PARAM, PLANNING_NEAREST_SEARCH_PARAM, BEHAVIOR_PATH_PLANNER_PARAM,
      BEHAVIOR_PATH_PLANNER_DRIVABLE_AREA_PARAM, BEHAVIOR_PATH_PLANNER_SCENE_MANAGER_PARAM,
      BEHAVIOR_PATH_PLANNER_SIDE_SHIFT_PARAM, BEHAVIOR_PATH_PLANNER_AVOIDANCE_PARAM,
      BEHAVIOR_PATH_PLANNER_AVOIDANCE_BY_LC_PARAM,
      BEHAVIOR_PATH_PLANNER_DYNAMIC_AVOIDANCE_PARAM, BEHAVIOR_PATH_PLANNER_LANE_CHANGE_PARAM,
      BEHAVIOR_PATH_PLANNER_GOAL_PLANNER_PARAM, BEHAVIOR_PATH_PLANNER_START_PLANNER_PARAM,
      BEHAVIOR_PATH_PLANNER_BIDIRECTIONAL_TRAFFIC_PARAM, BEHAVIOR_PATH_PLANNER_SAMPLING_PARAM,
      VEHICLE_INFO_PARAM]
     [(''launch_modules'', Param_String_Array [])] [''timer_''] \<and>
   vehicle_cmd_gate_startup parse pr getenv h = starts_with parse getenv h
     [VEHICLE_CMD_GATE_PARAM, VEHICLE_INFO_PARAM]
     [(''check_external_emergency_heartbeat'', Param_Bool False),
      (''is_simulation'', Param_Bool True)]
     [''timer_'', ''timer_pub_status_''] \<and>
   velocity_smoother_startup parse pr getenv h = starts_with parse getenv h
     [VELOCITY_SMOOTHER_COMMON_PARAM, PLANNING_NEAREST_SEARCH_PARAM, VELOCITY_SMOOTHER_PARAM,
      VELOCITY_SMOOTHER_ALGORITHM_PARAM, VEHICLE_INFO_PARAM]
     [(''algorithm_type'', Param_String ''Analytical''),
      (''publish_debug_trajs'', Param_Bool False)] [] \<and>
   mission_planner_startup parse pr getenv h = starts_with parse getenv h
     [MISSION_PLANNER_DEFAULT_PARAM, MISSION_PLANNER_PARAM, VEHICLE_INFO_PARAM]
     [] []"
  by (simp only: trajectory_follower_starts costmap_generator_starts freespace_planner_starts
      behavior_path_planner_starts vehicle_cmd_gate_starts velocity_smoother_starts
      mission_planner_starts simp_thms)

text \<open>The overrides of the reactions win over the parameter files: whatever the files contain,
  the last override of each name a startup reaction pushes is the value it pushes; and the
  mission planner's launcher file wins over its default file, unless the vehicle file defines
  the name too.\<close>

theorem launch_overrides_win:
  assumes "getenv ''LF_AUTOWARE_HOME'' = Some home"
  shows "(\<exists>n. vehicle_cmd_gate_startup parse pr getenv h = Inr (n, h) \<and>
      override ''check_external_emergency_heartbeat'' (started_with n) = Some (Param_Bool False) \<and>
      override ''is_simulation'' (started_with n) = Some (Param_Bool True)) \<and>
    (\<exists>n. trajectory_follower_startup parse pr getenv h = Inr (n, h) \<and>
      override ''lateral_controller_mode'' (started_with n) = Some (Param_String ''mpc'') \<and>
      override ''longitudinal_controller_mode'' (started_with n) = Some (Param_String ''pid'')) \<and>
    (\<exists>n. velocity_smoother_startup parse pr getenv h = Inr (n, h) \<and>
      override ''algorithm_type'' (started_with n) = Some (Param_String ''Analytical'') \<and>
      override ''publish_debug_trajs'' (started_with n) = Some (Param_Bool False)) \<and>
    (\<exists>n. mission_planner_startup parse pr getenv h = Inr (n, h) \<and>
      (\<forall>name v. map_of (rev (global_params parse h (home @ ''/'' @ MISSION_PLANNER_PARAM))) name = Some v \<longrightarrow>
        map_of (rev (global_params parse h (home @ ''/'' @ VEHICLE_INFO_PARAM))) name = None \<longrightarrow>
        override name (started_with n) = Some v))"
  by (simp add: vehicle_cmd_gate_starts trajectory_follower_starts velocity_smoother_starts
      mission_planner_starts starts_with_def assms override_def Let_def map_add_def)

theorem launch_overrides_win_witness:
  "\<exists>n. vehicle_cmd_gate_startup (\<lambda>c. Some [(''/**'', [(''is_simulation'', Param_String c)])])
      sample_printer (\<lambda>v. Some ''/h'') sample_host = Inr (n, sample_host) \<and>
    override ''is_simulation'' (started_with n) = Some (Param_Bool True)"
  using launch_overrides_win
    [where getenv = "\<lambda>v. Some ''/h''" and home = "''/h''" and h = sample_host and pr = sample_printer and
      parse = "\<lambda>c. Some [(''/**'', [(''is_simulation'', Param_String c)])]", OF refl]
  by blast

text \<open>The wrappers with one parameter file need it: they end the program when the environment
  variable is missing or the file cannot be read, and otherwise the node gets exactly the global
  parameters of the file.\<close>

theorem startup_with_one_file:
  assumes "keyed parse"
  shows "shift_decider_startup parse pr getenv h =
      (case getenv ''LF_AUTOWARE_HOME'' of None \<Rightarrow> Inl (Exit_Failure 1)
       | Some home \<Rightarrow> let path = home @ ''/'' @ SHIFT_DECIDER_PARAM in
           if parse_file parse h path = None then Inl (Exit_Failure 1)
           else Inr (\<lparr>started_with = \<lparr>parameter_overrides = global_params parse h path,
                  arguments = [''--ros-args'', ''--params-file'', path]\<rparr>,
                cancelled_timers = [''timer_''], spinning = True\<rparr>, h)) \<and>
    scenario_selector_startup parse pr getenv h =
      (case getenv ''LF_AUTOWARE_HOME'' of None \<Rightarrow> Inl (Exit_Failure 1)
       | Some home \<Rightarrow> let path = home @ ''/'' @ SCENARIO_SELECTOR_PARAM in
           if parse_file parse h path = None then Inl (Exit_Failure 1)
           else Inr (\<lparr>started_with = \<lparr>parameter_overrides = global_params parse h path,
                  arguments = [''--ros-args'', ''--params-file'', path]\<rparr>,
                cancelled_timers = [''timer_''], spinning = True\<rparr>, h))"
  by (simp add: shift_decider_startup_def scenario_selector_startup_def get_lf_autoware_home_def
      single_file_global [OF assms] Let_def split: option.split)

theorem startup_with_one_file_witness:
  "shift_decider_startup (\<lambda>c. Some [(''/**'', [(c, Param_Bool True)])]) sample_printer
     (\<lambda>v. Some ''/h'') sample_host = Inl (Exit_Failure 1)"
proof -
  have "keyed (\<lambda>c. Some [(''/**'', [(c, Param_Bool True :: nat param_value)])])"
    by (simp add: keyed_def)
  from startup_with_one_file [OF this, of sample_printer "\<lambda>v. Some ''/h''" sample_host]
  show ?thesis by (simp add: parse_file_def sample_host_def Let_def)
qed

text \<open>C29: The two wrappers that resolve launch variables return from that step for every file, as
  their patterns are not empty.  The program ends when the file with the variables is missing,
  for the map loader also when the resolved copy cannot be parsed; otherwise the only file written
  is the copy, with both variables replaced everywhere, and the node's parameters start with
  those of the copy.\<close>

theorem startup_with_variables:
  assumes "keyed parse" and "getenv ''LF_AUTOWARE_HOME'' = Some home"
  shows "(case files h (home @ ''/'' @ LIDAR_CENTERPOINT_PARAM) of
      None \<Rightarrow> lidar_centerpoint_startup parse pr getenv h = Some (Inl (Exit_Failure 1))
    | Some content \<Rightarrow> \<exists>n h' tmp rest.
        lidar_centerpoint_startup parse pr getenv h = Some (Inr (n, h')) \<and>
        files h' = (files h)(tmp \<mapsto> replace_all ''$(var model_name)'' ''centerpoint_tiny''
          (replace_all ''$(var model_path)'' (get_default_data_path getenv @ ''/lidar_centerpoint'') content)) \<and>
        parameter_overrides (started_with n) = global_params parse h' tmp @ rest) \<and>
    (case files h (home @ ''/'' @ POINTCLOUD_MAP_LOADER_PARAM) of
      None \<Rightarrow> pointcloud_map_loader_startup parse pr getenv h = Some (Inl (Exit_Failure 1))
    | Some content \<Rightarrow>
        let copy = replace_all ''$(var pointcloud_map_metadata_path)''
              (get_default_map_path getenv @ ''/pointcloud_map_metadata.yaml'')
              (replace_all ''$(var pointcloud_map_path)''
                (get_default_map_path getenv @ ''/pointcloud_map.pcd'') content) in
        if parse copy = None
        then pointcloud_map_loader_startup parse pr getenv h = Some (Inl (Exit_Failure 1))
        else \<exists>n h' tmp. pointcloud_map_loader_startup parse pr getenv h = Some (Inr (n, h')) \<and>
          files h' = (files h)(tmp \<mapsto> copy) \<and>
          parameter_overrides (started_with n) = global_params parse h' tmp)" (is "?lidar \<and> ?loader")
proof
  show ?lidar
  proof (cases "files h (home @ ''/'' @ LIDAR_CENTERPOINT_PARAM)")
    case None
    show ?thesis
      unfolding None option.case
      by (rule lidar_without_file [where getenv = getenv and home = home, OF assms(2) None])
  next
    case (Some content)
    obtain tmp h' where copy: "resolved_copy content (lidar_replacements getenv) h = (tmp, h')"
      by fastforce
    show ?thesis
      unfolding Some option.case
      using lidar_returns [where getenv = getenv and home = home, OF assms(2) Some copy] lidar_copy [OF copy] by metis
  qed
next
  show ?loader
  proof (cases "files h (home @ ''/'' @ POINTCLOUD_MAP_LOADER_PARAM)")
    case None
    show ?thesis
      unfolding None option.case
      by (rule loader_without_file [where getenv = getenv and home = home, OF assms(2) None])
  next
    case (Some content)
    obtain tmp h' where copy: "resolved_copy content (loader_replacements getenv) h = (tmp, h')"
      by fastforce
    note run = loader_returns
      [where getenv = getenv and home = home and parse = parse and pr = pr, OF assms(2) Some copy,
        unfolded single_file_global [OF assms(1)]]
    show ?thesis
      unfolding Some option.case Let_def loader_copy_of_def [symmetric]
      using run loader_copy [OF copy, of parse] by (cases "parse (loader_copy_of getenv content)") auto
  qed
qed

definition sample_launch_host :: host where
  "sample_launch_host =
     \<lparr>files = [''/h'' @ ''/'' @ LIDAR_CENTERPOINT_PARAM \<mapsto> ''m: $(var model_name)''],
      pid = 12, params_counter = 0, resolved_counter = 0\<rparr>"

theorem startup_with_variables_witness:
  "\<exists>n h' tmp. lidar_centerpoint_startup (\<lambda>c. Some [(''/**'', [(c, Param_Bool True)])]) sample_printer
      (\<lambda>v. Some ''/h'') sample_launch_host = Some (Inr (n, h')) \<and>
    files h' tmp = Some ''m: centerpoint_tiny''"
proof -
  have keyed: "keyed (\<lambda>c. Some [(''/**'', [(c, Param_Bool True :: nat param_value)])])"
    by (simp add: keyed_def)
  have readable: "files sample_launch_host (''/h'' @ ''/'' @ LIDAR_CENTERPOINT_PARAM) = Some ''m: $(var model_name)''"
    by (simp add: sample_launch_host_def)
  have "replace_all ''$(var model_path)'' val ''m: $(var model_name)'' = ''m: $(var model_name)''" for val
    by (simp add: replace_all.simps)
  moreover have "replace_all ''$(var model_name)'' ''centerpoint_tiny'' ''m: $(var model_name)'' = ''m: centerpoint_tiny''"
    by (simp add: replace_all.simps)
  ultimately show ?thesis
    using startup_with_variables [where getenv = "\<lambda>v. Some ''/h''" and home = "''/h''" and
        h = sample_launch_host and pr = sample_printer, OF keyed refl, THEN conjunct1]
    unfolding readable option.case by (metis fun_upd_same)
qed

end
