(* ===== verification/Wrapper_Table.thy ===== *)
theory Wrapper_Table
  imports Wrapper_Startup
begin

text \<open>
  The reactors that wrap one node (\<open>lf-src/<package>/<package>_main.lf\<close>), all of them but the nine
  whose startup reaction has another shape (theory \<open>Special_Wrappers\<close> and the two that resolve
  launch variables, theory \<open>Wrapper_Startup\<close>).

  They differ in a few items only: which parameter files the startup reaction loads and whether
  it insists on them, the overrides it pushes, the ROS timers it cancels, which spin function
  its thread runs, the period of the Lingua Franca timer and the node methods the timer's
  reaction calls.  A wrapper is the record of these items; \<open>launch\<close> is the startup reaction.
  Reactors whose two calls of \<open>rclcpp::init\<close> come in another order differ in nothing the model
  sees: a second call throws and the exception is swallowed.
\<close>

section \<open>Wrappers\<close>

datatype parameter_source =
    No_File
  | One_File string
  | Several_Files "string list"

record 'd wrapper =
  source :: parameter_source
  pushed :: "(string \<Rightarrow> string option) \<Rightarrow> string \<Rightarrow> 'd parameter list"
  cancelled :: "string list"
  with_executor :: bool
  period :: "nat option"
  node_calls :: "string list"

text \<open>
  The overrides are pushed and the node is constructed with the options.  Its constructor is
  third-party: \<open>construct\<close> says how it ends the program, or \<open>None\<close> when it returns; then the timers
  are cancelled and a thread spins.
\<close>

definition constructed ::
    "('d node_options \<Rightarrow> c_fault option) \<Rightarrow> 'd wrapper \<Rightarrow> 'd parameter list \<Rightarrow> 'd node_options \<Rightarrow>
     'd started c_result" where
  "constructed construct w overrides opts =
     (let opts = foldl (\<lambda>opts p. push_override p opts) opts overrides in
      case construct opts of
        Some e \<Rightarrow> Inl e
      | None \<Rightarrow> Inr \<lparr>started_with = opts, cancelled_timers = cancelled w, spinning = True\<rparr>)"

fun load ::
    "(string \<Rightarrow> 'd param_map option) \<Rightarrow> 'd printer \<Rightarrow> string \<Rightarrow> parameter_source \<Rightarrow> host \<Rightarrow>
     ('d node_options \<times> host) c_result" where
  "load parse pr home No_File h = Inr (\<lparr>parameter_overrides = [], arguments = []\<rparr>, h)"
| "load parse pr home (One_File file) h =
     get_node_options_from_yaml parse pr (home @ ''/'' @ file) global_root h"
| "load parse pr home (Several_Files fs) h =
     Inr (get_node_options_from_yamls parse pr (map (\<lambda>file. (home @ ''/'' @ file, global_root)) fs) h)"

definition launch ::
    "(string \<Rightarrow> 'd param_map option) \<Rightarrow> 'd printer \<Rightarrow> (string \<Rightarrow> string option) \<Rightarrow>
     ('d node_options \<Rightarrow> c_fault option) \<Rightarrow> 'd wrapper \<Rightarrow> host \<Rightarrow> ('d started \<times> host) c_result" where
  "launch parse pr getenv construct w h =
     c_bind (if source w = No_File then Inr [] else get_lf_autoware_home getenv) (\<lambda>home.
     c_bind (load parse pr home (source w) h) (\<lambda>(opts, h).
     c_bind (constructed construct w (pushed w getenv home) opts) (\<lambda>n.
     Inr (n, h))))"

section \<open>The reactors\<close>

text \<open>
  Channel 1 of the tracker is the LiDAR detector; a loop disables the channels 2 to 12.
\<close>

definition channel_id :: "nat \<Rightarrow> string" where
  "channel_id i = ''detection'' @ (if i < 10 then ''0'' else []) @ digits i"

definition tracker_overrides :: "(string \<Rightarrow> string option) \<Rightarrow> string \<Rightarrow> 'd parameter list" where
  "tracker_overrides getenv home =
     [(''publish_merged_objects'', Param_Bool False),
      (''input/detection01/channel'', Param_String ''lidar_centerpoint''),
      (''input/detection01/objects'',
        Param_String ''/perception/object_recognition/detection/centerpoint/objects'')] @
     concat (map (\<lambda>i. [(''input/'' @ channel_id i @ ''/channel'', Param_String ''none''),
       (''input/'' @ channel_id i @ ''/objects'', Param_String ''none'')]) [2..<13])"

definition approximate_downsample_filter_reactor :: "'d wrapper" where
  "approximate_downsample_filter_reactor =
    \<lparr>source = One_File APPROXIMATE_DOWNSAMPLE_FILTER_PARAM,
     pushed = (\<lambda>getenv home. []),
     cancelled = [], with_executor = False,
     period = None, node_calls = []\<rparr>"

definition automatic_pose_initializer_reactor :: "'d wrapper" where
  "automatic_pose_initializer_reactor =
    \<lparr>source = No_File,
     pushed = (\<lambda>getenv home. []),
     cancelled = [''timer_''], with_executor = True,
     period = Some 1000, node_calls = [''on_timer'']\<rparr>"

definition autonomous_emergency_braking_reactor :: "'d wrapper" where
  "autonomous_emergency_braking_reactor =
    \<lparr>source = Several_Files
       [AUTONOMOUS_EMERGENCY_BRAKING_PARAM, VEHICLE_INFO_PARAM],
     pushed = (\<lambda>getenv home. []),
     cancelled = [], with_executor = False,
     period = None, node_calls = []\<rparr>"

definition behavior_path_planner_reactor :: "'d wrapper" where
  "behavior_path_planner_reactor =
    \<lparr>source = Several_Files
       [PLANNING_COMMON_PARAM, PLANNING_NEAREST_SEARCH_PARAM, BEHAVIOR_PATH_PLANNER_PARAM,
        BEHAVIOR_PATH_PLANNER_DRIVABLE_AREA_PARAM, BEHAVIOR_PATH_PLANNER_SCENE_MANAGER_PARAM,
        BEHAVIOR_PATH_PLANNER_SIDE_SHIFT_PARAM, BEHAVIOR_PATH_PLANNER_AVOIDANCE_PARAM,
        BEHAVIOR_PATH_PLANNER_AVOIDANCE_BY_LC_PARAM,
        BEHAVIOR_PATH_PLANNER_DYNAMIC_AVOIDANCE_PARAM,
        BEHAVIOR_PATH_PLANNER_LANE_CHANGE_PARAM, BEHAVIOR_PATH_PLANNER_GOAL_PLANNER_PARAM,
        BEHAVIOR_PATH_PLANNER_START_PLANNER_PARAM,
        BEHAVIOR_PATH_PLANNER_BIDIRECTIONAL_TRAFFIC_PARAM,
        BEHAVIOR_PATH_PLANNER_SAMPLING_PARAM, VEHICLE_INFO_PARAM],
     pushed = (\<lambda>getenv home. [(''launch_modules'', Param_String_Array [])]),
     cancelled = [''timer_''], with_executor = False,
     period = Some 100, node_calls = [''run'']\<rparr>"

definition behavior_velocity_planner_reactor :: "'d wrapper" where
  "behavior_velocity_planner_reactor =
    \<lparr>source = Several_Files
       [PLANNING_COMMON_PARAM, VEHICLE_INFO_PARAM, PLANNING_NEAREST_SEARCH_PARAM,
        VELOCITY_SMOOTHER_PARAM, VELOCITY_SMOOTHER_ALGORITHM_PARAM,
        BEHAVIOR_VELOCITY_PLANNER_COMMON_PARAM, BEHAVIOR_VELOCITY_PLANNER_PARAM,
        BEHAVIOR_VELOCITY_PLANNER_BLIND_SPOT_PARAM, BEHAVIOR_VELOCITY_PLANNER_CROSSWALK_PARAM,
        BEHAVIOR_VELOCITY_PLANNER_WALKWAY_PARAM,
        BEHAVIOR_VELOCITY_PLANNER_DETECTION_AREA_PARAM,
        BEHAVIOR_VELOCITY_PLANNER_INTERSECTION_PARAM,
        BEHAVIOR_VELOCITY_PLANNER_ROUNDABOUT_PARAM, BEHAVIOR_VELOCITY_PLANNER_STOP_LINE_PARAM,
        BEHAVIOR_VELOCITY_PLANNER_TRAFFIC_LIGHT_PARAM,
        BEHAVIOR_VELOCITY_PLANNER_VIRTUAL_TRAFFIC_LIGHT_PARAM,
        BEHAVIOR_VELOCITY_PLANNER_OCCLUSION_SPOT_PARAM,
        BEHAVIOR_VELOCITY_PLANNER_NO_STOPPING_AREA_PARAM,
        BEHAVIOR_VELOCITY_PLANNER_SPEED_BUMP_PARAM,
        BEHAVIOR_VELOCITY_PLANNER_NO_DRIVABLE_LANE_PARAM],
     pushed = (\<lambda>getenv home. [(''launch_modules'', Param_String_Array
          [''autoware::behavior_velocity_planner::experimental::CrosswalkModulePlugin'',
           ''autoware::behavior_velocity_planner::experimental::WalkwayModulePlugin'',
           ''autoware::behavior_velocity_planner::experimental::TrafficLightModulePlugin'',
           ''autoware::behavior_velocity_planner::experimental::IntersectionModulePlugin'',
           ''autoware::behavior_velocity_planner::experimental::RoundaboutModulePlugin'',
           ''autoware::behavior_velocity_planner::experimental::MergeFromPrivateModulePlugin'',
           ''autoware::behavior_velocity_planner::experimental::BlindSpotModulePlugin'',
           ''autoware::behavior_velocity_planner::experimental::DetectionAreaModulePlugin'',
           ''autoware::behavior_velocity_planner::experimental::VirtualTrafficLightModulePlugin'',
           ''autoware::behavior_velocity_planner::experimental::NoStoppingAreaModulePlugin'',
           ''autoware::behavior_velocity_planner::experimental::StopLineModulePlugin'',
           ''autoware::behavior_velocity_planner::experimental::OcclusionSpotModulePlugin'',
           ''autoware::behavior_velocity_planner::experimental::SpeedBumpModulePlugin'',
           ''autoware::behavior_velocity_planner::experimental::NoDrivableLaneModulePlugin'',
           '''']),
        (''enable_all_modules_auto_mode'', Param_Bool False),
        (''is_simulation'', Param_Bool False)]),
     cancelled = [], with_executor = False,
     period = None, node_calls = []\<rparr>"

definition camera_lidar_fusion_reactor :: "'d wrapper" where
  "camera_lidar_fusion_reactor =
    \<lparr>source = Several_Files
       [ROI_CLUSTER_FUSION_PARAM, FUSION_COMMON_PARAM],
     pushed = (\<lambda>getenv home. [(''rois_number'', Param_Integer 1)]),
     cancelled = [], with_executor = False,
     period = None, node_calls = []\<rparr>"

definition collision_detector_reactor :: "'d wrapper" where
  "collision_detector_reactor =
    \<lparr>source = Several_Files
       [COLLISION_DETECTOR_PARAM, VEHICLE_INFO_PARAM],
     pushed = (\<lambda>getenv home. []),
     cancelled = [], with_executor = False,
     period = None, node_calls = []\<rparr>"

definition component_state_monitor_reactor :: "'d wrapper" where
  "component_state_monitor_reactor =
    \<lparr>source = One_File COMPONENT_STATE_MONITOR_PARAM,
     pushed = (\<lambda>getenv home. []),
     cancelled = [''timer_''], with_executor = False,
     period = Some 1000, node_calls = [''on_timer'']\<rparr>"

definition control_validator_reactor :: "'d wrapper" where
  "control_validator_reactor =
    \<lparr>source = One_File CONTROL_VALIDATOR_PARAM,
     pushed = (\<lambda>getenv home. []),
     cancelled = [], with_executor = False,
     period = None, node_calls = []\<rparr>"

definition costmap_generator_reactor :: "'d wrapper" where
  "costmap_generator_reactor =
    \<lparr>source = Several_Files
       [COSTMAP_GENERATOR_PARAM, VEHICLE_INFO_PARAM],
     pushed = (\<lambda>getenv home. []),
     cancelled = [''timer_''], with_executor = False,
     period = Some 200, node_calls = [''onTimer'']\<rparr>"

definition crop_box_filter_reactor :: "'d wrapper" where
  "crop_box_filter_reactor =
    \<lparr>source = Several_Files
       [CROP_BOX_FILTER_PARAM, VEHICLE_INFO_PARAM],
     pushed = (\<lambda>getenv home. []),
     cancelled = [], with_executor = False,
     period = None, node_calls = []\<rparr>"

definition crop_box_filter_mirror_reactor :: "'d wrapper" where
  "crop_box_filter_mirror_reactor =
    \<lparr>source = Several_Files
       [CROP_BOX_FILTER_PARAM, MIRROR_PARAM, VEHICLE_INFO_PARAM],
     pushed = (\<lambda>getenv home. []),
     cancelled = [], with_executor = False,
     period = None, node_calls = []\<rparr>"

definition crosswalk_traffic_light_estimator_reactor :: "'d wrapper" where
  "crosswalk_traffic_light_estimator_reactor =
    \<lparr>source = One_File CROSSWALK_TRAFFIC_LIGHT_ESTIMATOR_PARAM,
     pushed = (\<lambda>getenv home. []),
     cancelled = [], with_executor = False,
     period = None, node_calls = []\<rparr>"

definition detection_by_tracker_reactor :: "'d wrapper" where
  "detection_by_tracker_reactor =
    \<lparr>source = One_File DETECTION_BY_TRACKER_PARAM,
     pushed = (\<lambda>getenv home. []),
     cancelled = [], with_executor = False,
     period = None, node_calls = []\<rparr>"

definition diagnostic_aggregator_reactor :: "'d wrapper" where
  "diagnostic_aggregator_reactor =
    \<lparr>source = One_File DIAGNOSTIC_AGGREGATOR_PARAM,
     pushed = (\<lambda>getenv home. [(''graph_file'', Param_String (home @ ''/'' @ DIAGNOSTIC_AGGREGATOR_GRAPH_PARAM))]),
     cancelled = [], with_executor = False,
     period = None, node_calls = []\<rparr>"

definition duplicated_node_checker_reactor :: "'d wrapper" where
  "duplicated_node_checker_reactor =
    \<lparr>source = One_File DUPLICATED_NODE_CHECKER_PARAM,
     pushed = (\<lambda>getenv home. []),
     cancelled = [''timer_''], with_executor = False,
     period = Some 1000, node_calls = [''onTimer'']\<rparr>"

definition ekf_localizer_reactor :: "'d wrapper" where
  "ekf_localizer_reactor =
    \<lparr>source = One_File EKF_LOCALIZER_PARAM,
     pushed = (\<lambda>getenv home. []),
     cancelled = [], with_executor = False,
     period = None, node_calls = []\<rparr>"

definition euclidean_cluster_reactor :: "'d wrapper" where
  "euclidean_cluster_reactor =
    \<lparr>source = One_File EUCLIDEAN_CLUSTER_PARAM,
     pushed = (\<lambda>getenv home. []),
     cancelled = [], with_executor = False,
     period = None, node_calls = []\<rparr>"

definition external_cmd_selector_reactor :: "'d wrapper" where
  "external_cmd_selector_reactor =
    \<lparr>source = One_File EXTERNAL_CMD_SELECTOR_PARAM,
     pushed = (\<lambda>getenv home. []),
     cancelled = [''timer_''], with_executor = False,
     period = Some 100, node_calls = [''on_timer'']\<rparr>"

definition external_velocity_limit_selector_reactor :: "'d wrapper" where
  "external_velocity_limit_selector_reactor =
    \<lparr>source = Several_Files
       [EXTERNAL_VELOCITY_LIMIT_SELECTOR_COMMON_PARAM, EXTERNAL_VELOCITY_LIMIT_SELECTOR_PARAM],
     pushed = (\<lambda>getenv home. []),
     cancelled = [], with_executor = False,
     period = None, node_calls = []\<rparr>"

definition freespace_planner_reactor :: "'d wrapper" where
  "freespace_planner_reactor =
    \<lparr>source = Several_Files
       [FREESPACE_PLANNER_PARAM, VEHICLE_INFO_PARAM],
     pushed = (\<lambda>getenv home. []),
     cancelled = [''timer_''], with_executor = False,
     period = Some 100, node_calls = [''onTimer'']\<rparr>"

definition ground_segmentation_reactor :: "'d wrapper" where
  "ground_segmentation_reactor =
    \<lparr>source = Several_Files
       [SCAN_GROUND_FILTER_PARAM, VEHICLE_INFO_PARAM],
     pushed = (\<lambda>getenv home. []),
     cancelled = [], with_executor = False,
     period = None, node_calls = []\<rparr>"

definition gyro_odometer_reactor :: "'d wrapper" where
  "gyro_odometer_reactor =
    \<lparr>source = One_File GYRO_ODOMETER_PARAM,
     pushed = (\<lambda>getenv home. []),
     cancelled = [], with_executor = False,
     period = None, node_calls = []\<rparr>"

definition hazard_status_converter_reactor :: "'d wrapper" where
  "hazard_status_converter_reactor =
    \<lparr>source = One_File HAZARD_STATUS_CONVERTER_PARAM,
     pushed = (\<lambda>getenv home. []),
     cancelled = [], with_executor = False,
     period = None, node_calls = []\<rparr>"

definition image_decompressor_reactor :: "'d wrapper" where
  "image_decompressor_reactor =
    \<lparr>source = One_File IMAGE_DECOMPRESSOR_PARAM,
     pushed = (\<lambda>getenv home. []),
     cancelled = [], with_executor = False,
     period = None, node_calls = []\<rparr>"

definition imu_corrector_reactor :: "'d wrapper" where
  "imu_corrector_reactor =
    \<lparr>source = One_File IMU_CORRECTOR_PARAM,
     pushed = (\<lambda>getenv home. []),
     cancelled = [], with_executor = False,
     period = None, node_calls = []\<rparr>"

definition lane_departure_checker_reactor :: "'d wrapper" where
  "lane_departure_checker_reactor =
    \<lparr>source = Several_Files
       [LANE_DEPARTURE_CHECKER_PARAM, CONTROL_NEAREST_SEARCH_PARAM, VEHICLE_INFO_PARAM],
     pushed = (\<lambda>getenv home. []),
     cancelled = [], with_executor = False,
     period = None, node_calls = []\<rparr>"

definition lanelet2_map_loader_reactor :: "'d wrapper" where
  "lanelet2_map_loader_reactor =
    \<lparr>source = One_File LANELET2_MAP_LOADER_PARAM,
     pushed = (\<lambda>getenv home. []),
     cancelled = [], with_executor = False,
     period = None, node_calls = []\<rparr>"

definition localization_error_monitor_reactor :: "'d wrapper" where
  "localization_error_monitor_reactor =
    \<lparr>source = One_File LOCALIZATION_ERROR_MONITOR_PARAM,
     pushed = (\<lambda>getenv home. []),
     cancelled = [], with_executor = False,
     period = None, node_calls = []\<rparr>"

definition map_based_prediction_reactor :: "'d wrapper" where
  "map_based_prediction_reactor =
    \<lparr>source = One_File MAP_BASED_PREDICTION_PARAM,
     pushed = (\<lambda>getenv home. []),
     cancelled = [], with_executor = False,
     period = None, node_calls = []\<rparr>"

definition map_projection_loader_reactor :: "'d wrapper" where
  "map_projection_loader_reactor =
    \<lparr>source = One_File MAP_PROJECTION_LOADER_PARAM,
     pushed = (\<lambda>getenv home. [(''lanelet2_map_path'', Param_String (get_default_map_path getenv @ ''/lanelet2_map.osm''))]),
     cancelled = [], with_executor = False,
     period = None, node_calls = []\<rparr>"

definition mission_planner_reactor :: "'d wrapper" where
  "mission_planner_reactor =
    \<lparr>source = Several_Files
       [MISSION_PLANNER_DEFAULT_PARAM, MISSION_PLANNER_PARAM, VEHICLE_INFO_PARAM],
     pushed = (\<lambda>getenv home. []),
     cancelled = [], with_executor = False,
     period = Some 100, node_calls = []\<rparr>"

definition motion_velocity_planner_reactor :: "'d wrapper" where
  "motion_velocity_planner_reactor =
    \<lparr>source = Several_Files
       [PLANNING_COMMON_PARAM, VEHICLE_INFO_PARAM, PLANNING_NEAREST_SEARCH_PARAM,
        VELOCITY_SMOOTHER_PARAM, VELOCITY_SMOOTHER_ALGORITHM_PARAM,
        MOTION_VELOCITY_PLANNER_PARAM, MOTION_VELOCITY_PLANNER_OBSTACLE_STOP_PARAM,
        MOTION_VELOCITY_PLANNER_OBSTACLE_SLOW_DOWN_PARAM,
        MOTION_VELOCITY_PLANNER_OBSTACLE_CRUISE_PARAM,
        MOTION_VELOCITY_PLANNER_DYNAMIC_OBSTACLE_STOP_PARAM,
        MOTION_VELOCITY_PLANNER_OUT_OF_LANE_PARAM,
        MOTION_VELOCITY_PLANNER_OBSTACLE_VELOCITY_LIMITER_PARAM,
        MOTION_VELOCITY_PLANNER_RUN_OUT_PARAM,
        MOTION_VELOCITY_PLANNER_BOUNDARY_DEPARTURE_PREVENTION_PARAM,
        MOTION_VELOCITY_PLANNER_ROAD_USER_STOP_PARAM],
     pushed = (\<lambda>getenv home. [(''launch_modules'', Param_String_Array
          [''autoware::motion_velocity_planner::ObstacleStopModule'',
           ''autoware::motion_velocity_planner::ObstacleSlowDownModule'',
           ''autoware::motion_velocity_planner::ObstacleCruiseModule'',
           ''autoware::motion_velocity_planner::OutOfLaneModule'',
           ''autoware::motion_velocity_planner::ObstacleVelocityLimiterModule'',
           ''autoware::motion_velocity_planner::DynamicObstacleStopModule'',
           ''autoware::motion_velocity_planner::RunOutModule'',
           ''autoware::motion_velocity_planner::experimental::BoundaryDeparturePreventionModule'',
           ''autoware::motion_velocity_planner::RoadUserStopModule'', ''''])]),
     cancelled = [], with_executor = False,
     period = None, node_calls = []\<rparr>"

definition mrm_comfortable_stop_operator_reactor :: "'d wrapper" where
  "mrm_comfortable_stop_operator_reactor =
    \<lparr>source = One_File MRM_COMFORTABLE_STOP_OPERATOR_PARAM,
     pushed = (\<lambda>getenv home. []),
     cancelled = [''timer_''], with_executor = False,
     period = Some 100, node_calls = [''onTimer'']\<rparr>"

definition mrm_emergency_stop_operator_reactor :: "'d wrapper" where
  "mrm_emergency_stop_operator_reactor =
    \<lparr>source = One_File MRM_EMERGENCY_STOP_OPERATOR_PARAM,
     pushed = (\<lambda>getenv home. []),
     cancelled = [''timer_''], with_executor = False,
     period = Some 100, node_calls = [''onTimer'']\<rparr>"

definition mrm_handler_reactor :: "'d wrapper" where
  "mrm_handler_reactor =
    \<lparr>source = One_File MRM_HANDLER_PARAM,
     pushed = (\<lambda>getenv home. []),
     cancelled = [''timer_''], with_executor = True,
     period = Some 100, node_calls = [''onTimer'']\<rparr>"

definition multi_object_tracker_reactor :: "'d wrapper" where
  "multi_object_tracker_reactor =
    \<lparr>source = Several_Files
       [MULTI_OBJECT_TRACKER_PARAM, MULTI_OBJECT_TRACKER_DATA_ASSOCIATION_PARAM,
        MULTI_OBJECT_TRACKER_INPUT_CHANNELS_PARAM],
     pushed = tracker_overrides,
     cancelled = [], with_executor = False,
     period = None, node_calls = []\<rparr>"

definition ndt_scan_matcher_reactor :: "'d wrapper" where
  "ndt_scan_matcher_reactor =
    \<lparr>source = One_File NDT_SCAN_MATCHER_PARAM,
     pushed = (\<lambda>getenv home. []),
     cancelled = [], with_executor = False,
     period = None, node_calls = []\<rparr>"

definition object_filter_reactor :: "'d wrapper" where
  "object_filter_reactor =
    \<lparr>source = One_File OBJECT_LANELET_FILTER_PARAM,
     pushed = (\<lambda>getenv home. []),
     cancelled = [], with_executor = False,
     period = None, node_calls = []\<rparr>"

definition object_range_splitter_reactor :: "'d wrapper" where
  "object_range_splitter_reactor =
    \<lparr>source = One_File OBJECT_RANGE_SPLITTER_PARAM,
     pushed = (\<lambda>getenv home. []),
     cancelled = [], with_executor = False,
     period = None, node_calls = []\<rparr>"

definition object_validator_reactor :: "'d wrapper" where
  "object_validator_reactor =
    \<lparr>source = One_File OBSTACLE_POINTCLOUD_VALIDATOR_PARAM,
     pushed = (\<lambda>getenv home. []),
     cancelled = [], with_executor = False,
     period = None, node_calls = []\<rparr>"

definition obstacle_collision_checker_reactor :: "'d wrapper" where
  "obstacle_collision_checker_reactor =
    \<lparr>source = Several_Files
       [OBSTACLE_COLLISION_CHECKER_PARAM, VEHICLE_INFO_PARAM],
     pushed = (\<lambda>getenv home. []),
     cancelled = [''timer_''], with_executor = False,
     period = Some 100, node_calls = [''on_timer'']\<rparr>"

definition occupancy_grid_map_reactor :: "'d wrapper" where
  "occupancy_grid_map_reactor =
    \<lparr>source = Several_Files
       [OCCUPANCY_GRID_MAP_PARAM, OCCUPANCY_GRID_MAP_UPDATER_PARAM],
     pushed = (\<lambda>getenv home. [(''updater_type'', Param_String ''binary_bayes_filter'')]),
     cancelled = [], with_executor = False,
     period = None, node_calls = []\<rparr>"

definition occupancy_grid_map_outlier_filter_reactor :: "'d wrapper" where
  "occupancy_grid_map_outlier_filter_reactor =
    \<lparr>source = One_File OCCUPANCY_GRID_MAP_OUTLIER_FILTER_PARAM,
     pushed = (\<lambda>getenv home. []),
     cancelled = [], with_executor = False,
     period = None, node_calls = []\<rparr>"

definition operation_mode_transition_manager_reactor :: "'d wrapper" where
  "operation_mode_transition_manager_reactor =
    \<lparr>source = Several_Files
       [OPERATION_MODE_TRANSITION_MANAGER_PARAM, CONTROL_NEAREST_SEARCH_PARAM,
        VEHICLE_INFO_PARAM],
     pushed = (\<lambda>getenv home. []),
     cancelled = [], with_executor = False,
     period = None, node_calls = []\<rparr>"

definition passthrough_filter_reactor :: "'d wrapper" where
  "passthrough_filter_reactor =
    \<lparr>source = One_File PASSTHROUGH_FILTER_PARAM,
     pushed = (\<lambda>getenv home. []),
     cancelled = [], with_executor = False,
     period = None, node_calls = []\<rparr>"

definition path_generator_reactor :: "'d wrapper" where
  "path_generator_reactor =
    \<lparr>source = Several_Files
       [PATH_GENERATOR_PARAM, VEHICLE_INFO_PARAM],
     pushed = (\<lambda>getenv home. []),
     cancelled = [''timer_''], with_executor = False,
     period = Some 100, node_calls = [''run'']\<rparr>"

definition path_optimizer_reactor :: "'d wrapper" where
  "path_optimizer_reactor =
    \<lparr>source = Several_Files
       [PATH_OPTIMIZER_PARAM, PLANNING_COMMON_PARAM, VEHICLE_INFO_PARAM,
        PLANNING_NEAREST_SEARCH_PARAM],
     pushed = (\<lambda>getenv home. []),
     cancelled = [], with_executor = False,
     period = None, node_calls = []\<rparr>"

definition path_sampler_reactor :: "'d wrapper" where
  "path_sampler_reactor =
    \<lparr>source = Several_Files
       [PATH_SAMPLER_PARAM, VEHICLE_INFO_PARAM],
     pushed = (\<lambda>getenv home. []),
     cancelled = [], with_executor = False,
     period = None, node_calls = []\<rparr>"

definition path_smoother_reactor :: "'d wrapper" where
  "path_smoother_reactor =
    \<lparr>source = Several_Files
       [PATH_SMOOTHER_PARAM, PLANNING_COMMON_PARAM, VEHICLE_INFO_PARAM,
        PLANNING_NEAREST_SEARCH_PARAM],
     pushed = (\<lambda>getenv home. []),
     cancelled = [], with_executor = False,
     period = None, node_calls = []\<rparr>"

definition pipeline_latency_monitor_reactor :: "'d wrapper" where
  "pipeline_latency_monitor_reactor =
    \<lparr>source = One_File PIPELINE_LATENCY_MONITOR_PARAM,
     pushed = (\<lambda>getenv home. []),
     cancelled = [''timer_''], with_executor = False,
     period = Some 1000, node_calls = [''on_timer'']\<rparr>"

definition planning_validator_reactor :: "'d wrapper" where
  "planning_validator_reactor =
    \<lparr>source = Several_Files
       [PLANNING_VALIDATOR_PARAM, PLANNING_VALIDATOR_LATENCY_CHECKER_PARAM,
        PLANNING_VALIDATOR_TRAJECTORY_CHECKER_PARAM,
        PLANNING_VALIDATOR_INTERSECTION_COLLISION_CHECKER_PARAM,
        PLANNING_VALIDATOR_REAR_COLLISION_CHECKER_PARAM, VEHICLE_INFO_PARAM],
     pushed = (\<lambda>getenv home. [(''launch_modules'', Param_String_Array
          [''autoware::planning_validator::LatencyChecker'',
           ''autoware::planning_validator::TrajectoryChecker'',
           ''autoware::planning_validator::IntersectionCollisionChecker'',
           ''autoware::planning_validator::RearCollisionChecker'', ''''])]),
     cancelled = [], with_executor = False,
     period = None, node_calls = []\<rparr>"

definition pointcloud_concatenator_reactor :: "'d wrapper" where
  "pointcloud_concatenator_reactor =
    \<lparr>source = One_File POINTCLOUD_CONCATENATOR_PARAM,
     pushed = (\<lambda>getenv home. []),
     cancelled = [], with_executor = False,
     period = None, node_calls = []\<rparr>"

definition pointcloud_downsampling_reactor :: "'d wrapper" where
  "pointcloud_downsampling_reactor =
    \<lparr>source = One_File POINTCLOUD_DOWNSAMPLING_PARAM,
     pushed = (\<lambda>getenv home. []),
     cancelled = [], with_executor = False,
     period = None, node_calls = []\<rparr>"

definition pointcloud_map_filter_reactor :: "'d wrapper" where
  "pointcloud_map_filter_reactor =
    \<lparr>source = One_File COMPARE_MAP_FILTER_PARAM,
     pushed = (\<lambda>getenv home. []),
     cancelled = [], with_executor = False,
     period = None, node_calls = []\<rparr>"

definition pose_initializer_reactor :: "'d wrapper" where
  "pose_initializer_reactor =
    \<lparr>source = One_File POSE_INITIALIZER_PARAM,
     pushed = (\<lambda>getenv home. [(''gnss_enabled'', Param_Bool False),
        (''yabloc_enabled'', Param_Bool False),
        (''ndt_enabled'', Param_Bool True),
        (''ekf_enabled'', Param_Bool True)]),
     cancelled = [], with_executor = True,
     period = None, node_calls = []\<rparr>"

definition pose_instability_detector_reactor :: "'d wrapper" where
  "pose_instability_detector_reactor =
    \<lparr>source = One_File POSE_INSTABILITY_DETECTOR_PARAM,
     pushed = (\<lambda>getenv home. []),
     cancelled = [''timer_''], with_executor = False,
     period = Some 100, node_calls = [''callback_timer'']\<rparr>"

definition predicted_path_checker_reactor :: "'d wrapper" where
  "predicted_path_checker_reactor =
    \<lparr>source = Several_Files
       [PREDICTED_PATH_CHECKER_PARAM, VEHICLE_INFO_PARAM],
     pushed = (\<lambda>getenv home. []),
     cancelled = [''timer_''], with_executor = False,
     period = Some 100, node_calls = [''onTimer'']\<rparr>"

definition processing_time_checker_reactor :: "'d wrapper" where
  "processing_time_checker_reactor =
    \<lparr>source = One_File PROCESSING_TIME_CHECKER_PARAM,
     pushed = (\<lambda>getenv home. []),
     cancelled = [''timer_''], with_executor = False,
     period = Some 1000, node_calls = [''on_timer'']\<rparr>"

definition random_downsample_filter_reactor :: "'d wrapper" where
  "random_downsample_filter_reactor =
    \<lparr>source = One_File RANDOM_DOWNSAMPLE_FILTER_PARAM,
     pushed = (\<lambda>getenv home. []),
     cancelled = [], with_executor = False,
     period = None, node_calls = []\<rparr>"

definition scenario_selector_reactor :: "'d wrapper" where
  "scenario_selector_reactor =
    \<lparr>source = One_File SCENARIO_SELECTOR_PARAM,
     pushed = (\<lambda>getenv home. []),
     cancelled = [''timer_''], with_executor = False,
     period = Some 100, node_calls = [''onTimer'']\<rparr>"

definition shift_decider_reactor :: "'d wrapper" where
  "shift_decider_reactor =
    \<lparr>source = One_File SHIFT_DECIDER_PARAM,
     pushed = (\<lambda>getenv home. []),
     cancelled = [''timer_''], with_executor = False,
     period = Some 100, node_calls = [''onTimer'']\<rparr>"

definition simple_object_merger_reactor :: "'d wrapper" where
  "simple_object_merger_reactor =
    \<lparr>source = One_File SIMPLE_OBJECT_MERGER_PARAM,
     pushed = (\<lambda>getenv home. []),
     cancelled = [], with_executor = False,
     period = None, node_calls = []\<rparr>"

definition stop_filter_reactor :: "'d wrapper" where
  "stop_filter_reactor =
    \<lparr>source = One_File STOP_FILTER_PARAM,
     pushed = (\<lambda>getenv home. []),
     cancelled = [], with_executor = False,
     period = None, node_calls = []\<rparr>"

definition surround_obstacle_checker_reactor :: "'d wrapper" where
  "surround_obstacle_checker_reactor =
    \<lparr>source = Several_Files
       [SURROUND_OBSTACLE_CHECKER_PARAM, PLANNING_COMMON_PARAM, VEHICLE_INFO_PARAM,
        PLANNING_NEAREST_SEARCH_PARAM],
     pushed = (\<lambda>getenv home. []),
     cancelled = [], with_executor = False,
     period = None, node_calls = []\<rparr>"

definition tensorrt_yolox_reactor :: "'d wrapper" where
  "tensorrt_yolox_reactor =
    \<lparr>source = One_File TENSORRT_YOLOX_PARAM,
     pushed = (\<lambda>getenv home. []),
     cancelled = [], with_executor = False,
     period = None, node_calls = []\<rparr>"

definition traffic_light_arbiter_reactor :: "'d wrapper" where
  "traffic_light_arbiter_reactor =
    \<lparr>source = One_File TRAFFIC_LIGHT_ARBITER_PARAM,
     pushed = (\<lambda>getenv home. []),
     cancelled = [], with_executor = False,
     period = None, node_calls = []\<rparr>"

definition traffic_light_category_merger_reactor :: "'d wrapper" where
  "traffic_light_category_merger_reactor =
    \<lparr>source = No_File,
     pushed = (\<lambda>getenv home. []),
     cancelled = [], with_executor = False,
     period = None, node_calls = []\<rparr>"

definition traffic_light_classifier_reactor :: "'d wrapper" where
  "traffic_light_classifier_reactor =
    \<lparr>source = One_File TRAFFIC_LIGHT_CLASSIFIER_PARAM,
     pushed = (\<lambda>getenv home. [(''label_path'', Param_String (get_default_data_path getenv @ ''/traffic_light_classifier/lamp_labels.txt'')),
        (''model_path'', Param_String (get_default_data_path getenv @ ''/traffic_light_classifier/traffic_light_classifier_mobilenetv2_batch_6.onnx''))]),
     cancelled = [], with_executor = False,
     period = None, node_calls = []\<rparr>"

definition traffic_light_fine_detector_reactor :: "'d wrapper" where
  "traffic_light_fine_detector_reactor =
    \<lparr>source = One_File TRAFFIC_LIGHT_FINE_DETECTOR_PARAM,
     pushed = (\<lambda>getenv home. []),
     cancelled = [], with_executor = False,
     period = None, node_calls = []\<rparr>"

definition traffic_light_map_based_detector_reactor :: "'d wrapper" where
  "traffic_light_map_based_detector_reactor =
    \<lparr>source = One_File TRAFFIC_LIGHT_MAP_BASED_DETECTOR_PARAM,
     pushed = (\<lambda>getenv home. []),
     cancelled = [], with_executor = False,
     period = None, node_calls = []\<rparr>"

definition traffic_light_occlusion_predictor_reactor :: "'d wrapper" where
  "traffic_light_occlusion_predictor_reactor =
    \<lparr>source = One_File TRAFFIC_LIGHT_OCCLUSION_PREDICTOR_PARAM,
     pushed = (\<lambda>getenv home. []),
     cancelled = [], with_executor = False,
     period = None, node_calls = []\<rparr>"

definition traffic_light_selector_reactor :: "'d wrapper" where
  "traffic_light_selector_reactor =
    \<lparr>source = No_File,
     pushed = (\<lambda>getenv home. []),
     cancelled = [], with_executor = False,
     period = None, node_calls = []\<rparr>"

definition trajectory_follower_reactor :: "'d wrapper" where
  "trajectory_follower_reactor =
    \<lparr>source = Several_Files
       [CONTROL_NEAREST_SEARCH_PARAM, TRAJECTORY_FOLLOWER_PARAM, MPC_LATERAL_PARAM,
        PID_LONGITUDINAL_PARAM, VEHICLE_INFO_PARAM],
     pushed = (\<lambda>getenv home. [(''lateral_controller_mode'', Param_String ''mpc''),
        (''longitudinal_controller_mode'', Param_String ''pid'')]),
     cancelled = [''timer_control_''], with_executor = False,
     period = Some 30, node_calls = [''callbackTimerControl'']\<rparr>"

definition vehicle_cmd_gate_reactor :: "'d wrapper" where
  "vehicle_cmd_gate_reactor =
    \<lparr>source = Several_Files
       [VEHICLE_CMD_GATE_PARAM, VEHICLE_INFO_PARAM],
     pushed = (\<lambda>getenv home. [(''check_external_emergency_heartbeat'', Param_Bool False),
        (''is_simulation'', Param_Bool True)]),
     cancelled = [''timer_'', ''timer_pub_status_''], with_executor = False,
     period = Some 50, node_calls = [''onTimer'', ''publishStatus'']\<rparr>"

definition vehicle_velocity_converter_reactor :: "'d wrapper" where
  "vehicle_velocity_converter_reactor =
    \<lparr>source = One_File VEHICLE_VELOCITY_CONVERTER_PARAM,
     pushed = (\<lambda>getenv home. []),
     cancelled = [], with_executor = False,
     period = None, node_calls = []\<rparr>"

definition velocity_smoother_reactor :: "'d wrapper" where
  "velocity_smoother_reactor =
    \<lparr>source = Several_Files
       [VELOCITY_SMOOTHER_COMMON_PARAM, PLANNING_NEAREST_SEARCH_PARAM,
        VELOCITY_SMOOTHER_PARAM, VELOCITY_SMOOTHER_ALGORITHM_PARAM, VEHICLE_INFO_PARAM],
     pushed = (\<lambda>getenv home. [(''algorithm_type'', Param_String ''Analytical''),
        (''publish_debug_trajs'', Param_Bool False)]),
     cancelled = [], with_executor = False,
     period = None, node_calls = []\<rparr>"

definition voxel_grid_outlier_filter_reactor :: "'d wrapper" where
  "voxel_grid_outlier_filter_reactor =
    \<lparr>source = One_File VOXEL_GRID_OUTLIER_FILTER_PARAM,
     pushed = (\<lambda>getenv home. []),
     cancelled = [], with_executor = False,
     period = None, node_calls = []\<rparr>"

definition wrappers :: "'d wrapper list" where
  "wrappers =
    [approximate_downsample_filter_reactor, automatic_pose_initializer_reactor,
     autonomous_emergency_braking_reactor, behavior_path_planner_reactor,
     behavior_velocity_planner_reactor, camera_lidar_fusion_reactor,
     collision_detector_reactor, component_state_monitor_reactor, control_validator_reactor,
     costmap_generator_reactor, crop_box_filter_reactor, crop_box_filter_mirror_reactor,
     crosswalk_traffic_light_estimator_reactor, detection_by_tracker_reactor,
     diagnostic_aggregator_reactor, duplicated_node_checker_reactor, ekf_localizer_reactor,
     euclidean_cluster_reactor, external_cmd_selector_reactor,
     external_velocity_limit_selector_reactor, freespace_planner_reactor,
     ground_segmentation_reactor, gyro_odometer_reactor, hazard_status_converter_reactor,
     image_decompressor_reactor, imu_corrector_reactor, lane_departure_checker_reactor,
     lanelet2_map_loader_reactor, localization_error_monitor_reactor,
     map_based_prediction_reactor, map_projection_loader_reactor, mission_planner_reactor,
     motion_velocity_planner_reactor, mrm_comfortable_stop_operator_reactor,
     mrm_emergency_stop_operator_reactor, mrm_handler_reactor, multi_object_tracker_reactor,
     ndt_scan_matcher_reactor, object_filter_reactor, object_range_splitter_reactor,
     object_validator_reactor, obstacle_collision_checker_reactor, occupancy_grid_map_reactor,
     occupancy_grid_map_outlier_filter_reactor, operation_mode_transition_manager_reactor,
     passthrough_filter_reactor, path_generator_reactor, path_optimizer_reactor,
     path_sampler_reactor, path_smoother_reactor, pipeline_latency_monitor_reactor,
     planning_validator_reactor, pointcloud_concatenator_reactor,
     pointcloud_downsampling_reactor, pointcloud_map_filter_reactor, pose_initializer_reactor,
     pose_instability_detector_reactor, predicted_path_checker_reactor,
     processing_time_checker_reactor, random_downsample_filter_reactor,
     scenario_selector_reactor, shift_decider_reactor, simple_object_merger_reactor,
     stop_filter_reactor, surround_obstacle_checker_reactor, tensorrt_yolox_reactor,
     traffic_light_arbiter_reactor, traffic_light_category_merger_reactor,
     traffic_light_classifier_reactor, traffic_light_fine_detector_reactor,
     traffic_light_map_based_detector_reactor, traffic_light_occlusion_predictor_reactor,
     traffic_light_selector_reactor, trajectory_follower_reactor, vehicle_cmd_gate_reactor,
     vehicle_velocity_converter_reactor, velocity_smoother_reactor,
     voxel_grid_outlier_filter_reactor]"

lemmas wrapper_defs =
  approximate_downsample_filter_reactor_def automatic_pose_initializer_reactor_def
  autonomous_emergency_braking_reactor_def behavior_path_planner_reactor_def
  behavior_velocity_planner_reactor_def camera_lidar_fusion_reactor_def
  collision_detector_reactor_def component_state_monitor_reactor_def
  control_validator_reactor_def costmap_generator_reactor_def crop_box_filter_reactor_def
  crop_box_filter_mirror_reactor_def crosswalk_traffic_light_estimator_reactor_def
  detection_by_tracker_reactor_def diagnostic_aggregator_reactor_def
  duplicated_node_checker_reactor_def ekf_localizer_reactor_def euclidean_cluster_reactor_def
  external_cmd_selector_reactor_def external_velocity_limit_selector_reactor_def
  freespace_planner_reactor_def ground_segmentation_reactor_def gyro_odometer_reactor_def
  hazard_status_converter_reactor_def image_decompressor_reactor_def imu_corrector_reactor_def
  lane_departure_checker_reactor_def lanelet2_map_loader_reactor_def
  localization_error_monitor_reactor_def map_based_prediction_reactor_def
  map_projection_loader_reactor_def mission_planner_reactor_def
  motion_velocity_planner_reactor_def mrm_comfortable_stop_operator_reactor_def
  mrm_emergency_stop_operator_reactor_def mrm_handler_reactor_def
  multi_object_tracker_reactor_def ndt_scan_matcher_reactor_def object_filter_reactor_def
  object_range_splitter_reactor_def object_validator_reactor_def
  obstacle_collision_checker_reactor_def occupancy_grid_map_reactor_def
  occupancy_grid_map_outlier_filter_reactor_def operation_mode_transition_manager_reactor_def
  passthrough_filter_reactor_def path_generator_reactor_def path_optimizer_reactor_def
  path_sampler_reactor_def path_smoother_reactor_def pipeline_latency_monitor_reactor_def
  planning_validator_reactor_def pointcloud_concatenator_reactor_def
  pointcloud_downsampling_reactor_def pointcloud_map_filter_reactor_def
  pose_initializer_reactor_def pose_instability_detector_reactor_def
  predicted_path_checker_reactor_def processing_time_checker_reactor_def
  random_downsample_filter_reactor_def scenario_selector_reactor_def shift_decider_reactor_def
  simple_object_merger_reactor_def stop_filter_reactor_def
  surround_obstacle_checker_reactor_def tensorrt_yolox_reactor_def
  traffic_light_arbiter_reactor_def traffic_light_category_merger_reactor_def
  traffic_light_classifier_reactor_def traffic_light_fine_detector_reactor_def
  traffic_light_map_based_detector_reactor_def traffic_light_occlusion_predictor_reactor_def
  traffic_light_selector_reactor_def trajectory_follower_reactor_def
  vehicle_cmd_gate_reactor_def vehicle_velocity_converter_reactor_def
  velocity_smoother_reactor_def voxel_grid_outlier_filter_reactor_def

section \<open>What every wrapper does\<close>

text \<open>The paths a wrapper loads, and when it insists on one that cannot be read.\<close>

fun param_paths :: "string \<Rightarrow> parameter_source \<Rightarrow> string list" where
  "param_paths home No_File = []"
| "param_paths home (One_File file) = [home @ ''/'' @ file]"
| "param_paths home (Several_Files fs) = map (\<lambda>file. home @ ''/'' @ file) fs"

fun fatal :: "(string \<Rightarrow> 'd param_map option) \<Rightarrow> host \<Rightarrow> string \<Rightarrow> parameter_source \<Rightarrow> bool" where
  "fatal parse h home (One_File file) = (parse_file parse h (home @ ''/'' @ file) = None)"
| "fatal parse h home _ = False"

fun params_arguments :: "(string \<Rightarrow> 'd param_map option) \<Rightarrow> host \<Rightarrow> string \<Rightarrow> parameter_source \<Rightarrow> string list" where
  "params_arguments parse h home No_File = []"
| "params_arguments parse h home src = ''--ros-args'' #
     concat (map (\<lambda>path. [''--params-file'', path])
       (filter (\<lambda>path. parse_file parse h path \<noteq> None) (param_paths home src)))"

lemma foldl_push:
  "foldl (\<lambda>opts p. push_override p opts) opts ps =
   opts\<lparr>parameter_overrides := parameter_overrides opts @ ps\<rparr>"
  by (induction ps arbitrary: opts) (simp_all add: push_override_def)

lemma load_outcome:
  assumes "keyed parse"
  shows "load parse pr home src h =
    (if fatal parse h home src then Inl (Exit_Failure 1)
     else Inr (\<lparr>parameter_overrides = concat (map (global_params parse h) (param_paths home src)),
            arguments = params_arguments parse h home src\<rparr>, h))"
proof (cases src)
  case (Several_Files fs)
  then show ?thesis
    using yamls_global [of parse pr "map (\<lambda>file. home @ ''/'' @ file) fs" h] by (simp add: o_def)
qed (simp_all add: single_file_global [OF assms])

lemma launch_eq:
  assumes "keyed parse" and "source w = No_File \<or> getenv ''LF_AUTOWARE_HOME'' \<noteq> None"
  shows "launch parse pr getenv construct w h =
    (let home = if source w = No_File then [] else the (getenv ''LF_AUTOWARE_HOME'');
         opts = \<lparr>parameter_overrides =
              concat (map (global_params parse h) (param_paths home (source w))) @ pushed w getenv home,
            arguments = params_arguments parse h home (source w)\<rparr> in
     if fatal parse h home (source w) then Inl (Exit_Failure 1)
     else case construct opts of Some e \<Rightarrow> Inl e
       | None \<Rightarrow> Inr (\<lparr>started_with = opts, cancelled_timers = cancelled w, spinning = True\<rparr>, h))"
  using assms(2)
  by (auto simp: launch_def load_outcome [OF assms(1)] get_lf_autoware_home_def Let_def constructed_def foldl_push
      split: option.split)

lemma launch_without_home:
  "source w \<noteq> No_File \<Longrightarrow> getenv ''LF_AUTOWARE_HOME'' = None \<Longrightarrow> launch parse pr getenv construct w h = Inl (Exit_Failure 1)"
  by (simp add: launch_def get_lf_autoware_home_def)

lemma launch_several:
  assumes "source w = Several_Files fs" and "pushed w = (\<lambda>getenv home. extra)"
  shows "launch parse pr getenv (\<lambda>opts. None) w h = starts_with parse getenv h fs extra (cancelled w)"
  using assms yamls_global [of parse pr "map (\<lambda>file. home @ ''/'' @ file) fs" h for home]
  by (simp add: launch_def starts_with_def get_lf_autoware_home_def constructed_def foldl_push o_def Let_def
      split: option.split)

lemma override_of_pushed:
  assumes "distinct (map fst ps)" and "(name, v) \<in> set ps"
  shows "override name \<lparr>parameter_overrides = qs @ ps, arguments = args\<rparr> = Some v"
proof -
  have "map_of (rev ps) name = Some v"
    using assms by (simp add: map_of_is_SomeI rev_map [symmetric])
  then show ?thesis by (simp add: override_pushed)
qed

text \<open>The tracker's channels, evaluated.\<close>

lemma channels:
  "map channel_id [2..<13] =
    [''detection02'', ''detection03'', ''detection04'', ''detection05'', ''detection06'', ''detection07'',
     ''detection08'', ''detection09'', ''detection10'', ''detection11'', ''detection12'']"
  by code_simp

lemma tracker_overrides_eq:
  "tracker_overrides getenv home =
     [(''publish_merged_objects'', Param_Bool False),
      (''input/detection01/channel'', Param_String ''lidar_centerpoint''),
      (''input/detection01/objects'',
        Param_String ''/perception/object_recognition/detection/centerpoint/objects'')] @
     concat (map (\<lambda>id. [(''input/'' @ id @ ''/channel'', Param_String ''none''),
       (''input/'' @ id @ ''/objects'', Param_String ''none'')]) (map channel_id [2..<13]))"
  by (simp add: tracker_overrides_def o_def)

lemma tracker_names: "distinct (map fst (tracker_overrides getenv home))"
  unfolding tracker_overrides_eq channels by simp

lemma pushed_distinct: "w \<in> set wrappers \<Longrightarrow> distinct (map fst (pushed w getenv home))"
  unfolding wrappers_def by (auto simp: wrapper_defs tracker_names)

lemma no_file_pushes_nothing:
  "w \<in> set wrappers \<Longrightarrow> source w = No_File \<Longrightarrow> pushed w getenv home = []"
  unfolding wrappers_def by (auto simp: wrapper_defs)

text \<open>The timer rates of \<open>LAUNCH_README.md\<close>, in milliseconds; \<open>carla_interface\<close> is no node wrapper.\<close>

definition documented_rates :: "('d wrapper \<times> nat) list" where
  "documented_rates =
     [(trajectory_follower_reactor, 30), (vehicle_cmd_gate_reactor, 50),
      (behavior_path_planner_reactor, 100), (mission_planner_reactor, 100),
      (scenario_selector_reactor, 100), (shift_decider_reactor, 100),
      (freespace_planner_reactor, 100), (mrm_handler_reactor, 100),
      (costmap_generator_reactor, 200), (automatic_pose_initializer_reactor, 1000)]"

section \<open>Properties\<close>

text \<open>C4: what a start of a wrapper does, for every wrapper of the table and every environment, file
  system and constructor.  A wrapper that loads files ends the program when \<open>LF_AUTOWARE_HOME\<close> is
  missing, and one that loads a single file also when that file cannot be read; in all other cases
  the node is constructed with the global parameters of its readable files in the order of the
  reaction followed by the pushed overrides, and one \<open>--params-file\<close> argument for each readable
  file, and no file is written; the start ends as the constructor does when that does not return,
  and otherwise with the timers cancelled and the thread spinning.\<close>

theorem launch_outcome:
  assumes "keyed parse" and "w \<in> set wrappers"
  shows "launch parse pr getenv construct w h =
    (let start = (\<lambda>opts. case construct opts of Some e \<Rightarrow> Inl e
          | None \<Rightarrow> Inr (\<lparr>started_with = opts, cancelled_timers = cancelled w, spinning = True\<rparr>, h)) in
     case (source w, getenv ''LF_AUTOWARE_HOME'') of
       (No_File, _) \<Rightarrow> start \<lparr>parameter_overrides = [], arguments = []\<rparr>
     | (_, None) \<Rightarrow> Inl (Exit_Failure 1)
     | (src, Some home) \<Rightarrow>
         if fatal parse h home src then Inl (Exit_Failure 1)
         else start \<lparr>parameter_overrides =
                  concat (map (global_params parse h) (param_paths home src)) @ pushed w getenv home,
                arguments = params_arguments parse h home src\<rparr>)"
proof (cases "source w")
  case No_File
  then show ?thesis
    by (simp add: launch_eq [OF assms(1)] no_file_pushes_nothing [OF assms(2)] Let_def)
next
  case (One_File f)
  then show ?thesis
    by (cases "getenv ''LF_AUTOWARE_HOME''") (simp_all add: launch_without_home launch_eq [OF assms(1)] Let_def
      split: option.split)
next
  case (Several_Files fs)
  then show ?thesis
    by (cases "getenv ''LF_AUTOWARE_HOME''") (simp_all add: launch_without_home launch_eq [OF assms(1)] Let_def
      split: option.split)
qed

theorem launch_outcome_witness:
  "launch (\<lambda>c. Some [(''/**'', [(c, Param_Bool True)])]) sample_printer (\<lambda>v. Some ''/h'')
     (\<lambda>opts. Some Uncaught_Exception) gyro_odometer_reactor sample_host = Inl (Exit_Failure 1)"
proof -
  have "keyed (\<lambda>c. Some [(''/**'', [(c, Param_Bool True :: nat param_value)])])"
    by (simp add: keyed_def)
  moreover have "gyro_odometer_reactor \<in> set wrappers" by (simp add: wrappers_def)
  ultimately show ?thesis
    using launch_outcome [of _ gyro_odometer_reactor sample_printer "\<lambda>v. Some ''/h''"
        "\<lambda>opts. Some Uncaught_Exception" sample_host]
    by (simp add: gyro_odometer_reactor_def parse_file_def sample_host_def GYRO_ODOMETER_PARAM_def)
qed

text \<open>The nine wrappers whose startup reactions are written out statement by statement are
  launched by the table in the same way, when their constructors return.\<close>

theorem launch_agrees_with_reactions:
  "launch parse pr getenv (\<lambda>opts. None) trajectory_follower_reactor h = trajectory_follower_startup parse pr getenv h \<and>
   launch parse pr getenv (\<lambda>opts. None) costmap_generator_reactor h = costmap_generator_startup parse pr getenv h \<and>
   launch parse pr getenv (\<lambda>opts. None) freespace_planner_reactor h = freespace_planner_startup parse pr getenv h \<and>
   launch parse pr getenv (\<lambda>opts. None) behavior_path_planner_reactor h = behavior_path_planner_startup parse pr getenv h \<and>
   launch parse pr getenv (\<lambda>opts. None) vehicle_cmd_gate_reactor h = vehicle_cmd_gate_startup parse pr getenv h \<and>
   launch parse pr getenv (\<lambda>opts. None) velocity_smoother_reactor h = velocity_smoother_startup parse pr getenv h \<and>
   launch parse pr getenv (\<lambda>opts. None) mission_planner_reactor h = mission_planner_startup parse pr getenv h \<and>
   launch parse pr getenv (\<lambda>opts. None) shift_decider_reactor h = shift_decider_startup parse pr getenv h \<and>
   launch parse pr getenv (\<lambda>opts. None) scenario_selector_reactor h = scenario_selector_startup parse pr getenv h"
  apply (intro conjI)
  subgoal by (subst launch_several) (simp_all add: wrapper_defs trajectory_follower_starts)
  subgoal by (subst launch_several) (simp_all add: wrapper_defs costmap_generator_starts)
  subgoal by (subst launch_several) (simp_all add: wrapper_defs freespace_planner_starts)
  subgoal by (subst launch_several) (simp_all add: wrapper_defs behavior_path_planner_starts)
  subgoal by (subst launch_several) (simp_all add: wrapper_defs vehicle_cmd_gate_starts)
  subgoal by (subst launch_several) (simp_all add: wrapper_defs velocity_smoother_starts)
  subgoal by (subst launch_several) (simp_all add: wrapper_defs mission_planner_starts)
  subgoal by (simp add: launch_def shift_decider_startup_def wrapper_defs constructed_def case_prod_beta)
  subgoal by (simp add: launch_def scenario_selector_startup_def wrapper_defs constructed_def case_prod_beta)
  done





end
