(* ===== verification/Special_Wrappers.thy ===== *)
theory Special_Wrappers
  imports Wrapper_Startup
begin

text \<open>
  The startup reactions of another shape: the reactors that put several nodes into one executor
  (\<open>system_monitor\<close>, \<open>default_adapi\<close>, \<open>image_transport_relay\<close>), the one that loads its node from a
  shared library (\<open>map_tf_generator\<close>), the one that runs a command to get its parameter
  (\<open>robot_state_publisher\<close>) and the bridge; and the threads that spin the nodes (\<open>spin_node\<close>,
  \<open>spin_node_with_executor\<close> of \<open>utils.hpp\<close>).

  Arguments of the definitions: the answers of \<open>rclcpp::ok()\<close>, the output of a command, the
  classes of a library.
\<close>

section \<open>Spin threads\<close>

datatype spin_event =
    Add_Node
  | Spin_Some
  | Executor_Spin_Some
  | Sleep
  | Delete_Pointer

text \<open>
  The loop \<open>while (rclcpp::ok())\<close>, where \<open>ok i\<close> is the answer of the call number \<open>i\<close>.  It need not
  end, so its value is an option.
\<close>

partial_function (option) spin_loop ::
    "(nat \<Rightarrow> bool) \<Rightarrow> spin_event list \<Rightarrow> nat \<Rightarrow> spin_event list \<Rightarrow> spin_event list option" where
  "spin_loop ok body i log = (if ok i then spin_loop ok body (Suc i) (log @ body) else Some log)"

definition spin_node :: "(nat \<Rightarrow> bool) \<Rightarrow> spin_event list option" where
  "spin_node ok = map_option (\<lambda>log. log @ [Delete_Pointer]) (spin_loop ok [Spin_Some, Sleep] 0 [])"

definition spin_node_with_executor :: "(nat \<Rightarrow> bool) \<Rightarrow> spin_event list option" where
  "spin_node_with_executor ok =
     map_option (\<lambda>log. log @ [Delete_Pointer]) (spin_loop ok [Executor_Spin_Some] 0 [Add_Node])"

text \<open>The thread of the reactors with an executor of their own.\<close>

definition spin_executor :: "(nat \<Rightarrow> bool) \<Rightarrow> spin_event list option" where
  "spin_executor ok =
     map_option (\<lambda>log. log @ [Delete_Pointer]) (spin_loop ok [Executor_Spin_Some, Sleep] 0 [])"

lemma spin_loop_stops:
  assumes "\<not> ok (i + n)" and "\<And>j. j < n \<Longrightarrow> ok (i + j)"
  shows "spin_loop ok body i log = Some (log @ concat (replicate n body))"
  using assms
proof (induction n arbitrary: i log)
  case 0
  then show ?case by (simp add: spin_loop.simps)
next
  case (Suc n)
  have "ok i" using Suc.prems(2) [of 0] by simp
  moreover have "spin_loop ok body (Suc i) (log @ body) = Some ((log @ body) @ concat (replicate n body))"
  proof (rule Suc.IH)
    show "\<not> ok (Suc i + n)" using Suc.prems(1) by simp
    show "\<And>j. j < n \<Longrightarrow> ok (Suc i + j)" using Suc.prems(2) [of "Suc j" for j] by simp
  qed
  ultimately show ?case by (simp add: spin_loop.simps [of ok body i])
qed

lemma spin_loop_diverges_aux:
  "spin_loop ok body i log = Some r \<Longrightarrow> \<exists>j. \<not> ok j"
proof (rule spin_loop.raw_induct [where P = "\<lambda>ok body i log r. \<exists>j. \<not> ok j"])
  fix loop ok body i log r
  assume "\<And>ok body i log r. loop ok body i log = Some r \<Longrightarrow> \<exists>j. \<not> ok j"
    and "(if ok i then loop ok body (Suc i) (log @ body) else Some log) = Some r"
  then show "\<exists>j. \<not> ok j" by (auto split: if_splits)
qed

lemma spin_loop_diverges: "(\<And>j. ok j) \<Longrightarrow> spin_loop ok body i log = None"
  using spin_loop_diverges_aux [of ok body i log] by (cases "spin_loop ok body i log") auto

section \<open>Executors with several nodes\<close>

text \<open>The class of a node with its options, in the order of \<open>add_node\<close>.\<close>

type_synonym 'd nodes = "(string \<times> 'd node_options) list"

fun create_nodes ::
    "(string \<Rightarrow> 'd param_map option) \<Rightarrow> 'd printer \<Rightarrow> string \<Rightarrow> (string \<times> string) list \<Rightarrow> host \<Rightarrow>
     ('d nodes \<times> host) c_result" where
  "create_nodes parse pr home [] h = Inr ([], h)"
| "create_nodes parse pr home ((node_class, param) # rest) h =
     c_bind (get_node_options_from_yaml parse pr (home @ ''/'' @ param) global_root h) (\<lambda>(opts, h).
     c_bind (create_nodes parse pr home rest h) (\<lambda>(nodes, h).
     Inr ((node_class, opts) # nodes, h)))"

definition system_monitor_startup ::
    "(string \<Rightarrow> 'd param_map option) \<Rightarrow> 'd printer \<Rightarrow> (string \<Rightarrow> string option) \<Rightarrow> host \<Rightarrow>
     ('d nodes \<times> host) c_result" where
  "system_monitor_startup parse pr getenv h =
     c_bind (get_lf_autoware_home getenv) (\<lambda>home.
     create_nodes parse pr home
       [(''CPUMonitorBase'', SYSTEM_MONITOR_CPU_PARAM), (''MemMonitor'', SYSTEM_MONITOR_MEM_PARAM),
        (''NetMonitor'', SYSTEM_MONITOR_NET_PARAM), (''NTPMonitor'', SYSTEM_MONITOR_NTP_PARAM),
        (''ProcessMonitor'', SYSTEM_MONITOR_PROCESS_PARAM), (''HddMonitor'', SYSTEM_MONITOR_HDD_PARAM),
        (''VoltageMonitor'', SYSTEM_MONITOR_VOLTAGE_PARAM), (''GPUMonitor'', SYSTEM_MONITOR_GPU_PARAM)] h)"

definition default_adapi_nodes :: "string list" where
  "default_adapi_nodes =
     [''AutowareStateNode'', ''DiagnosticsNode'', ''FailSafeNode'', ''HeartbeatNode'', ''MotionNode'',
      ''MrmRequestNode'', ''OperationModeNode'', ''PerceptionNode'', ''PlanningNode'',
      ''VehicleStatusNode'', ''VehicleCommandNode'', ''VehicleMetricsNode'', ''VehicleInfoNode'',
      ''VehicleDoorNode'']"

definition default_adapi_startup ::
    "(string \<Rightarrow> 'd param_map option) \<Rightarrow> 'd printer \<Rightarrow> (string \<Rightarrow> string option) \<Rightarrow> host \<Rightarrow>
     ('d nodes \<times> host) c_result" where
  "default_adapi_startup parse pr getenv h =
     c_bind (get_lf_autoware_home getenv) (\<lambda>home.
     let yaml_path = home @ ''/'' @ DEFAULT_ADAPI_PARAM in
     c_bind (get_node_options_from_yaml parse pr yaml_path global_root h) (\<lambda>(nodeOptions, h).
     Inr (map (\<lambda>node_class. (node_class, nodeOptions)) default_adapi_nodes, h)))"

definition image_transport_relay_startup :: "'d nodes" where
  "image_transport_relay_startup =
     (let camera_info_opts = \<lparr>parameter_overrides = [], arguments = []\<rparr>;
          camera_info_opts = push_override (''input_topic'',
            Param_String ''/sensing/camera/traffic_light/camera_info'') camera_info_opts;
          camera_info_opts = push_override (''output_topic'',
            Param_String ''/sensing/camera/traffic_light/image_raw/camera_info'') camera_info_opts;
          camera_info_opts = push_override (''type'',
            Param_String ''sensor_msgs/msg/CameraInfo'') camera_info_opts
      in [(''RelayNode'', camera_info_opts)])"

lemma create_nodes_eq:
  assumes "keyed parse"
  shows "create_nodes parse pr home ps h =
    (if \<exists>(node_class, param) \<in> set ps. parse_file parse h (home @ ''/'' @ param) = None then Inl (Exit_Failure 1)
     else Inr (map (\<lambda>(node_class, param). let path = home @ ''/'' @ param in
            (node_class, \<lparr>parameter_overrides = global_params parse h path,
              arguments = [''--ros-args'', ''--params-file'', path]\<rparr>)) ps, h))"
proof (induction ps)
  case (Cons p ps)
  then show ?case by (cases p) (auto simp: single_file_global [OF assms] Let_def)
qed simp

section \<open>A node from a shared library\<close>

text \<open>
  The node is an instance of the first class of the library, which gets no options, or a plain
  node with the options.
\<close>

datatype 'd map_tf_node =
    Shared_Instance string
  | Plain_Node string "'d node_options"

definition map_tf_generator_startup ::
    "(string \<Rightarrow> 'd param_map option) \<Rightarrow> 'd printer \<Rightarrow> (string \<Rightarrow> string option) \<Rightarrow> (string \<Rightarrow> string list) \<Rightarrow>
     host \<Rightarrow> ('d map_tf_node \<times> host) c_result" where
  "map_tf_generator_startup parse pr getenv available_classes h =
     c_bind (get_lf_autoware_home getenv) (\<lambda>home.
     let yaml_path = home @ ''/'' @ MAP_TF_GENERATOR_PARAM in
     c_bind (get_node_options_from_yaml parse pr yaml_path global_root h) (\<lambda>(nodeOptions, h).
     let lib_path = home @ ''/install/autoware_map_tf_generator/lib/libautoware_map_tf_generator.so'';
         classes = available_classes lib_path in
     Inr (if classes \<noteq> [] then Shared_Instance (hd classes)
          else Plain_Node ''map_tf_generator'' nodeOptions, h)))"

section \<open>A parameter from a command\<close>

text \<open>
  \<open>fgets\<close> reads at most one character less than the buffer holds, and nothing behind a newline;
  at the end of the file it returns a null pointer.  The buffer then holds the line and a null
  character, and appending it to a C++ string stops at the first one.
\<close>

fun line_of :: "nat \<Rightarrow> string \<Rightarrow> string" where
  "line_of 0 s = []"
| "line_of (Suc n) [] = []"
| "line_of (Suc n) (c # s) = c # (if [c] = newline then [] else line_of n s)"

definition buffer_size :: nat where
  "buffer_size = 4096"

definition fgets :: "nat \<Rightarrow> string \<Rightarrow> (string \<times> string) option" where
  "fgets n s = (if s = [] then None else let line = line_of (n - 1) s in Some (line, drop (length line) s))"

definition c_string :: "string \<Rightarrow> string" where
  "c_string s = takeWhile (\<lambda>c. c \<noteq> char_of (0 :: nat)) s"

function read_pipe :: "string \<Rightarrow> string \<Rightarrow> string" where
  "read_pipe urdf out =
     (case fgets buffer_size out of
        None \<Rightarrow> urdf
      | Some (line, rest) \<Rightarrow> read_pipe (urdf @ c_string line) rest)"
  by pat_completeness auto

lemma line_of_nonempty: "0 < n \<Longrightarrow> s \<noteq> [] \<Longrightarrow> line_of n s \<noteq> []"
  by (cases n; cases s) auto

lemma line_of_prefix: "line_of n s @ drop (length (line_of n s)) s = s"
  by (induction n s rule: line_of.induct) (auto simp: newline_def)

lemma length_line_of: "length (line_of n s) \<le> n"
  by (induction n s rule: line_of.induct) auto

termination read_pipe
proof (relation "measure (\<lambda>(urdf, out). length out)")
  fix urdf out x line rest
  assume "fgets buffer_size out = Some x" and "(line, rest) = x"
  then show "((urdf @ c_string line, rest), (urdf, out)) \<in> measure (\<lambda>(urdf, out). length out)"
    using line_of_nonempty [of "buffer_size - 1" out]
    by (auto simp: fgets_def Let_def buffer_size_def split: if_splits)
qed simp

declare read_pipe.simps [simp del]

definition robot_state_publisher_startup ::
    "(string \<Rightarrow> string option) \<Rightarrow> (string \<Rightarrow> string option) \<Rightarrow> 'd started option c_result" where
  "robot_state_publisher_startup popen getenv =
     c_bind (get_lf_autoware_home getenv) (\<lambda>home.
     let xacro_path = home @ ''/'' @ VEHICLE_XACRO_PATH;
         cmd = ''xacro '' @ xacro_path;
         urdf = (case popen cmd of None \<Rightarrow> [] | Some out \<Rightarrow> read_pipe [] out) in
     if urdf = [] then Inr None
     else Inr (Some \<lparr>started_with = push_override (''robot_description'', Param_String urdf)
                       \<lparr>parameter_overrides = [], arguments = []\<rparr>,
                     cancelled_timers = [], spinning = True\<rparr>))"

lemma read_pipe_complete:
  "char_of (0 :: nat) \<notin> set out \<Longrightarrow> read_pipe urdf out = urdf @ out"
proof (induction urdf out rule: read_pipe.induct)
  case (1 urdf out)
  show ?case
  proof (cases "out = []")
    case True
    then show ?thesis by (simp add: read_pipe.simps [of urdf "[]"] fgets_def)
  next
    case False
    let ?line = "line_of (buffer_size - 1) out"
    have parts: "?line @ drop (length ?line) out = out" by (rule line_of_prefix)
    have step: "fgets buffer_size out = Some (?line, drop (length ?line) out)"
      using False by (simp add: fgets_def Let_def)
    have "set ?line \<subseteq> set out" by (metis parts set_append Un_upper1)
    then have "c_string ?line = ?line"
      using 1(2) by (auto simp: c_string_def takeWhile_eq_all_conv)
    moreover have "char_of (0 :: nat) \<notin> set (drop (length ?line) out)"
      using 1(2) by (meson in_set_dropD)
    ultimately show ?thesis
      using 1(1) [OF step refl] parts by (simp add: read_pipe.simps [of urdf out] step)
  qed
qed

section \<open>The bridge\<close>

text \<open>The publishers \<open>bridge_interface\<close> creates: topic and queue size.\<close>

definition bridge_publishers :: "(string \<times> nat) list" where
  "bridge_publishers =
     [(''/control/command/control_cmd'', 1), (''/control/command/gear_cmd'', 1),
      (''/control/command/turn_indicators_cmd'', 1), (''/control/command/hazard_lights_cmd'', 1)]"

section \<open>Properties\<close>

text \<open>C17: the spin threads: as long as \<open>rclcpp::ok()\<close> answers yes they go on, and if it always does
  they never return; when it first answers no, in call number \<open>n\<close>, each thread has spun exactly
  \<open>n\<close> times and ends after releasing the pointer it was given, exactly once.\<close>

theorem spin_threads_end:
  "((\<forall>i. ok i) \<longrightarrow> spin_node ok = None \<and> spin_node_with_executor ok = None \<and> spin_executor ok = None) \<and>
   (\<forall>n. \<not> ok n \<and> (\<forall>i < n. ok i) \<longrightarrow>
     spin_node ok = Some (concat (replicate n [Spin_Some, Sleep]) @ [Delete_Pointer]) \<and>
     spin_node_with_executor ok = Some (Add_Node # replicate n Executor_Spin_Some @ [Delete_Pointer]) \<and>
     spin_executor ok = Some (concat (replicate n [Executor_Spin_Some, Sleep]) @ [Delete_Pointer]))"
proof (intro conjI impI allI; (elim conjE)?)
  have single: "concat (replicate n [x]) = replicate n x" for n and x :: spin_event
    by (induction n) auto
  fix n
  assume "\<not> ok n" and "\<forall>i < n. ok i"
  then have run: "spin_loop ok body 0 log = Some (log @ concat (replicate n body))" for body log
    using spin_loop_stops [of ok 0 n] by simp
  show "spin_node ok = Some (concat (replicate n [Spin_Some, Sleep]) @ [Delete_Pointer])"
    "spin_node_with_executor ok = Some (Add_Node # replicate n Executor_Spin_Some @ [Delete_Pointer])"
    "spin_executor ok = Some (concat (replicate n [Executor_Spin_Some, Sleep]) @ [Delete_Pointer])"
    by (simp_all add: spin_node_def spin_node_with_executor_def spin_executor_def run single)
qed (simp_all add: spin_node_def spin_node_with_executor_def spin_executor_def spin_loop_diverges)

theorem spin_threads_end_witness:
  "spin_node (\<lambda>i. i < 2) = Some [Spin_Some, Sleep, Spin_Some, Sleep, Delete_Pointer]"
  using spin_threads_end [of "\<lambda>i. i < 2"] by (auto simp: numeral_2_eq_2)







end
