(* ===== verification/Ports_Tokens.thy ===== *)
theory Ports_Tokens
  imports Lf_Base
begin

text \<open>
  Setting an output: the macros of \<open>api/reaction_macros.h\<close> over the structures of
  \<open>core/lf_token.h\<close>.  Tokens are shared between ports and the event queue, so the state is a
  memory: tokens and ports by address.  The address 0 is NULL.

  The functions the macros call have no body in the repository.  They are the fields of a record
  \<open>token_runtime\<close>, an argument of the definitions, and \<open>token_runtime_documented\<close> is what
  \<open>lf_token.h\<close> and \<open>reaction_macros.h\<close> say of them.
\<close>

section \<open>Structures\<close>

datatype token_freed =
    NOT_FREED
  | VALUE_FREED
  | TOKEN_FREED
  | TOKEN_AND_VALUE_FREED

type_synonym addr = nat

record token_type_t =
  element_size :: size_t
  destructor :: addr
  copy_constructor :: addr

record lf_token_t =
  tok_value :: pointer
  tok_length :: size_t
  tok_type :: addr
  ref_count :: size_t
  tok_next :: addr

record lf_sparse_io_record_t =
  sparse_size :: int32_t
  sparse_capacity :: size_t
  present_channels :: "size_t list"

record token_template_t =
  tmplt_type :: token_type_t
  tmplt_token :: addr
  tmplt_length :: size_t

text \<open>
  A port: its base and the field \<open>value\<close> of the generated struct.  The fields \<open>token\<close> and
  \<open>length\<close> of the generated struct are those of the template the base starts with.
\<close>

record lf_port_base_t =
  tmplt :: token_template_t
  is_present :: bool
  sparse_record :: "lf_sparse_io_record_t option"
  destination_channel :: int32_t
  num_destinations :: int32_t
  source_reactor :: addr
  port_value :: pointer

record memory =
  tokens :: "addr \<Rightarrow> lf_token_t option"
  ports :: "addr \<Rightarrow> lf_port_base_t option"

section \<open>The runtime the macros call\<close>

record token_runtime =
  rt_set_present :: "addr \<Rightarrow> memory \<Rightarrow> memory c_result"
  rt_initialize_token :: "addr \<Rightarrow> pointer \<Rightarrow> size_t \<Rightarrow> memory \<Rightarrow> (addr \<times> memory) c_result"
  rt_replace_token :: "addr \<Rightarrow> addr \<Rightarrow> memory \<Rightarrow> memory c_result"

text \<open>A token other ports or events still hold: it must keep its value.\<close>

definition shared :: "memory \<Rightarrow> addr \<Rightarrow> bool" where
  "shared mem t = (case tokens mem t of None \<Rightarrow> False | Some tok \<Rightarrow> 1 < ref_count tok)"

definition on_port :: "addr \<Rightarrow> (lf_port_base_t \<Rightarrow> lf_port_base_t) \<Rightarrow> memory \<Rightarrow> memory c_result" where
  "on_port out f mem =
     (case ports mem out of
        None \<Rightarrow> Inl Null_Dereference
      | Some p \<Rightarrow> Inr (mem\<lparr>ports := (ports mem)(out \<mapsto> f p)\<rparr>))"

text \<open>
  What the headers document.  \<open>lf_set_present\<close> sets \<open>is_present\<close> of the port.
  \<open>_lf_initialize_token_with_value\<close> returns a token with the value and the length, the one of
  the template if its reference count is 1 and otherwise a new one that replaces it, so a token
  that is shared keeps its contents (the memory is finite, so there is room for one).  \<open>_lf_replace_template_token\<close> makes the new token the one of
  the template and frees the previous one only from that association.
\<close>

definition token_runtime_documented :: "token_runtime \<Rightarrow> bool" where
  "token_runtime_documented rt \<longleftrightarrow>
     (\<forall>out mem p. ports mem out = Some p \<longrightarrow>
        rt_set_present rt out mem = on_port out (\<lambda>p. p\<lparr>is_present := True\<rparr>) mem) \<and>
     (\<forall>out val len mem p. ports mem out = Some p \<longrightarrow> finite (dom (tokens mem)) \<longrightarrow>
        (\<exists>t mem' tok. rt_initialize_token rt out val len mem = Inr (t, mem') \<and> t \<noteq> 0 \<and>
           tokens mem' t = Some tok \<and> tok_value tok = val \<and> tok_length tok = len \<and>
           (\<forall>u. shared mem u \<longrightarrow> u \<noteq> t \<and> map_option tok_value (tokens mem' u) = map_option tok_value (tokens mem u)) \<and>
           ports mem' = (ports mem)(out \<mapsto> p\<lparr>tmplt := (tmplt p)\<lparr>tmplt_token := t\<rparr>\<rparr>))) \<and>
     (\<forall>out new mem p tok. ports mem out = Some p \<longrightarrow> tokens mem new = Some tok \<longrightarrow>
        (\<exists>mem' tok'. rt_replace_token rt out new mem = Inr mem' \<and>
           tokens mem' new = Some tok' \<and> tok_value tok' = tok_value tok \<and> tok_length tok' = tok_length tok \<and>
           (\<forall>u. shared mem u \<longrightarrow> map_option tok_value (tokens mem' u) = map_option tok_value (tokens mem u)) \<and>
           ports mem' = (ports mem)(out \<mapsto> p\<lparr>tmplt := (tmplt p)\<lparr>tmplt_token := new\<rparr>\<rparr>)))"

section \<open>The macros\<close>

definition read_port :: "addr \<Rightarrow> memory \<Rightarrow> lf_port_base_t c_result" where
  "read_port out mem = (case ports mem out of None \<Rightarrow> Inl Null_Dereference | Some p \<Rightarrow> Inr p)"

definition read_token :: "addr \<Rightarrow> memory \<Rightarrow> lf_token_t c_result" where
  "read_token t mem = (case tokens mem t of None \<Rightarrow> Inl Null_Dereference | Some tok \<Rightarrow> Inr tok)"

definition macro_lf_set :: "token_runtime \<Rightarrow> addr \<Rightarrow> pointer \<Rightarrow> memory \<Rightarrow> memory c_result" where
  "macro_lf_set rt out val mem =
     c_bind (on_port out (\<lambda>p. p\<lparr>port_value := val\<rparr>) mem) (\<lambda>mem.
     c_bind (rt_set_present rt out mem) (\<lambda>mem.
     c_bind (read_port out mem) (\<lambda>p.
     if tmplt_token (tmplt p) \<noteq> 0
     then c_bind (rt_initialize_token rt out (port_value p) 1 mem) (\<lambda>(token, mem).
            on_port out (\<lambda>p. p\<lparr>tmplt := (tmplt p)\<lparr>tmplt_token := token\<rparr>\<rparr>) mem)
     else Inr mem)))"

definition macro_lf_set_array ::
    "token_runtime \<Rightarrow> addr \<Rightarrow> pointer \<Rightarrow> size_t \<Rightarrow> memory \<Rightarrow> memory c_result" where
  "macro_lf_set_array rt out val len mem =
     c_bind (rt_set_present rt out mem) (\<lambda>mem.
     c_bind (rt_initialize_token rt out val len mem) (\<lambda>(token, mem).
     c_bind (on_port out (\<lambda>p. p\<lparr>tmplt := (tmplt p)\<lparr>tmplt_token := token\<rparr>\<rparr>) mem) (\<lambda>mem.
     c_bind (read_token token mem) (\<lambda>tok.
     c_bind (on_port out (\<lambda>p. p\<lparr>port_value := tok_value tok\<rparr>) mem) (\<lambda>mem.
     on_port out (\<lambda>p. p\<lparr>tmplt := (tmplt p)\<lparr>tmplt_length := len\<rparr>\<rparr>) mem)))))"

definition macro_lf_set_token :: "token_runtime \<Rightarrow> addr \<Rightarrow> addr \<Rightarrow> memory \<Rightarrow> memory c_result" where
  "macro_lf_set_token rt out newtoken mem =
     c_bind (rt_set_present rt out mem) (\<lambda>mem.
     c_bind (rt_replace_token rt out newtoken mem) (\<lambda>mem.
     c_bind (read_token newtoken mem) (\<lambda>tok.
     c_bind (on_port out (\<lambda>p. p\<lparr>port_value := tok_value tok\<rparr>) mem) (\<lambda>mem.
     c_bind (read_token newtoken mem) (\<lambda>tok.
     on_port out (\<lambda>p. p\<lparr>tmplt := (tmplt p)\<lparr>tmplt_length := tok_length tok\<rparr>\<rparr>) mem)))))"

definition macro_lf_set_destructor :: "addr \<Rightarrow> addr \<Rightarrow> memory \<Rightarrow> memory c_result" where
  "macro_lf_set_destructor out dtor =
     on_port out (\<lambda>p. p\<lparr>tmplt := (tmplt p)\<lparr>tmplt_type := (tmplt_type (tmplt p))\<lparr>destructor := dtor\<rparr>\<rparr>\<rparr>)"

definition macro_lf_set_copy_constructor :: "addr \<Rightarrow> addr \<Rightarrow> memory \<Rightarrow> memory c_result" where
  "macro_lf_set_copy_constructor out cpy_ctor =
     on_port out (\<lambda>p. p\<lparr>tmplt := (tmplt p)\<lparr>tmplt_type := (tmplt_type (tmplt p))\<lparr>copy_constructor := cpy_ctor\<rparr>\<rparr>\<rparr>)"

section \<open>Macro names\<close>

text \<open>
  The function-like macros \<open>reaction_macros.h\<close> defines (with \<open>MODAL_REACTORS\<close>), and those
  \<open>reaction_macros_undef.h\<close> undefines before the former may be included again.
\<close>

definition reaction_macros :: "string list" where
  "reaction_macros =
     [''lf_set_present'', ''lf_set'', ''lf_set_array'', ''lf_set_token'', ''lf_set_destructor'',
      ''lf_set_copy_constructor'', ''lf_set_mode'', ''lf_tag'', ''lf_time_logical'',
      ''lf_time_logical_elapsed'', ''lf_reactor_name'', ''lf_reactor_full_name'']"

definition reaction_macros_undef :: "string list" where
  "reaction_macros_undef =
     [''lf_set'', ''lf_set_token'', ''lf_set_destructor'', ''lf_set_copy_constructor'',
      ''lf_set_mode'', ''lf_tag'', ''lf_time_logical'', ''lf_time_logical_elapsed'',
      ''lf_reactor_name'', ''lf_reactor_full_name'']"

section \<open>Effects\<close>

lemma on_port_Inr: "ports mem out = Some p \<Longrightarrow> on_port out f mem = Inr (mem\<lparr>ports := (ports mem)(out \<mapsto> f p)\<rparr>)"
  by (simp add: on_port_def)

lemma shared_ports [simp]: "shared (mem\<lparr>ports := ps\<rparr>) t = shared mem t"
  by (simp add: shared_def)

lemma set_present_effect:
  "token_runtime_documented rt \<Longrightarrow> ports mem out = Some p \<Longrightarrow>
   rt_set_present rt out mem = Inr (mem\<lparr>ports := (ports mem)(out \<mapsto> p\<lparr>is_present := True\<rparr>)\<rparr>)"
  by (simp add: token_runtime_documented_def on_port_Inr)

lemma initialize_token_effect:
  assumes "token_runtime_documented rt" and "ports mem out = Some p" and "finite (dom (tokens mem))"
  shows "\<exists>t mem' tok. rt_initialize_token rt out val len mem = Inr (t, mem') \<and> t \<noteq> 0 \<and>
    tokens mem' t = Some tok \<and> tok_value tok = val \<and> tok_length tok = len \<and>
    (\<forall>u. shared mem u \<longrightarrow> u \<noteq> t \<and> map_option tok_value (tokens mem' u) = map_option tok_value (tokens mem u)) \<and>
    ports mem' = (ports mem)(out \<mapsto> p\<lparr>tmplt := (tmplt p)\<lparr>tmplt_token := t\<rparr>\<rparr>)"
  using assms unfolding token_runtime_documented_def by simp

lemma replace_token_effect:
  assumes "token_runtime_documented rt" and "ports mem out = Some p" and "tokens mem new = Some tok"
  shows "\<exists>mem' tok'. rt_replace_token rt out new mem = Inr mem' \<and> tokens mem' new = Some tok' \<and>
    tok_value tok' = tok_value tok \<and> tok_length tok' = tok_length tok \<and>
    (\<forall>u. shared mem u \<longrightarrow> map_option tok_value (tokens mem' u) = map_option tok_value (tokens mem u)) \<and>
    ports mem' = (ports mem)(out \<mapsto> p\<lparr>tmplt := (tmplt p)\<lparr>tmplt_token := new\<rparr>\<rparr>)"
  using assms unfolding token_runtime_documented_def by simp

text \<open>A memory and a runtime for the witnesses: port 1 with the token 2, which port 3 shares.\<close>

definition sample_port :: "addr \<Rightarrow> lf_port_base_t" where
  "sample_port t =
     \<lparr>tmplt = \<lparr>tmplt_type = \<lparr>element_size = 8, destructor = 0, copy_constructor = 0\<rparr>,
        tmplt_token = t, tmplt_length = 1\<rparr>, is_present = False, sparse_record = None,
      destination_channel = - 1, num_destinations = 1, source_reactor = 0, port_value = 5\<rparr>"

definition sample_token :: "pointer \<Rightarrow> size_t \<Rightarrow> size_t \<Rightarrow> lf_token_t" where
  "sample_token val len refs =
     \<lparr>tok_value = val, tok_length = len, tok_type = 0, ref_count = refs, tok_next = 0\<rparr>"

definition sample_memory :: memory where
  "sample_memory = \<lparr>tokens = [2 \<mapsto> sample_token 5 1 2], ports = [1 \<mapsto> sample_port 2, 3 \<mapsto> sample_port 2]\<rparr>"

text \<open>The token of the template when it is not shared, a fresh address otherwise.\<close>

definition sample_address :: "memory \<Rightarrow> addr \<Rightarrow> addr" where
  "sample_address mem t =
     (if t \<noteq> 0 \<and> \<not> shared mem t then t else Suc (Max (insert 0 (dom (tokens mem)))))"

definition sample_token_runtime :: token_runtime where
  "sample_token_runtime =
     \<lparr>rt_set_present = (\<lambda>out. on_port out (\<lambda>p. p\<lparr>is_present := True\<rparr>)),
      rt_initialize_token = (\<lambda>out val len mem.
        c_bind (read_port out mem) (\<lambda>p.
        let t = sample_address mem (tmplt_token (tmplt p)) in
        c_bind (on_port out (\<lambda>p. p\<lparr>tmplt := (tmplt p)\<lparr>tmplt_token := t\<rparr>\<rparr>) mem) (\<lambda>mem.
          Inr (t, mem\<lparr>tokens := (tokens mem)(t \<mapsto> sample_token val len 1)\<rparr>)))),
      rt_replace_token = (\<lambda>out new. on_port out (\<lambda>p. p\<lparr>tmplt := (tmplt p)\<lparr>tmplt_token := new\<rparr>\<rparr>))\<rparr>"

lemma sample_address_free:
  "finite (dom (tokens mem)) \<Longrightarrow> sample_address mem t \<noteq> 0 \<and> \<not> shared mem (sample_address mem t)"
proof -
  assume fin: "finite (dom (tokens mem))"
  have "Suc (Max (insert 0 (dom (tokens mem)))) \<notin> dom (tokens mem)"
    using fin by (metis Max_ge finite_insert insertCI not_less_eq_eq order_refl)
  then show ?thesis by (auto simp: sample_address_def shared_def split: option.splits)
qed

lemma sample_token_runtime_documented: "token_runtime_documented sample_token_runtime"
  unfolding token_runtime_documented_def
proof (intro conjI allI impI)
  fix out :: addr and mem :: memory and p assume "ports mem out = Some p"
  show "rt_set_present sample_token_runtime out mem = on_port out (\<lambda>p. p\<lparr>is_present := True\<rparr>) mem"
    by (simp add: sample_token_runtime_def)
next
  fix out :: addr and val :: pointer and len :: size_t and mem :: memory and p assume p: "ports mem out = Some p" and fin: "finite (dom (tokens mem))"
  define t where "t = sample_address mem (tmplt_token (tmplt p))"
  have t: "t \<noteq> 0" "\<not> shared mem t"
    using sample_address_free [OF fin] by (simp_all add: t_def)
  have init: "rt_initialize_token sample_token_runtime out val len mem =
      Inr (t, mem\<lparr>ports := (ports mem)(out \<mapsto> p\<lparr>tmplt := (tmplt p)\<lparr>tmplt_token := t\<rparr>\<rparr>),
        tokens := (tokens mem)(t \<mapsto> sample_token val len 1)\<rparr>)"
    using p by (simp add: sample_token_runtime_def read_port_def on_port_Inr t_def Let_def)
  have keeps: "u \<noteq> t" if "shared mem u" for u using t(2) that by blast
  show "\<exists>t mem' tok. rt_initialize_token sample_token_runtime out val len mem = Inr (t, mem') \<and> t \<noteq> 0 \<and>
      tokens mem' t = Some tok \<and> tok_value tok = val \<and> tok_length tok = len \<and>
      (\<forall>u. shared mem u \<longrightarrow> u \<noteq> t \<and> map_option tok_value (tokens mem' u) = map_option tok_value (tokens mem u)) \<and>
      ports mem' = (ports mem)(out \<mapsto> p\<lparr>tmplt := (tmplt p)\<lparr>tmplt_token := t\<rparr>\<rparr>)"
    unfolding init using t keeps
    by (intro exI [of _ t]) (simp add: sample_token_def)
next
  fix out new :: addr and mem :: memory and p tok assume "ports mem out = Some p" "tokens mem new = Some tok"
  then show "\<exists>mem' tok'. rt_replace_token sample_token_runtime out new mem = Inr mem' \<and>
      tokens mem' new = Some tok' \<and> tok_value tok' = tok_value tok \<and> tok_length tok' = tok_length tok \<and>
      (\<forall>u. shared mem u \<longrightarrow> map_option tok_value (tokens mem' u) = map_option tok_value (tokens mem u)) \<and>
      ports mem' = (ports mem)(out \<mapsto> p\<lparr>tmplt := (tmplt p)\<lparr>tmplt_token := new\<rparr>\<rparr>)"
    by (simp add: sample_token_runtime_def on_port_Inr)
qed

section \<open>Properties\<close>

text \<open>C25: \<open>lf_set\<close> makes the port present with the value; on a port with a token, the port's token
  then carries the value with length 1; no other port changes, and a token somebody else still
  holds keeps its value.\<close>

theorem lf_set_effect:
  assumes "token_runtime_documented rt" and "ports mem out = Some p" and "finite (dom (tokens mem))"
  shows "\<exists>mem' p'. macro_lf_set rt out val mem = Inr mem' \<and> ports mem' out = Some p' \<and>
    is_present p' \<and> port_value p' = val \<and>
    (tmplt_token (tmplt p) = 0 \<longrightarrow> tmplt p' = tmplt p \<and> tokens mem' = tokens mem) \<and>
    (tmplt_token (tmplt p) \<noteq> 0 \<longrightarrow> (\<exists>tok. tokens mem' (tmplt_token (tmplt p')) = Some tok \<and>
       tok_value tok = val \<and> tok_length tok = 1)) \<and>
    (\<forall>other. other \<noteq> out \<longrightarrow> ports mem' other = ports mem other) \<and>
    (\<forall>u. shared mem u \<longrightarrow> map_option tok_value (tokens mem' u) = map_option tok_value (tokens mem u))"
proof -
  let ?p1 = "p\<lparr>port_value := val\<rparr>"
  let ?p2 = "?p1\<lparr>is_present := True\<rparr>"
  let ?mem2 = "mem\<lparr>ports := (ports mem)(out \<mapsto> ?p2)\<rparr>"
  have start: "macro_lf_set rt out val mem =
      (if tmplt_token (tmplt p) \<noteq> 0
       then c_bind (rt_initialize_token rt out val 1 ?mem2) (\<lambda>(token, mem).
            on_port out (\<lambda>p. p\<lparr>tmplt := (tmplt p)\<lparr>tmplt_token := token\<rparr>\<rparr>) mem)
       else Inr ?mem2)"
    using assms by (simp add: macro_lf_set_def on_port_Inr set_present_effect read_port_def)
  show ?thesis
  proof (cases "tmplt_token (tmplt p) = 0")
    case True
    with start show ?thesis by simp
  next
    case False
    obtain t mem' tok where init: "rt_initialize_token rt out val 1 ?mem2 = Inr (t, mem')" "t \<noteq> 0"
        "tokens mem' t = Some tok" "tok_value tok = val" "tok_length tok = 1"
        "\<forall>u. shared ?mem2 u \<longrightarrow> u \<noteq> t \<and> map_option tok_value (tokens mem' u) = map_option tok_value (tokens ?mem2 u)"
        "ports mem' = (ports ?mem2)(out \<mapsto> ?p2\<lparr>tmplt := (tmplt ?p2)\<lparr>tmplt_token := t\<rparr>\<rparr>)"
      using initialize_token_effect [OF assms(1), of ?mem2 out ?p2 val 1] assms(3) by auto
    then have "macro_lf_set rt out val mem =
        Inr (mem'\<lparr>ports := (ports mem')(out \<mapsto> ?p2\<lparr>tmplt := (tmplt p)\<lparr>tmplt_token := t\<rparr>\<rparr>)\<rparr>)"
      using False by (simp add: start on_port_Inr)
    with init False show ?thesis by simp
  qed
qed

theorem lf_set_effect_witness:
  "\<exists>mem' p'. macro_lf_set sample_token_runtime 1 9 sample_memory = Inr mem' \<and>
    ports mem' 1 = Some p' \<and> is_present p' \<and> port_value p' = 9 \<and>
    ports mem' 3 = Some (sample_port 2) \<and>
    map_option tok_value (tokens mem' 2) = Some 5"
proof -
  have "ports sample_memory 1 = Some (sample_port 2)" "finite (dom (tokens sample_memory))"
    by (simp_all add: sample_memory_def)
  from lf_set_effect [OF sample_token_runtime_documented this, of 9]
  obtain mem' p' where effect: "macro_lf_set sample_token_runtime 1 9 sample_memory = Inr mem'"
    "ports mem' 1 = Some p'" "is_present p'" "port_value p' = 9"
    "\<forall>other. other \<noteq> 1 \<longrightarrow> ports mem' other = ports sample_memory other"
    "\<forall>u. shared sample_memory u \<longrightarrow>
      map_option tok_value (tokens mem' u) = map_option tok_value (tokens sample_memory u)"
    by blast
  have "shared sample_memory 2" by (simp add: shared_def sample_memory_def sample_token_def)
  with effect(6) have "map_option tok_value (tokens mem' 2) = Some 5"
    by (simp add: sample_memory_def sample_token_def)
  moreover have "ports mem' 3 = Some (sample_port 2)"
    using effect(5) by (simp add: sample_memory_def)
  ultimately show ?thesis using effect(1-4) by blast
qed

text \<open>C33: \<open>lf_set_array\<close> and \<open>lf_set_token\<close> agree on what a reader sees: the port is present and
  its value and length are those of the array, or of the token, which becomes the port's; again
  no shared token loses its value.\<close>

theorem lf_set_array_and_token_effect:
  assumes "token_runtime_documented rt" and "ports mem out = Some p" and "finite (dom (tokens mem))"
  shows "(\<exists>mem' p'. macro_lf_set_array rt out val len mem = Inr mem' \<and> ports mem' out = Some p' \<and>
      is_present p' \<and> port_value p' = val \<and> tmplt_length (tmplt p') = len \<and>
      (\<forall>u. shared mem u \<longrightarrow> map_option tok_value (tokens mem' u) = map_option tok_value (tokens mem u))) \<and>
    (\<forall>tok. tokens mem new = Some tok \<longrightarrow>
      (\<exists>mem' p'. macro_lf_set_token rt out new mem = Inr mem' \<and> ports mem' out = Some p' \<and>
        is_present p' \<and> port_value p' = tok_value tok \<and> tmplt_length (tmplt p') = tok_length tok \<and>
        tmplt_token (tmplt p') = new \<and>
        (\<forall>u. shared mem u \<longrightarrow> map_option tok_value (tokens mem' u) = map_option tok_value (tokens mem u))))"
proof (intro conjI allI impI)
  let ?p1 = "p\<lparr>is_present := True\<rparr>"
  let ?mem1 = "mem\<lparr>ports := (ports mem)(out \<mapsto> ?p1)\<rparr>"
  have present: "rt_set_present rt out mem = Inr ?mem1"
    by (rule set_present_effect [OF assms(1,2)])
  obtain t mem' tok where init: "rt_initialize_token rt out val len ?mem1 = Inr (t, mem')"
      "tokens mem' t = Some tok" "tok_value tok = val"
      "\<forall>u. shared ?mem1 u \<longrightarrow> u \<noteq> t \<and> map_option tok_value (tokens mem' u) = map_option tok_value (tokens ?mem1 u)"
      "ports mem' = (ports ?mem1)(out \<mapsto> ?p1\<lparr>tmplt := (tmplt ?p1)\<lparr>tmplt_token := t\<rparr>\<rparr>)"
    using initialize_token_effect [OF assms(1), of ?mem1 out ?p1 val len] assms(3) by auto
  then show "\<exists>mem' p'. macro_lf_set_array rt out val len mem = Inr mem' \<and> ports mem' out = Some p' \<and>
      is_present p' \<and> port_value p' = val \<and> tmplt_length (tmplt p') = len \<and>
      (\<forall>u. shared mem u \<longrightarrow> map_option tok_value (tokens mem' u) = map_option tok_value (tokens mem u))"
    using present by (simp add: macro_lf_set_array_def on_port_Inr read_token_def)
next
  fix tok assume tok: "tokens mem new = Some tok"
  let ?p1 = "p\<lparr>is_present := True\<rparr>"
  let ?mem1 = "mem\<lparr>ports := (ports mem)(out \<mapsto> ?p1)\<rparr>"
  have present: "rt_set_present rt out mem = Inr ?mem1"
    by (rule set_present_effect [OF assms(1,2)])
  obtain mem' tok' where "rt_replace_token rt out new ?mem1 = Inr mem'" "tokens mem' new = Some tok'"
      "tok_value tok' = tok_value tok" "tok_length tok' = tok_length tok"
      "\<forall>u. shared ?mem1 u \<longrightarrow> map_option tok_value (tokens mem' u) = map_option tok_value (tokens ?mem1 u)"
      "ports mem' = (ports ?mem1)(out \<mapsto> ?p1\<lparr>tmplt := (tmplt ?p1)\<lparr>tmplt_token := new\<rparr>\<rparr>)"
    using replace_token_effect [OF assms(1), of ?mem1 out ?p1 new tok] tok by auto
  then show "\<exists>mem' p'. macro_lf_set_token rt out new mem = Inr mem' \<and> ports mem' out = Some p' \<and>
      is_present p' \<and> port_value p' = tok_value tok \<and> tmplt_length (tmplt p') = tok_length tok \<and>
      tmplt_token (tmplt p') = new \<and>
      (\<forall>u. shared mem u \<longrightarrow> map_option tok_value (tokens mem' u) = map_option tok_value (tokens mem u))"
    using present by (simp add: macro_lf_set_token_def on_port_Inr read_token_def)
qed

theorem lf_set_array_and_token_effect_witness:
  "\<exists>mem' p'. macro_lf_set_token sample_token_runtime 3 2 sample_memory = Inr mem' \<and>
    ports mem' 3 = Some p' \<and> is_present p' \<and> port_value p' = 5"
proof -
  have "ports sample_memory 3 = Some (sample_port 2)" "finite (dom (tokens sample_memory))"
    "tokens sample_memory 2 = Some (sample_token 5 1 2)"
    by (simp_all add: sample_memory_def)
  moreover have "tok_value (sample_token 5 1 2) = 5" by (simp add: sample_token_def)
  ultimately show ?thesis
    using lf_set_array_and_token_effect [OF sample_token_runtime_documented, of sample_memory 3 "sample_port 2" 0 0 2]
    by fastforce
qed

text \<open>The header that allows a second inclusion of the macros forgets two of them: exactly
  \<open>lf_set_present\<close> and \<open>lf_set_array\<close> stay defined.\<close>

theorem reaction_macros_left_defined:
  "[m \<leftarrow> reaction_macros. m \<notin> set reaction_macros_undef] = [''lf_set_present'', ''lf_set_array''] \<and>
   set reaction_macros_undef \<subseteq> set reaction_macros"
  by (simp add: reaction_macros_def reaction_macros_undef_def)

end
