(* ===== verification/Federate_Runtime.thy ===== *)
theory Federate_Runtime
  imports Net_Messages
begin

text \<open>
  What a federate does before its reactors start: the instance structure of
  \<open>core/federated/federate.h\<close> and the generated preamble
  \<open>src/include/_federate__<name>_preamble.h\<close>.  All preambles are instances of one text; what a
  file fixes (table sizes, its ID, its connections, its network actions) is a record
  \<open>preamble\<close>, and the functions of the file are definitions over that record, in the order of
  the file: \<open>lf_executable_preamble\<close>, \<open>staa_initialization\<close>,
  \<open>initialize_triggers_for_federate\<close> and \<open>lf_send_neighbor_structure_to_RTI\<close>.

  The functions of the runtime the preamble calls (\<open>lf_connect_to_rti\<close>, ...) have no body in
  the repository.  They are the fields of a record \<open>runtime\<close>, an argument of the definitions;
  \<open>runtime_documented\<close> states what \<open>federate.h\<close> documents of them.
\<close>

section \<open>The federate instance\<close>

definition NUMBER_OF_FEDERATES :: nat where
  "NUMBER_OF_FEDERATES = 46"

type_synonym lf_thread_t = "64 word"
type_synonym c_int = "32 word"

record federate_instance_t =
  socket_TCP_RTI :: c_int
  RTI_socket_listener :: lf_thread_t
  number_of_inbound_p2p_connections :: size_t
  inbound_socket_listeners :: "lf_thread_t list"
  number_of_outbound_p2p_connections :: size_t
  sockets_for_inbound_p2p_connections :: "c_int list"
  sockets_for_outbound_p2p_connections :: "c_int list"
  inbound_p2p_handling_thread_id :: lf_thread_t
  server_socket :: c_int
  server_port :: c_int
  last_TAG :: tag_t
  is_last_TAG_provisional :: bool
  has_upstream :: bool
  has_downstream :: bool
  received_stop_request_from_rti :: bool
  last_sent_LTC :: tag_t
  last_sent_NET :: tag_t
  last_skipped_NET :: tag_t
  received_any_DNET :: bool
  last_DNET :: tag_t
  min_delay_from_physical_action_to_federate_output :: int64_t
  staaSetter :: lf_thread_t

text \<open>
  The process state the preamble works on: the initialised locks, the global \<open>_lf_my_fed_id\<close>,
  the instance \<open>_fed\<close>, and the calls into the runtime, in order.
\<close>

datatype runtime_call =
    Init_Outbound_Mutex
  | Init_Shutdown_Mutex
  | Init_Port_Status_Cond
  | Connect_To_Rti string c_int
  | Connect_To_Federate uint16_t
  | Create_Server c_int
  | Create_Inbound_Thread

record process =
  lf_my_fed_id :: uint16_t
  fed :: federate_instance_t
  calls :: "runtime_call list"

record runtime =
  rt_connect_to_rti :: "string \<Rightarrow> c_int \<Rightarrow> federate_instance_t \<Rightarrow> federate_instance_t c_result"
  rt_connect_to_federate :: "uint16_t \<Rightarrow> federate_instance_t \<Rightarrow> federate_instance_t c_result"
  rt_create_server :: "c_int \<Rightarrow> federate_instance_t \<Rightarrow> federate_instance_t c_result"
  rt_create_inbound_thread :: "federate_instance_t \<Rightarrow> federate_instance_t c_result"

text \<open>
  The documentation of \<open>federate.h\<close>: each function exits the program or sets the fields named
  there, the socket of a federate to a socket ID (never the -1 of a closed one), and nothing else.
  The thread of the last call runs beside the rest of the preamble, of which it is the last
  statement in every file: whatever it has done by the time the preamble returns to the inbound
  sockets, which it sets, and to the listeners it starts, counts as an effect of the call.
\<close>

definition runtime_documented :: "runtime \<Rightarrow> bool" where
  "runtime_documented rt \<longleftrightarrow>
     (\<forall>host port f f'. rt_connect_to_rti rt host port f = Inr f' \<longrightarrow>
        (\<exists>s l. f' = f\<lparr>socket_TCP_RTI := s, RTI_socket_listener := l\<rparr>)) \<and>
     (\<forall>i f f'. rt_connect_to_federate rt i f = Inr f' \<longrightarrow>
        (\<exists>s. s \<noteq> - 1 \<and> f' = f\<lparr>sockets_for_outbound_p2p_connections :=
           (sockets_for_outbound_p2p_connections f)[unat i := s]\<rparr>)) \<and>
     (\<forall>port f f'. rt_create_server rt port f = Inr f' \<longrightarrow>
        (\<exists>s p. f' = f\<lparr>server_socket := s, server_port := p\<rparr>)) \<and>
     (\<forall>f f'. rt_create_inbound_thread rt f = Inr f' \<longrightarrow>
        (\<exists>th ls ss. length ss = length (sockets_for_inbound_p2p_connections f) \<and>
           f' = f\<lparr>inbound_p2p_handling_thread_id := th, inbound_socket_listeners := ls,
             sockets_for_inbound_p2p_connections := ss\<rparr>))"

section \<open>What a preamble file fixes\<close>

text \<open>
  An entry of \<open>staa_lst\<close>: its index, the \<open>STAA\<close> offset, the announced and the allocated number
  of actions, and the assignments from the action table.
\<close>

record staa_code =
  st_index :: nat
  st_STAA :: size_t
  st_num_actions :: size_t
  st_alloc :: nat
  st_assigns :: "(nat \<times> nat) list"

text \<open>
  A trigger: its index in the tables, the receiving reactor whose network action it is, and the
  federate the messages come from.
\<close>

record trigger_code =
  tr_index :: nat
  tr_reactor :: string
  tr_source_id :: c_int

record preamble =
  action_delay_table_len :: nat
  action_table_len :: nat
  action_table_size :: size_t
  zero_delay_cycle_action_table_len :: nat
  zero_delay_cycle_action_table_size :: size_t
  network_input_reactions_len :: nat
  num_network_input_reactions :: size_t
  port_absent_reaction_len :: nat
  num_port_absent_reactions :: size_t
  staa_lst_len :: nat
  staa_lst_size :: size_t
  pre_my_fed_id :: uint16_t
  pre_inbound :: size_t
  pre_outbound :: size_t
  pre_connections :: "runtime_call list"
  pre_staas :: "staa_code list"
  pre_triggers :: "trigger_code list"

text \<open>\<open>pre_connections\<close> are the calls after \<open>lf_connect_to_rti\<close>, in the order of the file.\<close>

definition connects :: "preamble \<Rightarrow> nat list" where
  "connects pre =
     concat (map (\<lambda>c. case c of Connect_To_Federate i \<Rightarrow> [unat i] | _ \<Rightarrow> []) (pre_connections pre))"

definition creates_server :: "preamble \<Rightarrow> bool" where
  "creates_server pre = list_ex (\<lambda>c. case c of Create_Server _ \<Rightarrow> True | _ \<Rightarrow> False) (pre_connections pre)"

section \<open>The executable preamble\<close>

fun runtime_effect ::
    "runtime \<Rightarrow> runtime_call \<Rightarrow> federate_instance_t \<Rightarrow> federate_instance_t c_result" where
  "runtime_effect rt Init_Outbound_Mutex f = Inr f"
| "runtime_effect rt Init_Shutdown_Mutex f = Inr f"
| "runtime_effect rt Init_Port_Status_Cond f = Inr f"
| "runtime_effect rt (Connect_To_Rti host port) f = rt_connect_to_rti rt host port f"
| "runtime_effect rt (Connect_To_Federate i) f = rt_connect_to_federate rt i f"
| "runtime_effect rt (Create_Server port) f = rt_create_server rt port f"
| "runtime_effect rt Create_Inbound_Thread f = rt_create_inbound_thread rt f"

definition call_runtime :: "runtime \<Rightarrow> runtime_call \<Rightarrow> process \<Rightarrow> process c_result" where
  "call_runtime rt c p =
     c_bind (runtime_effect rt c (fed p)) (\<lambda>f'. Inr (p\<lparr>fed := f', calls := calls p @ [c]\<rparr>))"

text \<open>The two loops that mark every socket of an array as closed.\<close>

definition close_all :: "c_int list \<Rightarrow> c_int list c_result" where
  "close_all = c_fold (\<lambda>i sockets. c_write sockets i (- 1)) [0..<NUMBER_OF_FEDERATES]"

definition lf_executable_preamble :: "runtime \<Rightarrow> preamble \<Rightarrow> process \<Rightarrow> process c_result" where
  "lf_executable_preamble rt pre p =
     c_bind (call_runtime rt Init_Outbound_Mutex p) (\<lambda>p.
     c_bind (call_runtime rt Init_Shutdown_Mutex p) (\<lambda>p.
     c_bind (call_runtime rt Init_Port_Status_Cond p) (\<lambda>p.
     let p = p\<lparr>lf_my_fed_id := pre_my_fed_id pre\<rparr>;
         p = p\<lparr>fed := (fed p)\<lparr>number_of_inbound_p2p_connections := pre_inbound pre\<rparr>\<rparr>;
         p = p\<lparr>fed := (fed p)\<lparr>number_of_outbound_p2p_connections := pre_outbound pre\<rparr>\<rparr> in
     c_bind (close_all (sockets_for_inbound_p2p_connections (fed p))) (\<lambda>sockets.
     let p = p\<lparr>fed := (fed p)\<lparr>sockets_for_inbound_p2p_connections := sockets\<rparr>\<rparr> in
     c_bind (close_all (sockets_for_outbound_p2p_connections (fed p))) (\<lambda>sockets.
     let p = p\<lparr>fed := (fed p)\<lparr>sockets_for_outbound_p2p_connections := sockets\<rparr>\<rparr> in
     c_bind (call_runtime rt (Connect_To_Rti ''localhost'' 0) p)
       (c_fold (call_runtime rt) (pre_connections pre)))))))"

section \<open>Trigger tables\<close>

text \<open>
  A pointer of the action table: NULL (the initial value of a global) or the network action of
  the receiving reactor of that name.
\<close>

type_synonym action_pointer = "string option"

record staa_t =
  staa_actions :: "action_pointer list"
  STAA :: size_t
  num_actions :: size_t

record trigger_state =
  lf_action_delay_table :: "int64_t list"
  lf_action_table :: "action_pointer list"
  staa_lst :: "staa_t option list"
  source_id :: "string \<Rightarrow> c_int"

text \<open>
  One entry of \<open>staa_initialization\<close>.  The results of the two allocations are used unchecked;
  \<open>junk\<close> is what the allocated array of actions holds.
\<close>

definition sizeof_staa_t :: size_t where
  "sizeof_staa_t = 24"

definition sizeof_pointer :: size_t where
  "sizeof_pointer = 8"

definition init_staa ::
    "(size_t \<Rightarrow> bool) \<Rightarrow> (nat \<Rightarrow> action_pointer) \<Rightarrow> staa_code \<Rightarrow> trigger_state \<Rightarrow>
     trigger_state c_result" where
  "init_staa malloc junk c s =
     (if \<not> malloc sizeof_staa_t \<or> \<not> malloc (sizeof_pointer * of_nat (st_alloc c))
      then Inl Null_Dereference
      else
       c_bind (c_fold (\<lambda>(i, j) actions. c_bind (c_read (lf_action_table s) j) (\<lambda>a. c_write actions i a))
                 (st_assigns c) (map junk [0..<st_alloc c])) (\<lambda>actions.
       c_bind (c_write (staa_lst s) (st_index c)
                 (Some \<lparr>staa_actions = actions, STAA = st_STAA c, num_actions = st_num_actions c\<rparr>)) (\<lambda>l.
       Inr (s\<lparr>staa_lst := l\<rparr>))))"

definition staa_initialization ::
    "(size_t \<Rightarrow> bool) \<Rightarrow> (nat \<Rightarrow> action_pointer) \<Rightarrow> preamble \<Rightarrow> trigger_state \<Rightarrow>
     trigger_state c_result" where
  "staa_initialization malloc junk pre = c_fold (init_staa malloc junk) (pre_staas pre)"

definition init_trigger :: "int64_t \<Rightarrow> trigger_code \<Rightarrow> trigger_state \<Rightarrow> trigger_state c_result" where
  "init_trigger never t s =
     c_bind (c_write (lf_action_delay_table s) (tr_index t) never) (\<lambda>delays.
     c_bind (c_write (lf_action_table s) (tr_index t) (Some (tr_reactor t))) (\<lambda>actions.
     Inr (s\<lparr>lf_action_delay_table := delays, lf_action_table := actions,
            source_id := (source_id s)(tr_reactor t := tr_source_id t)\<rparr>)))"

text \<open>\<open>never\<close> is the constant \<open>NEVER\<close> of \<open>tag.h\<close>, which is not part of the repository.\<close>

definition initialize_triggers_for_federate ::
    "int64_t \<Rightarrow> (size_t \<Rightarrow> bool) \<Rightarrow> (nat \<Rightarrow> action_pointer) \<Rightarrow> preamble \<Rightarrow> trigger_state \<Rightarrow>
     trigger_state c_result" where
  "initialize_triggers_for_federate never malloc junk pre s =
     c_bind (c_fold (init_trigger never) (pre_triggers pre) s) (staa_initialization malloc junk pre)"

text \<open>
  The tables before any code of the file runs: globals, zeroed; \<open>sources\<close> is what the reactors'
  constructors left in the source IDs.
\<close>

definition initial_tables :: "(string \<Rightarrow> c_int) \<Rightarrow> preamble \<Rightarrow> trigger_state" where
  "initial_tables sources pre =
     \<lparr>lf_action_delay_table = replicate (action_delay_table_len pre) 0,
      lf_action_table = replicate (action_table_len pre) None,
      staa_lst = replicate (staa_lst_len pre) None,
      source_id = sources\<rparr>"

section \<open>The neighbor structure message\<close>

text \<open>
  No preamble of the repository has a neighbor that is reached through the RTI: the counts are
  the constant 0 in each of them.  The contents of the buffer before the writes are \<open>junk\<close>, and
  the result is what \<open>write_to_socket_fail_on_error\<close> is given.
\<close>

definition lf_send_neighbor_structure_to_RTI ::
    "(int32_t \<Rightarrow> byte list) \<Rightarrow> (nat \<Rightarrow> byte) \<Rightarrow> byte list c_result" where
  "lf_send_neighbor_structure_to_RTI encode_int32 junk =
     (let buffer_size = 1 + 8 + 0 * (2 + 8) + 0 * 2;
          buffer_to_send = map junk [0..<buffer_size];
          message_head = 0 in
      c_bind (c_write buffer_to_send message_head MSG_TYPE_NEIGHBOR_STRUCTURE) (\<lambda>buffer_to_send.
      let message_head = message_head + 1 in
      c_bind (c_write_block buffer_to_send message_head (encode_int32 0)) (\<lambda>buffer_to_send.
      let message_head = message_head + 4 in
      c_write_block buffer_to_send message_head (encode_int32 0))))"

section \<open>Effects of the preamble\<close>

lemma fill_prefix:
  "n \<le> length xs \<Longrightarrow> c_fold (\<lambda>i ys. c_write ys i x) [0..<n] xs = Inr (replicate n x @ drop n xs)"
proof (induction n)
  case (Suc n)
  then have "(replicate n x @ drop n xs)[n := x] = replicate (Suc n) x @ drop (Suc n) xs"
    by (simp add: list_update_append replicate_append_same Cons_nth_drop_Suc [symmetric])
  with Suc show ?case by (simp add: c_fold_append c_write_def)
qed simp

lemma close_all_eq:
  "length sockets = NUMBER_OF_FEDERATES \<Longrightarrow>
   close_all sockets = Inr (replicate NUMBER_OF_FEDERATES (- 1))"
  by (simp add: close_all_def fill_prefix)

text \<open>What the effects of the runtime have in common, and what only a connect changes.\<close>

lemma runtime_effect_frame:
  assumes "runtime_documented rt" and "runtime_effect rt c f = Inr f'"
  shows "number_of_inbound_p2p_connections f' = number_of_inbound_p2p_connections f"
    and "number_of_outbound_p2p_connections f' = number_of_outbound_p2p_connections f"
    and "c \<noteq> Create_Inbound_Thread \<Longrightarrow>
      sockets_for_inbound_p2p_connections f' = sockets_for_inbound_p2p_connections f"
    and "length (sockets_for_outbound_p2p_connections f') =
      length (sockets_for_outbound_p2p_connections f)"
  using assms by (cases c; fastforce simp: runtime_documented_def)+

lemma runtime_effect_outbound:
  assumes "runtime_documented rt" and "runtime_effect rt c f = Inr f'"
    and "i < length (sockets_for_outbound_p2p_connections f)"
  shows "sockets_for_outbound_p2p_connections f' ! i \<noteq> - 1 \<longleftrightarrow>
    sockets_for_outbound_p2p_connections f ! i \<noteq> - 1 \<or> (\<exists>j. c = Connect_To_Federate j \<and> unat j = i)"
proof (cases c)
  case (Connect_To_Federate j)
  then obtain s where "s \<noteq> - 1" "f' = f\<lparr>sockets_for_outbound_p2p_connections :=
      (sockets_for_outbound_p2p_connections f)[unat j := s]\<rparr>"
    using assms(1,2) unfolding runtime_documented_def by (metis runtime_effect.simps(5))
  then show ?thesis using assms(3) Connect_To_Federate by (cases "unat j = i") auto
qed (use assms in \<open>fastforce simp: runtime_documented_def\<close>)+

definition runtime_available :: "runtime \<Rightarrow> bool" where
  "runtime_available rt \<longleftrightarrow> (\<forall>c f. \<exists>f'. runtime_effect rt c f = Inr f')"

text \<open>Calls in sequence: they end with the fault of one of them, or all have their effect.\<close>

lemma call_runtime_Inr:
  "call_runtime rt c p = Inr p' \<longleftrightarrow>
     (\<exists>f'. runtime_effect rt c (fed p) = Inr f' \<and> p' = p\<lparr>fed := f', calls := calls p @ [c]\<rparr>)"
  by (auto simp: call_runtime_def c_bind_eq_Inr)

lemma run_calls_fault:
  "c_fold (call_runtime rt) cs p = Inl e \<Longrightarrow> \<exists>c \<in> set cs. \<exists>f. runtime_effect rt c f = Inl e"
proof (induction cs arbitrary: p)
  case (Cons c cs)
  then show ?case
    by (cases "runtime_effect rt c (fed p)") (auto simp: call_runtime_def)
qed simp

lemma run_calls_return:
  assumes "runtime_available rt"
  shows "\<exists>p'. c_fold (call_runtime rt) cs p = Inr p'"
  using run_calls_fault [of rt cs p] assms
  by (cases "c_fold (call_runtime rt) cs p") (auto simp: runtime_available_def, metis Inl_Inr_False)

lemma run_calls:
  assumes "runtime_documented rt" and "c_fold (call_runtime rt) cs p = Inr p'"
  shows "lf_my_fed_id p' = lf_my_fed_id p \<and> calls p' = calls p @ cs \<and>
    number_of_inbound_p2p_connections (fed p') = number_of_inbound_p2p_connections (fed p) \<and>
    number_of_outbound_p2p_connections (fed p') = number_of_outbound_p2p_connections (fed p) \<and>
    (Create_Inbound_Thread \<notin> set cs \<longrightarrow>
      sockets_for_inbound_p2p_connections (fed p') = sockets_for_inbound_p2p_connections (fed p)) \<and>
    length (sockets_for_outbound_p2p_connections (fed p')) =
      length (sockets_for_outbound_p2p_connections (fed p)) \<and>
    (\<forall>i < length (sockets_for_outbound_p2p_connections (fed p)).
       sockets_for_outbound_p2p_connections (fed p') ! i \<noteq> - 1 \<longleftrightarrow>
       sockets_for_outbound_p2p_connections (fed p) ! i \<noteq> - 1 \<or>
       (\<exists>j. Connect_To_Federate j \<in> set cs \<and> unat j = i))"
  using assms(2)
proof (induction cs arbitrary: p)
  case (Cons c cs)
  then obtain f' where f': "runtime_effect rt c (fed p) = Inr f'"
      and rest: "c_fold (call_runtime rt) cs (p\<lparr>fed := f', calls := calls p @ [c]\<rparr>) = Inr p'"
    by (auto simp: c_bind_eq_Inr call_runtime_Inr)
  note frame = runtime_effect_frame [OF assms(1) f']
  note outb = runtime_effect_outbound [OF assms(1) f']
  show ?case using Cons.IH [OF rest] frame(1,2,4) frame(3) outb by auto
qed simp

lemma in_connects: "i \<in> set (connects pre) \<longleftrightarrow> (\<exists>j. Connect_To_Federate j \<in> set (pre_connections pre) \<and> unat j = i)"
  by (force simp: connects_def split: runtime_call.splits)

lemma executable_preamble_calls:
  assumes "length (sockets_for_inbound_p2p_connections (fed p)) = NUMBER_OF_FEDERATES"
    and "length (sockets_for_outbound_p2p_connections (fed p)) = NUMBER_OF_FEDERATES"
  shows "lf_executable_preamble rt pre p =
    c_fold (call_runtime rt) (Connect_To_Rti ''localhost'' 0 # pre_connections pre)
      (p\<lparr>lf_my_fed_id := pre_my_fed_id pre,
         fed := (fed p)\<lparr>number_of_inbound_p2p_connections := pre_inbound pre,
           number_of_outbound_p2p_connections := pre_outbound pre,
           sockets_for_inbound_p2p_connections := replicate NUMBER_OF_FEDERATES (- 1),
           sockets_for_outbound_p2p_connections := replicate NUMBER_OF_FEDERATES (- 1)\<rparr>,
         calls := calls p @ [Init_Outbound_Mutex, Init_Shutdown_Mutex, Init_Port_Status_Cond]\<rparr>)"
  using assms by (simp add: lf_executable_preamble_def call_runtime_def close_all_eq Let_def)

lemma executable_preamble_result:
  assumes "runtime_documented rt"
    and "length (sockets_for_inbound_p2p_connections (fed p)) = NUMBER_OF_FEDERATES"
    and "length (sockets_for_outbound_p2p_connections (fed p)) = NUMBER_OF_FEDERATES"
    and "lf_executable_preamble rt pre p = Inr p'"
  shows "lf_my_fed_id p' = pre_my_fed_id pre \<and>
    number_of_inbound_p2p_connections (fed p') = pre_inbound pre \<and>
    number_of_outbound_p2p_connections (fed p') = pre_outbound pre \<and>
    (Create_Inbound_Thread \<notin> set (pre_connections pre) \<longrightarrow>
      sockets_for_inbound_p2p_connections (fed p') = replicate NUMBER_OF_FEDERATES (- 1)) \<and>
    length (sockets_for_outbound_p2p_connections (fed p')) = NUMBER_OF_FEDERATES \<and>
    (\<forall>i < NUMBER_OF_FEDERATES. sockets_for_outbound_p2p_connections (fed p') ! i \<noteq> - 1 \<longleftrightarrow>
       i \<in> set (connects pre)) \<and>
    calls p' = calls p @ [Init_Outbound_Mutex, Init_Shutdown_Mutex, Init_Port_Status_Cond,
      Connect_To_Rti ''localhost'' 0] @ pre_connections pre"
  using run_calls [OF assms(1) assms(4) [unfolded executable_preamble_calls [OF assms(2,3)]]]
  by (auto simp: in_connects)

lemma executable_preamble_effect:
  assumes "runtime_documented rt" and "runtime_available rt"
    and "length (sockets_for_inbound_p2p_connections (fed p)) = NUMBER_OF_FEDERATES"
    and "length (sockets_for_outbound_p2p_connections (fed p)) = NUMBER_OF_FEDERATES"
  shows "\<exists>p'. lf_executable_preamble rt pre p = Inr p' \<and>
    lf_my_fed_id p' = pre_my_fed_id pre \<and>
    (\<forall>i < NUMBER_OF_FEDERATES. sockets_for_outbound_p2p_connections (fed p') ! i \<noteq> - 1 \<longleftrightarrow>
       i \<in> set (connects pre))"
proof -
  obtain p' where "lf_executable_preamble rt pre p = Inr p'"
    using run_calls_return [OF assms(2)] executable_preamble_calls [OF assms(3,4)] by metis
  with executable_preamble_result [OF assms(1,3,4)] show ?thesis by blast
qed

text \<open>A runtime for the witnesses: every call succeeds, with the sockets 3 to 6.\<close>

definition sample_runtime :: runtime where
  "sample_runtime =
     \<lparr>rt_connect_to_rti = (\<lambda>host port f. Inr (f\<lparr>socket_TCP_RTI := 3\<rparr>)),
      rt_connect_to_federate = (\<lambda>i f. Inr (f\<lparr>sockets_for_outbound_p2p_connections :=
         (sockets_for_outbound_p2p_connections f)[unat i := 4]\<rparr>)),
      rt_create_server = (\<lambda>port f. Inr (f\<lparr>server_socket := 5, server_port := 15045\<rparr>)),
      rt_create_inbound_thread = (\<lambda>f. Inr (f\<lparr>inbound_p2p_handling_thread_id := 1,
         inbound_socket_listeners := [2], sockets_for_inbound_p2p_connections :=
           map (\<lambda>s. 6) (sockets_for_inbound_p2p_connections f)\<rparr>))\<rparr>"

lemma sample_runtime_documented: "runtime_documented sample_runtime"
  unfolding runtime_documented_def
proof (intro conjI allI impI)
  fix host port and f f' :: federate_instance_t
  assume "rt_connect_to_rti sample_runtime host port f = Inr f'"
  then show "\<exists>s l. f' = f\<lparr>socket_TCP_RTI := s, RTI_socket_listener := l\<rparr>"
    by (intro exI [of _ 3] exI [of _ "RTI_socket_listener f"]) (auto simp: sample_runtime_def)
next
  fix f f' assume "rt_create_inbound_thread sample_runtime f = Inr f'"
  then show "\<exists>th ls ss. length ss = length (sockets_for_inbound_p2p_connections f) \<and>
      f' = f\<lparr>inbound_p2p_handling_thread_id := th, inbound_socket_listeners := ls,
        sockets_for_inbound_p2p_connections := ss\<rparr>"
    by (intro exI [of _ 1] exI [of _ "[2]"] exI [of _ "map (\<lambda>s. 6) (sockets_for_inbound_p2p_connections f)"])
      (auto simp: sample_runtime_def)
qed (auto simp: sample_runtime_def intro: exI [of _ "4 :: c_int"])

lemma sample_runtime_available: "runtime_available sample_runtime"
  unfolding runtime_available_def
proof (intro allI)
  fix c f show "\<exists>f'. runtime_effect sample_runtime c f = Inr f'"
    by (cases c) (auto simp: sample_runtime_def)
qed

end
