(* ===== verification/Federates.thy ===== *)
theory Federates
  imports Federate_Runtime
begin

text \<open>
  The 46 preambles \<open>src/include/_federate__<name>_preamble.h\<close> of the generated federation, one
  record per file, in the order of the IDs; and the federation they form.
\<close>

definition federate__cbf_preamble :: preamble where
  "federate__cbf_preamble =
   \<lparr>action_delay_table_len = 0, action_table_len = 0, action_table_size = 0,
    zero_delay_cycle_action_table_len = 0, zero_delay_cycle_action_table_size = 0,
    network_input_reactions_len = 0, num_network_input_reactions = 0,
    port_absent_reaction_len = 0, num_port_absent_reactions = 0,
    staa_lst_len = 0, staa_lst_size = 0,
    pre_my_fed_id = 0, pre_inbound = 0, pre_outbound = 0,
    pre_connections = [],
    pre_staas = [],
    pre_triggers = []\<rparr>"

definition federate__imu_preamble :: preamble where
  "federate__imu_preamble =
   \<lparr>action_delay_table_len = 0, action_table_len = 0, action_table_size = 0,
    zero_delay_cycle_action_table_len = 0, zero_delay_cycle_action_table_size = 0,
    network_input_reactions_len = 0, num_network_input_reactions = 0,
    port_absent_reaction_len = 0, num_port_absent_reactions = 0,
    staa_lst_len = 0, staa_lst_size = 0,
    pre_my_fed_id = 1, pre_inbound = 0, pre_outbound = 0,
    pre_connections = [],
    pre_staas = [],
    pre_triggers = []\<rparr>"

definition federate__vvc_preamble :: preamble where
  "federate__vvc_preamble =
   \<lparr>action_delay_table_len = 0, action_table_len = 0, action_table_size = 0,
    zero_delay_cycle_action_table_len = 0, zero_delay_cycle_action_table_size = 0,
    network_input_reactions_len = 0, num_network_input_reactions = 0,
    port_absent_reaction_len = 0, num_port_absent_reactions = 0,
    staa_lst_len = 0, staa_lst_size = 0,
    pre_my_fed_id = 2, pre_inbound = 0, pre_outbound = 0,
    pre_connections = [],
    pre_staas = [],
    pre_triggers = []\<rparr>"

definition federate__ndt_preamble :: preamble where
  "federate__ndt_preamble =
   \<lparr>action_delay_table_len = 0, action_table_len = 0, action_table_size = 0,
    zero_delay_cycle_action_table_len = 0, zero_delay_cycle_action_table_size = 0,
    network_input_reactions_len = 0, num_network_input_reactions = 0,
    port_absent_reaction_len = 0, num_port_absent_reactions = 0,
    staa_lst_len = 0, staa_lst_size = 0,
    pre_my_fed_id = 3, pre_inbound = 0, pre_outbound = 0,
    pre_connections = [],
    pre_staas = [],
    pre_triggers = []\<rparr>"

definition federate__gyro_preamble :: preamble where
  "federate__gyro_preamble =
   \<lparr>action_delay_table_len = 0, action_table_len = 0, action_table_size = 0,
    zero_delay_cycle_action_table_len = 0, zero_delay_cycle_action_table_size = 0,
    network_input_reactions_len = 0, num_network_input_reactions = 0,
    port_absent_reaction_len = 0, num_port_absent_reactions = 0,
    staa_lst_len = 0, staa_lst_size = 0,
    pre_my_fed_id = 4, pre_inbound = 0, pre_outbound = 0,
    pre_connections = [],
    pre_staas = [],
    pre_triggers = []\<rparr>"

definition federate__ekf_preamble :: preamble where
  "federate__ekf_preamble =
   \<lparr>action_delay_table_len = 0, action_table_len = 0, action_table_size = 0,
    zero_delay_cycle_action_table_len = 0, zero_delay_cycle_action_table_size = 0,
    network_input_reactions_len = 0, num_network_input_reactions = 0,
    port_absent_reaction_len = 0, num_port_absent_reactions = 0,
    staa_lst_len = 0, staa_lst_size = 0,
    pre_my_fed_id = 5, pre_inbound = 0, pre_outbound = 0,
    pre_connections = [],
    pre_staas = [],
    pre_triggers = []\<rparr>"

definition federate__pcm_preamble :: preamble where
  "federate__pcm_preamble =
   \<lparr>action_delay_table_len = 0, action_table_len = 0, action_table_size = 0,
    zero_delay_cycle_action_table_len = 0, zero_delay_cycle_action_table_size = 0,
    network_input_reactions_len = 0, num_network_input_reactions = 0,
    port_absent_reaction_len = 0, num_port_absent_reactions = 0,
    staa_lst_len = 0, staa_lst_size = 0,
    pre_my_fed_id = 6, pre_inbound = 0, pre_outbound = 0,
    pre_connections = [],
    pre_staas = [],
    pre_triggers = []\<rparr>"

definition federate__l2m_preamble :: preamble where
  "federate__l2m_preamble =
   \<lparr>action_delay_table_len = 0, action_table_len = 0, action_table_size = 0,
    zero_delay_cycle_action_table_len = 0, zero_delay_cycle_action_table_size = 0,
    network_input_reactions_len = 0, num_network_input_reactions = 0,
    port_absent_reaction_len = 0, num_port_absent_reactions = 0,
    staa_lst_len = 0, staa_lst_size = 0,
    pre_my_fed_id = 7, pre_inbound = 0, pre_outbound = 0,
    pre_connections = [],
    pre_staas = [],
    pre_triggers = []\<rparr>"

definition federate__gs_preamble :: preamble where
  "federate__gs_preamble =
   \<lparr>action_delay_table_len = 0, action_table_len = 0, action_table_size = 0,
    zero_delay_cycle_action_table_len = 0, zero_delay_cycle_action_table_size = 0,
    network_input_reactions_len = 0, num_network_input_reactions = 0,
    port_absent_reaction_len = 0, num_port_absent_reactions = 0,
    staa_lst_len = 0, staa_lst_size = 0,
    pre_my_fed_id = 8, pre_inbound = 0, pre_outbound = 0,
    pre_connections = [],
    pre_staas = [],
    pre_triggers = []\<rparr>"

definition federate__lcp_preamble :: preamble where
  "federate__lcp_preamble =
   \<lparr>action_delay_table_len = 0, action_table_len = 0, action_table_size = 0,
    zero_delay_cycle_action_table_len = 0, zero_delay_cycle_action_table_size = 0,
    network_input_reactions_len = 0, num_network_input_reactions = 0,
    port_absent_reaction_len = 0, num_port_absent_reactions = 0,
    staa_lst_len = 0, staa_lst_size = 0,
    pre_my_fed_id = 9, pre_inbound = 0, pre_outbound = 0,
    pre_connections = [],
    pre_staas = [],
    pre_triggers = []\<rparr>"

definition federate__ec_preamble :: preamble where
  "federate__ec_preamble =
   \<lparr>action_delay_table_len = 0, action_table_len = 0, action_table_size = 0,
    zero_delay_cycle_action_table_len = 0, zero_delay_cycle_action_table_size = 0,
    network_input_reactions_len = 0, num_network_input_reactions = 0,
    port_absent_reaction_len = 0, num_port_absent_reactions = 0,
    staa_lst_len = 0, staa_lst_size = 0,
    pre_my_fed_id = 10, pre_inbound = 0, pre_outbound = 0,
    pre_connections = [],
    pre_staas = [],
    pre_triggers = []\<rparr>"

definition federate__pmf_preamble :: preamble where
  "federate__pmf_preamble =
   \<lparr>action_delay_table_len = 0, action_table_len = 0, action_table_size = 0,
    zero_delay_cycle_action_table_len = 0, zero_delay_cycle_action_table_size = 0,
    network_input_reactions_len = 0, num_network_input_reactions = 0,
    port_absent_reaction_len = 0, num_port_absent_reactions = 0,
    staa_lst_len = 0, staa_lst_size = 0,
    pre_my_fed_id = 11, pre_inbound = 0, pre_outbound = 0,
    pre_connections = [],
    pre_staas = [],
    pre_triggers = []\<rparr>"

definition federate__dbt_preamble :: preamble where
  "federate__dbt_preamble =
   \<lparr>action_delay_table_len = 0, action_table_len = 0, action_table_size = 0,
    zero_delay_cycle_action_table_len = 0, zero_delay_cycle_action_table_size = 0,
    network_input_reactions_len = 0, num_network_input_reactions = 0,
    port_absent_reaction_len = 0, num_port_absent_reactions = 0,
    staa_lst_len = 0, staa_lst_size = 0,
    pre_my_fed_id = 12, pre_inbound = 0, pre_outbound = 0,
    pre_connections = [],
    pre_staas = [],
    pre_triggers = []\<rparr>"

definition federate__ov_preamble :: preamble where
  "federate__ov_preamble =
   \<lparr>action_delay_table_len = 0, action_table_len = 0, action_table_size = 0,
    zero_delay_cycle_action_table_len = 0, zero_delay_cycle_action_table_size = 0,
    network_input_reactions_len = 0, num_network_input_reactions = 0,
    port_absent_reaction_len = 0, num_port_absent_reactions = 0,
    staa_lst_len = 0, staa_lst_size = 0,
    pre_my_fed_id = 13, pre_inbound = 0, pre_outbound = 0,
    pre_connections = [],
    pre_staas = [],
    pre_triggers = []\<rparr>"

definition federate__of_preamble :: preamble where
  "federate__of_preamble =
   \<lparr>action_delay_table_len = 0, action_table_len = 0, action_table_size = 0,
    zero_delay_cycle_action_table_len = 0, zero_delay_cycle_action_table_size = 0,
    network_input_reactions_len = 0, num_network_input_reactions = 0,
    port_absent_reaction_len = 0, num_port_absent_reactions = 0,
    staa_lst_len = 0, staa_lst_size = 0,
    pre_my_fed_id = 14, pre_inbound = 0, pre_outbound = 0,
    pre_connections = [],
    pre_staas = [],
    pre_triggers = []\<rparr>"

definition federate__clf_preamble :: preamble where
  "federate__clf_preamble =
   \<lparr>action_delay_table_len = 0, action_table_len = 0, action_table_size = 0,
    zero_delay_cycle_action_table_len = 0, zero_delay_cycle_action_table_size = 0,
    network_input_reactions_len = 0, num_network_input_reactions = 0,
    port_absent_reaction_len = 0, num_port_absent_reactions = 0,
    staa_lst_len = 0, staa_lst_size = 0,
    pre_my_fed_id = 15, pre_inbound = 0, pre_outbound = 0,
    pre_connections = [],
    pre_staas = [],
    pre_triggers = []\<rparr>"

definition federate__mot_preamble :: preamble where
  "federate__mot_preamble =
   \<lparr>action_delay_table_len = 0, action_table_len = 0, action_table_size = 0,
    zero_delay_cycle_action_table_len = 0, zero_delay_cycle_action_table_size = 0,
    network_input_reactions_len = 0, num_network_input_reactions = 0,
    port_absent_reaction_len = 0, num_port_absent_reactions = 0,
    staa_lst_len = 0, staa_lst_size = 0,
    pre_my_fed_id = 16, pre_inbound = 0, pre_outbound = 0,
    pre_connections = [],
    pre_staas = [],
    pre_triggers = []\<rparr>"

definition federate__mbp_preamble :: preamble where
  "federate__mbp_preamble =
   \<lparr>action_delay_table_len = 0, action_table_len = 0, action_table_size = 0,
    zero_delay_cycle_action_table_len = 0, zero_delay_cycle_action_table_size = 0,
    network_input_reactions_len = 0, num_network_input_reactions = 0,
    port_absent_reaction_len = 0, num_port_absent_reactions = 0,
    staa_lst_len = 0, staa_lst_size = 0,
    pre_my_fed_id = 17, pre_inbound = 0, pre_outbound = 0,
    pre_connections = [],
    pre_staas = [],
    pre_triggers = []\<rparr>"

definition federate__ogm_preamble :: preamble where
  "federate__ogm_preamble =
   \<lparr>action_delay_table_len = 0, action_table_len = 0, action_table_size = 0,
    zero_delay_cycle_action_table_len = 0, zero_delay_cycle_action_table_size = 0,
    network_input_reactions_len = 0, num_network_input_reactions = 0,
    port_absent_reaction_len = 0, num_port_absent_reactions = 0,
    staa_lst_len = 0, staa_lst_size = 0,
    pre_my_fed_id = 18, pre_inbound = 0, pre_outbound = 0,
    pre_connections = [],
    pre_staas = [],
    pre_triggers = []\<rparr>"

definition federate__tlmbd_preamble :: preamble where
  "federate__tlmbd_preamble =
   \<lparr>action_delay_table_len = 0, action_table_len = 0, action_table_size = 0,
    zero_delay_cycle_action_table_len = 0, zero_delay_cycle_action_table_size = 0,
    network_input_reactions_len = 0, num_network_input_reactions = 0,
    port_absent_reaction_len = 0, num_port_absent_reactions = 0,
    staa_lst_len = 0, staa_lst_size = 0,
    pre_my_fed_id = 19, pre_inbound = 0, pre_outbound = 0,
    pre_connections = [],
    pre_staas = [],
    pre_triggers = []\<rparr>"

definition federate__tlc_preamble :: preamble where
  "federate__tlc_preamble =
   \<lparr>action_delay_table_len = 0, action_table_len = 0, action_table_size = 0,
    zero_delay_cycle_action_table_len = 0, zero_delay_cycle_action_table_size = 0,
    network_input_reactions_len = 0, num_network_input_reactions = 0,
    port_absent_reaction_len = 0, num_port_absent_reactions = 0,
    staa_lst_len = 0, staa_lst_size = 0,
    pre_my_fed_id = 20, pre_inbound = 0, pre_outbound = 0,
    pre_connections = [],
    pre_staas = [],
    pre_triggers = []\<rparr>"

definition federate__tla_preamble :: preamble where
  "federate__tla_preamble =
   \<lparr>action_delay_table_len = 0, action_table_len = 0, action_table_size = 0,
    zero_delay_cycle_action_table_len = 0, zero_delay_cycle_action_table_size = 0,
    network_input_reactions_len = 0, num_network_input_reactions = 0,
    port_absent_reaction_len = 0, num_port_absent_reactions = 0,
    staa_lst_len = 0, staa_lst_size = 0,
    pre_my_fed_id = 21, pre_inbound = 0, pre_outbound = 0,
    pre_connections = [],
    pre_staas = [],
    pre_triggers = []\<rparr>"

definition federate__tlop_preamble :: preamble where
  "federate__tlop_preamble =
   \<lparr>action_delay_table_len = 0, action_table_len = 0, action_table_size = 0,
    zero_delay_cycle_action_table_len = 0, zero_delay_cycle_action_table_size = 0,
    network_input_reactions_len = 0, num_network_input_reactions = 0,
    port_absent_reaction_len = 0, num_port_absent_reactions = 0,
    staa_lst_len = 0, staa_lst_size = 0,
    pre_my_fed_id = 22, pre_inbound = 0, pre_outbound = 0,
    pre_connections = [],
    pre_staas = [],
    pre_triggers = []\<rparr>"

definition federate__ctle_preamble :: preamble where
  "federate__ctle_preamble =
   \<lparr>action_delay_table_len = 0, action_table_len = 0, action_table_size = 0,
    zero_delay_cycle_action_table_len = 0, zero_delay_cycle_action_table_size = 0,
    network_input_reactions_len = 0, num_network_input_reactions = 0,
    port_absent_reaction_len = 0, num_port_absent_reactions = 0,
    staa_lst_len = 0, staa_lst_size = 0,
    pre_my_fed_id = 23, pre_inbound = 0, pre_outbound = 0,
    pre_connections = [],
    pre_staas = [],
    pre_triggers = []\<rparr>"

definition federate__mp_preamble :: preamble where
  "federate__mp_preamble =
   \<lparr>action_delay_table_len = 0, action_table_len = 0, action_table_size = 0,
    zero_delay_cycle_action_table_len = 0, zero_delay_cycle_action_table_size = 0,
    network_input_reactions_len = 0, num_network_input_reactions = 0,
    port_absent_reaction_len = 0, num_port_absent_reactions = 0,
    staa_lst_len = 0, staa_lst_size = 0,
    pre_my_fed_id = 24, pre_inbound = 0, pre_outbound = 0,
    pre_connections = [],
    pre_staas = [],
    pre_triggers = []\<rparr>"

definition federate__bpp_preamble :: preamble where
  "federate__bpp_preamble =
   \<lparr>action_delay_table_len = 0, action_table_len = 0, action_table_size = 0,
    zero_delay_cycle_action_table_len = 0, zero_delay_cycle_action_table_size = 0,
    network_input_reactions_len = 0, num_network_input_reactions = 0,
    port_absent_reaction_len = 0, num_port_absent_reactions = 0,
    staa_lst_len = 0, staa_lst_size = 0,
    pre_my_fed_id = 25, pre_inbound = 0, pre_outbound = 0,
    pre_connections = [],
    pre_staas = [],
    pre_triggers = []\<rparr>"

definition federate__bvp_preamble :: preamble where
  "federate__bvp_preamble =
   \<lparr>action_delay_table_len = 0, action_table_len = 0, action_table_size = 0,
    zero_delay_cycle_action_table_len = 0, zero_delay_cycle_action_table_size = 0,
    network_input_reactions_len = 0, num_network_input_reactions = 0,
    port_absent_reaction_len = 0, num_port_absent_reactions = 0,
    staa_lst_len = 0, staa_lst_size = 0,
    pre_my_fed_id = 26, pre_inbound = 0, pre_outbound = 0,
    pre_connections = [],
    pre_staas = [],
    pre_triggers = []\<rparr>"

definition federate__ps_preamble :: preamble where
  "federate__ps_preamble =
   \<lparr>action_delay_table_len = 0, action_table_len = 0, action_table_size = 0,
    zero_delay_cycle_action_table_len = 0, zero_delay_cycle_action_table_size = 0,
    network_input_reactions_len = 0, num_network_input_reactions = 0,
    port_absent_reaction_len = 0, num_port_absent_reactions = 0,
    staa_lst_len = 0, staa_lst_size = 0,
    pre_my_fed_id = 27, pre_inbound = 0, pre_outbound = 0,
    pre_connections = [],
    pre_staas = [],
    pre_triggers = []\<rparr>"

definition federate__po_preamble :: preamble where
  "federate__po_preamble =
   \<lparr>action_delay_table_len = 0, action_table_len = 0, action_table_size = 0,
    zero_delay_cycle_action_table_len = 0, zero_delay_cycle_action_table_size = 0,
    network_input_reactions_len = 0, num_network_input_reactions = 0,
    port_absent_reaction_len = 0, num_port_absent_reactions = 0,
    staa_lst_len = 0, staa_lst_size = 0,
    pre_my_fed_id = 28, pre_inbound = 0, pre_outbound = 0,
    pre_connections = [],
    pre_staas = [],
    pre_triggers = []\<rparr>"

definition federate__mvp_preamble :: preamble where
  "federate__mvp_preamble =
   \<lparr>action_delay_table_len = 0, action_table_len = 0, action_table_size = 0,
    zero_delay_cycle_action_table_len = 0, zero_delay_cycle_action_table_size = 0,
    network_input_reactions_len = 0, num_network_input_reactions = 0,
    port_absent_reaction_len = 0, num_port_absent_reactions = 0,
    staa_lst_len = 0, staa_lst_size = 0,
    pre_my_fed_id = 29, pre_inbound = 0, pre_outbound = 0,
    pre_connections = [],
    pre_staas = [],
    pre_triggers = []\<rparr>"

definition federate__soc_preamble :: preamble where
  "federate__soc_preamble =
   \<lparr>action_delay_table_len = 0, action_table_len = 0, action_table_size = 0,
    zero_delay_cycle_action_table_len = 0, zero_delay_cycle_action_table_size = 0,
    network_input_reactions_len = 0, num_network_input_reactions = 0,
    port_absent_reaction_len = 0, num_port_absent_reactions = 0,
    staa_lst_len = 0, staa_lst_size = 0,
    pre_my_fed_id = 30, pre_inbound = 0, pre_outbound = 0,
    pre_connections = [],
    pre_staas = [],
    pre_triggers = []\<rparr>"

definition federate__ss_preamble :: preamble where
  "federate__ss_preamble =
   \<lparr>action_delay_table_len = 0, action_table_len = 0, action_table_size = 0,
    zero_delay_cycle_action_table_len = 0, zero_delay_cycle_action_table_size = 0,
    network_input_reactions_len = 0, num_network_input_reactions = 0,
    port_absent_reaction_len = 0, num_port_absent_reactions = 0,
    staa_lst_len = 0, staa_lst_size = 0,
    pre_my_fed_id = 31, pre_inbound = 0, pre_outbound = 1,
    pre_connections = [Connect_To_Federate 32],
    pre_staas = [],
    pre_triggers = []\<rparr>"

definition federate__vs_preamble :: preamble where
  "federate__vs_preamble =
   \<lparr>action_delay_table_len = 1, action_table_len = 1, action_table_size = 1,
    zero_delay_cycle_action_table_len = 0, zero_delay_cycle_action_table_size = 0,
    network_input_reactions_len = 1, num_network_input_reactions = 1,
    port_absent_reaction_len = 0, num_port_absent_reactions = 0,
    staa_lst_len = 1, staa_lst_size = 1,
    pre_my_fed_id = 32, pre_inbound = 1, pre_outbound = 0,
    pre_connections = [Create_Server 0, Create_Inbound_Thread],
    pre_staas = 
     [\<lparr>st_index = 0, st_STAA = 0, st_num_actions = 1, st_alloc = 1,
       st_assigns = [(0, 0)]\<rparr>],
    pre_triggers = 
     [\<lparr>tr_index = 0, tr_reactor = ''federate__vs_nr_federate__vs'',
       tr_source_id = 31\<rparr>]\<rparr>"

definition federate__fp_preamble :: preamble where
  "federate__fp_preamble =
   \<lparr>action_delay_table_len = 0, action_table_len = 0, action_table_size = 0,
    zero_delay_cycle_action_table_len = 0, zero_delay_cycle_action_table_size = 0,
    network_input_reactions_len = 0, num_network_input_reactions = 0,
    port_absent_reaction_len = 0, num_port_absent_reactions = 0,
    staa_lst_len = 0, staa_lst_size = 0,
    pre_my_fed_id = 33, pre_inbound = 0, pre_outbound = 0,
    pre_connections = [],
    pre_staas = [],
    pre_triggers = []\<rparr>"

definition federate__cg_preamble :: preamble where
  "federate__cg_preamble =
   \<lparr>action_delay_table_len = 0, action_table_len = 0, action_table_size = 0,
    zero_delay_cycle_action_table_len = 0, zero_delay_cycle_action_table_size = 0,
    network_input_reactions_len = 0, num_network_input_reactions = 0,
    port_absent_reaction_len = 0, num_port_absent_reactions = 0,
    staa_lst_len = 0, staa_lst_size = 0,
    pre_my_fed_id = 34, pre_inbound = 0, pre_outbound = 0,
    pre_connections = [],
    pre_staas = [],
    pre_triggers = []\<rparr>"

definition federate__pv_preamble :: preamble where
  "federate__pv_preamble =
   \<lparr>action_delay_table_len = 0, action_table_len = 0, action_table_size = 0,
    zero_delay_cycle_action_table_len = 0, zero_delay_cycle_action_table_size = 0,
    network_input_reactions_len = 0, num_network_input_reactions = 0,
    port_absent_reaction_len = 0, num_port_absent_reactions = 0,
    staa_lst_len = 0, staa_lst_size = 0,
    pre_my_fed_id = 35, pre_inbound = 0, pre_outbound = 0,
    pre_connections = [],
    pre_staas = [],
    pre_triggers = []\<rparr>"

definition federate__evls_preamble :: preamble where
  "federate__evls_preamble =
   \<lparr>action_delay_table_len = 0, action_table_len = 0, action_table_size = 0,
    zero_delay_cycle_action_table_len = 0, zero_delay_cycle_action_table_size = 0,
    network_input_reactions_len = 0, num_network_input_reactions = 0,
    port_absent_reaction_len = 0, num_port_absent_reactions = 0,
    staa_lst_len = 0, staa_lst_size = 0,
    pre_my_fed_id = 36, pre_inbound = 0, pre_outbound = 0,
    pre_connections = [],
    pre_staas = [],
    pre_triggers = []\<rparr>"

definition federate__tf_preamble :: preamble where
  "federate__tf_preamble =
   \<lparr>action_delay_table_len = 0, action_table_len = 0, action_table_size = 0,
    zero_delay_cycle_action_table_len = 0, zero_delay_cycle_action_table_size = 0,
    network_input_reactions_len = 0, num_network_input_reactions = 0,
    port_absent_reaction_len = 0, num_port_absent_reactions = 0,
    staa_lst_len = 0, staa_lst_size = 0,
    pre_my_fed_id = 37, pre_inbound = 0, pre_outbound = 0,
    pre_connections = [],
    pre_staas = [],
    pre_triggers = []\<rparr>"

definition federate__sd_preamble :: preamble where
  "federate__sd_preamble =
   \<lparr>action_delay_table_len = 0, action_table_len = 0, action_table_size = 0,
    zero_delay_cycle_action_table_len = 0, zero_delay_cycle_action_table_size = 0,
    network_input_reactions_len = 0, num_network_input_reactions = 0,
    port_absent_reaction_len = 0, num_port_absent_reactions = 0,
    staa_lst_len = 0, staa_lst_size = 0,
    pre_my_fed_id = 38, pre_inbound = 0, pre_outbound = 0,
    pre_connections = [],
    pre_staas = [],
    pre_triggers = []\<rparr>"

definition federate__vcg_preamble :: preamble where
  "federate__vcg_preamble =
   \<lparr>action_delay_table_len = 0, action_table_len = 0, action_table_size = 0,
    zero_delay_cycle_action_table_len = 0, zero_delay_cycle_action_table_size = 0,
    network_input_reactions_len = 0, num_network_input_reactions = 0,
    port_absent_reaction_len = 0, num_port_absent_reactions = 0,
    staa_lst_len = 0, staa_lst_size = 0,
    pre_my_fed_id = 39, pre_inbound = 0, pre_outbound = 1,
    pre_connections = [Connect_To_Federate 45],
    pre_staas = [],
    pre_triggers = []\<rparr>"

definition federate__omtm_preamble :: preamble where
  "federate__omtm_preamble =
   \<lparr>action_delay_table_len = 0, action_table_len = 0, action_table_size = 0,
    zero_delay_cycle_action_table_len = 0, zero_delay_cycle_action_table_size = 0,
    network_input_reactions_len = 0, num_network_input_reactions = 0,
    port_absent_reaction_len = 0, num_port_absent_reactions = 0,
    staa_lst_len = 0, staa_lst_size = 0,
    pre_my_fed_id = 40, pre_inbound = 0, pre_outbound = 0,
    pre_connections = [],
    pre_staas = [],
    pre_triggers = []\<rparr>"

definition federate__ldc_preamble :: preamble where
  "federate__ldc_preamble =
   \<lparr>action_delay_table_len = 0, action_table_len = 0, action_table_size = 0,
    zero_delay_cycle_action_table_len = 0, zero_delay_cycle_action_table_size = 0,
    network_input_reactions_len = 0, num_network_input_reactions = 0,
    port_absent_reaction_len = 0, num_port_absent_reactions = 0,
    staa_lst_len = 0, staa_lst_size = 0,
    pre_my_fed_id = 41, pre_inbound = 0, pre_outbound = 0,
    pre_connections = [],
    pre_staas = [],
    pre_triggers = []\<rparr>"

definition federate__cv_preamble :: preamble where
  "federate__cv_preamble =
   \<lparr>action_delay_table_len = 0, action_table_len = 0, action_table_size = 0,
    zero_delay_cycle_action_table_len = 0, zero_delay_cycle_action_table_size = 0,
    network_input_reactions_len = 0, num_network_input_reactions = 0,
    port_absent_reaction_len = 0, num_port_absent_reactions = 0,
    staa_lst_len = 0, staa_lst_size = 0,
    pre_my_fed_id = 42, pre_inbound = 0, pre_outbound = 0,
    pre_connections = [],
    pre_staas = [],
    pre_triggers = []\<rparr>"

definition federate__aeb_preamble :: preamble where
  "federate__aeb_preamble =
   \<lparr>action_delay_table_len = 0, action_table_len = 0, action_table_size = 0,
    zero_delay_cycle_action_table_len = 0, zero_delay_cycle_action_table_size = 0,
    network_input_reactions_len = 0, num_network_input_reactions = 0,
    port_absent_reaction_len = 0, num_port_absent_reactions = 0,
    staa_lst_len = 0, staa_lst_size = 0,
    pre_my_fed_id = 43, pre_inbound = 0, pre_outbound = 0,
    pre_connections = [],
    pre_staas = [],
    pre_triggers = []\<rparr>"

definition federate__cd_preamble :: preamble where
  "federate__cd_preamble =
   \<lparr>action_delay_table_len = 0, action_table_len = 0, action_table_size = 0,
    zero_delay_cycle_action_table_len = 0, zero_delay_cycle_action_table_size = 0,
    network_input_reactions_len = 0, num_network_input_reactions = 0,
    port_absent_reaction_len = 0, num_port_absent_reactions = 0,
    staa_lst_len = 0, staa_lst_size = 0,
    pre_my_fed_id = 44, pre_inbound = 0, pre_outbound = 0,
    pre_connections = [],
    pre_staas = [],
    pre_triggers = []\<rparr>"

definition federate__bridge_preamble :: preamble where
  "federate__bridge_preamble =
   \<lparr>action_delay_table_len = 4, action_table_len = 4, action_table_size = 4,
    zero_delay_cycle_action_table_len = 0, zero_delay_cycle_action_table_size = 0,
    network_input_reactions_len = 4, num_network_input_reactions = 4,
    port_absent_reaction_len = 0, num_port_absent_reactions = 0,
    staa_lst_len = 1, staa_lst_size = 1,
    pre_my_fed_id = 45, pre_inbound = 1, pre_outbound = 0,
    pre_connections = [Create_Server 0, Create_Inbound_Thread],
    pre_staas = 
     [\<lparr>st_index = 0, st_STAA = 0, st_num_actions = 4, st_alloc = 4,
       st_assigns = [(0, 0), (1, 1), (2, 2), (3, 3)]\<rparr>],
    pre_triggers = 
     [\<lparr>tr_index = 0, tr_reactor = ''federate__bridge_nr_federate__bridge'',
       tr_source_id = 39\<rparr>,
      \<lparr>tr_index = 1, tr_reactor = ''federate__bridge_nr_federate__bridge_0'',
       tr_source_id = 39\<rparr>,
      \<lparr>tr_index = 2, tr_reactor = ''federate__bridge_nr_federate__bridge_1'',
       tr_source_id = 39\<rparr>,
      \<lparr>tr_index = 3, tr_reactor = ''federate__bridge_nr_federate__bridge_2'',
       tr_source_id = 39\<rparr>]\<rparr>"

section \<open>The federation\<close>

definition federation :: "preamble list" where
  "federation =
    [federate__cbf_preamble, federate__imu_preamble, federate__vvc_preamble,
     federate__ndt_preamble, federate__gyro_preamble, federate__ekf_preamble,
     federate__pcm_preamble, federate__l2m_preamble, federate__gs_preamble, federate__lcp_preamble,
     federate__ec_preamble, federate__pmf_preamble, federate__dbt_preamble, federate__ov_preamble,
     federate__of_preamble, federate__clf_preamble, federate__mot_preamble, federate__mbp_preamble,
     federate__ogm_preamble, federate__tlmbd_preamble, federate__tlc_preamble,
     federate__tla_preamble, federate__tlop_preamble, federate__ctle_preamble,
     federate__mp_preamble, federate__bpp_preamble, federate__bvp_preamble, federate__ps_preamble,
     federate__po_preamble, federate__mvp_preamble, federate__soc_preamble, federate__ss_preamble,
     federate__vs_preamble, federate__fp_preamble, federate__cg_preamble, federate__pv_preamble,
     federate__evls_preamble, federate__tf_preamble, federate__sd_preamble, federate__vcg_preamble,
     federate__omtm_preamble, federate__ldc_preamble, federate__cv_preamble,
     federate__aeb_preamble, federate__cd_preamble, federate__bridge_preamble]"

text \<open>The names of the compile definition \<open>_LF_FEDERATE_NAMES_COMMA_SEPARATED\<close>.\<close>

definition federate_names :: "string list" where
  "federate_names =
    [''federate__cbf'', ''federate__imu'', ''federate__vvc'', ''federate__ndt'',
     ''federate__gyro'', ''federate__ekf'', ''federate__pcm'', ''federate__l2m'', ''federate__gs'',
     ''federate__lcp'', ''federate__ec'', ''federate__pmf'', ''federate__dbt'', ''federate__ov'',
     ''federate__of'', ''federate__clf'', ''federate__mot'', ''federate__mbp'', ''federate__ogm'',
     ''federate__tlmbd'', ''federate__tlc'', ''federate__tla'', ''federate__tlop'',
     ''federate__ctle'', ''federate__mp'', ''federate__bpp'', ''federate__bvp'', ''federate__ps'',
     ''federate__po'', ''federate__mvp'', ''federate__soc'', ''federate__ss'', ''federate__vs'',
     ''federate__fp'', ''federate__cg'', ''federate__pv'', ''federate__evls'', ''federate__tf'',
     ''federate__sd'', ''federate__vcg'', ''federate__omtm'', ''federate__ldc'', ''federate__cv'',
     ''federate__aeb'', ''federate__cd'', ''federate__bridge'']"

lemmas preamble_defs =
  federate__cbf_preamble_def federate__imu_preamble_def federate__vvc_preamble_def
  federate__ndt_preamble_def federate__gyro_preamble_def federate__ekf_preamble_def
  federate__pcm_preamble_def federate__l2m_preamble_def federate__gs_preamble_def
  federate__lcp_preamble_def federate__ec_preamble_def federate__pmf_preamble_def
  federate__dbt_preamble_def federate__ov_preamble_def federate__of_preamble_def
  federate__clf_preamble_def federate__mot_preamble_def federate__mbp_preamble_def
  federate__ogm_preamble_def federate__tlmbd_preamble_def federate__tlc_preamble_def
  federate__tla_preamble_def federate__tlop_preamble_def federate__ctle_preamble_def
  federate__mp_preamble_def federate__bpp_preamble_def federate__bvp_preamble_def
  federate__ps_preamble_def federate__po_preamble_def federate__mvp_preamble_def
  federate__soc_preamble_def federate__ss_preamble_def federate__vs_preamble_def
  federate__fp_preamble_def federate__cg_preamble_def federate__pv_preamble_def
  federate__evls_preamble_def federate__tf_preamble_def federate__sd_preamble_def
  federate__vcg_preamble_def federate__omtm_preamble_def federate__ldc_preamble_def
  federate__cv_preamble_def federate__aeb_preamble_def federate__cd_preamble_def
  federate__bridge_preamble_def

section \<open>Initialisation of every federate\<close>

lemma federation_length: "length federation = NUMBER_OF_FEDERATES"
  by (simp add: federation_def NUMBER_OF_FEDERATES_def)

lemma federation_ids: "map pre_my_fed_id federation = map of_nat [0..<NUMBER_OF_FEDERATES]"
  by (simp add: federation_def preamble_defs NUMBER_OF_FEDERATES_def upt_conv_Cons)

lemma federation_id_nth: "k < NUMBER_OF_FEDERATES \<Longrightarrow> pre_my_fed_id (federation ! k) = of_nat k"
  using arg_cong [OF federation_ids, of "\<lambda>xs. xs ! k"] by (simp add: federation_length)

text \<open>The connections of the \<open>k\<close>-th preamble.\<close>

lemma federation_summary:
  "map (\<lambda>pre. (connects pre, pre_outbound pre, pre_inbound pre, creates_server pre)) federation =
   map (\<lambda>k. (if k = 31 then [32] else if k = 39 then [45] else [],
             if k = 31 \<or> k = 39 then 1 else 0, if k = 32 \<or> k = 45 then 1 else 0, k = 32 \<or> k = 45))
     [0..<NUMBER_OF_FEDERATES]"
  by (simp add: federation_def preamble_defs NUMBER_OF_FEDERATES_def upt_conv_Cons connects_def
      creates_server_def)

lemma federation_nth:
  assumes "k < NUMBER_OF_FEDERATES"
  shows "connects (federation ! k) = (if k = 31 then [32] else if k = 39 then [45] else [])"
    and "pre_outbound (federation ! k) = (if k = 31 \<or> k = 39 then 1 else 0)"
    and "pre_inbound (federation ! k) = (if k = 32 \<or> k = 45 then 1 else 0)"
    and "creates_server (federation ! k) \<longleftrightarrow> k = 32 \<or> k = 45"
  using arg_cong [OF federation_summary, of "\<lambda>xs. xs ! k"] assms by (simp_all add: federation_length)

lemmas connects_nth = federation_nth(1)

lemma inbound_connectors:
  assumes "k < NUMBER_OF_FEDERATES"
  shows "length (filter (\<lambda>j. k \<in> set (connects (federation ! j))) [0..<NUMBER_OF_FEDERATES]) =
    (if k = 32 \<or> k = 45 then 1 else 0)"
proof -
  have "filter (\<lambda>j. k \<in> set (connects (federation ! j))) [0..<NUMBER_OF_FEDERATES] =
      filter (\<lambda>j. k = 32 \<and> j = 31 \<or> k = 45 \<and> j = 39) [0..<NUMBER_OF_FEDERATES]"
    by (rule filter_cong) (auto simp: connects_nth)
  then show ?thesis by (simp add: NUMBER_OF_FEDERATES_def upt_conv_Cons)
qed

lemma federation_triggers:
  "map (\<lambda>pre. map (\<lambda>t. unat (tr_source_id t)) (pre_triggers pre)) federation =
   map (\<lambda>k. if k = 32 then [31] else if k = 45 then [39, 39, 39, 39] else []) [0..<NUMBER_OF_FEDERATES]"
  by (simp add: federation_def preamble_defs NUMBER_OF_FEDERATES_def upt_conv_Cons)

lemma triggers_nth:
  assumes "k < NUMBER_OF_FEDERATES"
  shows "map (\<lambda>t. unat (tr_source_id t)) (pre_triggers (federation ! k)) =
    (if k = 32 then [31] else if k = 45 then [39, 39, 39, 39] else [])"
  using arg_cong [OF federation_triggers, of "\<lambda>xs. xs ! k"] assms by (simp add: federation_length)

lemma trigger_sources:
  assumes "k < NUMBER_OF_FEDERATES"
  shows "(\<lambda>t. unat (tr_source_id t)) ` set (pre_triggers (federation ! k)) =
    (if k = 32 then {31} else if k = 45 then {39} else {})"
  using arg_cong [OF triggers_nth [OF assms], of set] by (simp split: if_splits)

text \<open>Only four preambles differ from the others in more than the ID.\<close>

lemma federation_cases:
  assumes "pre \<in> set federation"
  shows "pre = federate__vs_preamble \<or> pre = federate__bridge_preamble \<or>
    pre_triggers pre = [] \<and> pre_staas pre = [] \<and> action_delay_table_len pre = 0 \<and>
    action_table_len pre = 0 \<and> action_table_size pre = 0 \<and> staa_lst_len pre = 0 \<and>
    staa_lst_size pre = 0"
  using assms unfolding federation_def
  by (simp only: list.set insert_iff empty_iff, elim disjE FalseE) (simp_all add: preamble_defs)

text \<open>
  Consistent tables: every delay is \<open>NEVER\<close>, every action pointer is the network action of its
  trigger, the list of STAA entries holds every action exactly once, with no NULL pointer and as
  many actions as it announces, and every network action knows the federate it hears from.
\<close>

definition staa_actions_of :: "staa_t option \<Rightarrow> action_pointer list" where
  "staa_actions_of e = (case e of None \<Rightarrow> [] | Some st \<Rightarrow> staa_actions st)"

definition trigger_tables_ok :: "int64_t \<Rightarrow> preamble \<Rightarrow> trigger_state \<Rightarrow> bool" where
  "trigger_tables_ok never pre s =
     (lf_action_delay_table s = replicate (unat (action_table_size pre)) never \<and>
      lf_action_table s = map (\<lambda>t. Some (tr_reactor t)) (pre_triggers pre) \<and>
      length (lf_action_table s) = unat (action_table_size pre) \<and>
      length (staa_lst s) = unat (staa_lst_size pre) \<and>
      list_all (\<lambda>e. case e of None \<Rightarrow> False
        | Some st \<Rightarrow> length (staa_actions st) = unat (num_actions st)) (staa_lst s) \<and>
      concat (map staa_actions_of (staa_lst s)) = lf_action_table s \<and>
      list_all (\<lambda>t. source_id s (tr_reactor t) = tr_source_id t) (pre_triggers pre))"

lemma vs_triggers:
  assumes "\<And>n. malloc n"
  shows "\<exists>s. initialize_triggers_for_federate never malloc junk federate__vs_preamble
      (initial_tables sources federate__vs_preamble) = Inr s \<and>
    trigger_tables_ok never federate__vs_preamble s"
  by (simp add: initialize_triggers_for_federate_def initial_tables_def federate__vs_preamble_def
      init_trigger_def staa_initialization_def init_staa_def assms c_write_def c_read_def
      trigger_tables_ok_def staa_actions_of_def)

lemma four_slots:
  "replicate 4 x = [x, x, x, x]" "[0..<4] = [0, 1, 2, 3]"
  "[a, b, c, d][2 := x] = [a, b, x, d]" "[a, b, c, d][3 := x] = [a, b, c, x]"
  by (simp_all add: numeral_eq_Suc upt_conv_Cons)

lemma bridge_triggers:
  assumes "\<And>n. malloc n"
  shows "\<exists>s. initialize_triggers_for_federate never malloc junk federate__bridge_preamble
      (initial_tables sources federate__bridge_preamble) = Inr s \<and>
    trigger_tables_ok never federate__bridge_preamble s"
  by (simp add: initialize_triggers_for_federate_def initial_tables_def federate__bridge_preamble_def
      init_trigger_def staa_initialization_def init_staa_def assms c_write_def c_read_def
      trigger_tables_ok_def staa_actions_of_def four_slots)

section \<open>Properties\<close>

lemma federation_inbound_threads:
  "map (\<lambda>pre. Create_Inbound_Thread \<in> set (pre_connections pre)) federation =
   map (\<lambda>k. k = 32 \<or> k = 45) [0..<NUMBER_OF_FEDERATES]"
  by (simp add: federation_def preamble_defs NUMBER_OF_FEDERATES_def upt_conv_Cons)

lemma inbound_thread_nth:
  assumes "k < NUMBER_OF_FEDERATES"
  shows "Create_Inbound_Thread \<in> set (pre_connections (federation ! k)) \<longleftrightarrow> pre_inbound (federation ! k) \<noteq> 0"
  using arg_cong [OF federation_inbound_threads, of "\<lambda>xs. xs ! k"] assms
  by (simp add: federation_length federation_nth)

text \<open>C6: the preamble of the \<open>k\<close>-th federate, run on any process state with runtime functions
  that do what their documentation says, ends the program only where one of its calls of a runtime
  function does.  When it returns, the federate has the ID \<open>k\<close> and the announced numbers of
  connections, an open outbound socket to exactly the federates it is connected to, and, unless it
  expects inbound connections, every inbound socket closed (the thread that accepts them may have
  opened some already); the locks are initialised before the first call into the network, the RTI
  is connected before anything else, and the calls that follow are those of the file, each once.\<close>

theorem federate_preamble_effect:
  assumes "runtime_documented rt" and "k < NUMBER_OF_FEDERATES"
    and "length (sockets_for_inbound_p2p_connections (fed p)) = NUMBER_OF_FEDERATES"
    and "length (sockets_for_outbound_p2p_connections (fed p)) = NUMBER_OF_FEDERATES"
  shows "case lf_executable_preamble rt (federation ! k) p of
      Inl e \<Rightarrow> \<exists>c \<in> set (Connect_To_Rti ''localhost'' 0 # pre_connections (federation ! k)).
        \<exists>f. runtime_effect rt c f = Inl e
    | Inr p' \<Rightarrow>
        unat (lf_my_fed_id p') = k \<and>
        number_of_inbound_p2p_connections (fed p') = pre_inbound (federation ! k) \<and>
        number_of_outbound_p2p_connections (fed p') = pre_outbound (federation ! k) \<and>
        (pre_inbound (federation ! k) = 0 \<longrightarrow>
          sockets_for_inbound_p2p_connections (fed p') = replicate NUMBER_OF_FEDERATES (- 1)) \<and>
        (\<forall>i < NUMBER_OF_FEDERATES. sockets_for_outbound_p2p_connections (fed p') ! i \<noteq> - 1 \<longleftrightarrow>
           i \<in> set (connects (federation ! k))) \<and>
        calls p' = calls p @ [Init_Outbound_Mutex, Init_Shutdown_Mutex, Init_Port_Status_Cond,
          Connect_To_Rti ''localhost'' 0] @ pre_connections (federation ! k)"
proof (cases "lf_executable_preamble rt (federation ! k) p")
  case (Inl e)
  then show ?thesis
    by (simp only: executable_preamble_calls [OF assms(3,4)] sum.case)
      (drule run_calls_fault, assumption)
next
  case (Inr p')
  have "unat (pre_my_fed_id (federation ! k)) = k"
    using assms(2) by (simp add: federation_id_nth NUMBER_OF_FEDERATES_def unat_of_nat)
  with Inr executable_preamble_result [OF assms(1,3,4) Inr] inbound_thread_nth [OF assms(2)]
  show ?thesis by simp
qed

definition sample_process :: process where
  "sample_process = \<lparr>lf_my_fed_id = 0, fed =
     \<lparr>socket_TCP_RTI = - 1, RTI_socket_listener = 0, number_of_inbound_p2p_connections = 0,
      inbound_socket_listeners = [], number_of_outbound_p2p_connections = 0,
      sockets_for_inbound_p2p_connections = replicate NUMBER_OF_FEDERATES 0,
      sockets_for_outbound_p2p_connections = replicate NUMBER_OF_FEDERATES 0,
      inbound_p2p_handling_thread_id = 0, server_socket = - 1, server_port = - 1,
      last_TAG = \<lparr>time = 0, microstep = 0\<rparr>, is_last_TAG_provisional = False,
      has_upstream = False, has_downstream = False, received_stop_request_from_rti = False,
      last_sent_LTC = \<lparr>time = 0, microstep = 0\<rparr>, last_sent_NET = \<lparr>time = 0, microstep = 0\<rparr>,
      last_skipped_NET = \<lparr>time = 0, microstep = 0\<rparr>, received_any_DNET = False,
      last_DNET = \<lparr>time = 0, microstep = 0\<rparr>,
      min_delay_from_physical_action_to_federate_output = 0, staaSetter = 0\<rparr>, calls = []\<rparr>"

lemma sample_preamble_returns: "\<exists>p'. lf_executable_preamble sample_runtime pre sample_process = Inr p'"
  using executable_preamble_effect
    [OF sample_runtime_documented sample_runtime_available, of sample_process pre]
  by (auto simp: sample_process_def)

theorem federate_preamble_effect_witness:
  "\<exists>p'. lf_executable_preamble sample_runtime (federation ! 39) sample_process = Inr p' \<and>
    unat (lf_my_fed_id p') = 39 \<and> sockets_for_outbound_p2p_connections (fed p') ! 45 \<noteq> - 1"
proof -
  obtain p' where p': "lf_executable_preamble sample_runtime (federation ! 39) sample_process = Inr p'"
    using sample_preamble_returns by blast
  moreover have "45 \<in> set (connects (federation ! 39))"
    by (simp add: connects_nth NUMBER_OF_FEDERATES_def)
  ultimately show ?thesis
    using federate_preamble_effect [OF sample_runtime_documented, of 39 sample_process]
    by (simp add: sample_process_def NUMBER_OF_FEDERATES_def)
qed

text \<open>C9: after \<open>initialize_triggers_for_federate\<close> the tables of every federate are
  consistent, whatever the allocated memory held: the delays are \<open>NEVER\<close>, the action table and
  the STAA list hold the network action of every trigger exactly once and no NULL pointer, the
  announced counts are the real ones, and each action knows its source federate.  It rests on the
  order of the macro, which fills the action table before the STAA list copies from it.\<close>

theorem initialize_triggers_consistent:
  assumes "pre \<in> set federation" and "\<And>n. malloc n"
  shows "\<exists>s. initialize_triggers_for_federate never malloc junk pre (initial_tables sources pre) = Inr s \<and>
    trigger_tables_ok never pre s"
  using federation_cases [OF assms(1)] vs_triggers [OF assms(2)] bridge_triggers [OF assms(2)]
proof (elim disjE)
  assume "pre_triggers pre = [] \<and> pre_staas pre = [] \<and> action_delay_table_len pre = 0 \<and>
    action_table_len pre = 0 \<and> action_table_size pre = 0 \<and> staa_lst_len pre = 0 \<and>
    staa_lst_size pre = 0"
  then show ?thesis
    by (simp add: initialize_triggers_for_federate_def staa_initialization_def initial_tables_def
        trigger_tables_ok_def)
qed auto

theorem initialize_triggers_consistent_witness:
  "\<exists>s. initialize_triggers_for_federate 7 (\<lambda>n. True) (\<lambda>i. Some ''junk'') federate__bridge_preamble
      (initial_tables (\<lambda>r. 0) federate__bridge_preamble) = Inr s \<and>
    trigger_tables_ok 7 federate__bridge_preamble s"
  by (rule initialize_triggers_consistent) (simp_all add: federation_def)



text \<open>C34: The neighbor structure message of every federate fills its buffer exactly: no write
  leaves it, no byte stays unwritten, and what is sent is the identifying byte and the two counts
  of an empty list of upstream and of downstream federates.\<close>

theorem neighbor_structure_message:
  assumes "little_endian 4 encode_int32"
  shows "lf_send_neighbor_structure_to_RTI encode_int32 junk =
      Inr (MSG_TYPE_NEIGHBOR_STRUCTURE # word_bytes 4 (0 :: int32_t) @ word_bytes 4 (0 :: int32_t)) \<and>
    length (MSG_TYPE_NEIGHBOR_STRUCTURE # word_bytes 4 (0 :: int32_t) @ word_bytes 4 (0 :: int32_t)) =
      MSG_TYPE_NEIGHBOR_STRUCTURE_HEADER_SIZE"
proof -
  have "encode_int32 0 = [0, 0, 0, 0]"
    using assms by (simp add: little_endian_def le_bytes_numeral)
  then show ?thesis
    by (simp add: lf_send_neighbor_structure_to_RTI_def c_write_def c_write_block_def
        upt_conv_Cons word_bytes_def le_bytes_numeral MSG_TYPE_NEIGHBOR_STRUCTURE_HEADER_SIZE_def)
qed

theorem neighbor_structure_message_witness:
  "lf_send_neighbor_structure_to_RTI (word_bytes 4) (\<lambda>i. 170) = Inr [24, 0, 0, 0, 0, 0, 0, 0, 0]"
  using neighbor_structure_message [of "word_bytes 4" "\<lambda>i. 170"]
  by (simp add: little_endian_def word_bytes_def le_bytes_numeral
      MSG_TYPE_NEIGHBOR_STRUCTURE_def)

end
