(* ===== verification/Compositions.thy ===== *)
theory Compositions
  imports Federates "HOL-Library.Sublist"
begin

text \<open>
  The programs that put the reactors together: the packages of \<open>lf-src/Packages\<close>, and the three
  top-level programs \<open>AutowareMono.lf\<close>, \<open>AutowareUniverse.lf\<close> and \<open>AutowareFederated.lf\<close>.  A
  composition is the tree of its instances with the connections of each level; flattening it
  gives the instances of the node wrappers and the dataflow between their ports.  The federated
  program is compared with the federates that were generated from it (theory \<open>Federates\<close>).
\<close>

section \<open>Compositions\<close>

text \<open>\<open>->\<close> is a logical connection, \<open>~>\<close> a physical one.\<close>

datatype arrow =
    Logical
  | Physical

text \<open>A port of the container itself, or of one of its instances.\<close>

datatype endpoint =
    Own string
  | Of string string

datatype composition =
    Leaf string
  | Composite "(string \<times> composition) list" "(arrow \<times> endpoint \<times> endpoint) list"

text \<open>Instances are named by the path from the top level; \<open>leaves\<close> are those of node wrappers.\<close>

type_synonym path = "string list"
type_synonym instance_port = "path \<times> string"

fun leaves :: "path \<Rightarrow> composition \<Rightarrow> (path \<times> string) list" where
  "leaves here (Leaf reactor) = [(here, reactor)]"
| "leaves here (Composite instances connections) =
     concat (map (\<lambda>(name, c). leaves (here @ [name]) c) instances)"

fun port_at :: "path \<Rightarrow> endpoint \<Rightarrow> instance_port" where
  "port_at here (Own p) = (here, p)"
| "port_at here (Of name p) = (here @ [name], p)"

fun wires :: "path \<Rightarrow> composition \<Rightarrow> (arrow \<times> instance_port \<times> instance_port) list" where
  "wires here (Leaf reactor) = []"
| "wires here (Composite instances connections) =
     map (\<lambda>(arrow, src, dst). (arrow, port_at here src, port_at here dst)) connections @
     concat (map (\<lambda>(name, c). wires (here @ [name]) c) instances)"

text \<open>The ports a port reaches over at most \<open>n\<close> connections, with the connections on the way.\<close>

fun reached :: "nat \<Rightarrow> (arrow \<times> instance_port \<times> instance_port) list \<Rightarrow> instance_port \<Rightarrow> (arrow list \<times> instance_port) list" where
  "reached 0 ws p = []"
| "reached (Suc n) ws p =
     concat (map (\<lambda>(arrow, src, dst). if src = p
       then ([arrow], dst) # map (\<lambda>(as, q). (arrow # as, q)) (reached n ws dst) else []) ws)"

text \<open>
  The dataflow between node wrappers: reactor and port where it starts, the connections it
  crosses, reactor and port where it ends.  As many steps as there are connections are enough.
\<close>

type_synonym flow = "(string \<times> string) \<times> arrow list \<times> (string \<times> string)"

definition flows_between ::
    "(path \<times> string) list \<Rightarrow> (arrow \<times> instance_port \<times> instance_port) list \<Rightarrow> flow list" where
  "flows_between ls ws =
     concat (map (\<lambda>(_, (src, p), _).
       case map_of ls src of
         None \<Rightarrow> []
       | Some r \<Rightarrow> List.map_filter (\<lambda>(as, (dst, q)).
           map_option (\<lambda>r'. ((r, p), as, (r', q))) (map_of ls dst)) (reached (length ws) ws (src, p))) ws)"

definition flows :: "composition \<Rightarrow> flow list" where
  "flows c = flows_between (leaves [] c) (wires [] c)"

section \<open>The programs\<close>

definition Sensing_reactor :: composition where
  "Sensing_reactor = Composite
    [(''cbf_self'', Leaf ''crop_box_filter''), (''imu'', Leaf ''imu_corrector''),
     (''vvc'', Leaf ''vehicle_velocity_converter'')]
    []"

definition Localization_reactor :: composition where
  "Localization_reactor = Composite
    [(''ndt'', Leaf ''ndt_scan_matcher''), (''gyro'', Leaf ''gyro_odometer''),
     (''ekf'', Leaf ''ekf_localizer'')]
    []"

definition Map_reactor :: composition where
  "Map_reactor = Composite
    [(''pcm'', Leaf ''pointcloud_map_loader''), (''l2m'', Leaf ''lanelet2_map_loader'')]
    []"

definition Perception_reactor :: composition where
  "Perception_reactor = Composite
    [(''gs'', Leaf ''ground_segmentation''), (''lcp'', Leaf ''lidar_centerpoint''),
     (''ec'', Leaf ''euclidean_cluster''), (''pmf'', Leaf ''pointcloud_map_filter''),
     (''dbt'', Leaf ''detection_by_tracker''), (''ov'', Leaf ''object_validator''),
     (''of'', Leaf ''object_filter''), (''clf'', Leaf ''camera_lidar_fusion''),
     (''mot'', Leaf ''multi_object_tracker''), (''mbp'', Leaf ''map_based_prediction''),
     (''ogm'', Leaf ''occupancy_grid_map''),
     (''tlmbd'', Leaf ''traffic_light_map_based_detector''),
     (''tlc'', Leaf ''traffic_light_classifier''), (''tla'', Leaf ''traffic_light_arbiter''),
     (''tlop'', Leaf ''traffic_light_occlusion_predictor''),
     (''ctle'', Leaf ''crosswalk_traffic_light_estimator'')]
    []"

definition Planning_reactor :: composition where
  "Planning_reactor = Composite
    [(''mp'', Leaf ''mission_planner''), (''bpp'', Leaf ''behavior_path_planner''),
     (''bvp'', Leaf ''behavior_velocity_planner''), (''ps'', Leaf ''path_smoother''),
     (''po'', Leaf ''path_optimizer''), (''mvp'', Leaf ''motion_velocity_planner''),
     (''soc'', Leaf ''surround_obstacle_checker''), (''ss'', Leaf ''scenario_selector''),
     (''vs'', Leaf ''velocity_smoother''), (''fp'', Leaf ''freespace_planner''),
     (''cg'', Leaf ''costmap_generator''), (''pv'', Leaf ''planning_validator''),
     (''evls'', Leaf ''external_velocity_limit_selector'')]
    [(Logical, Of ''ss'' ''trajectory_out'', Of ''vs'' ''trajectory_in''),
     (Logical, Of ''vs'' ''trajectory_out'', Own ''trajectory_out'')]"

definition Control_reactor :: composition where
  "Control_reactor = Composite
    [(''tf'', Leaf ''trajectory_follower''), (''sd'', Leaf ''shift_decider''),
     (''vcg'', Leaf ''vehicle_cmd_gate''),
     (''omtm'', Leaf ''operation_mode_transition_manager''),
     (''ldc'', Leaf ''lane_departure_checker''), (''cv'', Leaf ''control_validator''),
     (''aeb'', Leaf ''autonomous_emergency_braking''), (''cd'', Leaf ''collision_detector'')]
    [(Logical, Of ''vcg'' ''control_cmd'', Own ''control_cmd_out''),
     (Logical, Of ''vcg'' ''gear_cmd'', Own ''gear_cmd_out''),
     (Logical, Of ''vcg'' ''turn_indicators_cmd'', Own ''turn_indicators_cmd_out''),
     (Logical, Of ''vcg'' ''hazard_lights_cmd'', Own ''hazard_lights_cmd_out'')]"

definition AutowareMono :: composition where
  "AutowareMono = Composite
    [(''sensing'', Sensing_reactor), (''localization'', Localization_reactor), (''perception'', Perception_reactor),
     (''map'', Map_reactor), (''planning'', Planning_reactor), (''control'', Control_reactor),
     (''bridge'', Leaf ''bridge_interface'')]
    [(Logical, Of ''control'' ''control_cmd_out'', Of ''bridge'' ''control_cmd_in''),
     (Logical, Of ''control'' ''gear_cmd_out'', Of ''bridge'' ''gear_cmd_in''),
     (Logical, Of ''control'' ''turn_indicators_cmd_out'', Of ''bridge'' ''turn_indicators_cmd_in''),
     (Logical, Of ''control'' ''hazard_lights_cmd_out'', Of ''bridge'' ''hazard_lights_cmd_in'')]"

definition AutowareUniverse :: composition where
  "AutowareUniverse = Composite
    [(''planning'', Planning_reactor), (''control'', Control_reactor), (''bridge'', Leaf ''bridge_interface'')]
    [(Physical, Of ''control'' ''control_cmd_out'', Of ''bridge'' ''control_cmd_in''),
     (Physical, Of ''control'' ''gear_cmd_out'', Of ''bridge'' ''gear_cmd_in''),
     (Physical, Of ''control'' ''turn_indicators_cmd_out'', Of ''bridge'' ''turn_indicators_cmd_in''),
     (Physical, Of ''control'' ''hazard_lights_cmd_out'', Of ''bridge'' ''hazard_lights_cmd_in'')]"

definition AutowareFederated :: composition where
  "AutowareFederated = Composite
    [(''cbf'', Leaf ''crop_box_filter''), (''imu'', Leaf ''imu_corrector''),
     (''vvc'', Leaf ''vehicle_velocity_converter''),
     (''rdf'', Leaf ''random_downsample_filter''), (''ptf'', Leaf ''passthrough_filter''),
     (''vgof'', Leaf ''voxel_grid_outlier_filter''),
     (''adf'', Leaf ''approximate_downsample_filter''), (''idec'', Leaf ''image_decompressor''),
     (''ndt'', Leaf ''ndt_scan_matcher''), (''gyro'', Leaf ''gyro_odometer''),
     (''ekf'', Leaf ''ekf_localizer''), (''lem'', Leaf ''localization_error_monitor''),
     (''pid'', Leaf ''pose_instability_detector''), (''sf'', Leaf ''stop_filter''),
     (''pcm'', Leaf ''pointcloud_map_loader''), (''l2m'', Leaf ''lanelet2_map_loader''),
     (''gs'', Leaf ''ground_segmentation''), (''lcp'', Leaf ''lidar_centerpoint''),
     (''ec'', Leaf ''euclidean_cluster''), (''pmf'', Leaf ''pointcloud_map_filter''),
     (''dbt'', Leaf ''detection_by_tracker''), (''ov'', Leaf ''object_validator''),
     (''of'', Leaf ''object_filter''), (''clf'', Leaf ''camera_lidar_fusion''),
     (''mot'', Leaf ''multi_object_tracker''), (''mbp'', Leaf ''map_based_prediction''),
     (''ogm'', Leaf ''occupancy_grid_map''),
     (''tlmbd'', Leaf ''traffic_light_map_based_detector''),
     (''tlc'', Leaf ''traffic_light_classifier''), (''tla'', Leaf ''traffic_light_arbiter''),
     (''tlop'', Leaf ''traffic_light_occlusion_predictor''),
     (''ctle'', Leaf ''crosswalk_traffic_light_estimator''),
     (''yolox'', Leaf ''tensorrt_yolox''), (''tls'', Leaf ''traffic_light_selector''),
     (''tlcm'', Leaf ''traffic_light_category_merger''),
     (''som'', Leaf ''simple_object_merger''), (''ors'', Leaf ''object_range_splitter''),
     (''ogmof'', Leaf ''occupancy_grid_map_outlier_filter''),
     (''mp'', Leaf ''mission_planner''), (''bpp'', Leaf ''behavior_path_planner''),
     (''bvp'', Leaf ''behavior_velocity_planner''), (''ps'', Leaf ''path_smoother''),
     (''po'', Leaf ''path_optimizer''), (''mvp'', Leaf ''motion_velocity_planner''),
     (''soc'', Leaf ''surround_obstacle_checker''), (''ss'', Leaf ''scenario_selector''),
     (''vs'', Leaf ''velocity_smoother''), (''fp'', Leaf ''freespace_planner''),
     (''cg'', Leaf ''costmap_generator''), (''pv'', Leaf ''planning_validator''),
     (''evls'', Leaf ''external_velocity_limit_selector''), (''pg'', Leaf ''path_generator''),
     (''psa'', Leaf ''path_sampler''), (''tf'', Leaf ''trajectory_follower''),
     (''sd'', Leaf ''shift_decider''), (''vcg'', Leaf ''vehicle_cmd_gate''),
     (''omtm'', Leaf ''operation_mode_transition_manager''),
     (''ldc'', Leaf ''lane_departure_checker''), (''cv'', Leaf ''control_validator''),
     (''aeb'', Leaf ''autonomous_emergency_braking''), (''cd'', Leaf ''collision_detector''),
     (''occ'', Leaf ''obstacle_collision_checker''), (''ppc'', Leaf ''predicted_path_checker''),
     (''ecs'', Leaf ''external_cmd_selector''), (''bridge'', Leaf ''bridge_interface''),
     (''mcso'', Leaf ''mrm_comfortable_stop_operator''),
     (''hsc'', Leaf ''hazard_status_converter''), (''dnc'', Leaf ''duplicated_node_checker''),
     (''ptc'', Leaf ''processing_time_checker''), (''plm'', Leaf ''pipeline_latency_monitor''),
     (''csm'', Leaf ''component_state_monitor''), (''ci'', Leaf ''carla_interface'')]
    [(Physical, Of ''vcg'' ''control_cmd'', Of ''bridge'' ''control_cmd_in''),
     (Physical, Of ''vcg'' ''gear_cmd'', Of ''bridge'' ''gear_cmd_in''),
     (Physical, Of ''vcg'' ''turn_indicators_cmd'', Of ''bridge'' ''turn_indicators_cmd_in''),
     (Physical, Of ''vcg'' ''hazard_lights_cmd'', Of ''bridge'' ''hazard_lights_cmd_in''),
     (Physical, Of ''ss'' ''trajectory_out'', Of ''vs'' ''trajectory_in'')]"


lemmas package_defs =
  Sensing_reactor_def Localization_reactor_def Map_reactor_def Perception_reactor_def
  Planning_reactor_def Control_reactor_def

section \<open>Flattened programs\<close>

lemma flows_mono:
  "flows AutowareMono =
     [((''scenario_selector'', ''trajectory_out''), [Logical], (''velocity_smoother'', ''trajectory_in'')),
      ((''vehicle_cmd_gate'', ''control_cmd''), [Logical, Logical], (''bridge_interface'', ''control_cmd_in'')),
      ((''vehicle_cmd_gate'', ''gear_cmd''), [Logical, Logical], (''bridge_interface'', ''gear_cmd_in'')),
      ((''vehicle_cmd_gate'', ''turn_indicators_cmd''), [Logical, Logical],
        (''bridge_interface'', ''turn_indicators_cmd_in'')),
      ((''vehicle_cmd_gate'', ''hazard_lights_cmd''), [Logical, Logical],
        (''bridge_interface'', ''hazard_lights_cmd_in''))]"
  by code_simp

lemma flows_universe:
  "flows AutowareUniverse =
     [((''scenario_selector'', ''trajectory_out''), [Logical], (''velocity_smoother'', ''trajectory_in'')),
      ((''vehicle_cmd_gate'', ''control_cmd''), [Logical, Physical], (''bridge_interface'', ''control_cmd_in'')),
      ((''vehicle_cmd_gate'', ''gear_cmd''), [Logical, Physical], (''bridge_interface'', ''gear_cmd_in'')),
      ((''vehicle_cmd_gate'', ''turn_indicators_cmd''), [Logical, Physical],
        (''bridge_interface'', ''turn_indicators_cmd_in'')),
      ((''vehicle_cmd_gate'', ''hazard_lights_cmd''), [Logical, Physical],
        (''bridge_interface'', ''hazard_lights_cmd_in''))]"
  by code_simp

lemma flows_federated:
  "flows AutowareFederated =
     [((''vehicle_cmd_gate'', ''control_cmd''), [Physical], (''bridge_interface'', ''control_cmd_in'')),
      ((''vehicle_cmd_gate'', ''gear_cmd''), [Physical], (''bridge_interface'', ''gear_cmd_in'')),
      ((''vehicle_cmd_gate'', ''turn_indicators_cmd''), [Physical],
        (''bridge_interface'', ''turn_indicators_cmd_in'')),
      ((''vehicle_cmd_gate'', ''hazard_lights_cmd''), [Physical],
        (''bridge_interface'', ''hazard_lights_cmd_in'')),
      ((''scenario_selector'', ''trajectory_out''), [Physical], (''velocity_smoother'', ''trajectory_in''))]"
  by code_simp

definition instance_names :: "composition \<Rightarrow> string list" where
  "instance_names c = map (\<lambda>(here, reactor). last here) (leaves [] c)"

definition reactors :: "composition \<Rightarrow> string list" where
  "reactors c = map snd (leaves [] c)"

text \<open>The federate of an instance and the instance's position, which is its ID.\<close>

definition federate_of :: "string \<Rightarrow> string" where
  "federate_of name = ''federate__'' @ name"

definition instance_id :: "composition \<Rightarrow> string \<Rightarrow> nat" where
  "instance_id c name = length (takeWhile (\<lambda>n. n \<noteq> name) (instance_names c))"

lemma federated_names:
  "instance_names AutowareFederated =
    [''cbf'', ''imu'', ''vvc'', ''rdf'', ''ptf'', ''vgof'', ''adf'', ''idec'', ''ndt'', ''gyro'', ''ekf'', ''lem'',
     ''pid'', ''sf'', ''pcm'', ''l2m'', ''gs'', ''lcp'', ''ec'', ''pmf'', ''dbt'', ''ov'', ''of'', ''clf'', ''mot'', ''mbp'',
     ''ogm'', ''tlmbd'', ''tlc'', ''tla'', ''tlop'', ''ctle'', ''yolox'', ''tls'', ''tlcm'', ''som'', ''ors'', ''ogmof'',
     ''mp'', ''bpp'', ''bvp'', ''ps'', ''po'', ''mvp'', ''soc'', ''ss'', ''vs'', ''fp'', ''cg'', ''pv'', ''evls'', ''pg'', ''psa'',
     ''tf'', ''sd'', ''vcg'', ''omtm'', ''ldc'', ''cv'', ''aeb'', ''cd'', ''occ'', ''ppc'', ''ecs'', ''bridge'', ''mcso'',
     ''hsc'', ''dnc'', ''ptc'', ''plm'', ''csm'', ''ci'']"
  by (simp add: instance_names_def AutowareFederated_def)

text \<open>
  The ranges of IDs in the comments of \<open>AutowareFederated.lf\<close>: the first instance of each section,
  the first and the last ID the comment gives the section.
\<close>

definition commented_ids :: "(string \<times> nat \<times> nat) list" where
  "commented_ids =
     [(''cbf'', 0, 8), (''ndt'', 9, 14), (''pcm'', 15, 17), (''gs'', 18, 39), (''mp'', 40, 54),
      (''tf'', 55, 65), (''bridge'', 66, 66), (''mcso'', 67, 72), (''ci'', 73, 73)]"

lemma comments_off:
  "map (\<lambda>(name, first, _). (instance_id AutowareFederated name, first)) commented_ids =
    [(0, 0), (8, 9), (14, 15), (16, 18), (38, 40), (53, 55), (64, 66), (65, 67), (71, 73)]"
  by (simp add: commented_ids_def instance_id_def federated_names)

lemma federated_wires:
  "(\<exists>w \<in> set (wires [] AutowareFederated).
      federate_of (hd (fst (fst (snd w)))) = a \<and> federate_of (hd (fst (snd (snd w)))) = b) \<longleftrightarrow>
   a = ''federate__vcg'' \<and> b = ''federate__bridge'' \<or> a = ''federate__ss'' \<and> b = ''federate__vs''"
  by (auto simp: AutowareFederated_def federate_of_def)

lemma federate_index:
  assumes "k < NUMBER_OF_FEDERATES"
  shows "federate_names ! k = ''federate__vcg'' \<longleftrightarrow> k = 39" "federate_names ! k = ''federate__bridge'' \<longleftrightarrow> k = 45"
    "federate_names ! k = ''federate__ss'' \<longleftrightarrow> k = 31" "federate_names ! k = ''federate__vs'' \<longleftrightarrow> k = 32"
proof -
  have names: "distinct federate_names" "length federate_names = 46" by (simp_all add: federate_names_def)
  have at: "federate_names ! 39 = ''federate__vcg''" "federate_names ! 45 = ''federate__bridge''"
    "federate_names ! 31 = ''federate__ss''" "federate_names ! 32 = ''federate__vs''"
    by (simp_all add: federate_names_def)
  have same: "federate_names ! k = federate_names ! j \<longleftrightarrow> k = j" if "j < 46" for j
    using nth_eq_iff_index_eq [OF names(1), of k j] names(2) assms that by (simp add: NUMBER_OF_FEDERATES_def)
  show "federate_names ! k = ''federate__vcg'' \<longleftrightarrow> k = 39" "federate_names ! k = ''federate__bridge'' \<longleftrightarrow> k = 45"
    "federate_names ! k = ''federate__ss'' \<longleftrightarrow> k = 31" "federate_names ! k = ''federate__vs'' \<longleftrightarrow> k = 32"
    unfolding at [symmetric] by (rule same, simp)+
qed

section \<open>Properties\<close>

text \<open>C10: the three programs have the same dataflow: after flattening, each of them connects the
  four command outputs of the gate with the four inputs of the bridge and the trajectory output of
  the scenario selector with the smoother, and nothing else; the monolithic program does so over
  logical connections only, the federated one over one physical connection each, and every
  reactor of the smaller programs is one of the federated program.\<close>

theorem programs_wire_alike:
  "(\<lambda>(src, _, dst). (src, dst)) ` set (flows AutowareMono) = (\<lambda>(src, _, dst). (src, dst)) ` set (flows AutowareFederated) \<and>
   (\<lambda>(src, _, dst). (src, dst)) ` set (flows AutowareUniverse) = (\<lambda>(src, _, dst). (src, dst)) ` set (flows AutowareFederated) \<and>
   (\<lambda>(src, _, dst). (src, dst)) ` set (flows AutowareFederated) =
     {((''vehicle_cmd_gate'', ''control_cmd''), (''bridge_interface'', ''control_cmd_in'')),
      ((''vehicle_cmd_gate'', ''gear_cmd''), (''bridge_interface'', ''gear_cmd_in'')),
      ((''vehicle_cmd_gate'', ''turn_indicators_cmd''), (''bridge_interface'', ''turn_indicators_cmd_in'')),
      ((''vehicle_cmd_gate'', ''hazard_lights_cmd''), (''bridge_interface'', ''hazard_lights_cmd_in'')),
      ((''scenario_selector'', ''trajectory_out''), (''velocity_smoother'', ''trajectory_in''))} \<and>
   list_all (\<lambda>(_, arrows, _). set arrows = {Logical}) (flows AutowareMono) \<and>
   list_all (\<lambda>(_, arrows, _). arrows = [Physical]) (flows AutowareFederated) \<and>
   set (reactors AutowareUniverse) \<subseteq> set (reactors AutowareMono) \<and>
   set (reactors AutowareMono) \<subseteq> set (reactors AutowareFederated) \<and>
   distinct (reactors AutowareFederated)"
proof (intro conjI)
  show "(\<lambda>(src, _, dst). (src, dst)) ` set (flows AutowareMono) =
      (\<lambda>(src, _, dst). (src, dst)) ` set (flows AutowareFederated)"
    unfolding flows_mono flows_federated by auto
  show "(\<lambda>(src, _, dst). (src, dst)) ` set (flows AutowareUniverse) =
      (\<lambda>(src, _, dst). (src, dst)) ` set (flows AutowareFederated)"
    unfolding flows_universe flows_federated by auto
  show "set (reactors AutowareUniverse) \<subseteq> set (reactors AutowareMono)"
    by (simp add: reactors_def AutowareUniverse_def AutowareMono_def package_defs)
  show "set (reactors AutowareMono) \<subseteq> set (reactors AutowareFederated)"
    by (simp add: reactors_def AutowareFederated_def AutowareMono_def package_defs)
  show "distinct (reactors AutowareFederated)"
    by (simp add: reactors_def AutowareFederated_def)
qed (simp_all add: flows_mono flows_federated)

text \<open>C26: the generated federates are those of the federated program, but not all of them: their
  names are the instances of the program with 26 left out, in the same order; two generated
  federates are connected exactly when the program has a flow between their instances; and the
  number of federates of the program and the position of its last instance are the values the
  CARLA federate was compiled with.\<close>

theorem generated_federates_of_program:
  "subseq federate_names (map federate_of (instance_names AutowareFederated)) \<and>
   length (instance_names AutowareFederated) = NUMBER_OF_FEDERATES + 26 \<and>
   (\<forall>k < NUMBER_OF_FEDERATES. \<forall>i < NUMBER_OF_FEDERATES. i \<in> set (connects (federation ! k)) \<longleftrightarrow>
     (\<exists>w \<in> set (wires [] AutowareFederated).
       federate_of (hd (fst (fst (snd w)))) = federate_names ! k \<and>
       federate_of (hd (fst (snd (snd w)))) = federate_names ! i)) \<and>
   instance_id AutowareFederated ''ci'' = 71 \<and> length (instance_names AutowareFederated) = 72"
proof (intro conjI allI impI)
  show "subseq federate_names (map federate_of (instance_names AutowareFederated))"
    by (simp add: federated_names federate_names_def federate_of_def)
next
  fix k i assume k: "k < NUMBER_OF_FEDERATES" and i: "i < NUMBER_OF_FEDERATES"
  show "i \<in> set (connects (federation ! k)) \<longleftrightarrow> (\<exists>w \<in> set (wires [] AutowareFederated).
       federate_of (hd (fst (fst (snd w)))) = federate_names ! k \<and>
       federate_of (hd (fst (snd (snd w)))) = federate_names ! i)"
    unfolding federated_wires federate_index [OF k] federate_index [OF i] connects_nth [OF k] by auto
qed (simp_all add: federated_names NUMBER_OF_FEDERATES_def instance_id_def)

theorem generated_federates_of_program_witness:
  "45 \<in> set (connects (federation ! 39)) \<longleftrightarrow> (\<exists>w \<in> set (wires [] AutowareFederated).
     federate_of (hd (fst (fst (snd w)))) = ''federate__vcg'' \<and>
     federate_of (hd (fst (snd (snd w)))) = ''federate__bridge'')"
  using generated_federates_of_program [THEN conjunct2, THEN conjunct2, THEN conjunct1, rule_format, of 39 45]
  by (simp add: NUMBER_OF_FEDERATES_def federate_names_def)

end
