(* ===== verification/Command_Path.thy ===== *)
theory Command_Path
  imports Reactors Federates
begin

text \<open>
  The command path of the federation, from the ports of the command gate in federate 39
  (\<open>federate__vcg.lf\<close>) over the socket to the ROS topics the bridge of federate 45 publishes
  (\<open>federate__bridge.lf\<close>, \<open>bridge_interface_main.lf\<close>): network senders, messages, network actions
  and their receivers, and the bridge's reactions.

  Arguments, as their code is not part of the repository: the ROS serialization of the four
  message types, \<open>lf_send_message\<close> with the bytes it puts on the socket, and the runtime that reads
  a socket and triggers network actions.
\<close>

section \<open>Arguments and what the code relies on\<close>

text \<open>A serialization: the bytes of a value, and the value of bytes (\<open>None\<close>: an exception).\<close>

record 'm codec =
  serialize :: "'m \<Rightarrow> byte list"
  deserialize :: "byte list \<Rightarrow> 'm option"

definition codec_ok :: "'m codec \<Rightarrow> bool" where
  "codec_ok c \<longleftrightarrow>
     (\<forall>x. deserialize c (serialize c x) = Some x \<and> length (serialize c x) < 2 ^ 32)"

record ('c, 'g, 't, 'h) codecs =
  codec_control :: "'c codec"
  codec_gear :: "'g codec"
  codec_turn :: "'t codec"
  codec_hazard :: "'h codec"

definition codecs_ok :: "('c, 'g, 't, 'h) codecs \<Rightarrow> bool" where
  "codecs_ok cs \<longleftrightarrow> codec_ok (codec_control cs) \<and> codec_ok (codec_gear cs) \<and>
     codec_ok (codec_turn cs) \<and> codec_ok (codec_hazard cs)"

text \<open>
  \<open>wire\<close>: the bytes of a message with data on the socket.  \<open>lf_send_message(type, port, federate, ...,
  length, message)\<close>: the bytes put on the socket of the destination, \<open>None\<close> when it returns -1
  because that socket is closed.
\<close>

type_synonym wire_format = "routed \<Rightarrow> byte list"

type_synonym send_function =
  "federate_instance_t \<Rightarrow> byte \<Rightarrow> uint16_t \<Rightarrow> uint16_t \<Rightarrow> nat \<Rightarrow> byte list \<Rightarrow> byte list option"

definition send_documented :: "wire_format \<Rightarrow> send_function \<Rightarrow> bool" where
  "send_documented wire send \<longleftrightarrow>
     (\<forall>f port fed_id bs.
        send f MSG_TYPE_P2P_MESSAGE port fed_id (length bs) bs =
          (if sockets_for_outbound_p2p_connections f ! unat fed_id = - 1 then None
           else Some (wire \<lparr>dest_port = port, dest_federate = fed_id, body = bs\<rparr>)))"

text \<open>
  What the runtime makes of the bytes read from a socket: the network actions it triggers, each with
  the bytes it carries, in order.  Documented is the case of messages for this federate and ports of
  its action table: one event per message, of the action of the destination port, in the order sent.
\<close>

type_synonym incoming_function =
  "uint16_t \<Rightarrow> action_pointer list \<Rightarrow> byte list \<Rightarrow> (action_pointer \<times> byte list) list"

definition deliverable :: "uint16_t \<Rightarrow> action_pointer list \<Rightarrow> routed \<Rightarrow> bool" where
  "deliverable me table r \<longleftrightarrow>
     dest_federate r = me \<and> unat (dest_port r) < length table \<and> length (body r) < 2 ^ 32"

definition action_event :: "action_pointer list \<Rightarrow> routed \<Rightarrow> action_pointer \<times> byte list" where
  "action_event table r = (table ! unat (dest_port r), body r)"

definition incoming_documented :: "wire_format \<Rightarrow> incoming_function \<Rightarrow> bool" where
  "incoming_documented wire incoming \<longleftrightarrow>
     (\<forall>me table rs. (\<forall>r \<in> set rs. deliverable me table r) \<longrightarrow>
        incoming me table (concat (map wire rs)) = map (action_event table) rs)"

section \<open>Network senders of federate vcg\<close>

definition NetworkSender_0 :: "send_function \<Rightarrow> federate_instance_t \<Rightarrow> 'm codec \<Rightarrow> 'm port \<Rightarrow> byte list option" where
  "NetworkSender_0 send f c msg =
     (case msg of None \<Rightarrow> None
      | Some v \<Rightarrow> let bs = serialize c v in send f MSG_TYPE_P2P_MESSAGE 0 45 (length bs) bs)"

definition NetworkSender_1 :: "send_function \<Rightarrow> federate_instance_t \<Rightarrow> 'm codec \<Rightarrow> 'm port \<Rightarrow> byte list option" where
  "NetworkSender_1 send f c msg =
     (case msg of None \<Rightarrow> None
      | Some v \<Rightarrow> let bs = serialize c v in send f MSG_TYPE_P2P_MESSAGE 1 45 (length bs) bs)"

definition NetworkSender_2 :: "send_function \<Rightarrow> federate_instance_t \<Rightarrow> 'm codec \<Rightarrow> 'm port \<Rightarrow> byte list option" where
  "NetworkSender_2 send f c msg =
     (case msg of None \<Rightarrow> None
      | Some v \<Rightarrow> let bs = serialize c v in send f MSG_TYPE_P2P_MESSAGE 2 45 (length bs) bs)"

definition NetworkSender_3 :: "send_function \<Rightarrow> federate_instance_t \<Rightarrow> 'm codec \<Rightarrow> 'm port \<Rightarrow> byte list option" where
  "NetworkSender_3 send f c msg =
     (case msg of None \<Rightarrow> None
      | Some v \<Rightarrow> let bs = serialize c v in send f MSG_TYPE_P2P_MESSAGE 3 45 (length bs) bs)"

text \<open>
  The wiring of the federate's main reactor: the sender that each output of the gate reaches.
  The senders of a tick are independent reactions; an order of them is a list of their numbers.
\<close>

definition run_sender ::
    "send_function \<Rightarrow> federate_instance_t \<Rightarrow> ('c, 'g, 't, 'h) codecs \<Rightarrow> ('c, 'g, 't, 'h) gate_ports \<Rightarrow>
     nat \<Rightarrow> byte list option" where
  "run_sender send f cs p k =
     (if k = 0 then NetworkSender_0 send f (codec_control cs) (control_cmd p)
      else if k = 1 then NetworkSender_1 send f (codec_gear cs) (gear_cmd p)
      else if k = 2 then NetworkSender_2 send f (codec_turn cs) (turn_indicators_cmd p)
      else if k = 3 then NetworkSender_3 send f (codec_hazard cs) (hazard_lights_cmd p)
      else None)"

definition bytes_of :: "byte list option \<Rightarrow> byte list" where
  "bytes_of b = (case b of None \<Rightarrow> [] | Some bs \<Rightarrow> bs)"

text \<open>The bytes of a run: per tick the order of the senders and the ports.\<close>

definition send_ticks ::
    "send_function \<Rightarrow> federate_instance_t \<Rightarrow> ('c, 'g, 't, 'h) codecs \<Rightarrow>
     (nat list \<times> ('c, 'g, 't, 'h) gate_ports) list \<Rightarrow> byte list" where
  "send_ticks send f cs ts =
     concat (map (\<lambda>(order, p). concat (map (\<lambda>k. bytes_of (run_sender send f cs p k)) order)) ts)"

section \<open>Network receivers and bridge\<close>

datatype ('c, 'g, 't, 'h) command =
    Control 'c
  | Gear 'g
  | Turn_Indicators 't
  | Hazard_Lights 'h

type_synonym ('c, 'g, 't, 'h) publication = "string \<times> ('c, 'g, 't, 'h) command"

definition NetworkReceiver :: "'m codec \<Rightarrow> byte list \<Rightarrow> 'm port \<Rightarrow> 'm port c_result" where
  "NetworkReceiver c networkMessage msg =
     (case deserialize c networkMessage of
        None \<Rightarrow> Inl Uncaught_Exception
      | Some v \<Rightarrow> Inr (lf_set msg v))"

text \<open>The reactions of \<open>bridge_interface\<close>, one per input.\<close>

definition publish_control_cmd :: "'c port \<Rightarrow> ('c, 'g, 't, 'h) publication list" where
  "publish_control_cmd control_cmd_in =
     (case control_cmd_in of None \<Rightarrow> [] | Some v \<Rightarrow> [(''/control/command/control_cmd'', Control v)])"

definition publish_gear_cmd :: "'g port \<Rightarrow> ('c, 'g, 't, 'h) publication list" where
  "publish_gear_cmd gear_cmd_in =
     (case gear_cmd_in of None \<Rightarrow> [] | Some v \<Rightarrow> [(''/control/command/gear_cmd'', Gear v)])"

definition publish_turn_indicators_cmd :: "'t port \<Rightarrow> ('c, 'g, 't, 'h) publication list" where
  "publish_turn_indicators_cmd turn_indicators_cmd_in =
     (case turn_indicators_cmd_in of None \<Rightarrow> []
      | Some v \<Rightarrow> [(''/control/command/turn_indicators_cmd'', Turn_Indicators v)])"

definition publish_hazard_lights_cmd :: "'h port \<Rightarrow> ('c, 'g, 't, 'h) publication list" where
  "publish_hazard_lights_cmd hazard_lights_cmd_in =
     (case hazard_lights_cmd_in of None \<Rightarrow> []
      | Some v \<Rightarrow> [(''/control/command/hazard_lights_cmd'', Hazard_Lights v)])"

text \<open>
  The event of a network action: the receiver it belongs to and, through the wiring of the main
  reactor, the input of the bridge.  A NULL action or one that is no receiver is a fault.
\<close>

definition bridge_event ::
    "('c, 'g, 't, 'h) codecs \<Rightarrow> action_pointer \<times> byte list \<Rightarrow> ('c, 'g, 't, 'h) publication list c_result" where
  "bridge_event cs ev =
     (case ev of (action, bs) \<Rightarrow>
        if action = Some ''federate__bridge_nr_federate__bridge''
        then c_bind (NetworkReceiver (codec_control cs) bs None) (\<lambda>p. Inr (publish_control_cmd p))
        else if action = Some ''federate__bridge_nr_federate__bridge_0''
        then c_bind (NetworkReceiver (codec_gear cs) bs None) (\<lambda>p. Inr (publish_gear_cmd p))
        else if action = Some ''federate__bridge_nr_federate__bridge_1''
        then c_bind (NetworkReceiver (codec_turn cs) bs None) (\<lambda>p. Inr (publish_turn_indicators_cmd p))
        else if action = Some ''federate__bridge_nr_federate__bridge_2''
        then c_bind (NetworkReceiver (codec_hazard cs) bs None) (\<lambda>p. Inr (publish_hazard_lights_cmd p))
        else Inl Null_Dereference)"

text \<open>The events of a run, one after the other; what has been published so far, the latest last.\<close>

definition bridge_events ::
    "('c, 'g, 't, 'h) codecs \<Rightarrow> (action_pointer \<times> byte list) list \<Rightarrow>
     ('c, 'g, 't, 'h) publication list c_result" where
  "bridge_events cs evs =
     c_fold (\<lambda>ev published. c_bind (bridge_event cs ev) (\<lambda>new. Inr (published @ new))) evs []"

section \<open>The path of one tick\<close>

text \<open>What the tick should publish, by the number of the sender.\<close>

definition tick_publication :: "('c, 'g, 't, 'h) gate_ports \<Rightarrow> nat \<Rightarrow> ('c, 'g, 't, 'h) publication list" where
  "tick_publication p k =
     (if k = 0 then publish_control_cmd (control_cmd p)
      else if k = 1 then publish_gear_cmd (gear_cmd p)
      else if k = 2 then publish_turn_indicators_cmd (turn_indicators_cmd p)
      else if k = 3 then publish_hazard_lights_cmd (hazard_lights_cmd p)
      else [])"

text \<open>The payload of a sender, when its port is present, and its message.\<close>

definition sender_payload :: "('c, 'g, 't, 'h) codecs \<Rightarrow> ('c, 'g, 't, 'h) gate_ports \<Rightarrow> nat \<Rightarrow> byte list option" where
  "sender_payload cs p k =
     (if k = 0 then map_option (serialize (codec_control cs)) (control_cmd p)
      else if k = 1 then map_option (serialize (codec_gear cs)) (gear_cmd p)
      else if k = 2 then map_option (serialize (codec_turn cs)) (turn_indicators_cmd p)
      else if k = 3 then map_option (serialize (codec_hazard cs)) (hazard_lights_cmd p)
      else None)"

definition sender_messages :: "('c, 'g, 't, 'h) codecs \<Rightarrow> ('c, 'g, 't, 'h) gate_ports \<Rightarrow> nat \<Rightarrow> routed list" where
  "sender_messages cs p k =
     (case sender_payload cs p k of None \<Rightarrow> []
      | Some bs \<Rightarrow> [\<lparr>dest_port = of_nat k, dest_federate = 45, body = bs\<rparr>])"

lemmas sender_defs = NetworkSender_0_def NetworkSender_1_def NetworkSender_2_def NetworkSender_3_def

lemmas publish_defs = publish_control_cmd_def publish_gear_cmd_def publish_turn_indicators_cmd_def
  publish_hazard_lights_cmd_def

lemma run_sender_bytes:
  assumes "send_documented wire send" and "sockets_for_outbound_p2p_connections f ! 45 \<noteq> - 1"
  shows "bytes_of (run_sender send f cs p k) = concat (map wire (sender_messages cs p k))"
proof -
  have send: "send f MSG_TYPE_P2P_MESSAGE port 45 (length bs) bs =
      Some (wire \<lparr>dest_port = port, dest_federate = 45, body = bs\<rparr>)" for port bs
    using assms by (simp add: send_documented_def)
  show ?thesis
    by (auto simp: run_sender_def sender_defs sender_messages_def sender_payload_def send bytes_of_def
        Let_def split: option.splits)
qed

lemma sender_payload_length:
  assumes "codecs_ok cs" and "sender_payload cs p k = Some bs"
  shows "length bs < 2 ^ 32"
proof -
  have short: "length (serialize (codec_control cs) c) < 2 ^ 32"
    "length (serialize (codec_gear cs) g) < 2 ^ 32" "length (serialize (codec_turn cs) t) < 2 ^ 32"
    "length (serialize (codec_hazard cs) h) < 2 ^ 32" for c g t h
    using assms(1) unfolding codecs_ok_def codec_ok_def by blast+
  from assms(2) show ?thesis
    unfolding sender_payload_def using short by (auto simp only: split: if_splits option.splits elim!: map_option_eq_Some [THEN iffD1, elim_format])
qed

definition bridge_table :: "action_pointer list" where
  "bridge_table = map (\<lambda>t. Some (tr_reactor t)) (pre_triggers federate__bridge_preamble)"

lemma bridge_table_eq:
  "bridge_table = [Some ''federate__bridge_nr_federate__bridge'',
    Some ''federate__bridge_nr_federate__bridge_0'', Some ''federate__bridge_nr_federate__bridge_1'',
    Some ''federate__bridge_nr_federate__bridge_2'']"
  by (simp add: bridge_table_def federate__bridge_preamble_def)

lemma sender_messages_deliverable:
  assumes "codecs_ok cs" and "r \<in> set (sender_messages cs p k)"
  shows "deliverable 45 bridge_table r"
proof (cases "sender_payload cs p k")
  case None
  with assms(2) show ?thesis by (simp add: sender_messages_def)
next
  case (Some bs)
  then have "k < 4" by (auto simp: sender_payload_def split: if_splits)
  with Some assms(2) show ?thesis
    using sender_payload_length [OF assms(1) Some]
    by (auto simp: sender_messages_def deliverable_def bridge_table_eq unat_of_nat)
qed

lemma bridge_event_roundtrip:
  assumes "codecs_ok cs" and "sender_payload cs p k = Some bs"
  shows "bridge_event cs (bridge_table ! k, bs) = Inr (tick_publication p k)"
proof -
  have reads: "deserialize (codec_control cs) (serialize (codec_control cs) c) = Some c"
    "deserialize (codec_gear cs) (serialize (codec_gear cs) g) = Some g"
    "deserialize (codec_turn cs) (serialize (codec_turn cs) t) = Some t"
    "deserialize (codec_hazard cs) (serialize (codec_hazard cs) h) = Some h" for c g t h
    using assms(1) unfolding codecs_ok_def codec_ok_def by blast+
  consider "k = 0" | "k = 1" | "k = 2" | "k = 3"
    using assms(2) by (auto simp: sender_payload_def split: if_splits)
  then show ?thesis
    using assms(2) by cases
      (auto simp: sender_payload_def bridge_event_def NetworkReceiver_def reads bridge_table_eq lf_set_def
        tick_publication_def publish_defs)
qed

lemma handle_sender_messages:
  assumes "codecs_ok cs"
  shows "c_fold (\<lambda>ev published. c_bind (bridge_event cs ev) (\<lambda>new. Inr (published @ new)))
      (map (action_event bridge_table) (sender_messages cs p k)) published =
    Inr (published @ tick_publication p k)"
proof (cases "sender_payload cs p k")
  case None
  then have "tick_publication p k = []"
    by (auto simp: sender_payload_def tick_publication_def publish_defs split: if_splits)
  with None show ?thesis by (simp add: sender_messages_def)
next
  case (Some bs)
  then have "k < 4" by (auto simp: sender_payload_def split: if_splits)
  then have "unat (of_nat k :: uint16_t) = k" by (simp add: unat_of_nat)
  then show ?thesis
    by (simp add: sender_messages_def Some action_event_def bridge_event_roundtrip [OF assms Some])
qed

section \<open>The path of a run\<close>

lemma concat_map_wire:
  assumes "\<And>x. f x = concat (map wire (g x))"
  shows "concat (map f xs) = concat (map wire (concat (map g xs)))"
  by (induction xs) (simp_all add: assms)

definition run_messages ::
    "('c, 'g, 't, 'h) codecs \<Rightarrow> (nat list \<times> ('c, 'g, 't, 'h) gate_ports) list \<Rightarrow> routed list" where
  "run_messages cs ts = concat (map (\<lambda>(order, p). concat (map (sender_messages cs p) order)) ts)"

definition run_publications ::
    "(nat list \<times> ('c, 'g, 't, 'h) gate_ports) list \<Rightarrow> ('c, 'g, 't, 'h) publication list" where
  "run_publications ts = concat (map (\<lambda>(order, p). concat (map (tick_publication p) order)) ts)"

lemma send_ticks_bytes:
  assumes "send_documented wire send" and "sockets_for_outbound_p2p_connections f ! 45 \<noteq> - 1"
  shows "send_ticks send f cs ts = concat (map wire (run_messages cs ts))"
  unfolding send_ticks_def run_messages_def
  by (rule concat_map_wire) (auto intro!: concat_map_wire run_sender_bytes [OF assms])

lemma run_messages_deliverable:
  "codecs_ok cs \<Longrightarrow> \<forall>r \<in> set (run_messages cs ts). deliverable 45 bridge_table r"
  by (auto simp: run_messages_def dest: sender_messages_deliverable)

lemma c_fold_concat:
  assumes "\<And>x s. c_fold f (g x) s = Inr (s @ h x)"
  shows "c_fold f (concat (map g xs)) s = Inr (s @ concat (map h xs))"
  by (induction xs arbitrary: s) (simp_all add: c_fold_append assms)

lemma bridge_events_run:
  assumes "codecs_ok cs"
  shows "bridge_events cs (map (action_event bridge_table) (run_messages cs ts)) = Inr (run_publications ts)"
proof -
  let ?step = "\<lambda>ev published. c_bind (bridge_event cs ev) (\<lambda>new. Inr (published @ new))"
  have "c_fold ?step (concat (map (\<lambda>k. map (action_event bridge_table) (sender_messages cs p k)) order)) s =
      Inr (s @ concat (map (tick_publication p) order))" for order p s
    by (rule c_fold_concat) (rule handle_sender_messages [OF assms])
  then have "c_fold ?step (concat (map (\<lambda>(order, p).
        concat (map (\<lambda>k. map (action_event bridge_table) (sender_messages cs p k)) order)) ts)) [] =
      Inr ([] @ concat (map (\<lambda>(order, p). concat (map (tick_publication p) order)) ts))"
    by (intro c_fold_concat) auto
  moreover have "concat (map (\<lambda>(order, p).
      concat (map (\<lambda>k. map (action_event bridge_table) (sender_messages cs p k)) order)) ts) =
      map (action_event bridge_table) (run_messages cs ts)"
    by (simp add: run_messages_def map_concat o_def split_def)
  ultimately show ?thesis by (simp add: bridge_events_def run_publications_def)
qed

lemma bridge_receives_run:
  assumes "send_documented wire send" and "sockets_for_outbound_p2p_connections f ! 45 \<noteq> - 1"
    and "incoming_documented wire incoming" and "codecs_ok cs"
  shows "bridge_events cs (incoming 45 bridge_table (send_ticks send f cs ts)) = Inr (run_publications ts)"
  using assms(3) run_messages_deliverable [OF assms(4)]
  by (simp add: incoming_documented_def send_ticks_bytes [OF assms(1,2)] bridge_events_run [OF assms(4)])

text \<open>The publications on one topic, whatever the order of the senders in each tick.\<close>

definition on_topic :: "string \<Rightarrow> ('c, 'g, 't, 'h) publication list \<Rightarrow> ('c, 'g, 't, 'h) publication list" where
  "on_topic topic = filter (\<lambda>x. fst x = topic)"

lemma concat_single:
  assumes "distinct order" and "k \<in> set order" and "\<And>j. j \<in> set order \<Longrightarrow> j \<noteq> k \<Longrightarrow> f j = []"
  shows "concat (map f order) = f k"
  using assms
proof (induction order)
  case (Cons j order)
  show ?case
  proof (cases "j = k")
    case True
    then have "concat (map f order) = []" using Cons.prems by (auto simp: concat_eq_Nil_conv)
    with True show ?thesis by simp
  next
    case False
    with Cons show ?thesis by simp
  qed
qed simp

lemma on_topic_tick:
  assumes "distinct order" and "set order = {0, 1, 2, 3}"
  shows "on_topic ''/control/command/control_cmd'' (concat (map (tick_publication p) order)) =
      publish_control_cmd (control_cmd p)"
    and "on_topic ''/control/command/gear_cmd'' (concat (map (tick_publication p) order)) =
      publish_gear_cmd (gear_cmd p)"
    and "on_topic ''/control/command/turn_indicators_cmd'' (concat (map (tick_publication p) order)) =
      publish_turn_indicators_cmd (turn_indicators_cmd p)"
    and "on_topic ''/control/command/hazard_lights_cmd'' (concat (map (tick_publication p) order)) =
      publish_hazard_lights_cmd (hazard_lights_cmd p)"
proof -
  have pick: "on_topic topic (concat (map (tick_publication p) order)) = on_topic topic (tick_publication p k)"
    if "k \<in> {0, 1, 2, 3}" "\<And>j. j \<in> {0, 1, 2, 3} \<Longrightarrow> j \<noteq> k \<Longrightarrow> on_topic topic (tick_publication p j) = []"
    for topic k
    using concat_single [of order k "\<lambda>j. on_topic topic (tick_publication p j)"] assms that
    by (simp add: on_topic_def filter_concat o_def)
  note defs = tick_publication_def publish_defs on_topic_def
  show "on_topic ''/control/command/control_cmd'' (concat (map (tick_publication p) order)) =
      publish_control_cmd (control_cmd p)"
    by (subst pick [of 0]) (auto simp: defs split: option.splits)
  show "on_topic ''/control/command/gear_cmd'' (concat (map (tick_publication p) order)) =
      publish_gear_cmd (gear_cmd p)"
    by (subst pick [of 1]) (auto simp: defs split: option.splits)
  show "on_topic ''/control/command/turn_indicators_cmd'' (concat (map (tick_publication p) order)) =
      publish_turn_indicators_cmd (turn_indicators_cmd p)"
    by (subst pick [of 2]) (auto simp: defs split: option.splits)
  show "on_topic ''/control/command/hazard_lights_cmd'' (concat (map (tick_publication p) order)) =
      publish_hazard_lights_cmd (hazard_lights_cmd p)"
    by (subst pick [of 3]) (auto simp: defs split: option.splits)
qed

lemma on_topic_run:
  assumes "\<And>order p. (order, p) \<in> set ts \<Longrightarrow> on_topic topic (concat (map (tick_publication p) order)) = f p"
  shows "on_topic topic (run_publications ts) = concat (map (\<lambda>(order, p). f p) ts)"
  using assms
  by (induction ts) (auto simp: run_publications_def on_topic_def)

lemma publication_lists:
  "concat (map (\<lambda>(order, p). publish_control_cmd (control_cmd p)) ts) =
    [(''/control/command/control_cmd'', Control v). (_, p) \<leftarrow> ts, Some v \<leftarrow> [control_cmd p]]"
  "concat (map (\<lambda>(order, p). publish_gear_cmd (gear_cmd p)) ts) =
    [(''/control/command/gear_cmd'', Gear v). (_, p) \<leftarrow> ts, Some v \<leftarrow> [gear_cmd p]]"
  "concat (map (\<lambda>(order, p). publish_turn_indicators_cmd (turn_indicators_cmd p)) ts) =
    [(''/control/command/turn_indicators_cmd'', Turn_Indicators v).
       (_, p) \<leftarrow> ts, Some v \<leftarrow> [turn_indicators_cmd p]]"
  "concat (map (\<lambda>(order, p). publish_hazard_lights_cmd (hazard_lights_cmd p)) ts) =
    [(''/control/command/hazard_lights_cmd'', Hazard_Lights v).
       (_, p) \<leftarrow> ts, Some v \<leftarrow> [hazard_lights_cmd p]]"
  by (induction ts) (auto simp: publish_defs split: option.splits)

definition command_topics :: "string set" where
  "command_topics = {''/control/command/control_cmd'', ''/control/command/gear_cmd'',
     ''/control/command/turn_indicators_cmd'', ''/control/command/hazard_lights_cmd''}"

lemma tick_publication_topics: "x \<in> set (tick_publication p k) \<Longrightarrow> fst x \<in> command_topics"
  unfolding command_topics_def
  by (cases "control_cmd p"; cases "gear_cmd p"; cases "turn_indicators_cmd p"; cases "hazard_lights_cmd p")
    (simp_all add: tick_publication_def publish_defs split: if_splits)

lemma run_publications_topics: "fst ` set (run_publications ts) \<subseteq> command_topics"
  using tick_publication_topics by (fastforce simp: run_publications_def)

text \<open>A federate's actual state: the socket its preamble opened, the table its triggers filled.\<close>

lemma vcg_socket_open:
  assumes "runtime_documented rt" and "runtime_available rt"
    and "length (sockets_for_inbound_p2p_connections (fed p)) = NUMBER_OF_FEDERATES"
    and "length (sockets_for_outbound_p2p_connections (fed p)) = NUMBER_OF_FEDERATES"
    and "lf_executable_preamble rt federate__vcg_preamble p = Inr p'"
  shows "sockets_for_outbound_p2p_connections (fed p') ! 45 \<noteq> - 1"
proof -
  have "45 \<in> set (connects federate__vcg_preamble)"
    by (simp add: connects_def federate__vcg_preamble_def)
  then show ?thesis
    using executable_preamble_effect [OF assms(1-4), of federate__vcg_preamble] assms(5)
    by (auto simp: NUMBER_OF_FEDERATES_def)
qed

lemma bridge_id:
  assumes "runtime_documented rt" and "runtime_available rt"
    and "length (sockets_for_inbound_p2p_connections (fed p)) = NUMBER_OF_FEDERATES"
    and "length (sockets_for_outbound_p2p_connections (fed p)) = NUMBER_OF_FEDERATES"
    and "lf_executable_preamble rt federate__bridge_preamble p = Inr p'"
  shows "lf_my_fed_id p' = 45"
  using executable_preamble_effect [OF assms(1-4), of federate__bridge_preamble] assms(5)
  by (auto simp: federate__bridge_preamble_def)

lemma bridge_action_table:
  assumes "\<And>n. malloc n"
    and "initialize_triggers_for_federate never malloc junk federate__bridge_preamble
      (initial_tables sources federate__bridge_preamble) = Inr s"
  shows "lf_action_table s = bridge_table"
  using bridge_triggers [of malloc never junk sources, OF assms(1)] assms(2)
  by (auto simp: trigger_tables_ok_def bridge_table_def)

text \<open>Concrete arguments for the witnesses: one-byte values, a working socket layer.\<close>

definition byte_codec :: "byte codec" where
  "byte_codec = \<lparr>serialize = (\<lambda>b. [b]), deserialize = (\<lambda>bs. case bs of [b] \<Rightarrow> Some b | _ \<Rightarrow> None)\<rparr>"

definition byte_codecs :: "(byte, byte, byte, byte) codecs" where
  "byte_codecs = \<lparr>codec_control = byte_codec, codec_gear = byte_codec, codec_turn = byte_codec,
     codec_hazard = byte_codec\<rparr>"

lemma byte_codecs_ok: "codecs_ok byte_codecs"
  by (simp add: codecs_ok_def codec_ok_def byte_codecs_def byte_codec_def)

text \<open>
  A message on the wire: port, federate, length and the bytes, integers with the lowest byte first;
  and its reader, with the number of bytes as fuel, as a message has at least one.
\<close>

definition sample_wire :: wire_format where
  "sample_wire r =
     word_bytes 2 (dest_port r) @ word_bytes 2 (dest_federate r) @ le_bytes 4 (length (body r)) @ body r"

fun sample_read :: "nat \<Rightarrow> byte list \<Rightarrow> routed list" where
  "sample_read 0 bs = []"
| "sample_read (Suc fuel) bs =
     (if bs = [] then []
      else let len = le_value (take 4 (drop 4 bs)) in
        \<lparr>dest_port = word_of_nat (le_value (take 2 bs)),
         dest_federate = word_of_nat (le_value (take 2 (drop 2 bs))),
         body = take len (drop 8 bs)\<rparr> # sample_read fuel (drop (8 + len) bs))"

lemma le_value_word_bytes:
  fixes w :: "'a::len word"
  assumes "LENGTH('a) = 8 * n"
  shows "le_value (word_bytes n w) = unat w"
proof -
  have "unat w < 2 ^ LENGTH('a)" by simp
  then have "unat w < 256 ^ n" using assms by (simp add: power_mult)
  then show ?thesis by (simp add: word_bytes_def le_value_le_bytes)
qed

lemma sample_read_wire:
  assumes "length (body r) < 2 ^ 32"
  shows "sample_read (Suc fuel) (sample_wire r @ bs) = r # sample_read fuel bs"
proof -
  have "le_value (le_bytes 4 (length (body r))) = length (body r)"
    using assms by (simp add: le_value_le_bytes)
  moreover have "0 < length (sample_wire r @ bs)" by (simp add: sample_wire_def del: length_greater_0_conv)
  then have "sample_wire r @ bs \<noteq> []" by (rule length_greater_0_conv [THEN iffD1])
  then have "sample_read (Suc fuel) (sample_wire r @ bs) =
      (let len = le_value (take 4 (drop 4 (sample_wire r @ bs))) in
        \<lparr>dest_port = word_of_nat (le_value (take 2 (sample_wire r @ bs))),
         dest_federate = word_of_nat (le_value (take 2 (drop 2 (sample_wire r @ bs)))),
         body = take len (drop 8 (sample_wire r @ bs))\<rparr> #
        sample_read fuel (drop (8 + len) (sample_wire r @ bs)))"
    unfolding sample_read.simps(2) by (rule if_not_P)
  ultimately show ?thesis by (simp add: sample_wire_def Let_def le_value_word_bytes)
qed

lemma sample_read_wires:
  assumes "\<forall>r \<in> set rs. length (body r) < 2 ^ 32" and "length rs \<le> fuel"
  shows "sample_read fuel (concat (map sample_wire rs)) = rs"
  using assms
proof (induction rs arbitrary: fuel)
  case Nil
  then show ?case by (cases fuel) simp_all
next
  case (Cons r rs)
  then obtain fuel' where "fuel = Suc fuel'" by (cases fuel) auto
  with Cons show ?case by (simp add: sample_read_wire del: sample_read.simps)
qed

lemma length_sample_wires: "length rs \<le> length (concat (map sample_wire rs))"
  by (induction rs) (simp_all add: sample_wire_def)

definition sample_send :: send_function where
  "sample_send f msg_type port fed_id len bs =
     (if sockets_for_outbound_p2p_connections f ! unat fed_id = - 1 then None
      else Some (sample_wire \<lparr>dest_port = port, dest_federate = fed_id, body = take len bs\<rparr>))"

lemma sample_send_documented: "send_documented sample_wire sample_send"
  by (simp add: send_documented_def sample_send_def)

definition sample_incoming :: incoming_function where
  "sample_incoming me table bs =
     map (action_event table)
       (filter (\<lambda>r. dest_federate r = me \<and> unat (dest_port r) < length table) (sample_read (length bs) bs))"

lemma sample_incoming_documented: "incoming_documented sample_wire sample_incoming"
proof -
  have "sample_incoming me table (concat (map sample_wire rs)) = map (action_event table) rs"
    if ok: "\<forall>r \<in> set rs. deliverable me table r" for me table rs
  proof -
    have "sample_read (length (concat (map sample_wire rs))) (concat (map sample_wire rs)) = rs"
      using ok by (intro sample_read_wires length_sample_wires) (simp add: deliverable_def)
    moreover have "filter (\<lambda>r. dest_federate r = me \<and> unat (dest_port r) < length table) rs = rs"
      using ok by (intro filter_True) (simp add: deliverable_def)
    ultimately show ?thesis by (simp only: sample_incoming_def)
  qed
  then show ?thesis by (simp add: incoming_documented_def)
qed

end
