(* ===== verification/Trajectory_Path.thy ===== *)
theory Trajectory_Path
  imports Command_Path
begin

text \<open>
  The other connection of the federation: trajectories from the scenario selector of federate 31
  (\<open>federate__ss.lf\<close>) to the velocity smoother of federate 32 (\<open>federate__vs.lf\<close>), from the timer
  reaction of the one over network sender, socket, network action and network receiver to the input
  reaction of the other.  Serialization, \<open>lf_send_message\<close> and the runtime that reads the socket are
  the arguments of the command path.
\<close>

section \<open>Federate ss\<close>

definition ss_NetworkSender_0 :: "send_function \<Rightarrow> federate_instance_t \<Rightarrow> 'm codec \<Rightarrow> 'm port \<Rightarrow> byte list option" where
  "ss_NetworkSender_0 send f c msg =
     (case msg of None \<Rightarrow> None
      | Some v \<Rightarrow> let bs = serialize c v in send f MSG_TYPE_P2P_MESSAGE 0 32 (length bs) bs)"

text \<open>
  A run of the federate: the timer ticks of the scenario selector, whose trajectory port is wired
  to the sender; before each step of a tick's reaction the node's other threads act on it.
\<close>

definition ss_run ::
    "send_function \<Rightarrow> federate_instance_t \<Rightarrow> 'm codec \<Rightarrow>
     (('s, 'm, 'b) node2 \<Rightarrow> ('s, 'm, 'b) node2) \<Rightarrow>
     (nat \<Rightarrow> ('s, 'm, 'b) node2 \<Rightarrow> ('s, 'm, 'b) node2) list \<Rightarrow> ('s, 'm, 'b) node2 \<Rightarrow> byte list" where
  "ss_run send f c onTimer threads node =
     concat (map (\<lambda>(trajectory_out, scenario_out). bytes_of (ss_NetworkSender_0 send f c trajectory_out))
       (ticks (scenario_selector_reaction onTimer) (None, None) threads node))"

section \<open>Federate vs\<close>

text \<open>
  The state of a run of the smoother: the node, and its output port at every event so far.  Before
  the \<open>k\<close>-th step of the reaction at the \<open>i\<close>-th event the node's other threads act on it as
  \<open>threads i k\<close>.
\<close>

type_synonym ('s, 'm) smoother = "('s, 'm) node1 \<times> 'm port list"

definition smooth ::
    "('m \<Rightarrow> ('s, 'm) node1 \<Rightarrow> ('s, 'm) node1) \<Rightarrow> (nat \<Rightarrow> nat \<Rightarrow> ('s, 'm) node1 \<Rightarrow> ('s, 'm) node1) \<Rightarrow>
     ('s, 'm) smoother \<Rightarrow> 'm \<Rightarrow> ('s, 'm) smoother" where
  "smooth onCurrentTrajectory threads s trajectory =
     (let (node, outs) = s;
          (node, trajectory_out) =
            velocity_smoother_reaction onCurrentTrajectory trajectory (threads (length outs)) node None in
      (node, outs @ [trajectory_out]))"

text \<open>
  The event of the federate's network action: the receiver, and through the wiring of the main
  reactor the input of the smoother.  A NULL action or one that is no receiver is a fault.
\<close>

definition vs_event ::
    "'m codec \<Rightarrow> ('m \<Rightarrow> ('s, 'm) node1 \<Rightarrow> ('s, 'm) node1) \<Rightarrow>
     (nat \<Rightarrow> nat \<Rightarrow> ('s, 'm) node1 \<Rightarrow> ('s, 'm) node1) \<Rightarrow> action_pointer \<times> byte list \<Rightarrow>
     ('s, 'm) smoother \<Rightarrow> ('s, 'm) smoother c_result" where
  "vs_event c onCurrentTrajectory threads ev s =
     (case ev of (action, bs) \<Rightarrow>
        if action = Some ''federate__vs_nr_federate__vs''
        then c_bind (NetworkReceiver c bs None) (\<lambda>port0.
               case port0 of None \<Rightarrow> Inr s
               | Some trajectory_in \<Rightarrow> Inr (smooth onCurrentTrajectory threads s trajectory_in))
        else Inl Null_Dereference)"

definition vs_events ::
    "'m codec \<Rightarrow> ('m \<Rightarrow> ('s, 'm) node1 \<Rightarrow> ('s, 'm) node1) \<Rightarrow>
     (nat \<Rightarrow> nat \<Rightarrow> ('s, 'm) node1 \<Rightarrow> ('s, 'm) node1) \<Rightarrow> ('s, 'm) node1 \<Rightarrow>
     (action_pointer \<times> byte list) list \<Rightarrow> ('s, 'm) smoother c_result" where
  "vs_events c onCurrentTrajectory threads node evs =
     c_fold (vs_event c onCurrentTrajectory threads) evs (node, [])"

section \<open>The path of a run\<close>

definition trajectory_message :: "'m codec \<Rightarrow> 'm \<Rightarrow> routed" where
  "trajectory_message c v =
     \<lparr>dest_port = 0, dest_federate = 32, body = serialize c v\<rparr>"

definition vs_table :: "action_pointer list" where
  "vs_table = [Some ''federate__vs_nr_federate__vs'']"

lemma ss_sender_bytes:
  assumes "send_documented wire send" and "sockets_for_outbound_p2p_connections f ! 32 \<noteq> - 1"
  shows "bytes_of (ss_NetworkSender_0 send f c msg) =
    concat (map wire (map (trajectory_message c) (case msg of None \<Rightarrow> [] | Some v \<Rightarrow> [v])))"
  using assms
  by (auto simp: ss_NetworkSender_0_def bytes_of_def send_documented_def trajectory_message_def Let_def
      split: option.splits)

text \<open>The trajectories the scenario selector emits in a run.\<close>

definition selected_trajectories ::
    "(('s, 'm, 'b) node2 \<Rightarrow> ('s, 'm, 'b) node2) \<Rightarrow>
     (nat \<Rightarrow> ('s, 'm, 'b) node2 \<Rightarrow> ('s, 'm, 'b) node2) list \<Rightarrow> ('s, 'm, 'b) node2 \<Rightarrow> 'm list" where
  "selected_trajectories onTimer threads node =
     [v. (Some v, _) \<leftarrow> ticks (scenario_selector_reaction onTimer) (None, None) threads node]"

lemma ss_run_bytes:
  assumes "send_documented wire send" and "sockets_for_outbound_p2p_connections f ! 32 \<noteq> - 1"
  shows "ss_run send f c onTimer threads node =
    concat (map wire (map (trajectory_message c) (selected_trajectories onTimer threads node)))"
proof -
  have "concat (map (\<lambda>(trajectory_out, scenario_out). bytes_of (ss_NetworkSender_0 send f c trajectory_out)) ps) =
      concat (map wire (map (trajectory_message c) [v. (Some v, _) \<leftarrow> ps]))" for ps
    by (induction ps) (auto simp: ss_sender_bytes [OF assms] split: option.splits)
  then show ?thesis unfolding ss_run_def selected_trajectories_def .
qed

lemma vs_event_smooths:
  assumes "codec_ok c"
  shows "vs_event c onCurrentTrajectory threads (action_event vs_table (trajectory_message c v)) s =
    Inr (smooth onCurrentTrajectory threads s v)"
  using assms
  by (simp add: action_event_def vs_table_def trajectory_message_def vs_event_def NetworkReceiver_def
      codec_ok_def lf_set_def)

lemma vs_events_smooth:
  assumes "codec_ok c"
  shows "c_fold (vs_event c onCurrentTrajectory threads)
      (map (action_event vs_table) (map (trajectory_message c) vs)) s =
    Inr (foldl (smooth onCurrentTrajectory threads) s vs)"
  by (induction vs arbitrary: s) (simp_all add: vs_event_smooths [OF assms])

lemma vs_receives_run:
  assumes "send_documented wire send" and "sockets_for_outbound_p2p_connections f ! 32 \<noteq> - 1"
    and "incoming_documented wire incoming" and "codec_ok c"
  shows "vs_events c onCurrentTrajectory vs_threads vs_node
      (incoming 32 vs_table (ss_run send f c onTimer threads node)) =
    Inr (foldl (smooth onCurrentTrajectory vs_threads) (vs_node, [])
      (selected_trajectories onTimer threads node))"
proof -
  have "\<forall>r \<in> set (map (trajectory_message c) vs). deliverable 32 vs_table r" for vs
    using assms(4) by (simp add: codec_ok_def deliverable_def trajectory_message_def vs_table_def)
  then have "incoming 32 vs_table (ss_run send f c onTimer threads node) =
      map (action_event vs_table) (map (trajectory_message c) (selected_trajectories onTimer threads node))"
    using assms(3) unfolding incoming_documented_def ss_run_bytes [OF assms(1,2)] by blast
  then show ?thesis by (simp only: vs_events_def vs_events_smooth [OF assms(4)])
qed

text \<open>
  One output port per trajectory: a value exactly if the flag is up when the reaction tests it, the
  value of the slot when it copies it.
\<close>

definition smoothed ::
    "('m \<Rightarrow> ('s, 'm) node1 \<Rightarrow> ('s, 'm) node1) \<Rightarrow> (nat \<Rightarrow> ('s, 'm) node1 \<Rightarrow> ('s, 'm) node1) \<Rightarrow> 'm \<Rightarrow>
     ('s, 'm) node1 \<Rightarrow> 'm port" where
  "smoothed onCurrentTrajectory threads v node =
     observed (n1_slot (at_test threads (onCurrentTrajectory v) node))
       (n1_slot (at_copy threads (onCurrentTrajectory v) node))"

lemma smooth_simps:
  "smooth onCurrentTrajectory threads (node, outs) v =
     (fst (velocity_smoother_reaction onCurrentTrajectory v (threads (length outs)) node None),
      outs @ [smoothed onCurrentTrajectory (threads (length outs)) v node])"
  by (simp add: smooth_def Let_def case_prod_beta vs.emits smoothed_def)

lemma smoothed_length:
  "length (snd (foldl (smooth onCurrentTrajectory threads) s vs)) = length (snd s) + length vs"
  by (induction vs arbitrary: s) (auto simp: smooth_simps split_paired_all)

lemma smoothed_prefix:
  "take (length (snd s)) (snd (foldl (smooth onCurrentTrajectory threads) s vs)) = snd s"
proof (induction vs arbitrary: s)
  case (Cons v vs)
  obtain node outs where s: "s = (node, outs)" by (cases s)
  have "take (length outs) (take (Suc (length outs))
      (snd (foldl (smooth onCurrentTrajectory threads) (smooth onCurrentTrajectory threads s v) vs))) = outs"
    using Cons.IH [of "smooth onCurrentTrajectory threads s v"] by (simp add: s smooth_simps)
  then show ?case by (simp add: s)
qed simp

lemma smoothed_nth:
  assumes "i < length vs"
  shows "snd (foldl (smooth onCurrentTrajectory threads) (node, []) vs) ! i =
    smoothed onCurrentTrajectory (threads i) (vs ! i)
      (fst (foldl (smooth onCurrentTrajectory threads) (node, []) (take i vs)))"
proof -
  let ?run = "foldl (smooth onCurrentTrajectory threads) (node, [])"
  let ?s = "?run (take i vs)"
  have len: "length (snd ?s) = i" using assms by (simp add: smoothed_length)
  have "?run vs = foldl (smooth onCurrentTrajectory threads) (smooth onCurrentTrajectory threads ?s (vs ! i))
      (drop (Suc i) vs)"
    using assms by (metis foldl_append foldl_Cons id_take_nth_drop)
  then have "take (Suc i) (snd (?run vs)) = snd (smooth onCurrentTrajectory threads ?s (vs ! i))"
    using smoothed_prefix [of "smooth onCurrentTrajectory threads ?s (vs ! i)"] len
    by (cases ?s) (simp add: smooth_simps)
  then have "snd (?run vs) ! i = snd (smooth onCurrentTrajectory threads ?s (vs ! i)) ! i"
    by (metis lessI nth_take)
  then show ?thesis using len by (cases ?s) (simp add: smooth_simps nth_append)
qed

text \<open>The federates' actual state.\<close>

lemma ss_socket_open:
  assumes "runtime_documented rt" and "runtime_available rt"
    and "length (sockets_for_inbound_p2p_connections (fed p)) = NUMBER_OF_FEDERATES"
    and "length (sockets_for_outbound_p2p_connections (fed p)) = NUMBER_OF_FEDERATES"
    and "lf_executable_preamble rt federate__ss_preamble p = Inr p'"
  shows "sockets_for_outbound_p2p_connections (fed p') ! 32 \<noteq> - 1"
proof -
  have "32 \<in> set (connects federate__ss_preamble)"
    by (simp add: connects_def federate__ss_preamble_def)
  then show ?thesis
    using executable_preamble_effect [OF assms(1-4), of federate__ss_preamble] assms(5)
    by (auto simp: NUMBER_OF_FEDERATES_def)
qed

lemma vs_id:
  assumes "runtime_documented rt" and "runtime_available rt"
    and "length (sockets_for_inbound_p2p_connections (fed p)) = NUMBER_OF_FEDERATES"
    and "length (sockets_for_outbound_p2p_connections (fed p)) = NUMBER_OF_FEDERATES"
    and "lf_executable_preamble rt federate__vs_preamble p = Inr p'"
  shows "lf_my_fed_id p' = 32"
  using executable_preamble_effect [OF assms(1-4), of federate__vs_preamble] assms(5)
  by (auto simp: federate__vs_preamble_def)

lemma vs_action_table:
  assumes "\<And>n. malloc n"
    and "initialize_triggers_for_federate never malloc junk federate__vs_preamble
      (initial_tables sources federate__vs_preamble) = Inr s"
  shows "lf_action_table s = vs_table"
  using vs_triggers [of malloc never junk sources, OF assms(1)] assms(2)
  by (auto simp: trigger_tables_ok_def vs_table_def federate__vs_preamble_def)

text \<open>Nodes for the witness: the selector selects 7 at every tick, the smoother adds 1.\<close>

definition sample_selection :: "(unit, byte, byte) node2 \<Rightarrow> (unit, byte, byte) node2" where
  "sample_selection n = n\<lparr>n2_slot1 := \<lparr>is_set = True, lf_output = 7\<rparr>\<rparr>"

definition sample_selector :: "(unit, byte, byte) node2" where
  "sample_selector = \<lparr>n2_state = (), n2_slot1 = \<lparr>is_set = False, lf_output = 0\<rparr>,
     n2_slot2 = \<lparr>is_set = False, lf_output = 0\<rparr>\<rparr>"

definition sample_smoothing :: "byte \<Rightarrow> (unit, byte) node1 \<Rightarrow> (unit, byte) node1" where
  "sample_smoothing t n = n\<lparr>n1_slot := \<lparr>is_set = True, lf_output = t + 1\<rparr>\<rparr>"

definition sample_smoother :: "(unit, byte) node1" where
  "sample_smoother = \<lparr>n1_state = (), n1_slot = \<lparr>is_set = False, lf_output = 0\<rparr>\<rparr>"

lemma byte_codec_ok: "codec_ok byte_codec"
  by (simp add: codec_ok_def byte_codec_def)

section \<open>Properties\<close>

text \<open>C2: every selected trajectory is smoothed once, in order: for processes of federates ss and
  vs that ran their preambles and trigger initialisation, with a runtime, sockets and serialization
  that behave as documented, for any run of timer ticks of the scenario selector, and whatever the
  other threads of the two nodes do before any step of a reaction: the smoother is triggered without
  a fault by exactly the trajectories the selector emitted, in order; an output port carries a value
  at an event exactly if its flag is up when the reaction tests it after the callback, on the selected
  trajectory at the smoother, namely the value the slot has when it is copied.\<close>

theorem trajectories_reach_the_smoother:
  fixes c :: "'m codec" and onTimer :: "('s, 'm, 'b) node2 \<Rightarrow> ('s, 'm, 'b) node2"
  assumes runtime: "runtime_documented rt" "runtime_available rt"
    and arrays: "\<forall>p \<in> {p1, p2}.
      length (sockets_for_inbound_p2p_connections (fed p)) = NUMBER_OF_FEDERATES \<and>
      length (sockets_for_outbound_p2p_connections (fed p)) = NUMBER_OF_FEDERATES"
    and selector: "lf_executable_preamble rt federate__ss_preamble p1 = Inr ss"
    and smoother: "lf_executable_preamble rt federate__vs_preamble p2 = Inr vs"
    and memory: "\<forall>n. malloc n"
    and triggers: "initialize_triggers_for_federate never malloc junk federate__vs_preamble
      (initial_tables sources federate__vs_preamble) = Inr tables"
    and network: "send_documented wire send" "incoming_documented wire incoming" "codec_ok c"
  shows "\<exists>node' outs. let ts = selected_trajectories onTimer threads node in
    vs_events c onCurrentTrajectory vs_threads vs_node
      (incoming (lf_my_fed_id vs) (lf_action_table tables) (ss_run send (fed ss) c onTimer threads node)) =
      Inr (node', outs) \<and>
    length outs = length ts \<and>
    (\<forall>i < length ts.
       let n = fst (foldl (smooth onCurrentTrajectory vs_threads) (vs_node, []) (take i ts));
           tested = vs_threads i 1 (onCurrentTrajectory (ts ! i) (vs_threads i 0 n));
           copied = vs_threads i 2 tested in
       outs ! i = (if is_set (n1_slot tested) then Some (lf_output (n1_slot copied)) else None)) \<and>
    (\<forall>i < length threads.
       let n = node_at (scenario_selector_reaction onTimer) (None, None) threads i node;
           tested = (threads ! i) 1 (onTimer ((threads ! i) 0 n));
           copied = (threads ! i) 2 tested in
       fst (ticks (scenario_selector_reaction onTimer) (None, None) threads node ! i) =
         (if is_set (n2_slot1 tested) then Some (lf_output (n2_slot1 copied)) else None))"
proof -
  have socket: "sockets_for_outbound_p2p_connections (fed ss) ! 32 \<noteq> - 1"
    using ss_socket_open [OF runtime _ _ selector] arrays by blast
  have me: "lf_my_fed_id vs = 32"
    using vs_id [OF runtime _ _ smoother] arrays by blast
  have table: "lf_action_table tables = vs_table"
    using vs_action_table [OF _ triggers] memory by blast
  obtain node' outs where run: "foldl (smooth onCurrentTrajectory vs_threads) (vs_node, [])
      (selected_trajectories onTimer threads node) = (node', outs)"
    by (cases "foldl (smooth onCurrentTrajectory vs_threads) (vs_node, [])
      (selected_trajectories onTimer threads node)")
  show ?thesis
    unfolding me table Let_def vs_receives_run [OF network(1) socket network(2,3)] run
    using smoothed_length [of onCurrentTrajectory vs_threads "(vs_node, [])"
        "selected_trajectories onTimer threads node"]
      smoothed_nth [of _ "selected_trajectories onTimer threads node" onCurrentTrajectory vs_threads vs_node]
    by (simp add: run ss.ticks_nth smoothed_def observed_def at_test_def at_copy_def)
qed

theorem trajectories_reach_the_smoother_witness:
  "\<exists>ss vs tables node' outs.
    lf_executable_preamble sample_runtime federate__ss_preamble sample_process = Inr ss \<and>
    lf_executable_preamble sample_runtime federate__vs_preamble sample_process = Inr vs \<and>
    initialize_triggers_for_federate 7 (\<lambda>n. True) (\<lambda>i. None) federate__vs_preamble
      (initial_tables (\<lambda>r. 0) federate__vs_preamble) = Inr tables \<and>
    vs_events byte_codec sample_smoothing (\<lambda>i k n. n) sample_smoother
      (sample_incoming (lf_my_fed_id vs) (lf_action_table tables)
        (ss_run sample_send (fed ss) byte_codec sample_selection [\<lambda>k n. n, \<lambda>k n. n] sample_selector)) =
      Inr (node', outs) \<and>
    outs = [Some 8, Some 8]"
proof -
  have arrays: "length (sockets_for_inbound_p2p_connections (fed sample_process)) = NUMBER_OF_FEDERATES"
    "length (sockets_for_outbound_p2p_connections (fed sample_process)) = NUMBER_OF_FEDERATES"
    by (simp_all add: sample_process_def)
  note preamble = executable_preamble_effect [OF sample_runtime_documented sample_runtime_available arrays]
  obtain ss where ss: "lf_executable_preamble sample_runtime federate__ss_preamble sample_process = Inr ss"
    using preamble [of federate__ss_preamble] by blast
  obtain vs where vs: "lf_executable_preamble sample_runtime federate__vs_preamble sample_process = Inr vs"
    using preamble [of federate__vs_preamble] by blast
  obtain tables where tables: "initialize_triggers_for_federate 7 (\<lambda>n. True) (\<lambda>i. None)
      federate__vs_preamble (initial_tables (\<lambda>r. 0) federate__vs_preamble) = Inr tables"
    using vs_triggers [of "\<lambda>n. True" 7 "\<lambda>i. None" "\<lambda>r. 0"] by blast
  have both: "\<forall>p \<in> {sample_process, sample_process}.
      length (sockets_for_inbound_p2p_connections (fed p)) = NUMBER_OF_FEDERATES \<and>
      length (sockets_for_outbound_p2p_connections (fed p)) = NUMBER_OF_FEDERATES"
    using arrays by simp
  have selected: "selected_trajectories sample_selection [\<lambda>k n. n, \<lambda>k n. n] sample_selector = [7, 7]"
    by (simp add: selected_trajectories_def scenario_selector_reaction_def sample_selection_def
        sample_selector_def forward_def lf_set_def Let_def)
  have smoothed: "is_set (n1_slot (sample_smoothing t n))" "lf_output (n1_slot (sample_smoothing t n)) = t + 1"
    for t n by (simp_all add: sample_smoothing_def)
  obtain node' outs where "vs_events byte_codec sample_smoothing (\<lambda>i k n. n) sample_smoother
      (sample_incoming (lf_my_fed_id vs) (lf_action_table tables)
        (ss_run sample_send (fed ss) byte_codec sample_selection [\<lambda>k n. n, \<lambda>k n. n] sample_selector)) =
      Inr (node', outs)"
      "length outs = 2" "\<forall>i < 2. outs ! i = Some ([7, 7] ! i + 1)"
    using trajectories_reach_the_smoother [OF sample_runtime_documented sample_runtime_available both ss vs _
        tables sample_send_documented sample_incoming_documented byte_codec_ok, of sample_selection
        "[\<lambda>k n. n, \<lambda>k n. n]" sample_selector sample_smoothing "\<lambda>i k n. n" sample_smoother]
    unfolding selected Let_def by (auto simp: smoothed)
  moreover from this(2,3) have "outs = [Some 8, Some 8]"
    by (intro nth_equalityI) (auto simp: less_Suc_eq numeral_2_eq_2)
  ultimately show ?thesis using ss vs tables by blast
qed

end
