(* ===== verification/Federate_Mains.thy ===== *)
theory Federate_Mains
  imports Compositions
begin

text \<open>
  The generated programs of the 46 federates, \<open>lf-src/fed-gen/AutowareFederated/src/federate__*.lf\<close>: for
  each the target properties, the headers included, the preamble it names, the wrapper it imports, the network senders and
  receivers it declares, and its main reactor as a composition.  Put together with the trigger tables
  of the preambles they are the deployed program, whose dataflow is compared with that of
  \<open>AutowareFederated.lf\<close>.  The code of senders and receivers is in \<open>Command_Path\<close> and \<open>Trajectory_Path\<close>;
  the \<open>#undef\<close> of a macro of another library in \<open>federate__cg.lf\<close> is left out.
\<close>

section \<open>The generated programs\<close>

text \<open>
  A network sender has a port and a federate, the arguments of its call of \<open>lf_send_message\<close>.  The
  reactors between a receiver and an input pass their input on: a composition without instances.
\<close>

record federate_main =
  main_count :: nat
  main_id :: nat
  main_names :: string
  main_options :: "(string \<times> string) list"
  main_cmake :: "string list"
  main_setup :: string
  main_import :: "string \<times> string"
  main_headers :: "string list"
  main_federate_headers :: "string list"
  main_senders :: "(string \<times> nat \<times> nat) list"
  main_receivers :: "string list"
  main_reactor :: composition

text \<open>The compile definition \<open>_LF_FEDERATE_NAMES_COMMA_SEPARATED\<close>, the same in all files.\<close>

definition common_names :: string where
  "common_names =
    ''federate__cbf,federate__imu,federate__vvc,federate__ndt,federate__gyro,federate__ekf,federate__pcm,federate__l2m,federate__gs,federate__lcp,federate__ec,federate__pmf,federate__dbt,federate__ov,federate__of,federate__clf,federate__mot,federate__mbp,federate__ogm,federate__tlmbd,federate__tlc,federate__tla,federate__tlop,federate__ctle,federate__mp,federate__bpp,federate__bvp,federate__ps,federate__po,federate__mvp,federate__soc,federate__ss,federate__vs,federate__fp,federate__cg,federate__pv,federate__evls,federate__tf,federate__sd,federate__vcg,federate__omtm,federate__ldc,federate__cv,federate__aeb,federate__cd,federate__bridge''"

text \<open>The other compile definitions and the target properties, and the headers included for the federate.\<close>

definition common_options :: "(string \<times> string) list" where
  "common_options =
    [(''FEDERATED_DECENTRALIZED'', ''''), (''EXECUTABLE_PREAMBLE'', ''''), (''FEDERATED'', ''''),
     (''LF_CLOCK_SYNC'', ''1''), (''coordination'', ''decentralized''), (''keepalive'', ''true''),
     (''single-threaded'', ''false'')]"

definition runtime_headers :: "string list" where
  "runtime_headers =
    [''core/federated/federate.h'', ''core/federated/network/net_common.h'', ''core/federated/network/net_util.h'',
     ''core/federated/network/socket_common.h'', ''core/federated/clock-sync.h'',
     ''core/threaded/reactor_threaded.h'', ''core/utils/util.h'']"

definition serialization_headers :: "string list" where
  "serialization_headers =
    [''rcutils/allocator.h'', ''rclcpp/rclcpp.hpp'', ''rclcpp/serialization.hpp'', ''rclcpp/serialized_message.hpp'']"

definition federate__cbf_main :: federate_main where
  "federate__cbf_main =
     \<lparr>main_count = 46, main_id = 0, main_names = common_names, main_options = common_options,
      main_cmake = [''../../../crop_box_filter/include/CMakeListsExtension.txt'', ''include/federate__cbf_extension.cmake''],
      main_setup = ''include/_federate__cbf_preamble.h'',
      main_import = (''crop_box_filter'', ''../../../crop_box_filter/crop_box_filter_main.lf''),
      main_headers = [''autoware/crop_box_filter/crop_box_filter_node.hpp'', ''utils.hpp'', ''constants.hpp''],
      main_federate_headers = runtime_headers,
      main_senders = [],
      main_receivers = [],
      main_reactor = Composite
       [(''cbf'', Leaf ''crop_box_filter'')]
       []\<rparr>"

definition federate__imu_main :: federate_main where
  "federate__imu_main =
     \<lparr>main_count = 46, main_id = 1, main_names = common_names, main_options = common_options,
      main_cmake = [''../../../imu_corrector/include/CMakeListsExtension.txt'', ''include/federate__imu_extension.cmake''],
      main_setup = ''include/_federate__imu_preamble.h'',
      main_import = (''imu_corrector'', ''../../../imu_corrector/imu_corrector_main.lf''),
      main_headers = [''autoware/imu_corrector/imu_corrector_core.hpp'', ''utils.hpp'', ''constants.hpp''],
      main_federate_headers = runtime_headers,
      main_senders = [],
      main_receivers = [],
      main_reactor = Composite
       [(''imu'', Leaf ''imu_corrector'')]
       []\<rparr>"

definition federate__vvc_main :: federate_main where
  "federate__vvc_main =
     \<lparr>main_count = 46, main_id = 2, main_names = common_names, main_options = common_options,
      main_cmake = [''../../../vehicle_velocity_converter/include/CMakeListsExtension.txt'', ''include/federate__vvc_extension.cmake''],
      main_setup = ''include/_federate__vvc_preamble.h'',
      main_import = (''vehicle_velocity_converter'', ''../../../vehicle_velocity_converter/vehicle_velocity_converter_main.lf''),
      main_headers = [''vehicle_velocity_converter.hpp'', ''utils.hpp'', ''constants.hpp''],
      main_federate_headers = runtime_headers,
      main_senders = [],
      main_receivers = [],
      main_reactor = Composite
       [(''vvc'', Leaf ''vehicle_velocity_converter'')]
       []\<rparr>"

definition federate__ndt_main :: federate_main where
  "federate__ndt_main =
     \<lparr>main_count = 46, main_id = 3, main_names = common_names, main_options = common_options,
      main_cmake = [''../../../ndt_scan_matcher/include/CMakeListsExtension.txt'', ''include/federate__ndt_extension.cmake''],
      main_setup = ''include/_federate__ndt_preamble.h'',
      main_import = (''ndt_scan_matcher'', ''../../../ndt_scan_matcher/ndt_scan_matcher_main.lf''),
      main_headers = [''autoware/ndt_scan_matcher/ndt_scan_matcher_core.hpp'', ''utils.hpp'', ''constants.hpp''],
      main_federate_headers = runtime_headers,
      main_senders = [],
      main_receivers = [],
      main_reactor = Composite
       [(''ndt'', Leaf ''ndt_scan_matcher'')]
       []\<rparr>"

definition federate__gyro_main :: federate_main where
  "federate__gyro_main =
     \<lparr>main_count = 46, main_id = 4, main_names = common_names, main_options = common_options,
      main_cmake = [''../../../gyro_odometer/include/CMakeListsExtension.txt'', ''include/federate__gyro_extension.cmake''],
      main_setup = ''include/_federate__gyro_preamble.h'',
      main_import = (''gyro_odometer'', ''../../../gyro_odometer/gyro_odometer_main.lf''),
      main_headers = [''gyro_odometer_core.hpp'', ''utils.hpp'', ''constants.hpp''],
      main_federate_headers = runtime_headers,
      main_senders = [],
      main_receivers = [],
      main_reactor = Composite
       [(''gyro'', Leaf ''gyro_odometer'')]
       []\<rparr>"

definition federate__ekf_main :: federate_main where
  "federate__ekf_main =
     \<lparr>main_count = 46, main_id = 5, main_names = common_names, main_options = common_options,
      main_cmake = [''../../../ekf_localizer/include/CMakeListsExtension.txt'', ''include/federate__ekf_extension.cmake''],
      main_setup = ''include/_federate__ekf_preamble.h'',
      main_import = (''ekf_localizer'', ''../../../ekf_localizer/ekf_localizer_main.lf''),
      main_headers = [''autoware/ekf_localizer/ekf_localizer.hpp'', ''utils.hpp'', ''constants.hpp''],
      main_federate_headers = runtime_headers,
      main_senders = [],
      main_receivers = [],
      main_reactor = Composite
       [(''ekf'', Leaf ''ekf_localizer'')]
       []\<rparr>"

definition federate__pcm_main :: federate_main where
  "federate__pcm_main =
     \<lparr>main_count = 46, main_id = 6, main_names = common_names, main_options = common_options,
      main_cmake = [''../../../pointcloud_map_loader/include/CMakeListsExtension.txt'', ''include/federate__pcm_extension.cmake''],
      main_setup = ''include/_federate__pcm_preamble.h'',
      main_import = (''pointcloud_map_loader'', ''../../../pointcloud_map_loader/pointcloud_map_loader_main.lf''),
      main_headers = [''pointcloud_map_loader_node.hpp'', ''utils.hpp'', ''constants.hpp''],
      main_federate_headers = runtime_headers,
      main_senders = [],
      main_receivers = [],
      main_reactor = Composite
       [(''pcm'', Leaf ''pointcloud_map_loader'')]
       []\<rparr>"

definition federate__l2m_main :: federate_main where
  "federate__l2m_main =
     \<lparr>main_count = 46, main_id = 7, main_names = common_names, main_options = common_options,
      main_cmake = [''../../../lanelet2_map_loader/include/CMakeListsExtension.txt'', ''include/federate__l2m_extension.cmake''],
      main_setup = ''include/_federate__l2m_preamble.h'',
      main_import = (''lanelet2_map_loader'', ''../../../lanelet2_map_loader/lanelet2_map_loader_main.lf''),
      main_headers = [''autoware/map_loader/lanelet2_map_loader_node.hpp'', ''utils.hpp'', ''constants.hpp''],
      main_federate_headers = runtime_headers,
      main_senders = [],
      main_receivers = [],
      main_reactor = Composite
       [(''l2m'', Leaf ''lanelet2_map_loader'')]
       []\<rparr>"

definition federate__gs_main :: federate_main where
  "federate__gs_main =
     \<lparr>main_count = 46, main_id = 8, main_names = common_names, main_options = common_options,
      main_cmake = [''../../../ground_segmentation/include/CMakeListsExtension.txt'', ''include/federate__gs_extension.cmake''],
      main_setup = ''include/_federate__gs_preamble.h'',
      main_import = (''ground_segmentation'', ''../../../ground_segmentation/ground_segmentation_main.lf''),
      main_headers = [''node.hpp'', ''utils.hpp'', ''constants.hpp''],
      main_federate_headers = runtime_headers,
      main_senders = [],
      main_receivers = [],
      main_reactor = Composite
       [(''gs'', Leaf ''ground_segmentation'')]
       []\<rparr>"

definition federate__lcp_main :: federate_main where
  "federate__lcp_main =
     \<lparr>main_count = 46, main_id = 9, main_names = common_names, main_options = common_options,
      main_cmake = [''../../../lidar_centerpoint/include/CMakeListsExtension.txt'', ''include/federate__lcp_extension.cmake''],
      main_setup = ''include/_federate__lcp_preamble.h'',
      main_import = (''lidar_centerpoint'', ''../../../lidar_centerpoint/lidar_centerpoint_main.lf''),
      main_headers = [''autoware/lidar_centerpoint/node.hpp'', ''utils.hpp'', ''constants.hpp''],
      main_federate_headers = runtime_headers,
      main_senders = [],
      main_receivers = [],
      main_reactor = Composite
       [(''lcp'', Leaf ''lidar_centerpoint'')]
       []\<rparr>"

definition federate__ec_main :: federate_main where
  "federate__ec_main =
     \<lparr>main_count = 46, main_id = 10, main_names = common_names, main_options = common_options,
      main_cmake = [''../../../euclidean_cluster/include/CMakeListsExtension.txt'', ''include/federate__ec_extension.cmake''],
      main_setup = ''include/_federate__ec_preamble.h'',
      main_import = (''euclidean_cluster'', ''../../../euclidean_cluster/euclidean_cluster_main.lf''),
      main_headers = [''voxel_grid_based_euclidean_cluster_node.hpp'', ''utils.hpp''],
      main_federate_headers = runtime_headers,
      main_senders = [],
      main_receivers = [],
      main_reactor = Composite
       [(''ec'', Leaf ''euclidean_cluster'')]
       []\<rparr>"

definition federate__pmf_main :: federate_main where
  "federate__pmf_main =
     \<lparr>main_count = 46, main_id = 11, main_names = common_names, main_options = common_options,
      main_cmake = [''../../../pointcloud_map_filter/include/CMakeListsExtension.txt'', ''include/federate__pmf_extension.cmake''],
      main_setup = ''include/_federate__pmf_preamble.h'',
      main_import = (''pointcloud_map_filter'', ''../../../pointcloud_map_filter/pointcloud_map_filter_main.lf''),
      main_headers = [''autoware_compare_map_segmentation/node.hpp'', ''utils.hpp''],
      main_federate_headers = runtime_headers,
      main_senders = [],
      main_receivers = [],
      main_reactor = Composite
       [(''pmf'', Leaf ''pointcloud_map_filter'')]
       []\<rparr>"

definition federate__dbt_main :: federate_main where
  "federate__dbt_main =
     \<lparr>main_count = 46, main_id = 12, main_names = common_names, main_options = common_options,
      main_cmake = [''../../../detection_by_tracker/include/CMakeListsExtension.txt'', ''include/federate__dbt_extension.cmake''],
      main_setup = ''include/_federate__dbt_preamble.h'',
      main_import = (''detection_by_tracker'', ''../../../detection_by_tracker/detection_by_tracker_main.lf''),
      main_headers = [''detection_by_tracker_node.hpp'', ''utils.hpp''],
      main_federate_headers = runtime_headers,
      main_senders = [],
      main_receivers = [],
      main_reactor = Composite
       [(''dbt'', Leaf ''detection_by_tracker'')]
       []\<rparr>"

definition federate__ov_main :: federate_main where
  "federate__ov_main =
     \<lparr>main_count = 46, main_id = 13, main_names = common_names, main_options = common_options,
      main_cmake = [''../../../object_validator/include/CMakeListsExtension.txt'', ''include/federate__ov_extension.cmake''],
      main_setup = ''include/_federate__ov_preamble.h'',
      main_import = (''object_validator'', ''../../../object_validator/object_validator_main.lf''),
      main_headers = [''obstacle_pointcloud_validator.hpp'', ''utils.hpp''],
      main_federate_headers = runtime_headers,
      main_senders = [],
      main_receivers = [],
      main_reactor = Composite
       [(''ov'', Leaf ''object_validator'')]
       []\<rparr>"

definition federate__of_main :: federate_main where
  "federate__of_main =
     \<lparr>main_count = 46, main_id = 14, main_names = common_names, main_options = common_options,
      main_cmake = [''../../../object_filter/include/CMakeListsExtension.txt'', ''include/federate__of_extension.cmake''],
      main_setup = ''include/_federate__of_preamble.h'',
      main_import = (''object_filter'', ''../../../object_filter/object_filter_main.lf''),
      main_headers = [''detected_object_lanelet_filter.hpp'', ''utils.hpp''],
      main_federate_headers = runtime_headers,
      main_senders = [],
      main_receivers = [],
      main_reactor = Composite
       [(''of'', Leaf ''object_filter'')]
       []\<rparr>"

definition federate__clf_main :: federate_main where
  "federate__clf_main =
     \<lparr>main_count = 46, main_id = 15, main_names = common_names, main_options = common_options,
      main_cmake = [''../../../camera_lidar_fusion/include/CMakeListsExtension.txt'', ''include/federate__clf_extension.cmake''],
      main_setup = ''include/_federate__clf_preamble.h'',
      main_import = (''camera_lidar_fusion'', ''../../../camera_lidar_fusion/camera_lidar_fusion_main.lf''),
      main_headers = [''autoware/image_projection_based_fusion/roi_cluster_fusion/node.hpp'', ''utils.hpp''],
      main_federate_headers = runtime_headers,
      main_senders = [],
      main_receivers = [],
      main_reactor = Composite
       [(''clf'', Leaf ''camera_lidar_fusion'')]
       []\<rparr>"

definition federate__mot_main :: federate_main where
  "federate__mot_main =
     \<lparr>main_count = 46, main_id = 16, main_names = common_names, main_options = common_options,
      main_cmake = [''../../../multi_object_tracker/include/CMakeListsExtension.txt'', ''include/federate__mot_extension.cmake''],
      main_setup = ''include/_federate__mot_preamble.h'',
      main_import = (''multi_object_tracker'', ''../../../multi_object_tracker/multi_object_tracker_main.lf''),
      main_headers = [''multi_object_tracker_node.hpp'', ''utils.hpp'', ''constants.hpp''],
      main_federate_headers = runtime_headers,
      main_senders = [],
      main_receivers = [],
      main_reactor = Composite
       [(''mot'', Leaf ''multi_object_tracker'')]
       []\<rparr>"

definition federate__mbp_main :: federate_main where
  "federate__mbp_main =
     \<lparr>main_count = 46, main_id = 17, main_names = common_names, main_options = common_options,
      main_cmake = [''../../../map_based_prediction/include/CMakeListsExtension.txt'', ''include/federate__mbp_extension.cmake''],
      main_setup = ''include/_federate__mbp_preamble.h'',
      main_import = (''map_based_prediction'', ''../../../map_based_prediction/map_based_prediction_main.lf''),
      main_headers = [''map_based_prediction/map_based_prediction_node.hpp'', ''utils.hpp'', ''constants.hpp''],
      main_federate_headers = runtime_headers,
      main_senders = [],
      main_receivers = [],
      main_reactor = Composite
       [(''mbp'', Leaf ''map_based_prediction'')]
       []\<rparr>"

definition federate__ogm_main :: federate_main where
  "federate__ogm_main =
     \<lparr>main_count = 46, main_id = 18, main_names = common_names, main_options = common_options,
      main_cmake = [''../../../occupancy_grid_map/include/CMakeListsExtension.txt'', ''include/federate__ogm_extension.cmake''],
      main_setup = ''include/_federate__ogm_preamble.h'',
      main_import = (''occupancy_grid_map'', ''../../../occupancy_grid_map/occupancy_grid_map_main.lf''),
      main_headers = [''pointcloud_based_occupancy_grid_map_node.hpp'', ''utils.hpp'', ''constants.hpp''],
      main_federate_headers = runtime_headers,
      main_senders = [],
      main_receivers = [],
      main_reactor = Composite
       [(''ogm'', Leaf ''occupancy_grid_map'')]
       []\<rparr>"

definition federate__tlmbd_main :: federate_main where
  "federate__tlmbd_main =
     \<lparr>main_count = 46, main_id = 19, main_names = common_names, main_options = common_options,
      main_cmake = [''../../../traffic_light_map_based_detector/include/CMakeListsExtension.txt'', ''include/federate__tlmbd_extension.cmake''],
      main_setup = ''include/_federate__tlmbd_preamble.h'',
      main_import = (''traffic_light_map_based_detector'', ''../../../traffic_light_map_based_detector/traffic_light_map_based_detector_main.lf''),
      main_headers = [''traffic_light_map_based_detector_node.hpp'', ''utils.hpp''],
      main_federate_headers = runtime_headers,
      main_senders = [],
      main_receivers = [],
      main_reactor = Composite
       [(''tlmbd'', Leaf ''traffic_light_map_based_detector'')]
       []\<rparr>"

definition federate__tlc_main :: federate_main where
  "federate__tlc_main =
     \<lparr>main_count = 46, main_id = 20, main_names = common_names, main_options = common_options,
      main_cmake = [''../../../traffic_light_classifier/include/CMakeListsExtension.txt'', ''include/federate__tlc_extension.cmake''],
      main_setup = ''include/_federate__tlc_preamble.h'',
      main_import = (''traffic_light_classifier'', ''../../../traffic_light_classifier/traffic_light_classifier_main.lf''),
      main_headers = [''traffic_light_classifier_node.hpp'', ''utils.hpp''],
      main_federate_headers = runtime_headers,
      main_senders = [],
      main_receivers = [],
      main_reactor = Composite
       [(''tlc'', Leaf ''traffic_light_classifier'')]
       []\<rparr>"

definition federate__tla_main :: federate_main where
  "federate__tla_main =
     \<lparr>main_count = 46, main_id = 21, main_names = common_names, main_options = common_options,
      main_cmake = [''../../../traffic_light_arbiter/include/CMakeListsExtension.txt'', ''include/federate__tla_extension.cmake''],
      main_setup = ''include/_federate__tla_preamble.h'',
      main_import = (''traffic_light_arbiter'', ''../../../traffic_light_arbiter/traffic_light_arbiter_main.lf''),
      main_headers = [''autoware/traffic_light_arbiter/traffic_light_arbiter.hpp'', ''utils.hpp''],
      main_federate_headers = runtime_headers,
      main_senders = [],
      main_receivers = [],
      main_reactor = Composite
       [(''tla'', Leaf ''traffic_light_arbiter'')]
       []\<rparr>"

definition federate__tlop_main :: federate_main where
  "federate__tlop_main =
     \<lparr>main_count = 46, main_id = 22, main_names = common_names, main_options = common_options,
      main_cmake = [''../../../traffic_light_occlusion_predictor/include/CMakeListsExtension.txt'', ''include/federate__tlop_extension.cmake''],
      main_setup = ''include/_federate__tlop_preamble.h'',
      main_import = (''traffic_light_occlusion_predictor'', ''../../../traffic_light_occlusion_predictor/traffic_light_occlusion_predictor_main.lf''),
      main_headers = [''autoware_traffic_light_occlusion_predictor/node.hpp'', ''utils.hpp''],
      main_federate_headers = runtime_headers,
      main_senders = [],
      main_receivers = [],
      main_reactor = Composite
       [(''tlop'', Leaf ''traffic_light_occlusion_predictor'')]
       []\<rparr>"

definition federate__ctle_main :: federate_main where
  "federate__ctle_main =
     \<lparr>main_count = 46, main_id = 23, main_names = common_names, main_options = common_options,
      main_cmake = [''../../../crosswalk_traffic_light_estimator/include/CMakeListsExtension.txt'', ''include/federate__ctle_extension.cmake''],
      main_setup = ''include/_federate__ctle_preamble.h'',
      main_import = (''crosswalk_traffic_light_estimator'', ''../../../crosswalk_traffic_light_estimator/crosswalk_traffic_light_estimator_main.lf''),
      main_headers = [''autoware_crosswalk_traffic_light_estimator/node.hpp'', ''utils.hpp''],
      main_federate_headers = runtime_headers,
      main_senders = [],
      main_receivers = [],
      main_reactor = Composite
       [(''ctle'', Leaf ''crosswalk_traffic_light_estimator'')]
       []\<rparr>"

definition federate__mp_main :: federate_main where
  "federate__mp_main =
     \<lparr>main_count = 46, main_id = 24, main_names = common_names, main_options = common_options,
      main_cmake = [''../../../mission_planner/include/CMakeListsExtension.txt'', ''include/federate__mp_extension.cmake''],
      main_setup = ''include/_federate__mp_preamble.h'',
      main_import = (''mission_planner'', ''../../../mission_planner/mission_planner_main.lf''),
      main_headers = [''mission_planner/mission_planner.hpp'', ''utils.hpp'', ''constants.hpp''],
      main_federate_headers = runtime_headers,
      main_senders = [],
      main_receivers = [],
      main_reactor = Composite
       [(''mp'', Leaf ''mission_planner'')]
       []\<rparr>"

definition federate__bpp_main :: federate_main where
  "federate__bpp_main =
     \<lparr>main_count = 46, main_id = 25, main_names = common_names, main_options = common_options,
      main_cmake = [''../../../behavior_path_planner/include/CMakeListsExtension.txt'', ''include/federate__bpp_extension.cmake''],
      main_setup = ''include/_federate__bpp_preamble.h'',
      main_import = (''behavior_path_planner'', ''../../../behavior_path_planner/behavior_path_planner_main.lf''),
      main_headers = [''autoware/behavior_path_planner/behavior_path_planner_node.hpp'', ''utils.hpp'', ''constants.hpp''],
      main_federate_headers = runtime_headers,
      main_senders = [],
      main_receivers = [],
      main_reactor = Composite
       [(''bpp'', Leaf ''behavior_path_planner'')]
       []\<rparr>"

definition federate__bvp_main :: federate_main where
  "federate__bvp_main =
     \<lparr>main_count = 46, main_id = 26, main_names = common_names, main_options = common_options,
      main_cmake = [''../../../behavior_velocity_planner/include/CMakeListsExtension.txt'', ''include/federate__bvp_extension.cmake''],
      main_setup = ''include/_federate__bvp_preamble.h'',
      main_import = (''behavior_velocity_planner'', ''../../../behavior_velocity_planner/behavior_velocity_planner_main.lf''),
      main_headers = [''autoware/behavior_velocity_planner/node.hpp'', ''utils.hpp''],
      main_federate_headers = runtime_headers,
      main_senders = [],
      main_receivers = [],
      main_reactor = Composite
       [(''bvp'', Leaf ''behavior_velocity_planner'')]
       []\<rparr>"

definition federate__ps_main :: federate_main where
  "federate__ps_main =
     \<lparr>main_count = 46, main_id = 27, main_names = common_names, main_options = common_options,
      main_cmake = [''../../../path_smoother/include/CMakeListsExtension.txt'', ''include/federate__ps_extension.cmake''],
      main_setup = ''include/_federate__ps_preamble.h'',
      main_import = (''path_smoother'', ''../../../path_smoother/path_smoother_main.lf''),
      main_headers = [''autoware/path_smoother/elastic_band_smoother.hpp'', ''utils.hpp''],
      main_federate_headers = runtime_headers,
      main_senders = [],
      main_receivers = [],
      main_reactor = Composite
       [(''ps'', Leaf ''path_smoother'')]
       []\<rparr>"

definition federate__po_main :: federate_main where
  "federate__po_main =
     \<lparr>main_count = 46, main_id = 28, main_names = common_names, main_options = common_options,
      main_cmake = [''../../../path_optimizer/include/CMakeListsExtension.txt'', ''include/federate__po_extension.cmake''],
      main_setup = ''include/_federate__po_preamble.h'',
      main_import = (''path_optimizer'', ''../../../path_optimizer/path_optimizer_main.lf''),
      main_headers = [''autoware/path_optimizer/node.hpp'', ''utils.hpp''],
      main_federate_headers = runtime_headers,
      main_senders = [],
      main_receivers = [],
      main_reactor = Composite
       [(''po'', Leaf ''path_optimizer'')]
       []\<rparr>"

definition federate__mvp_main :: federate_main where
  "federate__mvp_main =
     \<lparr>main_count = 46, main_id = 29, main_names = common_names, main_options = common_options,
      main_cmake = [''../../../motion_velocity_planner/include/CMakeListsExtension.txt'', ''include/federate__mvp_extension.cmake''],
      main_setup = ''include/_federate__mvp_preamble.h'',
      main_import = (''motion_velocity_planner'', ''../../../motion_velocity_planner/motion_velocity_planner_main.lf''),
      main_headers = [''node.hpp'', ''utils.hpp''],
      main_federate_headers = runtime_headers,
      main_senders = [],
      main_receivers = [],
      main_reactor = Composite
       [(''mvp'', Leaf ''motion_velocity_planner'')]
       []\<rparr>"

definition federate__soc_main :: federate_main where
  "federate__soc_main =
     \<lparr>main_count = 46, main_id = 30, main_names = common_names, main_options = common_options,
      main_cmake = [''../../../surround_obstacle_checker/include/CMakeListsExtension.txt'', ''include/federate__soc_extension.cmake''],
      main_setup = ''include/_federate__soc_preamble.h'',
      main_import = (''surround_obstacle_checker'', ''../../../surround_obstacle_checker/surround_obstacle_checker_main.lf''),
      main_headers = [''node.hpp'', ''utils.hpp''],
      main_federate_headers = runtime_headers,
      main_senders = [],
      main_receivers = [],
      main_reactor = Composite
       [(''soc'', Leaf ''surround_obstacle_checker'')]
       []\<rparr>"

definition federate__ss_main :: federate_main where
  "federate__ss_main =
     \<lparr>main_count = 46, main_id = 31, main_names = common_names, main_options = common_options,
      main_cmake = [''../../../scenario_selector/include/CMakeListsExtension.txt'', ''include/federate__ss_extension.cmake''],
      main_setup = ''include/_federate__ss_preamble.h'',
      main_import = (''scenario_selector'', ''../../../scenario_selector/scenario_selector_main.lf''),
      main_headers = [''autoware/scenario_selector/node.hpp'', ''utils.hpp'', ''constants.hpp''],
      main_federate_headers = runtime_headers @ serialization_headers,
      main_senders = [(''NetworkSender_0'', 0, 32)],
      main_receivers = [],
      main_reactor = Composite
       [(''ss'', Leaf ''scenario_selector''),
        (''ns_federate__vs'', Leaf ''NetworkSender_0'')]
       [(Logical, Of ''ss'' ''trajectory_out'', Of ''ns_federate__vs'' ''msg'')]\<rparr>"

definition federate__vs_main :: federate_main where
  "federate__vs_main =
     \<lparr>main_count = 46, main_id = 32, main_names = common_names, main_options = common_options,
      main_cmake = [''../../../velocity_smoother/include/CMakeListsExtension.txt'', ''include/federate__vs_extension.cmake''],
      main_setup = ''include/_federate__vs_preamble.h'',
      main_import = (''velocity_smoother'', ''../../../velocity_smoother/velocity_smoother_main.lf''),
      main_headers = [''autoware/velocity_smoother/node.hpp'', ''utils.hpp'', ''constants.hpp''],
      main_federate_headers = runtime_headers @ serialization_headers,
      main_senders = [],
      main_receivers = [''NetworkReceiver_0''],
      main_reactor = Composite
       [(''vs'', Leaf ''velocity_smoother''),
        (''nr_federate__vs'', Leaf ''NetworkReceiver_0''),
        (''_vstrajectory_in0'', Composite [] [(Logical, Own ''port0'', Own ''port'')])]
       [(Logical, Of ''_vstrajectory_in0'' ''port'', Of ''vs'' ''trajectory_in''),
        (Logical, Of ''nr_federate__vs'' ''msg'', Of ''_vstrajectory_in0'' ''port0'')]\<rparr>"

definition federate__fp_main :: federate_main where
  "federate__fp_main =
     \<lparr>main_count = 46, main_id = 33, main_names = common_names, main_options = common_options,
      main_cmake = [''../../../freespace_planner/include/CMakeListsExtension.txt'', ''include/federate__fp_extension.cmake''],
      main_setup = ''include/_federate__fp_preamble.h'',
      main_import = (''freespace_planner'', ''../../../freespace_planner/freespace_planner_main.lf''),
      main_headers = [''autoware/freespace_planner/freespace_planner_node.hpp'', ''utils.hpp'', ''constants.hpp''],
      main_federate_headers = runtime_headers,
      main_senders = [],
      main_receivers = [],
      main_reactor = Composite
       [(''fp'', Leaf ''freespace_planner'')]
       []\<rparr>"

definition federate__cg_main :: federate_main where
  "federate__cg_main =
     \<lparr>main_count = 46, main_id = 34, main_names = common_names, main_options = common_options,
      main_cmake = [''../../../costmap_generator/include/CMakeListsExtension.txt'', ''include/federate__cg_extension.cmake''],
      main_setup = ''include/_federate__cg_preamble.h'',
      main_import = (''costmap_generator'', ''../../../costmap_generator/costmap_generator_main.lf''),
      main_headers = [''autoware/costmap_generator/costmap_generator.hpp'', ''utils.hpp'', ''constants.hpp''],
      main_federate_headers = runtime_headers,
      main_senders = [],
      main_receivers = [],
      main_reactor = Composite
       [(''cg'', Leaf ''costmap_generator'')]
       []\<rparr>"

definition federate__pv_main :: federate_main where
  "federate__pv_main =
     \<lparr>main_count = 46, main_id = 35, main_names = common_names, main_options = common_options,
      main_cmake = [''../../../planning_validator/include/CMakeListsExtension.txt'', ''include/federate__pv_extension.cmake''],
      main_setup = ''include/_federate__pv_preamble.h'',
      main_import = (''planning_validator'', ''../../../planning_validator/planning_validator_main.lf''),
      main_headers = [''autoware/planning_validator/node.hpp'', ''utils.hpp''],
      main_federate_headers = runtime_headers,
      main_senders = [],
      main_receivers = [],
      main_reactor = Composite
       [(''pv'', Leaf ''planning_validator'')]
       []\<rparr>"

definition federate__evls_main :: federate_main where
  "federate__evls_main =
     \<lparr>main_count = 46, main_id = 36, main_names = common_names, main_options = common_options,
      main_cmake = [''../../../external_velocity_limit_selector/include/CMakeListsExtension.txt'', ''include/federate__evls_extension.cmake''],
      main_setup = ''include/_federate__evls_preamble.h'',
      main_import = (''external_velocity_limit_selector'', ''../../../external_velocity_limit_selector/external_velocity_limit_selector_main.lf''),
      main_headers = [''autoware/external_velocity_limit_selector/external_velocity_limit_selector_node.hpp'', ''utils.hpp''],
      main_federate_headers = runtime_headers,
      main_senders = [],
      main_receivers = [],
      main_reactor = Composite
       [(''evls'', Leaf ''external_velocity_limit_selector'')]
       []\<rparr>"

definition federate__tf_main :: federate_main where
  "federate__tf_main =
     \<lparr>main_count = 46, main_id = 37, main_names = common_names, main_options = common_options,
      main_cmake = [''../../../trajectory_follower/include/CMakeListsExtension.txt'', ''include/federate__tf_extension.cmake''],
      main_setup = ''include/_federate__tf_preamble.h'',
      main_import = (''trajectory_follower'', ''../../../trajectory_follower/trajectory_follower_main.lf''),
      main_headers = [''autoware/trajectory_follower_node/controller_node.hpp'', ''utils.hpp'', ''constants.hpp''],
      main_federate_headers = runtime_headers,
      main_senders = [],
      main_receivers = [],
      main_reactor = Composite
       [(''tf'', Leaf ''trajectory_follower'')]
       []\<rparr>"

definition federate__sd_main :: federate_main where
  "federate__sd_main =
     \<lparr>main_count = 46, main_id = 38, main_names = common_names, main_options = common_options,
      main_cmake = [''../../../shift_decider/include/CMakeListsExtension.txt'', ''include/federate__sd_extension.cmake''],
      main_setup = ''include/_federate__sd_preamble.h'',
      main_import = (''shift_decider'', ''../../../shift_decider/shift_decider_main.lf''),
      main_headers = [''autoware/shift_decider/autoware_shift_decider.hpp'', ''utils.hpp'', ''constants.hpp''],
      main_federate_headers = runtime_headers,
      main_senders = [],
      main_receivers = [],
      main_reactor = Composite
       [(''sd'', Leaf ''shift_decider'')]
       []\<rparr>"

definition federate__vcg_main :: federate_main where
  "federate__vcg_main =
     \<lparr>main_count = 46, main_id = 39, main_names = common_names, main_options = common_options,
      main_cmake = [''../../../vehicle_cmd_gate/include/CMakeListsExtension.txt'', ''include/federate__vcg_extension.cmake''],
      main_setup = ''include/_federate__vcg_preamble.h'',
      main_import = (''vehicle_cmd_gate'', ''../../../vehicle_cmd_gate/vehicle_cmd_gate_main.lf''),
      main_headers = [''vehicle_cmd_gate.hpp'', ''utils.hpp'', ''constants.hpp''],
      main_federate_headers = runtime_headers @ serialization_headers,
      main_senders = [(''NetworkSender_0'', 0, 45), (''NetworkSender_1'', 1, 45), (''NetworkSender_2'', 2, 45), (''NetworkSender_3'', 3, 45)],
      main_receivers = [],
      main_reactor = Composite
       [(''vcg'', Leaf ''vehicle_cmd_gate''),
        (''ns_federate__bridge'', Leaf ''NetworkSender_0''),
        (''ns_federate__bridge_0'', Leaf ''NetworkSender_1''),
        (''ns_federate__bridge_1'', Leaf ''NetworkSender_2''),
        (''ns_federate__bridge_2'', Leaf ''NetworkSender_3'')]
       [(Logical, Of ''vcg'' ''control_cmd'', Of ''ns_federate__bridge'' ''msg''),
        (Logical, Of ''vcg'' ''gear_cmd'', Of ''ns_federate__bridge_0'' ''msg''),
        (Logical, Of ''vcg'' ''turn_indicators_cmd'', Of ''ns_federate__bridge_1'' ''msg''),
        (Logical, Of ''vcg'' ''hazard_lights_cmd'', Of ''ns_federate__bridge_2'' ''msg'')]\<rparr>"

definition federate__omtm_main :: federate_main where
  "federate__omtm_main =
     \<lparr>main_count = 46, main_id = 40, main_names = common_names, main_options = common_options,
      main_cmake = [''../../../operation_mode_transition_manager/include/CMakeListsExtension.txt'', ''include/federate__omtm_extension.cmake''],
      main_setup = ''include/_federate__omtm_preamble.h'',
      main_import = (''operation_mode_transition_manager'', ''../../../operation_mode_transition_manager/operation_mode_transition_manager_main.lf''),
      main_headers = [''node.hpp'', ''utils.hpp''],
      main_federate_headers = runtime_headers,
      main_senders = [],
      main_receivers = [],
      main_reactor = Composite
       [(''omtm'', Leaf ''operation_mode_transition_manager'')]
       []\<rparr>"

definition federate__ldc_main :: federate_main where
  "federate__ldc_main =
     \<lparr>main_count = 46, main_id = 41, main_names = common_names, main_options = common_options,
      main_cmake = [''../../../lane_departure_checker/include/CMakeListsExtension.txt'', ''include/federate__ldc_extension.cmake''],
      main_setup = ''include/_federate__ldc_preamble.h'',
      main_import = (''lane_departure_checker'', ''../../../lane_departure_checker/lane_departure_checker_main.lf''),
      main_headers = [''autoware/lane_departure_checker/lane_departure_checker_node.hpp'', ''utils.hpp''],
      main_federate_headers = runtime_headers,
      main_senders = [],
      main_receivers = [],
      main_reactor = Composite
       [(''ldc'', Leaf ''lane_departure_checker'')]
       []\<rparr>"

definition federate__cv_main :: federate_main where
  "federate__cv_main =
     \<lparr>main_count = 46, main_id = 42, main_names = common_names, main_options = common_options,
      main_cmake = [''../../../control_validator/include/CMakeListsExtension.txt'', ''include/federate__cv_extension.cmake''],
      main_setup = ''include/_federate__cv_preamble.h'',
      main_import = (''control_validator'', ''../../../control_validator/control_validator_main.lf''),
      main_headers = [''autoware/control_validator/control_validator.hpp'', ''utils.hpp''],
      main_federate_headers = runtime_headers,
      main_senders = [],
      main_receivers = [],
      main_reactor = Composite
       [(''cv'', Leaf ''control_validator'')]
       []\<rparr>"

definition federate__aeb_main :: federate_main where
  "federate__aeb_main =
     \<lparr>main_count = 46, main_id = 43, main_names = common_names, main_options = common_options,
      main_cmake = [''../../../autonomous_emergency_braking/include/CMakeListsExtension.txt'', ''include/federate__aeb_extension.cmake''],
      main_setup = ''include/_federate__aeb_preamble.h'',
      main_import = (''autonomous_emergency_braking'', ''../../../autonomous_emergency_braking/autonomous_emergency_braking_main.lf''),
      main_headers = [''autoware/autonomous_emergency_braking/node.hpp'', ''utils.hpp''],
      main_federate_headers = runtime_headers,
      main_senders = [],
      main_receivers = [],
      main_reactor = Composite
       [(''aeb'', Leaf ''autonomous_emergency_braking'')]
       []\<rparr>"

definition federate__cd_main :: federate_main where
  "federate__cd_main =
     \<lparr>main_count = 46, main_id = 44, main_names = common_names, main_options = common_options,
      main_cmake = [''../../../collision_detector/include/CMakeListsExtension.txt'', ''include/federate__cd_extension.cmake''],
      main_setup = ''include/_federate__cd_preamble.h'',
      main_import = (''collision_detector'', ''../../../collision_detector/collision_detector_main.lf''),
      main_headers = [''autoware/collision_detector/node.hpp'', ''utils.hpp''],
      main_federate_headers = runtime_headers,
      main_senders = [],
      main_receivers = [],
      main_reactor = Composite
       [(''cd'', Leaf ''collision_detector'')]
       []\<rparr>"

definition federate__bridge_main :: federate_main where
  "federate__bridge_main =
     \<lparr>main_count = 46, main_id = 45, main_names = common_names, main_options = common_options,
      main_cmake = [''../../../bridge_interface/include/CMakeListsExtension.txt'', ''include/federate__bridge_extension.cmake''],
      main_setup = ''include/_federate__bridge_preamble.h'',
      main_import = (''bridge_interface'', ''../../../bridge_interface/bridge_interface_main.lf''),
      main_headers = [''rclcpp/rclcpp.hpp'', ''autoware_control_msgs/msg/control.hpp'', ''autoware_vehicle_msgs/msg/gear_command.hpp'', ''autoware_vehicle_msgs/msg/turn_indicators_command.hpp'', ''autoware_vehicle_msgs/msg/hazard_lights_command.hpp'', ''utils.hpp'', ''constants.hpp''],
      main_federate_headers = runtime_headers @ serialization_headers,
      main_senders = [],
      main_receivers = [''NetworkReceiver_1'', ''NetworkReceiver_2'', ''NetworkReceiver_3'', ''NetworkReceiver_4''],
      main_reactor = Composite
       [(''bridge'', Leaf ''bridge_interface''),
        (''nr_federate__bridge'', Leaf ''NetworkReceiver_1''),
        (''nr_federate__bridge_0'', Leaf ''NetworkReceiver_2''),
        (''nr_federate__bridge_1'', Leaf ''NetworkReceiver_3''),
        (''nr_federate__bridge_2'', Leaf ''NetworkReceiver_4''),
        (''_bridgecontrol_cmd_in0'', Composite [] [(Logical, Own ''port0'', Own ''port'')]),
        (''_bridgegear_cmd_in0'', Composite [] [(Logical, Own ''port0'', Own ''port'')]),
        (''_bridgeturn_indicators_cmd_in0'', Composite [] [(Logical, Own ''port0'', Own ''port'')]),
        (''_bridgehazard_lights_cmd_in0'', Composite [] [(Logical, Own ''port0'', Own ''port'')])]
       [(Logical, Of ''_bridgecontrol_cmd_in0'' ''port'', Of ''bridge'' ''control_cmd_in''),
        (Logical, Of ''_bridgegear_cmd_in0'' ''port'', Of ''bridge'' ''gear_cmd_in''),
        (Logical, Of ''_bridgeturn_indicators_cmd_in0'' ''port'', Of ''bridge'' ''turn_indicators_cmd_in''),
        (Logical, Of ''_bridgehazard_lights_cmd_in0'' ''port'', Of ''bridge'' ''hazard_lights_cmd_in''),
        (Logical, Of ''nr_federate__bridge'' ''msg'', Of ''_bridgecontrol_cmd_in0'' ''port0''),
        (Logical, Of ''nr_federate__bridge_0'' ''msg'', Of ''_bridgegear_cmd_in0'' ''port0''),
        (Logical, Of ''nr_federate__bridge_1'' ''msg'', Of ''_bridgeturn_indicators_cmd_in0'' ''port0''),
        (Logical, Of ''nr_federate__bridge_2'' ''msg'', Of ''_bridgehazard_lights_cmd_in0'' ''port0'')]\<rparr>"

definition mains :: "federate_main list" where
  "mains =
    [federate__cbf_main,
     federate__imu_main,
     federate__vvc_main,
     federate__ndt_main,
     federate__gyro_main,
     federate__ekf_main,
     federate__pcm_main,
     federate__l2m_main,
     federate__gs_main,
     federate__lcp_main,
     federate__ec_main,
     federate__pmf_main,
     federate__dbt_main,
     federate__ov_main,
     federate__of_main,
     federate__clf_main,
     federate__mot_main,
     federate__mbp_main,
     federate__ogm_main,
     federate__tlmbd_main,
     federate__tlc_main,
     federate__tla_main,
     federate__tlop_main,
     federate__ctle_main,
     federate__mp_main,
     federate__bpp_main,
     federate__bvp_main,
     federate__ps_main,
     federate__po_main,
     federate__mvp_main,
     federate__soc_main,
     federate__ss_main,
     federate__vs_main,
     federate__fp_main,
     federate__cg_main,
     federate__pv_main,
     federate__evls_main,
     federate__tf_main,
     federate__sd_main,
     federate__vcg_main,
     federate__omtm_main,
     federate__ldc_main,
     federate__cv_main,
     federate__aeb_main,
     federate__cd_main,
     federate__bridge_main]"

lemmas main_defs =
  federate__cbf_main_def
  federate__imu_main_def
  federate__vvc_main_def
  federate__ndt_main_def
  federate__gyro_main_def
  federate__ekf_main_def
  federate__pcm_main_def
  federate__l2m_main_def
  federate__gs_main_def
  federate__lcp_main_def
  federate__ec_main_def
  federate__pmf_main_def
  federate__dbt_main_def
  federate__ov_main_def
  federate__of_main_def
  federate__clf_main_def
  federate__mot_main_def
  federate__mbp_main_def
  federate__ogm_main_def
  federate__tlmbd_main_def
  federate__tlc_main_def
  federate__tla_main_def
  federate__tlop_main_def
  federate__ctle_main_def
  federate__mp_main_def
  federate__bpp_main_def
  federate__bvp_main_def
  federate__ps_main_def
  federate__po_main_def
  federate__mvp_main_def
  federate__soc_main_def
  federate__ss_main_def
  federate__vs_main_def
  federate__fp_main_def
  federate__cg_main_def
  federate__pv_main_def
  federate__evls_main_def
  federate__tf_main_def
  federate__sd_main_def
  federate__vcg_main_def
  federate__omtm_main_def
  federate__ldc_main_def
  federate__cv_main_def
  federate__aeb_main_def
  federate__cd_main_def
  federate__bridge_main_def

section \<open>The deployed program\<close>

text \<open>
  All instances and connections, by federate, and the connections over the network: from a sender to
  the receiver whose action is at the port's index in the table of the federate it sends to.  The
  table names the reactors with the name of the federate in front.
\<close>

definition node_leaves :: "nat \<Rightarrow> federate_main \<Rightarrow> (path \<times> string) list" where
  "node_leaves k m =
     filter (\<lambda>(here, reactor). reactor \<notin> fst ` set (main_senders m) \<and> reactor \<notin> set (main_receivers m))
       (leaves [federate_names ! k] (main_reactor m))"

definition receivers_at :: "nat \<Rightarrow> nat \<Rightarrow> path list" where
  "receivers_at d p =
     map (\<lambda>t. [federate_names ! d, drop (length (federate_names ! d) + 1) (tr_reactor t)])
       (filter (\<lambda>t. tr_index t = p) (pre_triggers (federation ! d)))"

definition network_wires :: "nat \<Rightarrow> federate_main \<Rightarrow> (arrow \<times> instance_port \<times> instance_port) list" where
  "network_wires k m =
     concat (map (\<lambda>(here, reactor). case map_of (main_senders m) reactor of
         None \<Rightarrow> []
       | Some (p, d) \<Rightarrow> map (\<lambda>r. (Physical, (here, ''msg''), (r, ''msg''))) (receivers_at d p))
       (leaves [federate_names ! k] (main_reactor m)))"

definition deployed_leaves :: "(path \<times> string) list" where
  "deployed_leaves = concat (map2 node_leaves [0..<length mains] mains)"

definition deployed_wires :: "(arrow \<times> instance_port \<times> instance_port) list" where
  "deployed_wires =
     concat (map2 (\<lambda>k m. wires [federate_names ! k] (main_reactor m) @ network_wires k m) [0..<length mains] mains)"

fun joined :: "string list \<Rightarrow> string" where
  "joined [] = []"
| "joined [x] = x"
| "joined (x # y # ys) = x @ '','' @ joined (y # ys)"

text \<open>
  What a file has to agree with: the federation's constants, its preamble and the instance of the
  program it was generated for.
\<close>

definition named_receivers :: "nat \<Rightarrow> federate_main \<Rightarrow> string list" where
  "named_receivers k m =
     map (\<lambda>(here, reactor). federate_names ! k @ ''_'' @ last here)
       (filter (\<lambda>(here, reactor). reactor \<in> set (main_receivers m)) (leaves [federate_names ! k] (main_reactor m)))"

definition import_of :: "string \<Rightarrow> string \<times> string" where
  "import_of reactor = (reactor, ''../../../'' @ reactor @ ''/'' @ reactor @ ''_main.lf'')"

definition agrees :: "nat \<Rightarrow> federate_main \<Rightarrow> bool" where
  "agrees k m \<longleftrightarrow>
     main_count m = NUMBER_OF_FEDERATES \<and> main_id m = k \<and>
     main_setup m = ''include/_'' @ federate_names ! k @ ''_preamble.h'' \<and>
     main_import m = import_of (fst (main_import m)) \<and>
     main_cmake m =
       [''../../../'' @ fst (main_import m) @ ''/include/CMakeListsExtension.txt'',
        ''include/'' @ federate_names ! k @ ''_extension.cmake''] \<and>
     (if main_senders m = [] \<and> main_receivers m = [] then main_federate_headers m = runtime_headers
      else main_federate_headers m = runtime_headers @ serialization_headers) \<and>
     (case node_leaves k m of
        [(here, reactor)] \<Rightarrow> reactor = fst (main_import m) \<and> federate_of (last here) = federate_names ! k \<and>
          ([last here], reactor) \<in> set (leaves [] AutowareFederated)
      | _ \<Rightarrow> False) \<and>
     set (map (\<lambda>(_, _, d). d) (main_senders m)) = set (connects (federation ! k)) \<and>
     named_receivers k m = map tr_reactor (pre_triggers (federation ! k)) \<and>
     list_all (\<lambda>(_, p, d). map tr_source_id (filter (\<lambda>t. tr_index t = p) (pre_triggers (federation ! d))) = [of_nat k])
       (main_senders m)"

lemma mains_length: "length mains = NUMBER_OF_FEDERATES"
  by (simp add: mains_def NUMBER_OF_FEDERATES_def)

lemma names_joined: "common_names = joined federate_names"
  by (simp add: common_names_def federate_names_def)

lemma mains_names: "list_all (\<lambda>m. main_names m = common_names) mains"
  by (simp add: mains_def main_defs)

lemma mains_agree: "list_all (\<lambda>(k, m). agrees k m) (enumerate 0 mains)"
  by code_simp

lemma deployed_flows:
  "flows_between deployed_leaves deployed_wires =
     [((''scenario_selector'', ''trajectory_out''), [Logical, Physical, Logical, Logical, Logical],
        (''velocity_smoother'', ''trajectory_in'')),
      ((''vehicle_cmd_gate'', ''control_cmd''), [Logical, Physical, Logical, Logical, Logical],
        (''bridge_interface'', ''control_cmd_in'')),
      ((''vehicle_cmd_gate'', ''gear_cmd''), [Logical, Physical, Logical, Logical, Logical],
        (''bridge_interface'', ''gear_cmd_in'')),
      ((''vehicle_cmd_gate'', ''turn_indicators_cmd''), [Logical, Physical, Logical, Logical, Logical],
        (''bridge_interface'', ''turn_indicators_cmd_in'')),
      ((''vehicle_cmd_gate'', ''hazard_lights_cmd''), [Logical, Physical, Logical, Logical, Logical],
        (''bridge_interface'', ''hazard_lights_cmd_in''))]"
  by code_simp

section \<open>Properties\<close>

text \<open>C11: The generated programs are what the federated program asks for: each agrees with its preamble
  and with the constants of the federation, is built with the wrapper it imports, includes the
  serialization exactly when it is on the network, contains one node wrapper, the one of its instance in
  \<open>AutowareFederated.lf\<close>, sends to the federates its preamble connects to and receives under the names
  of its trigger table; and put together over the network they have exactly the dataflow of the
  program, every flow crossing the network once.
\<close>

theorem generated_mains_realize_program:
  "length mains = NUMBER_OF_FEDERATES \<and>
   (\<forall>k < NUMBER_OF_FEDERATES. agrees k (mains ! k) \<and> main_names (mains ! k) = joined federate_names) \<and>
   (\<lambda>(src, _, dst). (src, dst)) ` set (flows_between deployed_leaves deployed_wires) =
     (\<lambda>(src, _, dst). (src, dst)) ` set (flows AutowareFederated) \<and>
   list_all (\<lambda>(_, arrows, _). filter (\<lambda>a. a = Physical) arrows = [Physical])
     (flows_between deployed_leaves deployed_wires)"
proof (intro conjI allI impI)
  show "length mains = NUMBER_OF_FEDERATES" by (rule mains_length)
  fix k assume k: "k < NUMBER_OF_FEDERATES"
  then have "(k, mains ! k) \<in> set (enumerate 0 mains)" "mains ! k \<in> set mains"
    by (auto simp: in_set_enumerate_eq mains_length)
  with mains_agree show "agrees k (mains ! k)" by (auto simp: list_all_iff)
  show "main_names (mains ! k) = joined federate_names"
    using mains_names \<open>mains ! k \<in> set mains\<close> by (simp add: list_all_iff names_joined)
next
  show "(\<lambda>(src, _, dst). (src, dst)) ` set (flows_between deployed_leaves deployed_wires) =
      (\<lambda>(src, _, dst). (src, dst)) ` set (flows AutowareFederated)"
    unfolding deployed_flows flows_federated by auto
qed (simp add: deployed_flows)

theorem generated_mains_realize_program_witness:
  "agrees 45 federate__bridge_main \<and> main_id federate__bridge_main = 45"
proof -
  have "agrees 45 (mains ! 45)"
    using generated_mains_realize_program [THEN conjunct2, THEN conjunct1, rule_format, of 45]
    by (simp add: NUMBER_OF_FEDERATES_def)
  moreover have "mains ! 45 = federate__bridge_main" by (simp add: mains_def)
  ultimately show ?thesis by (simp add: agrees_def)
qed

end
