(* ===== verification/Spec2Isabelle.thy ===== *)
theory Spec2Isabelle
  imports Struct_Layout Runtime_Structs Tracing Core_Macros Carla_Loop Carla_Lifecycle Carla_Startup
    Mission_Planner Forwarding Lf_Base Pointer_Hashmap Net_Messages
    Param_Files Parameter_Paths Wrapper_Startup Wrapper_Table Special_Wrappers
    Ports_Tokens Federate_Runtime Federates Compositions Reactors Command_Path Trajectory_Path
    Federate_Mains
begin

text \<open>
  A verification development for lf-autoware: Autoware's ROS 2 nodes scheduled by Lingua Franca as
  a federation of processes, and a CARLA simulator driven by the same language.

  \<^bold>\<open>The program.\<close>  Every Autoware node is wrapped by a reactor (\<open>lf-src/<package>/<package>_main.lf\<close>):
  a startup reaction loads parameter files and constructs the node, a timer or input reaction runs
  the node's callback and forwards what it left in its output slots to the reactor's ports.
  \<open>AutowareFederated.lf\<close> makes each reactor a process of its own; the code generated for the
  federation (\<open>lf-src/fed-gen/AutowareFederated\<close>) consists of one file per federate with network
  senders and receivers, one C preamble per federate that sets up IDs, sockets and tables, and the
  headers of the C runtime.  Federates 39 (command gate) and 45 (bridge to the ROS topics), and 31
  (scenario selector) and 32 (velocity smoother), are connected by sockets; the other nodes talk
  over ROS topics.  \<open>carla_interface\<close> steps the simulator from a feedback loop of two reactors.

  \<^bold>\<open>Theories, and what their lemmas show.\<close>
  \<^item> \<open>Lf_Base\<close>: machine words, the faults of C code, sequencing of fallible operations, checked
    array accesses, little-endian bytes.
  \<^item> \<open>Pointer_Hashmap\<close>: \<open>core/utils/impl/hashmap.h\<close> at the instance of \<open>pointer_hashmap.h\<close>, open
    addressing over an array with 64-bit arithmetic.  The invariant of the probing sequence,
    refinement of a finite map (locale \<open>bounded_map\<close>, interpreted on the operations), where \<open>put\<close>
    and \<open>get\<close> fail, and the overflow of the allocation size.
  \<^item> \<open>Net_Messages\<close>: \<open>core/federated/network/net_common.h\<close>: identifying bytes, rejection codes,
    lengths and the three encoding macros, with the layout they write.
  \<^item> \<open>Federate_Runtime\<close>, \<open>Federates\<close>: \<open>core/federated/federate.h\<close> and the 46 generated preambles
    \<open>_federate__*_preamble.h\<close>, their functions as definitions over what a file fixes.  What a
    preamble and the trigger initialisation leave behind, and the consistency of the federation.
  \<^item> \<open>Forwarding\<close>: the reactions of the nine wrappers with outputs, statement by statement, as a step
    relation in which the node, whose callbacks run in the spin thread, can write its members between
    any two statements.  What is sent has been produced, in order and no more often; a raised flag
    is overlooked only between copying its value and clearing it; and a reaction that is not
    disturbed forwards as one step.
  \<^item> \<open>Reactors\<close>: the two reactions at the ends of the trajectory connection as functions, with what
    the node's other threads do before each of their steps as an argument, over whole runs of ticks
    (locale \<open>forwarding_reaction\<close>, interpreted on both).
  \<^item> \<open>Command_Path\<close> and this theory: the path of the commands from the gate's ports over senders,
    messages, network actions and receivers to the bridge's publications, over whole runs.
  \<^item> \<open>Trajectory_Path\<close>: the same for the trajectories, up to the smoother's output.
  \<^item> \<open>Mission_Planner\<close>: the mission planner's reaction, statement by statement, interleaved with the
    requests of the spin thread: a state machine in which a route can be lost, in the window that
    \<open>Forwarding\<close> leaves, and the atomic version in which none is.
  \<^item> \<open>Carla_Loop\<close>, \<open>Carla_Lifecycle\<close>, \<open>Carla_Startup\<close>: the feedback loop of \<open>CarlaInterface.lf\<close>, until
    a library call raises; initialisation and clean-up of \<open>carla_bridge.py\<close> under exceptions; and the reactor from the
    configuration in the environment to its shutdown.
  \<^item> \<open>Param_Files\<close>, \<open>Parameter_Paths\<close>: \<open>lf-include/utils.hpp\<close> and every path of
    \<open>lf-include/constants.hpp\<close>: launch variables, rewritten parameter files and node options.
  \<^item> \<open>Wrapper_Startup\<close>, \<open>Wrapper_Table\<close>, \<open>Special_Wrappers\<close>: the startup reactions.  Eleven are written
    out statement by statement; the 78 of the common shape are records of what varies (files,
    overrides, cancelled timers, period), with one definition of the reaction over the records,
    equal to the written ones; those with several nodes, a class library or a command, and the spin
    threads, have definitions of their own.  Which parameters a node starts with, which overrides
    win, which timers are replaced, and when the program ends.
  \<^item> \<open>Ports_Tokens\<close>: the structures of \<open>core/lf_token.h\<close> and the output macros of
    \<open>api/reaction_macros.h\<close> over a memory of shared tokens.
  \<^item> \<open>Compositions\<close>: the packages \<open>lf-src/Packages\<close> and the programs \<open>AutowareMono.lf\<close>,
    \<open>AutowareUniverse.lf\<close> and \<open>AutowareFederated.lf\<close> as trees of instances with connections; that
    their dataflow is the same, and how the generated federates relate to it.
  \<^item> \<open>Federate_Mains\<close>: the 46 generated programs \<open>federate__*.lf\<close>; that they agree with the generated
    preambles and, put together over the network, have the dataflow of \<open>AutowareFederated.lf\<close>.
  \<^item> \<open>Struct_Layout\<close>, \<open>Runtime_Structs\<close>: the C layout rule (size, alignment, offsets of nested
    structures), and every structure of the headers for every build option: no overlap, alignment,
    and the soundness of the casts between them.
  \<^item> \<open>Tracing\<close>: \<open>core/tracepoint.h\<close>: the interface, macros and inline functions of all its builds; what
    tracing does and where a tracepoint can stand.
  \<^item> \<open>Core_Macros\<close>: \<open>core/utils/util.h\<close> and the mode macros of \<open>core/modal_models/modes.h\<close>, as functions
    on C expressions: levels and priorities of reactions, extrema, mode changes.

  \<^bold>\<open>Conventions.\<close>  A C or C++ operation that can fail returns a fault on the left of a sum; a loop
  that may not end returns an option (\<open>replace_loop\<close>, and what calls it); a port is an option;
  machine integers are words, and \<open>int\<close> for Python.  Identifiers the language reserves are renamed
  (\<open>value\<close> to \<open>val\<close>, \<open>files\<close> of the host, fields with prefixes).

  \<^bold>\<open>Code outside the repository\<close> is an argument of the definitions that use it, and what its
  documentation says is a named hypothesis: runtime functions declared in headers only
  (\<open>runtime_documented\<close>, \<open>send_documented\<close>, \<open>incoming_documented\<close>, \<open>little_endian\<close>,
  \<open>token_runtime_documented\<close>), the serialization of ROS messages (\<open>codecs_ok\<close>), the YAML parser
  (\<open>keyed\<close>), the constructors of the nodes (\<open>construct\<close> of \<open>launch\<close>; the other startup reactions are
  described up to what they give the constructor, and for when it returns), the nodes' callbacks,
  the simulator.  Each has an instance, used by the witnesses.  What the runtime does \<open>lf_send_message\<close>
  in one federate and the triggering of network actions in the other, the bytes on the socket
  included, is such an argument (\<open>wire\<close>, \<open>send\<close>, \<open>incoming\<close>): one event per message, in the order
  sent.

  \<^bold>\<open>Not modelled\<close>: the runtime and the RTI.  Of the runtime the repository holds the headers only:
  scheduling, the event and reaction queues, timers, startup and stop of the federation, clock
  synchronization, sockets, the containers without bodies, memory and threads are declarations, and
  their functions are left out rather than made up from the comments.  What is modelled of these
  headers is what they define: structures, constants, macros, inline functions, the hash map.  The
  wire messages have no encoder or decoder either, apart from the three macros.  Left
  out are also logging, sensors and data conversion of the simulator, build files and scripts.  The
  size and alignment of thread types and shared pointers are parameters of a build; the layout rule
  is that of 64-bit compilers.
\<close>

section \<open>The topics of the bridge\<close>

text \<open>The topics the bridge's reactions publish on are those its startup reaction created publishers for.\<close>

lemma topics_have_publishers: "command_topics = fst ` set bridge_publishers"
  by (simp add: command_topics_def bridge_publishers_def)

section \<open>The command path, from the gate's ports to the topics\<close>

text \<open>C1: the commands of the gate reach the vehicle: for processes of federates vcg and bridge that
  ran their preambles and trigger initialisation, with a runtime, sockets and serialization that
  behave as documented, and for any run of timer ticks and any order of the
  four network senders in each tick, the bridge handles what it receives without a fault and
  publishes on each of the four topics exactly the values the corresponding port of the gate
  carried, in the order of the ticks, and nothing on any other topic.\<close>

theorem commands_reach_their_topics:
  assumes runtime: "runtime_documented rt" "runtime_available rt"
    and arrays: "\<forall>p \<in> {p1, p2}.
      length (sockets_for_inbound_p2p_connections (fed p)) = NUMBER_OF_FEDERATES \<and>
      length (sockets_for_outbound_p2p_connections (fed p)) = NUMBER_OF_FEDERATES"
    and gate: "lf_executable_preamble rt federate__vcg_preamble p1 = Inr gate"
    and bridge: "lf_executable_preamble rt federate__bridge_preamble p2 = Inr bridge"
    and memory: "\<forall>n. malloc n"
    and triggers: "initialize_triggers_for_federate never malloc junk federate__bridge_preamble
      (initial_tables sources federate__bridge_preamble) = Inr tables"
    and network: "send_documented wire send" "incoming_documented wire incoming" "codecs_ok cs"
    and orders: "\<forall>(order, p) \<in> set ts. distinct order \<and> set order = {0, 1, 2, 3}"
  shows "\<exists>pubs. bridge_events cs
      (incoming (lf_my_fed_id bridge) (lf_action_table tables) (send_ticks send (fed gate) cs ts)) =
      Inr pubs \<and>
    on_topic ''/control/command/control_cmd'' pubs =
      [(''/control/command/control_cmd'', Control v). (_, p) \<leftarrow> ts, Some v \<leftarrow> [control_cmd p]] \<and>
    on_topic ''/control/command/gear_cmd'' pubs =
      [(''/control/command/gear_cmd'', Gear v). (_, p) \<leftarrow> ts, Some v \<leftarrow> [gear_cmd p]] \<and>
    on_topic ''/control/command/turn_indicators_cmd'' pubs =
      [(''/control/command/turn_indicators_cmd'', Turn_Indicators v).
         (_, p) \<leftarrow> ts, Some v \<leftarrow> [turn_indicators_cmd p]] \<and>
    on_topic ''/control/command/hazard_lights_cmd'' pubs =
      [(''/control/command/hazard_lights_cmd'', Hazard_Lights v).
         (_, p) \<leftarrow> ts, Some v \<leftarrow> [hazard_lights_cmd p]] \<and>
    fst ` set pubs \<subseteq> {''/control/command/control_cmd'', ''/control/command/gear_cmd'',
      ''/control/command/turn_indicators_cmd'', ''/control/command/hazard_lights_cmd''}"
proof -
  have socket: "sockets_for_outbound_p2p_connections (fed gate) ! 45 \<noteq> - 1"
    using vcg_socket_open [OF runtime _ _ gate] arrays by blast
  have me: "lf_my_fed_id bridge = 45"
    using bridge_id [OF runtime _ _ bridge] arrays by blast
  have table: "lf_action_table tables = bridge_table"
    using bridge_action_table [OF _ triggers] memory by blast
  have order: "distinct order" "set order = {0, 1, 2, 3}" if "(order, p) \<in> set ts" for order p
    using orders that by auto
  note received = bridge_receives_run [OF network(1) socket network(2,3), of ts]
  note topics = on_topic_run [of ts _ "\<lambda>p. publish_control_cmd (control_cmd p)", OF on_topic_tick(1) [OF order]]
    on_topic_run [of ts _ "\<lambda>p. publish_gear_cmd (gear_cmd p)", OF on_topic_tick(2) [OF order]]
    on_topic_run [of ts _ "\<lambda>p. publish_turn_indicators_cmd (turn_indicators_cmd p)", OF on_topic_tick(3) [OF order]]
    on_topic_run [of ts _ "\<lambda>p. publish_hazard_lights_cmd (hazard_lights_cmd p)", OF on_topic_tick(4) [OF order]]
  show ?thesis
    unfolding me table received topics
    by (intro exI [of _ "run_publications ts"])
      (simp add: topics publication_lists run_publications_topics [unfolded command_topics_def])
qed

theorem commands_reach_their_topics_witness:
  "\<exists>gate bridge tables pubs.
    lf_executable_preamble sample_runtime federate__vcg_preamble sample_process = Inr gate \<and>
    lf_executable_preamble sample_runtime federate__bridge_preamble sample_process = Inr bridge \<and>
    initialize_triggers_for_federate 7 (\<lambda>n. True) (\<lambda>i. None) federate__bridge_preamble
      (initial_tables (\<lambda>r. 0) federate__bridge_preamble) = Inr tables \<and>
    bridge_events byte_codecs (sample_incoming (lf_my_fed_id bridge) (lf_action_table tables)
      (send_ticks sample_send (fed gate) byte_codecs
        [([2, 0, 1, 3], \<lparr>control_cmd = Some 7, gear_cmd = None, turn_indicators_cmd = Some 9,
            hazard_lights_cmd = None\<rparr>)])) = Inr pubs \<and>
    on_topic ''/control/command/control_cmd'' pubs = [(''/control/command/control_cmd'', Control 7)] \<and>
    on_topic ''/control/command/gear_cmd'' pubs = []"
proof -
  let ?ts = "[([2 :: nat, 0, 1, 3], \<lparr>control_cmd = Some (7 :: byte), gear_cmd = None :: byte port,
    turn_indicators_cmd = Some (9 :: byte), hazard_lights_cmd = None :: byte port\<rparr>)]"
  have arrays: "length (sockets_for_inbound_p2p_connections (fed sample_process)) = NUMBER_OF_FEDERATES"
    "length (sockets_for_outbound_p2p_connections (fed sample_process)) = NUMBER_OF_FEDERATES"
    by (simp_all add: sample_process_def)
  note preamble = executable_preamble_effect [OF sample_runtime_documented sample_runtime_available arrays]
  obtain gate where gate: "lf_executable_preamble sample_runtime federate__vcg_preamble sample_process = Inr gate"
    using preamble [of federate__vcg_preamble] by blast
  obtain bridge where bridge:
    "lf_executable_preamble sample_runtime federate__bridge_preamble sample_process = Inr bridge"
    using preamble [of federate__bridge_preamble] by blast
  obtain tables where tables: "initialize_triggers_for_federate 7 (\<lambda>n. True) (\<lambda>i. None)
      federate__bridge_preamble (initial_tables (\<lambda>r. 0) federate__bridge_preamble) = Inr tables"
    using bridge_triggers [of "\<lambda>n. True" 7 "\<lambda>i. None" "\<lambda>r. 0"] by blast
  have "\<forall>p \<in> {sample_process, sample_process}.
      length (sockets_for_inbound_p2p_connections (fed p)) = NUMBER_OF_FEDERATES \<and>
      length (sockets_for_outbound_p2p_connections (fed p)) = NUMBER_OF_FEDERATES"
    using arrays by simp
  moreover have "\<forall>(order, p) \<in> set ?ts. distinct order \<and> set order = {0, 1, 2, 3}"
    by auto
  ultimately show ?thesis
    using commands_reach_their_topics [OF sample_runtime_documented sample_runtime_available _ gate
        bridge _ tables sample_send_documented sample_incoming_documented byte_codecs_ok, of ?ts]
      gate bridge tables by fastforce
qed

end
